(* ===== verification/Prelude.thy ===== *)
theory Prelude
  imports Main "HOL-Library.AList" "HOL-Library.Sublist" "HOL-Library.Char_ord"
    "HOL-Library.List_Lexorder" "HOL-Library.Multiset"
begin

text \<open>
  Shared foundation of the development.

  \<^item> Go error values: the sentinel and typed errors the operator defines itself
    (\<^verbatim>\<open>pkg/resolver/errors.go\<close>, \<^verbatim>\<open>pkg/aws/errors.go\<close>, \<^verbatim>\<open>pkg/errors/errors.go\<close>) and, for
    errors that come from the AWS SDK or the Kubernetes client, exactly what the code
    observes of them (a typed exception, a generic API error code, a Kubernetes status
    reason). \<^verbatim>\<open>errors.WithStack\<close> only adds a stack trace and is the identity here;
    \<^verbatim>\<open>fmt.Errorf\<close> with \<^verbatim>\<open>%w\<close> is the constructor \<open>Wrapped\<close>, which \<^verbatim>\<open>errors.Is\<close> and
    \<^verbatim>\<open>errors.As\<close> look through.
  \<^item> Results: a call returns a value, returns an error, or panics.
  \<^item> The state monad with errors and panics in which all effectful code is written.
  \<^item> Go maps as association lists, whose order stands for Go's unspecified iteration
    order: theorems quantify over the list, hence over every order.
\<close>

named_theorems monad_simps \<open>evaluation of the monad's combinators\<close>

section \<open>Errors and results\<close>

datatype sdk_exception =
    NoSuchHostedZone
  | ResourceExistsException
  | ResourceNotFoundException
  | InvalidRequestException
  | OtherException string

datatype k8s_reason = NotFound | AlreadyExists | NoMatch | OtherReason string

datatype go_error =
    HostedZoneNotFoundError
  | ResolverRuleNotFoundError
  | ResolverEndpointNotFoundError
  | SecurityGroupNotFoundError
  | RouteTableNotFoundError
  | TransitGatewayNotReadyError
  | DnsRecordNotSupportedError
  | RetryableError string nat
  | SDKException sdk_exception string
  | GenericAPIError string string
  | TransportError string
  | K8sError k8s_reason string
  | ErrorString string
  | Wrapped string go_error

text \<open>The error at the end of the chain of wrappers.\<close>

fun root_error :: "go_error \<Rightarrow> go_error" where
  "root_error (Wrapped m e) = root_error e"
| "root_error e = e"

lemma root_error_idem [simp]: "root_error (root_error e) = root_error e"
  by (induction e rule: root_error.induct) simp_all

definition isHostedZoneNotFound :: "go_error \<Rightarrow> bool" where
  "isHostedZoneNotFound e = (root_error e = HostedZoneNotFoundError)"

definition isResolverRuleNotFound :: "go_error \<Rightarrow> bool" where
  "isResolverRuleNotFound e = (root_error e = ResolverRuleNotFoundError)"

definition isResolverEndpointNotFound :: "go_error \<Rightarrow> bool" where
  "isResolverEndpointNotFound e = (root_error e = ResolverEndpointNotFoundError)"

definition isSecurityGroupNotFound :: "go_error \<Rightarrow> bool" where
  "isSecurityGroupNotFound e = (root_error e = SecurityGroupNotFoundError)"

text \<open>
  \<open>hasException x e\<close> is \<^verbatim>\<open>errors.As(err, &x)\<close> for a typed exception of the SDK,
  \<open>asRetryable\<close> the one for \<^verbatim>\<open>*gserrors.RetryableError\<close>.
\<close>

definition hasException :: "sdk_exception \<Rightarrow> go_error \<Rightarrow> bool" where
  "hasException x e = (case root_error e of SDKException y _ \<Rightarrow> y = x | _ \<Rightarrow> False)"

definition asRetryable :: "go_error \<Rightarrow> (string \<times> nat) option" where
  "asRetryable e = (case root_error e of RetryableError m t \<Rightarrow> Some (m, t) | _ \<Rightarrow> None)"

definition hasReason :: "k8s_reason \<Rightarrow> go_error \<Rightarrow> bool" where
  "hasReason x e = (case root_error e of K8sError y _ \<Rightarrow> y = x | _ \<Rightarrow> False)"

abbreviation isNotFound :: "go_error \<Rightarrow> bool" where
  "isNotFound \<equiv> hasReason NotFound"

abbreviation isAlreadyExists :: "go_error \<Rightarrow> bool" where
  "isAlreadyExists \<equiv> hasReason AlreadyExists"

abbreviation isNoMatch :: "go_error \<Rightarrow> bool" where
  "isNoMatch \<equiv> hasReason NoMatch"

text \<open>The text of \<^verbatim>\<open>err.Error()\<close>.\<close>

fun errText :: "go_error \<Rightarrow> string" where
  "errText HostedZoneNotFoundError = ''hosted zone was not found''"
| "errText ResolverRuleNotFoundError = ''resolver rule was not found''"
| "errText ResolverEndpointNotFoundError = ''resolver endpoint was not found''"
| "errText SecurityGroupNotFoundError = ''security group was not found''"
| "errText RouteTableNotFoundError = ''route table was not found''"
| "errText TransitGatewayNotReadyError = ''transit gateway not ready''"
| "errText DnsRecordNotSupportedError = ''dns record type is not supported''"
| "errText (RetryableError m t) = m"
| "errText (SDKException x m) = m"
| "errText (GenericAPIError c m) = m"
| "errText (TransportError m) = m"
| "errText (K8sError r m) = m"
| "errText (ErrorString m) = m"
| "errText (Wrapped m e) = m @ '': '' @ errText e"

text \<open>
  A call returns a value, returns an error, or never returns to its caller: it panics, the program
  calls \<^verbatim>\<open>os.Exit(1)\<close>, or the model runs out of the fuel that bounds the loops whose length the code
  does not know.
\<close>

datatype halt = GoPanic | GoExit | OutOfFuel

datatype 'a outcome = Ok 'a | Err go_error | Halt halt

section \<open>The monad\<close>

type_synonym ('s, 'a) io = "'s \<Rightarrow> 'a outcome \<times> 's"

definition retM :: "'a \<Rightarrow> ('s, 'a) io" where
  "retM x s = (Ok x, s)"

definition errM :: "go_error \<Rightarrow> ('s, 'a) io" where
  "errM e s = (Err e, s)"

definition panicM :: "('s, 'a) io" where
  "panicM s = (Halt GoPanic, s)"

definition exitM :: "('s, 'a) io" where
  "exitM s = (Halt GoExit, s)"

definition stallM :: "('s, 'a) io" where
  "stallM s = (Halt OutOfFuel, s)"

text \<open>\<open>bindM m f\<close> is \<^verbatim>\<open>x, err := m(); if err != nil { return err }; f(x)\<close>.\<close>

definition bindM :: "('s, 'a) io \<Rightarrow> ('a \<Rightarrow> ('s, 'b) io) \<Rightarrow> ('s, 'b) io" where
  "bindM m f s = (case m s of
      (Ok x, s') \<Rightarrow> f x s'
    | (Err e, s') \<Rightarrow> (Err e, s')
    | (Halt h, s') \<Rightarrow> (Halt h, s'))"

text \<open>\<open>tryM m\<close> turns the error into a value, for code that looks at \<^verbatim>\<open>err\<close>.\<close>

definition tryM :: "('s, 'a) io \<Rightarrow> ('s, go_error + 'a) io" where
  "tryM m s = (case m s of
      (Ok x, s') \<Rightarrow> (Ok (Inr x), s')
    | (Err e, s') \<Rightarrow> (Ok (Inl e), s')
    | (Halt h, s') \<Rightarrow> (Halt h, s'))"

text \<open>\<open>wrapM f m\<close> maps the error: \<^verbatim>\<open>return fmt.Errorf("...: %w", err)\<close>.\<close>

definition wrapM :: "(go_error \<Rightarrow> go_error) \<Rightarrow> ('s, 'a) io \<Rightarrow> ('s, 'a) io" where
  "wrapM f m s = (case m s of (Err e, s') \<Rightarrow> (Err (f e), s') | r \<Rightarrow> r)"

text \<open>\<open>deferM m d\<close> is \<^verbatim>\<open>defer func() { _ = d() }()\<close> before \<open>m\<close>: \<open>d\<close> runs whatever
  the result of \<open>m\<close> is, and its own error is dropped.\<close>

definition deferM :: "('s, 'a) io \<Rightarrow> ('s, 'b) io \<Rightarrow> ('s, 'a) io" where
  "deferM m d s = (case m s of (r, s') \<Rightarrow> (r, snd (d s')))"

text \<open>\<^verbatim>\<open>for _, x := range xs { if err := f(x); err != nil { return err } }\<close>\<close>

primrec forM :: "'a list \<Rightarrow> ('a \<Rightarrow> ('s, unit) io) \<Rightarrow> ('s, unit) io" where
  "forM [] f = retM ()"
| "forM (x # xs) f = bindM (f x) (\<lambda>_. forM xs f)"

text \<open>\<^verbatim>\<open>for _, x := range xs { if err := f(x); err != nil { log } }\<close>: errors are skipped.\<close>

primrec forM_skip :: "'a list \<Rightarrow> ('a \<Rightarrow> ('s, unit) io) \<Rightarrow> ('s, unit) io" where
  "forM_skip [] f = retM ()"
| "forM_skip (x # xs) f = bindM (tryM (f x)) (\<lambda>_. forM_skip xs f)"

definition liftE :: "go_error + 'a \<Rightarrow> ('s, 'a) io" where
  "liftE r = (case r of Inl e \<Rightarrow> errM e | Inr x \<Rightarrow> retM x)"

definition getM :: "('s \<Rightarrow> 'a) \<Rightarrow> ('s, 'a) io" where
  "getM f s = (Ok (f s), s)"

definition modM :: "('s \<Rightarrow> 's) \<Rightarrow> ('s, unit) io" where
  "modM f s = (Ok (), f s)"

lemma retM_run [simp, monad_simps]: "retM x s = (Ok x, s)"
  by (simp add: retM_def)

lemma errM_run [simp, monad_simps]: "errM e s = (Err e, s)"
  by (simp add: errM_def)

lemma panicM_run [simp, monad_simps]: "panicM s = (Halt GoPanic, s)"
  by (simp add: panicM_def)

lemma exitM_run [simp, monad_simps]: "exitM s = (Halt GoExit, s)"
  by (simp add: exitM_def)

lemma stallM_run [simp, monad_simps]: "stallM s = (Halt OutOfFuel, s)"
  by (simp add: stallM_def)

lemma getM_run [simp, monad_simps]: "getM f s = (Ok (f s), s)"
  by (simp add: getM_def)

lemma modM_run [simp, monad_simps]: "modM f s = (Ok (), f s)"
  by (simp add: modM_def)

lemma liftE_simps [simp]: "liftE (Inl e) = errM e" "liftE (Inr x) = retM x"
  by (simp_all add: liftE_def)

lemma bindM_run [monad_simps]:
  "m s = (Ok x, t) \<Longrightarrow> bindM m f s = f x t"
  "m s = (Err e, t) \<Longrightarrow> bindM m f s = (Err e, t)"
  "m s = (Halt h, t) \<Longrightarrow> bindM m f s = (Halt h, t)"
  by (simp_all add: bindM_def)

lemma bindM_retM [simp]: "bindM (retM x) f = f x"
  by (simp add: bindM_def fun_eq_iff)

lemma bindM_errM [simp]: "bindM (errM e) f = errM e"
  by (simp add: bindM_def errM_def fun_eq_iff)

lemma bindM_panicM [simp]: "bindM panicM f = panicM"
  by (simp add: bindM_def panicM_def fun_eq_iff)

lemma bindM_getM [simp]: "bindM (getM g) f s = f (g s) s"
  by (simp add: bindM_def)

lemma bindM_modM [simp]: "bindM (modM g) f s = f () (g s)"
  by (simp add: bindM_def)

lemma bindM_retM_right [simp]: "bindM m retM = m"
proof
  fix s
  show "bindM m retM s = m s"
    by (cases "m s"; cases "fst (m s)") (auto simp: bindM_def)
qed

lemma bindM_assoc: "bindM (bindM m f) g = bindM m (\<lambda>x. bindM (f x) g)"
  by (auto simp: bindM_def fun_eq_iff split: prod.split outcome.split)

lemma tryM_retM [simp]: "tryM (retM x) = retM (Inr x)"
  by (simp add: tryM_def fun_eq_iff)

lemma tryM_errM [simp]: "tryM (errM e) = retM (Inl e)"
  by (simp add: tryM_def fun_eq_iff)

lemma tryM_run [monad_simps]:
  "m s = (Ok x, t) \<Longrightarrow> tryM m s = (Ok (Inr x), t)"
  "m s = (Err e, t) \<Longrightarrow> tryM m s = (Ok (Inl e), t)"
  "m s = (Halt h, t) \<Longrightarrow> tryM m s = (Halt h, t)"
  by (simp_all add: tryM_def)

lemma tryM_never_err: "tryM m s \<noteq> (Err e, t)"
  by (auto simp: tryM_def split: prod.splits outcome.splits)

lemma wrapM_run [monad_simps]:
  "m s = (Ok x, t) \<Longrightarrow> wrapM f m s = (Ok x, t)"
  "m s = (Err e, t) \<Longrightarrow> wrapM f m s = (Err (f e), t)"
  "m s = (Halt h, t) \<Longrightarrow> wrapM f m s = (Halt h, t)"
  by (simp_all add: wrapM_def)

text \<open>What a successful, and what any run of a sequence went through.\<close>

lemma bindM_OkE:
  assumes "bindM m f s = (Ok y, t)"
  obtains x u where "m s = (Ok x, u)" and "f x u = (Ok y, t)"
  using assms by (auto simp: bindM_def split: prod.splits outcome.splits)

lemma bindM_cases [consumes 1, case_names Ok Err Halt]:
  assumes "bindM m f s = (r, t)"
  obtains (Ok) x u where "m s = (Ok x, u)" and "f x u = (r, t)"
    | (Err) e where "m s = (Err e, t)" and "r = Err e"
    | (Halt) h where "m s = (Halt h, t)" and "r = Halt h"
  using assms by (auto simp: bindM_def split: prod.splits outcome.splits)

lemma tryM_cases [consumes 1, case_names Ok Err Halt]:
  assumes "tryM m s = (r, t)"
  obtains (Ok) x where "m s = (Ok x, t)" and "r = Ok (Inr x)"
    | (Err) e where "m s = (Err e, t)" and "r = Ok (Inl e)"
    | (Halt) h where "m s = (Halt h, t)" and "r = Halt h"
  using assms by (auto simp: tryM_def split: prod.splits outcome.splits)

lemma forM_skip_never_err: "forM_skip xs f s \<noteq> (Err e, t)"
proof (induction xs arbitrary: s)
  case Nil
  then show ?case by simp
next
  case (Cons x xs)
  show ?case
  proof
    assume "forM_skip (x # xs) f s = (Err e, t)"
    then have "bindM (tryM (f x)) (\<lambda>_. forM_skip xs f) s = (Err e, t)" by simp
    then show False
      by (cases rule: bindM_cases) (auto simp: tryM_never_err Cons.IH)
  qed
qed

section \<open>Go maps\<close>

type_synonym gomap = "(string \<times> string) list"

text \<open>Reading a missing key gives the zero value, here the empty string.\<close>

definition gget :: "gomap \<Rightarrow> string \<Rightarrow> string" where
  "gget m k = (case map_of m k of Some v \<Rightarrow> v | None \<Rightarrow> '''')"

definition ghas :: "gomap \<Rightarrow> string \<Rightarrow> bool" where
  "ghas m k = (map_of m k \<noteq> None)"

text \<open>A possibly nil map, read as the empty one.\<close>

definition nilmap :: "'a list option \<Rightarrow> 'a list" where
  "nilmap m = (case m of None \<Rightarrow> [] | Some x \<Rightarrow> x)"

lemma nilmap_simps [simp]: "nilmap None = []" "nilmap (Some m) = m"
  by (simp_all add: nilmap_def)

lemma gget_update: "gget (AList.update k v m) k' = (if k' = k then v else gget m k')"
  by (simp add: gget_def update_conv')

lemma ghas_update: "ghas (AList.update k v m) k' = (k' = k \<or> ghas m k')"
  by (simp add: ghas_def update_conv')

text \<open>\<^verbatim>\<open>for k, v := range src { dst[k] = v }\<close>\<close>

primrec gcopy :: "('k \<times> 'v) list \<Rightarrow> ('k \<times> 'v) list \<Rightarrow> ('k \<times> 'v) list" where
  "gcopy dst [] = dst"
| "gcopy dst (kv # src) = gcopy (AList.update (fst kv) (snd kv) dst) src"

lemma map_of_gcopy:
  "distinct (map fst src) \<Longrightarrow> map_of (gcopy dst src) = map_of dst ++ map_of src"
proof (induction src arbitrary: dst)
  case Nil
  then show ?case by simp
next
  case (Cons kv src)
  obtain k v where kv: "kv = (k, v)" by (cases kv)
  have "map_of src k = None"
    using Cons.prems by (simp add: kv map_of_eq_None_iff)
  with Cons show ?case
    by (auto simp: kv update_conv' map_add_def fun_eq_iff split: option.splits)
qed

lemma distinct_gcopy:
  "distinct (map fst dst) \<Longrightarrow> distinct (map fst (gcopy dst src))"
  by (induction src arbitrary: dst) (simp_all add: distinct_update)

section \<open>Decimal numbers, as \<^verbatim>\<open>%d\<close> prints them\<close>

definition digit_char :: "nat \<Rightarrow> char" where
  "digit_char d = char_of (48 + d)"

fun show_nat :: "nat \<Rightarrow> string" where
  "show_nat n = (if n < 10 then [digit_char n] else show_nat (n div 10) @ [digit_char (n mod 10)])"

declare show_nat.simps [simp del]

end
