(* ===== verification/Go_Strings.thy ===== *)
theory Go_Strings
  imports Prelude
begin

text \<open>
  The functions of Go's \<^verbatim>\<open>strings\<close> package and the \<^verbatim>\<open>%q\<close> verb of \<^verbatim>\<open>fmt\<close> that the
  operator uses. A string is a list of bytes. Letter case, white space and quoting are
  those of ASCII text (host names, zone ids and ARNs are ASCII); bytes above 127 are left
  as they are.
\<close>

section \<open>Prefixes, suffixes and splitting\<close>

definition hasPrefix :: "string \<Rightarrow> string \<Rightarrow> bool" where
  "hasPrefix s p = prefix p s"

definition trimPrefix :: "string \<Rightarrow> string \<Rightarrow> string" where
  "trimPrefix s p = (if prefix p s then drop (length p) s else s)"

definition trimSuffix :: "string \<Rightarrow> string \<Rightarrow> string" where
  "trimSuffix s p = (if suffix p s then take (length s - length p) s else s)"

fun splitOn :: "char \<Rightarrow> string \<Rightarrow> string list" where
  "splitOn c [] = [[]]"
| "splitOn c (x # xs) =
     (if x = c then [] # splitOn c xs
      else (case splitOn c xs of [] \<Rightarrow> [[x]] | w # ws \<Rightarrow> (x # w) # ws))"

text \<open>\<^verbatim>\<open>strings.SplitN(s, sep, 2)\<close> for a separator of one byte.\<close>

fun splitN2 :: "char \<Rightarrow> string \<Rightarrow> string list" where
  "splitN2 c [] = [[]]"
| "splitN2 c (x # xs) =
     (if x = c then [[], xs]
      else (case splitN2 c xs of [] \<Rightarrow> [[x]] | w # ws \<Rightarrow> (x # w) # ws))"

fun joinWith :: "string \<Rightarrow> string list \<Rightarrow> string" where
  "joinWith sep [] = []"
| "joinWith sep [x] = x"
| "joinWith sep (x # y # ys) = x @ sep @ joinWith sep (y # ys)"

definition containsStr :: "string \<Rightarrow> string \<Rightarrow> bool" where
  "containsStr s p = sublist p s"

lemma trimSuffix_append [simp]: "trimSuffix (s @ p) p = s"
  by (simp add: trimSuffix_def suffix_def)

lemma trimPrefix_append [simp]: "trimPrefix (p @ s) p = s"
  by (simp add: trimPrefix_def)

lemma trimSuffix_no_suffix: "\<not> suffix p s \<Longrightarrow> trimSuffix s p = s"
  by (simp add: trimSuffix_def)

lemma splitOn_not_Nil [simp]: "splitOn c s \<noteq> []"
  by (induction s) (auto split: list.splits)

lemma splitN2_not_Nil [simp]: "splitN2 c s \<noteq> []"
  by (induction s) (auto split: list.splits)

lemma splitOn_no_sep: "w \<in> set (splitOn c s) \<Longrightarrow> c \<notin> set w"
  by (induction s arbitrary: w) (auto split: list.splits if_splits)

text \<open>Splitting and joining are inverse.\<close>

lemma joinWith_Cons: "ws \<noteq> [] \<Longrightarrow> joinWith sep (w # ws) = w @ sep @ joinWith sep ws"
  by (cases ws) simp_all

lemma joinWith_Cons_Cons: "joinWith sep ((x # w) # ws) = x # joinWith sep (w # ws)"
  by (cases ws) simp_all

lemma joinWith_splitOn: "joinWith [c] (splitOn c s) = s"
proof (induction s)
  case Nil
  then show ?case by simp
next
  case (Cons x xs)
  obtain w ws where "splitOn c xs = w # ws"
    using splitOn_not_Nil by (metis list.exhaust)
  with Cons show ?case
    by (cases "x = c") (simp_all add: joinWith_Cons joinWith_Cons_Cons)
qed

lemma splitN2_eq:
  "splitN2 c s =
     (if c \<in> set s then [takeWhile (\<lambda>x. x \<noteq> c) s, tl (dropWhile (\<lambda>x. x \<noteq> c) s)] else [s])"
  by (induction s) auto

lemma splitN2_two:
  assumes "splitN2 c s = [a, b]"
  shows "s = a @ c # b" and "c \<notin> set a"
proof -
  have c: "c \<in> set s" and a: "a = takeWhile (\<lambda>x. x \<noteq> c) s" and b: "b = tl (dropWhile (\<lambda>x. x \<noteq> c) s)"
    using assms by (auto simp: splitN2_eq split: if_splits)
  from c have ne: "dropWhile (\<lambda>x. x \<noteq> c) s \<noteq> []"
    by simp
  then have "hd (dropWhile (\<lambda>x. x \<noteq> c) s) = c"
    using hd_dropWhile by blast
  with ne have "dropWhile (\<lambda>x. x \<noteq> c) s = c # b"
    unfolding b by (metis list.collapse)
  then show "s = a @ c # b"
    using a takeWhile_dropWhile_id by metis
  show "c \<notin> set a"
    using a by (auto dest: set_takeWhileD)
qed

section \<open>Case, white space, replacement\<close>

definition lowerChar :: "char \<Rightarrow> char" where
  "lowerChar c =
     (if 65 \<le> (of_char c :: nat) \<and> (of_char c :: nat) \<le> 90 then char_of ((of_char c :: nat) + 32) else c)"

definition toLower :: "string \<Rightarrow> string" where
  "toLower s = map lowerChar s"

lemma lowerChar_idem [simp]: "lowerChar (lowerChar c) = lowerChar c"
  by (auto simp: lowerChar_def)

lemma toLower_idem [simp]: "toLower (toLower s) = toLower s"
  by (simp add: toLower_def)

lemma toLower_append: "toLower (s @ t) = toLower s @ toLower t"
  by (simp add: toLower_def)

text \<open>
  \<^verbatim>\<open>strings.TrimSpace\<close>: the white space characters of Unicode, as the bytes of their UTF-8 form,
  are cut off at both ends.
\<close>

definition spaces :: "string list" where
  "spaces = map (map char_of) ([[9], [10], [11], [12], [13], [32], [0xC2, 0x85], [0xC2, 0xA0],
     [0xE1, 0x9A, 0x80], [0xE2, 0x80, 0xA8], [0xE2, 0x80, 0xA9], [0xE2, 0x80, 0xAF], [0xE2, 0x81, 0x9F],
     [0xE3, 0x80, 0x80]] @ map (\<lambda>i. [0xE2, 0x80, 0x80 + i]) [0..<11] :: nat list list)"

function cutLeft :: "string list \<Rightarrow> string \<Rightarrow> string" where
  "cutLeft ws s = (case find (\<lambda>w. w \<noteq> [] \<and> prefix w s) ws of
      Some w \<Rightarrow> cutLeft ws (drop (length w) s)
    | None \<Rightarrow> s)"
  by pat_completeness auto
termination
  by (relation "measure (\<lambda>(ws, s). length s)") (auto simp: find_Some_iff intro!: diff_less dest: prefix_length_le intro: less_le_trans)

declare cutLeft.simps [simp del]

definition trimSpace :: "string \<Rightarrow> string" where
  "trimSpace s = rev (cutLeft (map rev spaces) (rev (cutLeft spaces s)))"

text \<open>\<^verbatim>\<open>strings.ReplaceAll\<close> for a non-empty pattern, left to right without overlap.\<close>

function replaceAll :: "string \<Rightarrow> string \<Rightarrow> string \<Rightarrow> string" where
  "replaceAll s old new =
     (if s = [] then []
      else if old \<noteq> [] \<and> prefix old s then new @ replaceAll (drop (length old) s) old new
      else hd s # replaceAll (tl s) old new)"
  by pat_completeness auto
termination
  by (relation "measure (\<lambda>(s, old, new). length s)") auto

declare replaceAll.simps [simp del]

section \<open>Quoting: \<^verbatim>\<open>%q\<close>\<close>

definition hexDigit :: "nat \<Rightarrow> char" where
  "hexDigit n = (if n < 10 then char_of (48 + n) else char_of (87 + n))"

definition unhex :: "char \<Rightarrow> nat" where
  "unhex c = (if 97 \<le> (of_char c :: nat) then (of_char c :: nat) - 87 else (of_char c :: nat) - 48)"

abbreviation backslash :: char where
  "backslash \<equiv> CHR 0x5C"

abbreviation dquote :: char where
  "dquote \<equiv> CHR 0x22"

text \<open>The letter after the backslash of a control character with a short escape.\<close>

definition shortEscape :: "nat \<Rightarrow> char option" where
  "shortEscape n = map_of
     [(7, CHR ''a''), (8, CHR ''b''), (9, CHR ''t''), (10, CHR ''n''), (11, CHR ''v''),
      (12, CHR ''f''), (13, CHR ''r''), (34, CHR 0x22), (92, CHR 0x5C)] n"

definition quoteChar :: "char \<Rightarrow> string" where
  "quoteChar c = (let n = (of_char c :: nat) in
     case shortEscape n of
       Some x \<Rightarrow> [backslash, x]
     | None \<Rightarrow> if n < 32 \<or> n = 127
         then [backslash, CHR ''x'', hexDigit (n div 16), hexDigit (n mod 16)]
         else [c])"

definition quote :: "string \<Rightarrow> string" where
  "quote s = dquote # concat (map quoteChar s) @ [dquote]"

text \<open>Reading one quoted character back.\<close>

definition longEscape :: "char \<Rightarrow> nat option" where
  "longEscape x = map_of
     [(CHR ''a'', 7), (CHR ''b'', 8), (CHR ''t'', 9), (CHR ''n'', 10), (CHR ''v'', 11),
      (CHR ''f'', 12), (CHR ''r'', 13), (CHR 0x22, 34), (CHR 0x5C, 92)] x"

fun unquoteChar :: "string \<Rightarrow> (char \<times> string) option" where
  "unquoteChar [] = None"
| "unquoteChar (c # cs) =
     (if c = dquote then None
      else if c \<noteq> backslash then Some (c, cs)
      else (case cs of
          [] \<Rightarrow> None
        | x # xs \<Rightarrow>
          (case longEscape x of
             Some n \<Rightarrow> Some (char_of n, xs)
           | None \<Rightarrow>
             (case xs of
                h # l # ys \<Rightarrow> Some (char_of (16 * unhex h + unhex l), ys)
              | _ \<Rightarrow> None))))"

lemma unhex_hexDigit: "n < 16 \<Longrightarrow> unhex (hexDigit n) = n"
  by (auto simp: unhex_def hexDigit_def)

lemma long_shortEscape: "shortEscape n = Some x \<Longrightarrow> longEscape x = Some n"
  by (auto simp: shortEscape_def longEscape_def split: if_splits)

lemma shortEscape_special: "shortEscape 34 \<noteq> None" "shortEscape 92 \<noteq> None"
  by (simp_all add: shortEscape_def)

lemma unquoteChar_quoteChar: "unquoteChar (quoteChar c @ r) = Some (c, r)"
proof (cases "shortEscape (of_char c :: nat)")
  case (Some x)
  then show ?thesis
    by (simp add: quoteChar_def long_shortEscape)
next
  case None
  have not: "c \<noteq> dquote" "c \<noteq> backslash"
    using None shortEscape_special by auto
  show ?thesis
  proof (cases "(of_char c :: nat) < 32 \<or> (of_char c :: nat) = 127")
    case True
    have "longEscape CHR ''x'' = None"
      by (simp add: longEscape_def)
    moreover have "(of_char c :: nat) div 16 < 16" "(of_char c :: nat) mod 16 < 16"
      using True by auto
    then have "char_of (16 * unhex (hexDigit ((of_char c :: nat) div 16))
        + unhex (hexDigit ((of_char c :: nat) mod 16))) = c"
      by (simp add: unhex_hexDigit)
    ultimately show ?thesis
      using None True by (simp add: quoteChar_def Let_def)
  next
    case False
    with None not show ?thesis by (simp add: quoteChar_def)
  qed
qed

lemma quoteChar_append_inject:
  assumes "quoteChar c @ r = quoteChar d @ t"
  shows "c = d \<and> r = t"
proof -
  have "unquoteChar (quoteChar c @ r) = unquoteChar (quoteChar d @ t)"
    by (simp only: assms)
  then show ?thesis
    by (simp only: unquoteChar_quoteChar option.inject prod.inject)
qed

lemma quoteChar_append_dquote: "quoteChar c @ r \<noteq> dquote # t"
proof
  assume "quoteChar c @ r = dquote # t"
  then have "unquoteChar (quoteChar c @ r) = unquoteChar (dquote # t)"
    by (simp only:)
  then have "Some (c, r) = unquoteChar (dquote # t)"
    by (simp only: unquoteChar_quoteChar)
  then show False by simp
qed

lemma quote_body_inject:
  "concat (map quoteChar s) @ dquote # r = concat (map quoteChar t) @ dquote # u \<Longrightarrow> s = t \<and> r = u"
proof (induction s arbitrary: t)
  case Nil
  show ?case
  proof (cases t)
    case Nil
    with Nil.prems show ?thesis by simp
  next
    case (Cons d t')
    with Nil.prems have "quoteChar d @ concat (map quoteChar t') @ dquote # u = dquote # r"
      by simp
    then show ?thesis by (simp only: quoteChar_append_dquote)
  qed
next
  case (Cons c s)
  show ?case
  proof (cases t)
    case Nil
    with Cons.prems show ?thesis by (simp add: quoteChar_append_dquote)
  next
    case (Cons d t')
    with Cons.prems have "c = d \<and> concat (map quoteChar s) @ dquote # r = concat (map quoteChar t') @ dquote # u"
      by (intro quoteChar_append_inject) simp
    with Cons.IH Cons show ?thesis by blast
  qed
qed

text \<open>A quoted string is self-delimiting: what follows it does not change where it ends.\<close>

lemma quote_append_inject: "quote s @ r = quote t @ u \<longleftrightarrow> s = t \<and> r = u"
proof
  assume "quote s @ r = quote t @ u"
  then have "concat (map quoteChar s) @ dquote # r = concat (map quoteChar t) @ dquote # u"
    by (simp add: quote_def)
  then show "s = t \<and> r = u" by (rule quote_body_inject)
qed simp

lemma quote_inject: "quote s = quote t \<longleftrightarrow> s = t"
  using quote_append_inject[of s "[]" t "[]"] by simp

end
