(* ===== verification/Resolver_Types.thy ===== *)
theory Resolver_Types
  imports Go_Strings
begin

text \<open>
  The data of \<^verbatim>\<open>pkg/resolver\<close>: the cluster as the DNS and resolver code sees it, DNS zones
  and records, the DNS server, resolver rules, and the arguments of the client interfaces
  of \<^verbatim>\<open>pkg/resolver/package.go\<close>. A slice that the code only ranges over is a list, a
  \<^verbatim>\<open>map[string]string\<close> that it only reads is a \<^typ>\<open>gomap\<close>.
\<close>

type_synonym DnsRecordType = string

definition DnsRecordTypeA :: DnsRecordType where
  "DnsRecordTypeA = ''A''"

definition DnsRecordTypeCname :: DnsRecordType where
  "DnsRecordTypeCname = ''CNAME''"

definition DnsRecordTypeAlias :: DnsRecordType where
  "DnsRecordTypeAlias = ''ALIAS''"

lemmas record_type_defs = DnsRecordTypeA_def DnsRecordTypeCname_def DnsRecordTypeAlias_def

record DNSRecord =
  dr_Kind :: DnsRecordType
  dr_Name :: string
  dr_Values :: "string list"
  dr_Region :: string

record Cluster =
  cl_AdditionalTags :: gomap
  cl_VPCsToAssociateToHostedZone :: "string list"
  cl_Name :: string
  cl_ControlPlaneEndpoint :: string
  cl_WildcardCNAMETarget :: string
  cl_IsDnsModePrivate :: bool
  cl_IsVpcModePrivate :: bool
  cl_IsEKS :: bool
  cl_Region :: string
  cl_VPCCidr :: string
  cl_VPCId :: string
  cl_IAMRoleARN :: string
  cl_MCIAMRoleARN :: string
  cl_Subnets :: "string list"
  cl_CustomHostedZoneName :: string
  cl_DelegationIAMRoleARN :: string
  cl_BaseDomain :: string

record DnsZone =
  dz_DnsName :: string
  dz_IsPrivate :: bool
  dz_Region :: string
  dz_Tags :: gomap
  dz_VPCId :: string
  dz_VPCsToAssociate :: "string list"

definition BuildPublicHostedZone :: "string \<Rightarrow> gomap \<Rightarrow> DnsZone" where
  "BuildPublicHostedZone dnsName tags =
     \<lparr>dz_DnsName = dnsName, dz_IsPrivate = False, dz_Region = '''', dz_Tags = tags,
      dz_VPCId = '''', dz_VPCsToAssociate = []\<rparr>"

definition BuildPrivateHostedZone ::
  "string \<Rightarrow> gomap \<Rightarrow> string \<Rightarrow> string \<Rightarrow> string list \<Rightarrow> DnsZone" where
  "BuildPrivateHostedZone dnsName tags vpcId region vpcs =
     \<lparr>dz_DnsName = dnsName, dz_IsPrivate = True, dz_Region = region, dz_Tags = tags,
      dz_VPCId = vpcId, dz_VPCsToAssociate = vpcs\<rparr>"

record DNSServer =
  ds_AWSAccountId :: string
  ds_IAMExternalId :: string
  ds_AWSRegion :: string
  ds_IAMRoleToAssume :: string
  ds_VPCId :: string

definition NewDNSServer ::
  "string \<Rightarrow> string \<Rightarrow> string \<Rightarrow> string \<Rightarrow> string \<Rightarrow> DNSServer" where
  "NewDNSServer awsAccountId iamExternalId awsRegion iamRoleToAssume vpcId =
     \<lparr>ds_AWSAccountId = awsAccountId, ds_IAMExternalId = iamExternalId,
      ds_AWSRegion = awsRegion, ds_IAMRoleToAssume = iamRoleToAssume, ds_VPCId = vpcId\<rparr>"

record ResolverRule =
  rr_Arn :: string
  rr_Id :: string
  rr_IPs :: "string list"
  rr_Name :: string

record ResourceShare =
  rs_Name :: string
  rs_ResourceArns :: "string list"
  rs_ExternalAccountID :: string

record TransitGatewayAttachment =
  ta_TransitGatewayARN :: string
  ta_SubnetIDs :: "string list"
  ta_VPCID :: string
  ta_Tags :: gomap

record PrefixListEntry =
  pe_PrefixListARN :: string
  pe_CIDR :: string
  pe_Description :: string

type_synonym Filter = "string list"

record RouteRule =
  rt_DestinationPrefixListId :: string
  rt_TransitGatewayId :: string

end
