(* ===== verification/AWS_Types.thy ===== *)
theory AWS_Types
  imports Resolver_Types
begin

text \<open>
  What the operator exchanges with the AWS API: one constructor per SDK operation the
  code of \<^verbatim>\<open>pkg/aws\<close> calls, with the input fields it sets, and the fields it reads of the
  answers. Fields the AWS API documents as always present in an answer (identifiers,
  names, ARNs) are plain values; where the code itself tests for nil they are options.
  The AWS services themselves are not modelled: their answers are parameters
  (theory \<^verbatim>\<open>World\<close>).
\<close>

text \<open>
  With which region, endpoint and role a client talks to AWS: the role it assumes, the one it
  assumes from there (only \<^verbatim>\<open>NewResolverClientWithExternalId\<close>) and the external id.
\<close>

record creds =
  c_region :: string
  c_endpoint :: string
  c_role :: string
  c_chainedRole :: string
  c_externalId :: string

section \<open>Route53\<close>

record HostedZone =
  hz_Id :: string
  hz_Name :: string

record AliasTarget =
  at_DNSName :: string
  at_EvaluateTargetHealth :: bool
  at_HostedZoneId :: string

record ResourceRecordSet =
  rrs_Name :: string
  rrs_Type :: string
  rrs_TTL :: "nat option"
  rrs_Records :: "string list"
  rrs_Alias :: "AliasTarget option"

datatype Change = ChangeUpsert ResourceRecordSet | ChangeDelete ResourceRecordSet

datatype r53_op =
    R53_ListHostedZonesByName string nat
  | R53_CreateHostedZone string nat string bool "(string \<times> string) option"
  | R53_ChangeTagsForResource string gomap
  | R53_AssociateVPCWithHostedZone string string string
  | R53_ListResourceRecordSets string "nat option" "string option" "string option"
  | R53_DeleteHostedZone string
  | R53_ChangeResourceRecordSets string "Change list"

section \<open>EC2: security groups, instances, prefix lists, transit gateways, routes\<close>

record EC2Instance =
  in_InstanceId :: "string option"
  in_State :: "string option"

record ManagedPrefixList =
  pl_PrefixListId :: string
  pl_PrefixListArn :: string
  pl_Version :: int

record PrefixListItem =
  pi_Cidr :: string
  pi_Description :: string

record TransitGateway =
  tg_TransitGatewayId :: string
  tg_TransitGatewayArn :: string
  tg_State :: string

record VpcAttachment =
  va_TransitGatewayAttachmentId :: string

record EC2Route =
  ro_DestinationPrefixListId :: "string option"
  ro_TransitGatewayId :: "string option"

record EC2RouteTable =
  rtb_RouteTableId :: string
  rtb_Routes :: "EC2Route list"

datatype ec2_op =
    EC2_CreateSecurityGroup string string string gomap
  | EC2_DescribeSecurityGroups string string
  | EC2_DeleteSecurityGroup string
  | EC2_AuthorizeSecurityGroupIngress string string string nat gomap
  | EC2_DescribeInstances gomap nat
  | EC2_TerminateInstances "string list"
  | EC2_DescribeManagedPrefixLists "string option" "string option"
  | EC2_CreateManagedPrefixList string nat string "gomap option"
  | EC2_DeleteManagedPrefixList string
  | EC2_AddPrefixListEntry string int string string
  | EC2_RemovePrefixListEntry string int string
  | EC2_GetManagedPrefixListEntries string nat
  | EC2_DescribeTransitGateways string string
  | EC2_CreateTransitGateway string gomap
  | EC2_DeleteTransitGateway string
  | EC2_CreateTransitGatewayVpcAttachment string string "string list" gomap
  | EC2_DeleteTransitGatewayVpcAttachment string
  | EC2_DescribeTransitGatewayVpcAttachments string string
  | EC2_DescribeRouteTables "string list"
  | EC2_CreateRoute string string string
  | EC2_DeleteRoute string string

section \<open>RAM and S3\<close>

record RAMResourceShare =
  ram_ResourceShareArn :: string
  ram_Status :: string

datatype ram_op =
    RAM_GetResourceShares string
  | RAM_CreateResourceShare string string "string list"
  | RAM_DeleteResourceShare string

datatype s3_op =
    S3_PutObject string string string
  | S3_DeleteObject string string

section \<open>Route53 Resolver\<close>

record SDKResolverRule =
  sr_Arn :: string
  sr_Id :: string
  sr_TargetIps :: "string list"
  sr_Name :: string
  sr_OwnerId :: string

record SDKResolverEndpoint =
  se_Id :: string

datatype resolver_op =
    RES_ListResolverRulesByName string string
  | RES_ListResolverRules nat "string option"
  | RES_CreateResolverRule nat string string string "(string \<times> nat) list" gomap
  | RES_DeleteResolverRule string
  | RES_ListResolverEndpoints string
  | RES_CreateResolverEndpoint nat string "string list" string "string list" gomap
  | RES_DeleteResolverEndpoint string
  | RES_ListResolverEndpointIpAddresses string
  | RES_AssociateResolverRule string string string
  | RES_DisassociateResolverRule string string
  | RES_ListResolverRuleAssociations nat "string option" string

datatype aws_op =
    Route53Op r53_op
  | EC2Op ec2_op
  | RAMOp ram_op
  | S3Op s3_op
  | ResolverOp resolver_op

text \<open>Whether an operation can change anything in AWS.\<close>

fun r53_mutates :: "r53_op \<Rightarrow> bool" where
  "r53_mutates (R53_ListHostedZonesByName _ _) = False"
| "r53_mutates (R53_ListResourceRecordSets _ _ _ _) = False"
| "r53_mutates _ = True"

fun ec2_mutates :: "ec2_op \<Rightarrow> bool" where
  "ec2_mutates (EC2_DescribeSecurityGroups _ _) = False"
| "ec2_mutates (EC2_DescribeInstances _ _) = False"
| "ec2_mutates (EC2_DescribeManagedPrefixLists _ _) = False"
| "ec2_mutates (EC2_GetManagedPrefixListEntries _ _) = False"
| "ec2_mutates (EC2_DescribeTransitGateways _ _) = False"
| "ec2_mutates (EC2_DescribeTransitGatewayVpcAttachments _ _) = False"
| "ec2_mutates (EC2_DescribeRouteTables _) = False"
| "ec2_mutates _ = True"

fun ram_mutates :: "ram_op \<Rightarrow> bool" where
  "ram_mutates (RAM_GetResourceShares _) = False"
| "ram_mutates _ = True"

fun resolver_mutates :: "resolver_op \<Rightarrow> bool" where
  "resolver_mutates (RES_ListResolverRulesByName _ _) = False"
| "resolver_mutates (RES_ListResolverRules _ _) = False"
| "resolver_mutates (RES_ListResolverEndpoints _) = False"
| "resolver_mutates (RES_ListResolverEndpointIpAddresses _) = False"
| "resolver_mutates (RES_ListResolverRuleAssociations _ _ _) = False"
| "resolver_mutates _ = True"

fun aws_mutates :: "aws_op \<Rightarrow> bool" where
  "aws_mutates (Route53Op x) = r53_mutates x"
| "aws_mutates (EC2Op x) = ec2_mutates x"
| "aws_mutates (RAMOp x) = ram_mutates x"
| "aws_mutates (S3Op x) = True"
| "aws_mutates (ResolverOp x) = resolver_mutates x"

end
