(* ===== verification/Karpenter_API.thy ===== *)
theory Karpenter_API
  imports Resolver_Types
begin

text \<open>
  The custom resource of \<^verbatim>\<open>api/v1alpha1\<close> (KarpenterMachinePool with its NodePool and
  EC2NodeClass parts) and the Karpenter resources the operator builds from it. Pointers
  are options; a quantity and a \<^verbatim>\<open>metav1.Duration\<close> are opaque values that the code only
  copies (text and nanoseconds); a slice or map that may be nil and is only copied is an
  option.
\<close>

section \<open>\<^verbatim>\<open>api/v1alpha1\<close>\<close>

record NillableDuration =
  nd_Duration :: "int option"
  nd_Raw :: "string option"

record Taint =
  tn_Key :: string
  tn_Value :: string
  tn_Effect :: string

record NodeSelectorRequirementWithMinValues =
  nr_Key :: string
  nr_Operator :: string
  nr_Values :: "string list option"
  nr_MinValues :: "int option"

record NodeClaimTemplateSpec =
  nts_Taints :: "Taint list option"
  nts_StartupTaints :: "Taint list option"
  nts_Requirements :: "NodeSelectorRequirementWithMinValues list"
  nts_TerminationGracePeriod :: "int option"
  nts_ExpireAfter :: NillableDuration

record NodeClaimTemplate =
  nct_Labels :: "gomap option"
  nct_Annotations :: "gomap option"
  nct_Spec :: NodeClaimTemplateSpec

record Budget =
  bu_Reasons :: "string list"
  bu_Nodes :: string
  bu_Schedule :: "string option"
  bu_Duration :: "int option"

record Disruption =
  di_ConsolidateAfter :: NillableDuration
  di_ConsolidationPolicy :: string
  di_Budgets :: "Budget list"

record NodePoolSpec =
  np_Template :: NodeClaimTemplate
  np_Disruption :: Disruption
  np_Limits :: "gomap option"
  np_Weight :: "int option"
  np_Replicas :: "int option"

record SubnetSelectorTerm =
  sst_Tags :: "gomap option"
  sst_ID :: string

record SecurityGroupSelectorTerm =
  sgt_Tags :: "gomap option"
  sgt_ID :: string
  sgt_Name :: string

record AMISelectorTerm =
  ami_Alias :: string
  ami_Tags :: "gomap option"
  ami_ID :: string
  ami_Name :: string
  ami_Owner :: string
  ami_SSMParameter :: string

record MetadataOptions =
  mo_HTTPEndpoint :: "string option"
  mo_HTTPProtocolIPv6 :: "string option"
  mo_HTTPPutResponseHopLimit :: "int option"
  mo_HTTPTokens :: "string option"

record BlockDevice =
  bd_DeleteOnTermination :: "bool option"
  bd_Encrypted :: "bool option"
  bd_IOPS :: "int option"
  bd_KMSKeyID :: "string option"
  bd_SnapshotID :: "string option"
  bd_Throughput :: "int option"
  bd_VolumeInitializationRate :: "int option"
  bd_VolumeSize :: "string option"
  bd_VolumeType :: "string option"

record BlockDeviceMapping =
  bdm_DeviceName :: "string option"
  bdm_EBS :: "BlockDevice option"
  bdm_RootVolume :: bool

record CapacityReservationSelectorTerm =
  crt_Tags :: "gomap option"
  crt_ID :: string
  crt_OwnerID :: string

record KubeletConfiguration =
  kc_ClusterDNS :: "string list"
  kc_MaxPods :: "int option"
  kc_PodsPerCore :: "int option"
  kc_SystemReserved :: "gomap option"
  kc_KubeReserved :: "gomap option"
  kc_EvictionHard :: "gomap option"
  kc_EvictionSoft :: "gomap option"
  kc_EvictionSoftGracePeriod :: "(string \<times> int) list option"
  kc_EvictionMaxPodGracePeriod :: "int option"
  kc_ImageGCHighThresholdPercent :: "int option"
  kc_ImageGCLowThresholdPercent :: "int option"
  kc_CPUCFSQuota :: "bool option"

record EC2NodeClassSpec =
  ec_SubnetSelectorTerms :: "SubnetSelectorTerm list"
  ec_SecurityGroupSelectorTerms :: "SecurityGroupSelectorTerm list"
  ec_AMISelectorTerms :: "AMISelectorTerm list"
  ec_AMIFamily :: "string option"
  ec_InstanceProfile :: "string option"
  ec_Tags :: "gomap option"
  ec_BlockDeviceMappings :: "BlockDeviceMapping option list"
  ec_InstanceStorePolicy :: "string option"
  ec_MetadataOptions :: "MetadataOptions option"
  ec_CapacityReservationSelectorTerms :: "CapacityReservationSelectorTerm list"
  ec_AssociatePublicIPAddress :: "bool option"
  ec_UserData :: "string option"
  ec_Role :: string
  ec_Kubelet :: "KubeletConfiguration option"
  ec_DetailedMonitoring :: "bool option"
  ec_Context :: "string option"

section \<open>The Karpenter resources in the workload cluster\<close>

text \<open>
  The result types of the conversions: the Karpenter API's own structs, with the fields
  the controller sets. A nil slice is \<open>None\<close>.
\<close>

record KarpBudget =
  kb_Reasons :: "string list option"
  kb_Nodes :: string
  kb_Schedule :: "string option"
  kb_Duration :: "int option"

record KarpNillableDuration =
  knd_Duration :: "int option"
  knd_Raw :: "string option"

record KarpDisruption =
  kd_Budgets :: "KarpBudget list option"
  kd_ConsolidateAfter :: KarpNillableDuration
  kd_ConsolidationPolicy :: string

record KarpRequirement =
  kr_Key :: string
  kr_Operator :: string
  kr_Values :: "string list option"
  kr_MinValues :: "int option"

record KarpNodePoolSpec =
  kn_Labels :: "gomap option"
  kn_Taints :: "Taint list option"
  kn_StartupTaints :: "Taint list option"
  kn_Requirements :: "KarpRequirement list option"
  kn_ExpireAfter :: KarpNillableDuration
  kn_TerminationGracePeriod :: "int option"
  kn_NodeClassGroup :: string
  kn_NodeClassKind :: string
  kn_NodeClassName :: string
  kn_Disruption :: KarpDisruption
  kn_Limits :: "gomap option"
  kn_Weight :: "int option"
  kn_Replicas :: "int option"

record KarpEC2NodeClassSpec =
  ke_AMIFamily :: "string option"
  ke_AMISelectorTerms :: "AMISelectorTerm list option"
  ke_BlockDeviceMappings :: "BlockDeviceMapping option list option"
  ke_InstanceProfile :: "string option"
  ke_InstanceStorePolicy :: "string option"
  ke_MetadataOptions :: "MetadataOptions option"
  ke_SecurityGroupSelectorTerms :: "SecurityGroupSelectorTerm list option"
  ke_SubnetSelectorTerms :: "SubnetSelectorTerm list option"
  ke_UserData :: "string option"
  ke_Tags :: gomap
  ke_SystemReserved :: gomap
  ke_KubeReserved :: gomap
  ke_EvictionHard :: gomap

end
