(* ===== verification/K8s_Types.thy ===== *)
theory K8s_Types
  imports Karpenter_API
begin

text \<open>
  The Kubernetes objects the controllers read and write, with the fields they use, and
  the requests they send to the management cluster's API server and, for Karpenter, to
  the workload cluster. The types of the cluster-api packages are not part of the
  repository; of their values only what the code reads or writes is kept.
\<close>

record ObjectMeta =
  om_Kind :: string
  om_Name :: string
  om_Namespace :: string
  om_Annotations :: gomap
  om_Finalizers :: "string list"
  om_Deleting :: bool
  om_ResourceVersion :: string

record Condition =
  cd_Status :: string
  cd_Reason :: string
  cd_Severity :: string
  cd_Message :: string

type_synonym Conditions = "(string \<times> Condition) list"

record SubnetSpec =
  sn_ResourceID :: string
  sn_AvailabilityZone :: string
  sn_Tags :: gomap

record AWSCluster = ObjectMeta +
  ac_Region :: string
  ac_IdentityRef :: "string option"
  ac_AdditionalTags :: "gomap option"
  ac_ControlPlaneHost :: string
  ac_VPC_ID :: string
  ac_VPC_CidrBlock :: string
  ac_Subnets :: "SubnetSpec list"
  ac_S3Bucket :: "string option"
  ac_Conditions :: Conditions
  ac_SecurityGroups :: gomap

record AWSManagedControlPlane = ObjectMeta +
  mcp_Region :: string
  mcp_IdentityRef :: "string option"
  mcp_AdditionalTags :: "gomap option"
  mcp_ControlPlaneHost :: string
  mcp_VPC_ID :: string
  mcp_VPC_CidrBlock :: string
  mcp_Subnets :: "SubnetSpec list"
  mcp_Conditions :: Conditions

record ControlPlaneRef =
  cpr_Group :: string
  cpr_Kind :: string
  cpr_Name :: string

record CapiCluster = ObjectMeta +
  cc_Paused :: "bool option"
  cc_ControlPlaneRef :: "ControlPlaneRef option"
  cc_InfrastructureName :: string
  cc_Conditions :: Conditions

record RoleIdentity =
  ri_RoleArn :: string

record MachinePool = ObjectMeta +
  mp_DataSecretName :: "string option"
  mp_Version :: string
  mp_Replicas :: "int option"

record KarpenterMachinePool = ObjectMeta +
  kmp_NodePool :: "NodePoolSpec option"
  kmp_EC2NodeClass :: "EC2NodeClassSpec option"
  kmp_ProviderIDList :: "string list"
  kmp_Ready :: bool
  kmp_Replicas :: int
  kmp_Conditions :: Conditions

record ConfigMap =
  cm_Name :: string
  cm_Namespace :: string
  cm_Labels :: gomap
  cm_Data :: "gomap option"

text \<open>A \<^verbatim>\<open>semver.Version\<close>.\<close>

record Semver =
  sv_Major :: nat
  sv_Minor :: nat
  sv_Patch :: nat
  sv_Pre :: "string list"

text \<open>Unstructured content (\<^verbatim>\<open>map[string]any\<close>).\<close>

datatype json = JStr string | JObj "(string \<times> json) list" | JArr "json list"

record ProviderConfig =
  pc_Name :: string
  pc_Namespace :: string
  pc_Spec :: "json option"

datatype k8s_op =
    K8sGet string string string
  | K8sOwnerMachinePool string string
  | K8sClusterOfMetadata string string
  | K8sRESTMapping string string
  | K8sPatchAWSCluster AWSCluster AWSCluster bool
  | K8sPatchControlPlane AWSManagedControlPlane AWSManagedControlPlane bool
  | K8sPatchCluster CapiCluster CapiCluster bool
  | K8sStatusPatchAWSCluster AWSCluster AWSCluster
  | K8sStatusPatchCluster CapiCluster CapiCluster
  | K8sStatusUpdateAWSCluster AWSCluster
  | K8sPatchKarpenterMachinePool KarpenterMachinePool KarpenterMachinePool
  | K8sPatchMachinePool MachinePool MachinePool
  | K8sCreateConfigMap ConfigMap
  | K8sPatchConfigMap ConfigMap ConfigMap
  | K8sCreateProviderConfig ProviderConfig
  | K8sPatchProviderConfig ProviderConfig ProviderConfig
  | K8sDelete string string string

datatype wc_op =
    WCConnect string string
  | WCDelete string string
  | WCListNodeClaims string
  | WCApplyEC2NodeClass string gomap KarpEC2NodeClassSpec
  | WCApplyNodePool string gomap KarpNodePoolSpec

definition IsEKS :: "CapiCluster \<Rightarrow> bool" where
  "IsEKS cluster = (case cc_ControlPlaneRef cluster of
      None \<Rightarrow> False
    | Some ref \<Rightarrow> cpr_Kind ref = ''AWSManagedControlPlane'')"

end
