(* ===== verification/World.thy ===== *)
theory World
  imports AWS_Types K8s_Types
begin

text \<open>
  The outside world as a parameter, and the state the operator's code runs on.

  Everything that is not in the repository appears here as a field of a record the model
  takes as an argument: the answers of the AWS services and of the Kubernetes API server
  (functions of the request and of an arbitrary outside state \<open>'w\<close>), the go-cache package
  (an abstract cache object \<open>'c\<close>), the AWS SDK's configuration loader, and the pure helpers
  and constants of the cluster-api, controller-runtime and k8smetadata packages.

  The state \<open>sys\<close> holds the outside state, the trace of all requests sent so far with their
  errors, the go-cache objects by reference, the process-wide \<^verbatim>\<open>configCache\<close>, and one cell
  for each Kubernetes object that a reconciliation holds by pointer and mutates.
\<close>

section \<open>Requests, events, answers\<close>

datatype request =
    AWSReq creds aws_op
  | K8sReq k8s_op
  | WCReq wc_op

datatype event = Event (ev_req: request) (ev_err: "go_error option")

type_synonym ('w, 'a) answer = "request \<Rightarrow> 'w \<Rightarrow> (go_error + 'a) \<times> 'w"

fun isAWS :: "request \<Rightarrow> bool" where
  "isAWS (AWSReq _ _) = True"
| "isAWS _ = False"

fun isAWSMutation :: "request \<Rightarrow> bool" where
  "isAWSMutation (AWSReq _ x) = aws_mutates x"
| "isAWSMutation _ = False"

text \<open>One field per type of answer; \<open>a_id\<close> is the identifier or ARN of a created object.\<close>

record 'w aws_api =
  a_done :: "('w, unit) answer"
  a_id :: "('w, string) answer"
  a_zones :: "('w, HostedZone list) answer"
  a_rrsets :: "('w, ResourceRecordSet list) answer"
  a_securityGroups :: "('w, string list) answer"
  a_instances :: "('w, EC2Instance list list \<times> bool) answer"
  a_prefixLists :: "('w, ManagedPrefixList list) answer"
  a_entries :: "('w, PrefixListItem list) answer"
  a_gateways :: "('w, TransitGateway list) answer"
  a_attachments :: "('w, VpcAttachment list) answer"
  a_routeTables :: "('w, EC2RouteTable list option) answer"
  a_shares :: "('w, RAMResourceShare list) answer"
  a_rules :: "('w, SDKResolverRule list \<times> string option) answer"
  a_rule :: "('w, SDKResolverRule) answer"
  a_endpoints :: "('w, SDKResolverEndpoint list) answer"
  a_endpoint :: "('w, SDKResolverEndpoint) answer"
  a_ips :: "('w, string list) answer"
  a_associations :: "('w, string list \<times> string option) answer"

text \<open>A patch or an update answers with the object as the API server stored it.\<close>

record 'w kube =
  k_AWSCluster :: "('w, AWSCluster) answer"
  k_ControlPlane :: "('w, AWSManagedControlPlane) answer"
  k_Cluster :: "('w, CapiCluster) answer"
  k_RoleIdentity :: "('w, RoleIdentity) answer"
  k_done :: "('w, unit) answer"
  k_KMP :: "('w, KarpenterMachinePool) answer"
  k_OwnerMachinePool :: "('w, MachinePool option) answer"
  k_MachinePool :: "('w, MachinePool) answer"
  k_Secret :: "('w, gomap) answer"
  k_RESTMapping :: "('w, string) answer"
  k_Unstructured :: "('w, json) answer"
  k_NodeClaims :: "('w, json list) answer"
  k_ConfigMap :: "('w, ConfigMap) answer"
  k_ProviderConfig :: "('w, ProviderConfig) answer"

section \<open>Go-cache\<close>

text \<open>
  The client object of \<^verbatim>\<open>pkg/aws/route53.go\<close>: the SDK client, that is the credentials it
  uses, and references to its three caches.
\<close>

record Route53 =
  r53_client :: creds
  r53_upsertCache :: nat
  r53_zoneIdToNSRecordCache :: nat
  r53_zoneNameToIdCache :: nat

text \<open>The values the code stores in caches (\<^verbatim>\<open>interface{}\<close>).\<close>

datatype cval = CStr string | CBool bool | CRRSet ResourceRecordSet | CRoute53 Route53

record ('w, 'c) gocache =
  gc_new :: 'c
  gc_get :: "'w \<Rightarrow> 'c \<Rightarrow> string \<Rightarrow> cval option"
  gc_set :: "'w \<Rightarrow> string \<Rightarrow> cval \<Rightarrow> 'c \<Rightarrow> 'c"
  gc_delete :: "string \<Rightarrow> 'c \<Rightarrow> 'c"
  gc_items :: "'w \<Rightarrow> 'c \<Rightarrow> (string \<times> cval) list"

text \<open>
  What go-cache documents: a new cache is empty; a value can be read back at the moment it
  is set and later is either still there or expired; setting or deleting one key leaves the
  others alone; \<^verbatim>\<open>Items\<close> lists the unexpired entries, each key once.
\<close>

definition gocache_laws :: "('w, 'c) gocache \<Rightarrow> bool" where
  "gocache_laws G \<longleftrightarrow>
     (\<forall>w k. gc_get G w (gc_new G) k = None) \<and>
     (\<forall>w k v c. gc_get G w (gc_set G w k v c) k = Some v) \<and>
     (\<forall>w w' k v c. gc_get G w' (gc_set G w k v c) k \<in> {Some v, None}) \<and>
     (\<forall>w w' k k' v c. k' \<noteq> k \<longrightarrow> gc_get G w' (gc_set G w k v c) k' = gc_get G w' c k') \<and>
     (\<forall>w k c. gc_get G w (gc_delete G k c) k = None) \<and>
     (\<forall>w k k' c. k' \<noteq> k \<longrightarrow> gc_get G w (gc_delete G k c) k' = gc_get G w c k') \<and>
     (\<forall>w c. distinct (map fst (gc_items G w c)) \<and> map_of (gc_items G w c) = gc_get G w c)"

section \<open>The AWS SDK's configuration loader\<close>

record config_opts =
  co_Region :: "string option"
  co_Endpoint :: "string option"
  co_Role :: "string option"

record aws_config =
  cf_Region :: string
  cf_Endpoint :: string
  cf_Creds :: string

section \<open>Helpers and constants of other packages\<close>

record ARN =
  arn_AccountID :: string
  arn_Resource :: string

record lib =
  l_AddFinalizer :: "string list \<Rightarrow> string \<Rightarrow> string list \<times> bool"
  l_RemoveFinalizer :: "string list \<Rightarrow> string \<Rightarrow> string list"
  l_ContainsFinalizer :: "string list \<Rightarrow> string \<Rightarrow> bool"
  l_IsPaused :: "CapiCluster \<Rightarrow> gomap \<Rightarrow> bool"
  l_HasPaused :: "gomap \<Rightarrow> bool"
  l_CondIsTrue :: "Conditions \<Rightarrow> string \<Rightarrow> bool"
  l_CondHas :: "Conditions \<Rightarrow> string \<Rightarrow> bool"
  l_CondSet :: "Conditions \<Rightarrow> string \<Rightarrow> Condition \<Rightarrow> Conditions"
  l_MarkTrue :: "Conditions \<Rightarrow> string \<Rightarrow> Conditions"
  l_MarkFalse :: "Conditions \<Rightarrow> string \<Rightarrow> string \<Rightarrow> string \<Rightarrow> string \<Rightarrow> Conditions"
  l_arnParse :: "string \<Rightarrow> go_error + ARN"
  l_PausedAnnotation :: string
  l_AWSDNSMode :: string
  l_DNSModePrivate :: string
  l_AWSVPCMode :: string
  l_AWSVPCModePrivate :: string
  l_AWSDNSAdditionalVPC :: string
  l_NetworkWildcardCNAMETarget :: string
  l_ResolverRulesOwnerAWSAccountId :: string
  l_NetworkTopologyMode :: string
  l_ModeGiantSwarmManaged :: string
  l_ModeUserManaged :: string
  l_ModeNone :: string
  l_NetworkTopologyTransitGatewayID :: string
  l_NetworkTopologyPrefixListID :: string
  l_VpcReadyCondition :: string
  l_SubnetsReadyCondition :: string
  l_SecurityGroupControlPlane :: string
  l_SecurityGroupNode :: string
  l_NestedString :: "json \<Rightarrow> string list \<Rightarrow> go_error + string option"
  l_ParseTolerant :: "string \<Rightarrow> go_error + Semver"
  l_GE :: "Semver \<Rightarrow> Semver \<Rightarrow> bool"
  l_NewPatchHelper :: "KarpenterMachinePool \<Rightarrow> go_error + unit"
  l_urlHostname :: "string \<Rightarrow> go_error + string"
  l_AMIFamilyAL2023 :: string
  l_AMIFamilyCustom :: string
  l_yamlMarshal :: "json \<Rightarrow> go_error + string"

text \<open>What controller-runtime documents of its finalizer helpers.\<close>

definition finalizer_laws :: "lib \<Rightarrow> bool" where
  "finalizer_laws L \<longleftrightarrow>
     (\<forall>fs f. l_ContainsFinalizer L fs f = (f \<in> set fs)) \<and>
     (\<forall>fs f. set (fst (l_AddFinalizer L fs f)) = insert f (set fs) \<and>
              snd (l_AddFinalizer L fs f) = (f \<notin> set fs)) \<and>
     (\<forall>fs f. set (l_RemoveFinalizer L fs f) = set fs - {f})"

section \<open>The environment and the state\<close>

record ('w, 'c) env =
  e_aws :: "'w aws_api"
  e_kube :: "'w kube"
  e_cache :: "('w, 'c) gocache"
  e_lib :: lib
  e_loadConfig :: "config_opts \<Rightarrow> 'w \<Rightarrow> (go_error + aws_config) \<times> 'w"
  e_now :: "'w \<Rightarrow> nat"
  e_getenv :: "string \<Rightarrow> string"
  e_fuel :: nat

record ('w, 'c) sys =
  world :: 'w
  trace :: "event list"
  caches :: "nat \<Rightarrow> 'c"
  nextRef :: nat
  configCache :: "(string \<times> aws_config) list"
  m_AWSCluster :: AWSCluster
  m_ControlPlane :: AWSManagedControlPlane
  m_Cluster :: CapiCluster
  m_KMP :: KarpenterMachinePool
  m_MachinePool :: MachinePool

type_synonym ('w, 'c, 'a) go = "(('w, 'c) sys, 'a) io"

text \<open>Sending a request: the outside answers, and the trace records it.\<close>

definition logged ::
  "request \<Rightarrow> go_error option \<Rightarrow> 'w \<Rightarrow> ('w, 'c) sys \<Rightarrow> ('w, 'c) sys" where
  "logged r e w s = s\<lparr>world := w, trace := trace s @ [Event r e]\<rparr>"

lemma logged_sel [simp]:
  "world (logged r e w s) = w" "trace (logged r e w s) = trace s @ [Event r e]"
  "caches (logged r e w s) = caches s" "nextRef (logged r e w s) = nextRef s"
  "configCache (logged r e w s) = configCache s"
  "m_AWSCluster (logged r e w s) = m_AWSCluster s"
  "m_ControlPlane (logged r e w s) = m_ControlPlane s" "m_Cluster (logged r e w s) = m_Cluster s"
  "m_KMP (logged r e w s) = m_KMP s" "m_MachinePool (logged r e w s) = m_MachinePool s"
  by (simp_all add: logged_def)

definition call :: "('w, 'a) answer \<Rightarrow> request \<Rightarrow> ('w, 'c, 'a) go" where
  "call ans r s = (case ans r (world s) of
      (Inr x, w) \<Rightarrow> (Ok x, logged r None w s)
    | (Inl e, w) \<Rightarrow> (Err e, logged r (Some e) w s))"

lemma call_run [monad_simps]:
  "ans r (world s) = (Inr x, w) \<Longrightarrow> call ans r s = (Ok x, logged r None w s)"
  "ans r (world s) = (Inl e, w) \<Longrightarrow> call ans r s = (Err e, logged r (Some e) w s)"
  by (simp_all add: call_def)

lemma call_cases [consumes 1, case_names Ok Err]:
  assumes "call ans r s = (res, t)"
  obtains (Ok) x w where "ans r (world s) = (Inr x, w)" and "res = Ok x" and "t = logged r None w s"
    | (Err) e w where "ans r (world s) = (Inl e, w)" and "res = Err e" and "t = logged r (Some e) w s"
  using assms by (auto simp: call_def split: prod.splits sum.splits)

text \<open>The cache operations of a cache given by reference.\<close>

definition setCache :: "nat \<Rightarrow> 'c \<Rightarrow> ('w, 'c) sys \<Rightarrow> ('w, 'c) sys" where
  "setCache r c s = s\<lparr>caches := (caches s)(r := c)\<rparr>"

lemma setCache_sel [simp]:
  "world (setCache r c s) = world s" "trace (setCache r c s) = trace s"
  "caches (setCache r c s) = (caches s)(r := c)" "nextRef (setCache r c s) = nextRef s"
  "configCache (setCache r c s) = configCache s"
  "m_AWSCluster (setCache r c s) = m_AWSCluster s"
  "m_ControlPlane (setCache r c s) = m_ControlPlane s" "m_Cluster (setCache r c s) = m_Cluster s"
  "m_KMP (setCache r c s) = m_KMP s" "m_MachinePool (setCache r c s) = m_MachinePool s"
  by (simp_all add: setCache_def)

lemma setCache_setCache [simp]: "setCache r c (setCache r d s) = setCache r c s"
  by (simp add: setCache_def)

lemma setCache_same [simp]: "setCache r (caches s r) s = s"
  by (simp add: setCache_def)

definition cacheGet :: "('w, 'c) env \<Rightarrow> nat \<Rightarrow> string \<Rightarrow> ('w, 'c, cval option) go" where
  "cacheGet E r k = getM (\<lambda>s. gc_get (e_cache E) (world s) (caches s r) k)"

definition cacheSet :: "('w, 'c) env \<Rightarrow> nat \<Rightarrow> string \<Rightarrow> cval \<Rightarrow> ('w, 'c, unit) go" where
  "cacheSet E r k v =
     modM (\<lambda>s. setCache r (gc_set (e_cache E) (world s) k v (caches s r)) s)"

definition cacheDelete :: "('w, 'c) env \<Rightarrow> nat \<Rightarrow> string \<Rightarrow> ('w, 'c, unit) go" where
  "cacheDelete E r k = modM (\<lambda>s. setCache r (gc_delete (e_cache E) k (caches s r)) s)"

definition cacheItems :: "('w, 'c) env \<Rightarrow> nat \<Rightarrow> ('w, 'c, (string \<times> cval) list) go" where
  "cacheItems E r = getM (\<lambda>s. gc_items (e_cache E) (world s) (caches s r))"

definition cacheNew :: "('w, 'c) env \<Rightarrow> ('w, 'c, nat) go" where
  "cacheNew E s = (Ok (nextRef s),
     (setCache (nextRef s) (gc_new (e_cache E)) s)\<lparr>nextRef := Suc (nextRef s)\<rparr>)"

lemma cache_run [monad_simps]:
  "cacheGet E r k s = (Ok (gc_get (e_cache E) (world s) (caches s r) k), s)"
  "cacheSet E r k v s = (Ok (), setCache r (gc_set (e_cache E) (world s) k v (caches s r)) s)"
  "cacheDelete E r k s = (Ok (), setCache r (gc_delete (e_cache E) k (caches s r)) s)"
  "cacheItems E r s = (Ok (gc_items (e_cache E) (world s) (caches s r)), s)"
  by (simp_all add: cacheGet_def cacheSet_def cacheDelete_def cacheItems_def)

section \<open>What a run may do\<close>

text \<open>
  \<open>within R m\<close>: whatever the world answers, \<open>R\<close> relates the state before a run of \<open>m\<close> to
  the state after it. For a reflexive and transitive \<open>R\<close> this is a syntax-directed check of
  the program text: the locale below has its rules, and is interpreted for the relations the
  development uses.
\<close>

definition within :: "('s \<Rightarrow> 's \<Rightarrow> bool) \<Rightarrow> ('s, 'a) io \<Rightarrow> bool" where
  "within R m \<longleftrightarrow> (\<forall>s. R s (snd (m s)))"

named_theorems emits_rules \<open>syntax-directed rules for within\<close>

lemma withinI: "(\<And>s. R s (snd (m s))) \<Longrightarrow> within R m"
  by (simp add: within_def)

lemma withinD: "within R m \<Longrightarrow> m s = (r, t) \<Longrightarrow> R s t"
  by (metis within_def snd_conv)

lemma within_mono: "within R m \<Longrightarrow> (\<And>s t. R s t \<Longrightarrow> R' s t) \<Longrightarrow> within R' m"
  by (simp add: within_def)

lemma within_conj: "within R m \<Longrightarrow> within R' m \<Longrightarrow> within (\<lambda>s t. R s t \<and> R' s t) m"
  by (simp add: within_def)

lemma within_if [emits_rules]:
  "(b \<Longrightarrow> within R m) \<Longrightarrow> (\<not> b \<Longrightarrow> within R n) \<Longrightarrow> within R (if b then m else n)"
  by simp

lemma within_case_option [emits_rules]:
  "(x = None \<Longrightarrow> within R m) \<Longrightarrow> (\<And>y. x = Some y \<Longrightarrow> within R (f y)) \<Longrightarrow>
   within R (case x of None \<Rightarrow> m | Some y \<Rightarrow> f y)"
  by (cases x) simp_all

lemma within_case_sum [emits_rules]:
  "(\<And>y. x = Inl y \<Longrightarrow> within R (f y)) \<Longrightarrow> (\<And>y. x = Inr y \<Longrightarrow> within R (g y)) \<Longrightarrow>
   within R (case x of Inl y \<Rightarrow> f y | Inr y \<Rightarrow> g y)"
  by (cases x) simp_all

lemma within_case_list [emits_rules]:
  "(x = [] \<Longrightarrow> within R m) \<Longrightarrow> (\<And>y ys. x = y # ys \<Longrightarrow> within R (f y ys)) \<Longrightarrow>
   within R (case x of [] \<Rightarrow> m | y # ys \<Rightarrow> f y ys)"
  by (cases x) simp_all

lemma within_case_prod [emits_rules]:
  "(\<And>a b. x = (a, b) \<Longrightarrow> within R (f a b)) \<Longrightarrow> within R (case x of (a, b) \<Rightarrow> f a b)"
  by (cases x) simp_all

lemma within_Let [emits_rules]: "within R (f x) \<Longrightarrow> within R (Let x f)"
  by simp

lemma within_cval [emits_rules]:
  assumes "\<And>x. v = CStr x \<Longrightarrow> within R (f x)" and "\<And>x. v = CBool x \<Longrightarrow> within R (g x)"
    and "\<And>x. v = CRRSet x \<Longrightarrow> within R (h x)" and "\<And>x. v = CRoute53 x \<Longrightarrow> within R (k x)"
  shows "within R (case v of CStr x \<Rightarrow> f x | CBool x \<Rightarrow> g x | CRRSet x \<Rightarrow> h x | CRoute53 x \<Rightarrow> k x)"
  using assms by (cases v) simp_all

lemma tryM_state: "snd (tryM m s) = snd (m s)"
  by (auto simp: tryM_def split: prod.split outcome.split)

lemma wrapM_state: "snd (wrapM f m s) = snd (m s)"
  by (auto simp: wrapM_def split: prod.split outcome.split)

lemma within_tryM [emits_rules]: "within R m \<Longrightarrow> within R (tryM m)"
  by (simp add: within_def tryM_state)

lemma within_wrapM [emits_rules]: "within R m \<Longrightarrow> within R (wrapM f m)"
  by (simp add: within_def wrapM_state)

locale run_relation =
  fixes R :: "'s \<Rightarrow> 's \<Rightarrow> bool"
  assumes refl: "R s s" and trans: "R s t \<Longrightarrow> R t u \<Longrightarrow> R s u"
begin

lemma pure: "(\<And>s. snd (m s) = s) \<Longrightarrow> within R m"
  by (simp add: within_def refl)

lemma retM: "within R (retM x)" and errM: "within R (errM e)" and panicM: "within R panicM"
  and stallM: "within R stallM" and getM: "within R (getM f)" and Pair: "within R (Pair r)"
  by (rule pure; simp)+

lemma liftE: "within R (liftE x)"
  by (cases x) (simp_all add: retM errM)

lemma bindM:
  assumes m: "within R m" and f: "\<And>x. within R (f x)"
  shows "within R (bindM m f)"
proof (rule withinI)
  fix s
  obtain r t where run: "bindM m f s = (r, t)" by (cases "bindM m f s")
  then have "R s t"
    by (cases rule: bindM_cases) (blast intro: withinD [OF m] withinD [OF f] trans)+
  then show "R s (snd (bindM m f s))" using run by simp
qed

lemma deferM: "within R m \<Longrightarrow> within R d \<Longrightarrow> within R (deferM m d)"
  unfolding within_def deferM_def by (auto split: prod.splits intro: trans)

lemma forM: "(\<And>x. x \<in> set xs \<Longrightarrow> within R (f x)) \<Longrightarrow> within R (forM xs f)"
  by (induction xs) (auto simp: Pair intro!: retM bindM)

lemma forM_skip: "(\<And>x. x \<in> set xs \<Longrightarrow> within R (f x)) \<Longrightarrow> within R (forM_skip xs f)"
  by (induction xs) (auto simp: Pair intro!: retM bindM within_tryM)

lemmas rules = retM errM panicM stallM getM Pair liftE bindM deferM forM forM_skip

end

subsection \<open>Which requests are sent\<close>

definition appends :: "(event \<Rightarrow> bool) \<Rightarrow> ('w, 'c) sys \<Rightarrow> ('w, 'c) sys \<Rightarrow> bool" where
  "appends P s t \<longleftrightarrow> (\<exists>es. trace t = trace s @ es \<and> list_all P es)"

text \<open>\<open>emits P m\<close>: a run of \<open>m\<close> only sends requests satisfying \<open>P\<close>.\<close>

abbreviation emits :: "(event \<Rightarrow> bool) \<Rightarrow> ('w, 'c, 'a) go \<Rightarrow> bool" where
  "emits P \<equiv> within (appends P)"

interpretation appends: run_relation "appends P" for P
proof unfold_locales
  show "appends P s s" for s :: "('w, 'c) sys"
    by (simp add: appends_def)
  show "appends P s u" if "appends P s t" "appends P t u" for s t u :: "('w, 'c) sys"
    using that by (auto simp: appends_def)
qed

lemmas [emits_rules] = appends.rules

lemma appends_mono: "appends P s t \<Longrightarrow> (\<And>e. P e \<Longrightarrow> Q e) \<Longrightarrow> appends Q s t"
  unfolding appends_def by (metis list.pred_mono_strong)

lemma emits_mono: "emits P m \<Longrightarrow> (\<And>e. P e \<Longrightarrow> Q e) \<Longrightarrow> emits Q m"
  by (erule within_mono) (erule appends_mono)

lemma emits_any: "emits P m \<Longrightarrow> emits (\<lambda>_. True) m"
  by (erule emits_mono) simp

lemma appends_same: "trace t = trace s \<Longrightarrow> appends P s t"
  by (simp add: appends_def)

lemma emits_modM: "(\<And>s. trace (f s) = trace s) \<Longrightarrow> emits P (modM f)"
  by (simp add: within_def appends_same)

lemma call_appends: "(\<And>e. P (Event r e)) \<Longrightarrow> appends P s (snd (call ans r s))"
  by (auto simp: appends_def call_def split: prod.split sum.split)

lemma emits_call: "(\<And>e. P (Event r e)) \<Longrightarrow> emits P (call ans r)"
  by (simp add: within_def call_appends)

lemma emits_cache [emits_rules]:
  "emits P (cacheGet E r k)" "emits P (cacheSet E r k v)" "emits P (cacheDelete E r k)"
  "emits P (cacheItems E r)" "emits P (cacheNew E)"
  by (simp_all add: within_def cache_run cacheNew_def appends_same)

text \<open>The requests of one run, oldest first.\<close>

definition sent :: "('w, 'c, 'a) go \<Rightarrow> ('w, 'c) sys \<Rightarrow> event list" where
  "sent m s = drop (length (trace s)) (trace (snd (m s)))"

lemma emits_sent: "emits P m \<Longrightarrow> list_all P (sent m s)"
  unfolding within_def appends_def sent_def by (metis append_eq_conv_conj)

subsection \<open>Which caches are written\<close>

text \<open>\<open>onlyCaches A s t\<close>: apart from the outside world and the trace, only caches in \<open>A\<close> differ.\<close>

definition onlyCaches :: "nat set \<Rightarrow> ('w, 'c) sys \<Rightarrow> ('w, 'c) sys \<Rightarrow> bool" where
  "onlyCaches A s t \<longleftrightarrow> nextRef t = nextRef s \<and> configCache t = configCache s \<and>
     m_AWSCluster t = m_AWSCluster s \<and> m_ControlPlane t = m_ControlPlane s \<and>
     m_Cluster t = m_Cluster s \<and> (\<forall>i. i \<notin> A \<longrightarrow> caches t i = caches s i)"

interpretation onlyCaches: run_relation "onlyCaches A" for A
  by unfold_locales (simp_all add: onlyCaches_def)

lemma call_onlyCaches: "onlyCaches A s (snd (call ans r s))"
  by (simp add: onlyCaches_def call_def split: prod.split sum.split)

lemma onlyCaches_mono: "onlyCaches A s t \<Longrightarrow> A \<subseteq> B \<Longrightarrow> onlyCaches B s t"
  by (auto simp: onlyCaches_def)

subsection \<open>Runs that keep an invariant\<close>

text \<open>
  \<open>safe I P m Q\<close>: started with \<open>I\<close>, a run of \<open>m\<close> sends only requests satisfying \<open>P\<close> and ends
  with \<open>I\<close>, whatever its outcome; when it returns a value, the value satisfies \<open>Q\<close>.
\<close>

definition safe ::
  "(('w, 'c) sys \<Rightarrow> bool) \<Rightarrow> (event \<Rightarrow> bool) \<Rightarrow> ('w, 'c, 'a) go \<Rightarrow> ('a \<Rightarrow> bool) \<Rightarrow> bool" where
  "safe I P m Q \<longleftrightarrow> (\<forall>s. I s \<longrightarrow>
     appends P s (snd (m s)) \<and> I (snd (m s)) \<and> (\<forall>x. fst (m s) = Ok x \<longrightarrow> Q x))"

named_theorems safe_rules \<open>syntax-directed rules for safe\<close>

lemma safe_within:
  assumes "within R m" and "\<And>s t. I s \<Longrightarrow> R s t \<Longrightarrow> appends P s t \<and> I t"
  shows "safe I P m (\<lambda>_. True)"
  using assms unfolding safe_def within_def by blast

lemma safe_conseq: "safe I P m Q \<Longrightarrow> (\<And>x. Q x \<Longrightarrow> Q' x) \<Longrightarrow> safe I P m Q'"
  unfolding safe_def by blast

lemma safe_retM [safe_rules]: "Q x \<Longrightarrow> safe I P (retM x) Q"
  by (simp add: safe_def appends.refl)

lemma safe_errM [safe_rules]: "safe I P (errM e) Q"
  by (simp add: safe_def appends.refl)

lemma safe_panicM [safe_rules]: "safe I P panicM Q"
  by (simp add: safe_def appends.refl)

lemma safe_bindM [safe_rules]:
  assumes m: "safe I P m Q" and f: "\<And>x. Q x \<Longrightarrow> safe I P (f x) Q'"
  shows "safe I P (bindM m f) Q'"
  unfolding safe_def
proof (intro allI impI)
  fix s assume I: "I s"
  obtain r t where run: "bindM m f s = (r, t)" by (cases "bindM m f s")
  then have "appends P s t \<and> I t \<and> (\<forall>x. r = Ok x \<longrightarrow> Q' x)"
  proof (cases rule: bindM_cases)
    case (Ok x u)
    have u: "appends P s u" "I u" "Q x"
      using m I Ok(1) unfolding safe_def by (metis fst_conv snd_conv)+
    then have "appends P u t" "I t" "\<forall>x. r = Ok x \<longrightarrow> Q' x"
      using f [OF u(3)] Ok(2) unfolding safe_def by (metis fst_conv snd_conv)+
    with u show ?thesis using appends.trans by blast
  next
    case (Err e)
    then show ?thesis using m I unfolding safe_def by (metis outcome.distinct(1) snd_conv)
  next
    case (Halt h)
    then show ?thesis using m I unfolding safe_def by (metis outcome.distinct(3) snd_conv)
  qed
  with run show "appends P s (snd (bindM m f s)) \<and> I (snd (bindM m f s)) \<and>
      (\<forall>x. fst (bindM m f s) = Ok x \<longrightarrow> Q' x)"
    by simp
qed

lemma safe_tryM [safe_rules]:
  assumes "safe I P m Q"
  shows "safe I P (tryM m) (\<lambda>r. case r of Inl _ \<Rightarrow> True | Inr x \<Rightarrow> Q x)"
  using assms unfolding safe_def tryM_state
  by (auto simp: tryM_def split: prod.splits outcome.splits)

lemma safe_if [safe_rules]:
  "(b \<Longrightarrow> safe I P m Q) \<Longrightarrow> (\<not> b \<Longrightarrow> safe I P n Q) \<Longrightarrow> safe I P (if b then m else n) Q"
  by simp

lemma safe_case_option [safe_rules]:
  "(x = None \<Longrightarrow> safe I P m Q) \<Longrightarrow> (\<And>y. x = Some y \<Longrightarrow> safe I P (f y) Q) \<Longrightarrow>
   safe I P (case x of None \<Rightarrow> m | Some y \<Rightarrow> f y) Q"
  by (cases x) simp_all

lemma safe_case_sum [safe_rules]:
  "(\<And>y. x = Inl y \<Longrightarrow> safe I P (f y) Q) \<Longrightarrow> (\<And>y. x = Inr y \<Longrightarrow> safe I P (g y) Q) \<Longrightarrow>
   safe I P (case x of Inl y \<Rightarrow> f y | Inr y \<Rightarrow> g y) Q"
  by (cases x) simp_all

lemma safe_Let [safe_rules]: "safe I P (f x) Q \<Longrightarrow> safe I P (Let x f) Q"
  by simp

lemma safe_forM [safe_rules]:
  "(\<And>x. x \<in> set xs \<Longrightarrow> safe I P (f x) (\<lambda>_. True)) \<Longrightarrow> safe I P (forM xs f) (\<lambda>_. True)"
proof (induction xs)
  case Nil
  then show ?case by (simp add: safe_def appends.refl)
next
  case (Cons x xs)
  then show ?case by (auto intro!: safe_bindM [where Q = "\<lambda>_. True"])
qed

lemma safe_emits: "emits P m \<Longrightarrow> safe (\<lambda>_. True) P m (\<lambda>_. True)"
  by (rule safe_within) auto

lemma safe_call:
  "(\<And>e. P (Event q e)) \<Longrightarrow> (\<And>w x w'. ans q w = (Inr x, w') \<Longrightarrow> Q x) \<Longrightarrow> safe (\<lambda>_. True) P (call ans q) Q"
  unfolding safe_def by (auto simp: call_appends) (auto simp: call_def split: prod.splits sum.splits)

lemma safe_sent: "safe I P m Q \<Longrightarrow> I s \<Longrightarrow> list_all P (sent m s)"
  unfolding safe_def appends_def sent_def by (metis append_eq_conv_conj)

subsection \<open>Which request comes after which\<close>

lemma sent_bindM_Ok:
  assumes "m s = (Ok x, u)" "emits P m" "emits Q (f x)"
  shows "sent (bindM m f) s = sent m s @ sent (f x) u"
proof -
  obtain es where es: "trace u = trace s @ es"
    using withinD [OF assms(2,1)] by (auto simp: appends_def)
  obtain r t where t: "f x u = (r, t)" by (cases "f x u")
  obtain es' where "trace t = trace u @ es'"
    using withinD [OF assms(3) t] by (auto simp: appends_def)
  with es t assms(1) show ?thesis by (simp add: sent_def bindM_def)
qed

lemma sent_bindM_stop:
  "(\<And>x. fst (m s) \<noteq> Ok x) \<Longrightarrow> sent (bindM m f) s = sent m s"
  by (cases "m s"; cases "fst (m s)") (auto simp: sent_def bindM_def)

text \<open>A request that only the second part of a sequence can send tells that the first succeeded.\<close>

lemma sent_by_second:
  assumes "emits (\<lambda>e. \<not> F e) m" "\<And>x. emits (\<lambda>_. True) (f x)"
    and "e \<in> set (sent (bindM m f) s)" "F e"
  shows "\<exists>x u. m s = (Ok x, u) \<and> e \<in> set (sent (f x) u) \<and>
    sent (bindM m f) s = sent m s @ sent (f x) u"
proof -
  have no: "e \<notin> set (sent m s)"
    using emits_sent [OF assms(1), of s] assms(4) by (auto simp: list_all_iff)
  obtain o' u where run: "m s = (o', u)" by (cases "m s")
  show ?thesis
  proof (cases o')
    case (Ok x)
    have sent: "sent (bindM m f) s = sent m s @ sent (f x) u"
      using run [unfolded Ok] assms(1,2) by (rule sent_bindM_Ok)
    with no assms(3) have "e \<in> set (sent (f x) u)" by simp
    with sent run Ok show ?thesis by (intro exI [of _ x] exI [of _ u]) simp
  next
    case (Err e')
    with run no assms(3) show ?thesis by (simp add: sent_bindM_stop)
  next
    case (Halt h)
    with run no assms(3) show ?thesis by (simp add: sent_bindM_stop)
  qed
qed

text \<open>\<open>strict m\<close>: a run of \<open>m\<close> that returns a value has had no request fail.\<close>

definition strict :: "('w, 'c, 'a) go \<Rightarrow> bool" where
  "strict m \<longleftrightarrow> emits (\<lambda>_. True) m \<and>
     (\<forall>s x. fst (m s) = Ok x \<longrightarrow> list_all (\<lambda>e. ev_err e = None) (sent m s))"

named_theorems strict_rules \<open>syntax-directed rules for strict\<close>

lemma strict_emits: "strict m \<Longrightarrow> emits (\<lambda>_. True) m"
  by (simp add: strict_def)

lemma strict_quiet: "emits (\<lambda>_. False) m \<Longrightarrow> strict m"
  unfolding strict_def using emits_sent [of "\<lambda>_. False" m] emits_mono [of "\<lambda>_. False" m "\<lambda>_. True"]
  by (auto simp: list_all_iff)

lemma strict_pure [strict_rules]:
  "strict (retM x)" "strict (errM e)" "strict panicM" "strict (getM g)" "strict (liftE y)"
  "strict (cacheGet E r k)" "strict (cacheSet E r k v)" "strict (cacheDelete E r k)" "strict (cacheItems E r)"
  by (rule strict_quiet, rule emits_rules)+

lemma strict_call [strict_rules]: "strict (call ans r)"
  by (auto simp: strict_def sent_def call_def emits_call split: prod.splits sum.splits)

lemma strict_bindM [strict_rules]:
  assumes m: "strict m" and f: "\<And>x. strict (f x)"
  shows "strict (bindM m f)"
  unfolding strict_def
proof (intro conjI allI impI)
  show "emits (\<lambda>_. True) (bindM m f)"
    by (intro emits_rules strict_emits m f)
  fix s y assume "fst (bindM m f s) = Ok y"
  then obtain t where "bindM m f s = (Ok y, t)" by (metis prod.collapse)
  then obtain x u where u: "m s = (Ok x, u)" "f x u = (Ok y, t)" by (rule bindM_OkE)
  have "list_all (\<lambda>e. ev_err e = None) (sent m s)" "list_all (\<lambda>e. ev_err e = None) (sent (f x) u)"
    using m f [of x] u by (simp_all add: strict_def)
  then show "list_all (\<lambda>e. ev_err e = None) (sent (bindM m f) s)"
    by (simp add: sent_bindM_Ok [OF u(1) strict_emits [OF m] strict_emits [OF f]])
qed

lemma strict_if [strict_rules]: "strict m \<Longrightarrow> strict n \<Longrightarrow> strict (if b then m else n)"
  by simp

lemma strict_case_option [strict_rules]:
  "strict m \<Longrightarrow> (\<And>y. strict (f y)) \<Longrightarrow> strict (case x of None \<Rightarrow> m | Some y \<Rightarrow> f y)"
  by (cases x) simp_all

lemma strict_Let [strict_rules]: "strict (f x) \<Longrightarrow> strict (Let x f)"
  by simp

lemma strict_forM [strict_rules]: "(\<And>x. strict (f x)) \<Longrightarrow> strict (forM xs f)"
proof (induction xs)
  case Nil
  show ?case unfolding forM.simps by (rule strict_pure)
next
  case (Cons x xs)
  show ?case unfolding forM.simps by (intro strict_bindM Cons.IH Cons.prems)
qed

lemma strict_cval [strict_rules]:
  "(\<And>x. strict (f x)) \<Longrightarrow> (\<And>x. strict (g x)) \<Longrightarrow> (\<And>x. strict (h x)) \<Longrightarrow> (\<And>x. strict (k x)) \<Longrightarrow>
   strict (case v of CStr x \<Rightarrow> f x | CBool x \<Rightarrow> g x | CRRSet x \<Rightarrow> h x | CRoute53 x \<Rightarrow> k x)"
  by (cases v) simp_all

end
