(* ===== verification/Scenario.thy ===== *)
theory Scenario
  imports World
begin

text \<open>
  A concrete environment, on which the witnesses of the properties run: a go-cache without
  expiry (an association list), AWS and Kubernetes services with constant answers that a
  witness replaces where it needs others, and the finalizer, annotation and condition
  helpers as the libraries document them. It shows that the hypotheses the properties make
  about code outside the repository can hold.
\<close>

definition okAns :: "'a \<Rightarrow> ('w, 'a) answer" where
  "okAns x r w = (Inr x, w)"

definition errAns :: "go_error \<Rightarrow> ('w, 'a) answer" where
  "errAns e r w = (Inl e, w)"

lemma ans_simps [simp]: "okAns x r w = (Inr x, w)" "errAns e r w = (Inl e, w)"
  by (simp_all add: okAns_def errAns_def)

definition listCache :: "('w, (string \<times> cval) list) gocache" where
  "listCache = \<lparr>gc_new = [], gc_get = (\<lambda>w. map_of), gc_set = (\<lambda>w. AList.update),
     gc_delete = AList.delete, gc_items = (\<lambda>w. AList.clearjunk)\<rparr>"

lemma listCache_sel [simp]:
  "gc_new listCache = []" "gc_get listCache w = map_of" "gc_set listCache w = AList.update"
  "gc_delete listCache = AList.delete" "gc_items listCache w = AList.clearjunk"
  by (simp_all add: listCache_def)

lemma listCache_laws: "gocache_laws listCache"
  unfolding gocache_laws_def
  by (auto simp: update_conv' delete_conv' map_of_clearjunk distinct_clearjunk)

definition demoAWS :: "'w aws_api" where
  "demoAWS = \<lparr>a_done = okAns (), a_id = okAns ''id-1'', a_zones = okAns [], a_rrsets = okAns [],
     a_securityGroups = okAns [], a_instances = okAns ([], False), a_prefixLists = okAns [],
     a_entries = okAns [], a_gateways = okAns [], a_attachments = okAns [],
     a_routeTables = okAns (Some []), a_shares = okAns [], a_rules = okAns ([], None),
     a_rule = okAns \<lparr>sr_Arn = ''arn:rule'', sr_Id = ''rslvr-rr-1'', sr_TargetIps = [],
       sr_Name = ''giantswarm-wc'', sr_OwnerId = ''1234''\<rparr>,
     a_endpoints = okAns [], a_endpoint = okAns \<lparr>se_Id = ''rslvr-in-1''\<rparr>, a_ips = okAns [],
     a_associations = okAns ([], None)\<rparr>"

definition demoAWSCluster :: AWSCluster where
  "demoAWSCluster = \<lparr>om_Kind = ''AWSCluster'', om_Name = ''wc'', om_Namespace = ''org'',
     om_Annotations = [], om_Finalizers = [], om_Deleting = False, om_ResourceVersion = ''1'',
     ac_Region = ''eu-west-1'', ac_IdentityRef = Some ''default'', ac_AdditionalTags = None,
     ac_ControlPlaneHost = ''api.example.com'', ac_VPC_ID = ''vpc-1'',
     ac_VPC_CidrBlock = ''10.0.0.0/16'', ac_Subnets = [], ac_S3Bucket = None,
     ac_Conditions = [], ac_SecurityGroups = []\<rparr>"

definition demoControlPlane :: AWSManagedControlPlane where
  "demoControlPlane = \<lparr>om_Kind = ''AWSManagedControlPlane'', om_Name = ''wc'',
     om_Namespace = ''org'', om_Annotations = [], om_Finalizers = [], om_Deleting = False,
     om_ResourceVersion = ''1'', mcp_Region = ''eu-west-1'', mcp_IdentityRef = Some ''default'',
     mcp_AdditionalTags = None, mcp_ControlPlaneHost = ''https://api.example.com'',
     mcp_VPC_ID = ''vpc-1'', mcp_VPC_CidrBlock = ''10.0.0.0/16'', mcp_Subnets = [],
     mcp_Conditions = []\<rparr>"

definition demoCluster :: CapiCluster where
  "demoCluster = \<lparr>om_Kind = ''Cluster'', om_Name = ''wc'', om_Namespace = ''org'',
     om_Annotations = [], om_Finalizers = [], om_Deleting = False, om_ResourceVersion = ''1'',
     cc_Paused = None, cc_ControlPlaneRef = None, cc_InfrastructureName = ''wc'',
     cc_Conditions = []\<rparr>"

definition demoEC2NodeClass :: EC2NodeClassSpec where
  "demoEC2NodeClass = \<lparr>ec_SubnetSelectorTerms = [], ec_SecurityGroupSelectorTerms = [],
     ec_AMISelectorTerms = [], ec_AMIFamily = None, ec_InstanceProfile = Some ''profile'', ec_Tags = None,
     ec_BlockDeviceMappings = [], ec_InstanceStorePolicy = None, ec_MetadataOptions = None,
     ec_CapacityReservationSelectorTerms = [], ec_AssociatePublicIPAddress = None, ec_UserData = None,
     ec_Role = '''', ec_Kubelet = None, ec_DetailedMonitoring = None, ec_Context = None\<rparr>"

definition demoKMP :: KarpenterMachinePool where
  "demoKMP = \<lparr>om_Kind = ''KarpenterMachinePool'', om_Name = ''pool'', om_Namespace = ''org'',
     om_Annotations = [], om_Finalizers = [], om_Deleting = False, om_ResourceVersion = ''1'',
     kmp_NodePool = None, kmp_EC2NodeClass = Some demoEC2NodeClass, kmp_ProviderIDList = [],
     kmp_Ready = False, kmp_Replicas = 0, kmp_Conditions = []\<rparr>"

definition demoMachinePool :: MachinePool where
  "demoMachinePool = \<lparr>om_Kind = ''MachinePool'', om_Name = ''pool'', om_Namespace = ''org'',
     om_Annotations = [], om_Finalizers = [], om_Deleting = False, om_ResourceVersion = ''1'',
     mp_DataSecretName = Some ''secret'', mp_Version = ''1.30.0'', mp_Replicas = None\<rparr>"

definition demoKube :: "'w kube" where
  "demoKube = \<lparr>k_AWSCluster = okAns demoAWSCluster, k_ControlPlane = okAns demoControlPlane,
     k_Cluster = okAns demoCluster, k_RoleIdentity = okAns \<lparr>ri_RoleArn = ''arn:aws:iam::1234:role/gs''\<rparr>,
     k_done = okAns (), k_KMP = okAns demoKMP, k_OwnerMachinePool = okAns (Some demoMachinePool),
     k_MachinePool = okAns demoMachinePool, k_Secret = okAns [(''value'', ''data'')],
     k_RESTMapping = okAns ''v1beta1'',
     k_Unstructured = okAns (JObj [(''status'', JObj [(''version'', JStr ''1.31.0'')])]),
     k_NodeClaims = okAns [],
     k_ConfigMap = okAns \<lparr>cm_Name = ''wc-crossplane-config'', cm_Namespace = ''org'', cm_Labels = [], cm_Data = Some []\<rparr>,
     k_ProviderConfig = okAns \<lparr>pc_Name = ''wc'', pc_Namespace = ''org'', pc_Spec = None\<rparr>\<rparr>"

definition condTrue :: Condition where
  "condTrue = \<lparr>cd_Status = ''True'', cd_Reason = '''', cd_Severity = '''', cd_Message = ''''\<rparr>"

text \<open>An ARN is six fields separated by colons, the resource taking the rest.\<close>

definition demoArnParse :: "string \<Rightarrow> go_error + ARN" where
  "demoArnParse s = (case splitOn CHR '':'' s of
      a # p # sv # rg # acc # res \<Rightarrow>
        if a = ''arn'' \<and> res \<noteq> [] then Inr \<lparr>arn_AccountID = acc, arn_Resource = joinWith '':'' res\<rparr>
        else Inl (ErrorString ''arn: invalid prefix'')
    | _ \<Rightarrow> Inl (ErrorString ''arn: not enough sections''))"

text \<open>\<^verbatim>\<open>unstructured.NestedString\<close>: a missing field is not found, a field of another type an error.\<close>

fun demoNestedString :: "json \<Rightarrow> string list \<Rightarrow> go_error + string option" where
  "demoNestedString (JStr v) [] = Inr (Some v)"
| "demoNestedString (JObj o') (f # fs) = (case map_of o' f of
      None \<Rightarrow> Inr None | Some j \<Rightarrow> demoNestedString j fs)"
| "demoNestedString _ _ = Inl (ErrorString ''unexpected type'')"

text \<open>Versions of three numbers.\<close>

definition demoNumber :: "string \<Rightarrow> nat" where
  "demoNumber s = foldl (\<lambda>n c. 10 * n + ((of_char c :: nat) - 48)) 0 s"

definition demoParseTolerant :: "string \<Rightarrow> go_error + Semver" where
  "demoParseTolerant s = (case splitOn CHR ''.'' (trimPrefix s ''v'') of
      [a, b, c] \<Rightarrow> Inr \<lparr>sv_Major = demoNumber a, sv_Minor = demoNumber b, sv_Patch = demoNumber c, sv_Pre = []\<rparr>
    | _ \<Rightarrow> Inl (ErrorString ''invalid version''))"

definition demoGE :: "Semver \<Rightarrow> Semver \<Rightarrow> bool" where
  "demoGE v w = (sv_Major v > sv_Major w \<or> sv_Major v = sv_Major w \<and>
     (sv_Minor v > sv_Minor w \<or> sv_Minor v = sv_Minor w \<and> sv_Patch v \<ge> sv_Patch w))"

text \<open>The host of a URL whose authority is just a host name.\<close>

definition demoHostname :: "string \<Rightarrow> go_error + string" where
  "demoHostname u = (if hasPrefix u ''https://''
     then Inr (takeWhile (\<lambda>c. c \<noteq> CHR ''/'') (trimPrefix u ''https://'')) else Inr '''')"

definition demoLib :: lib where
  "demoLib = \<lparr>
     l_AddFinalizer = (\<lambda>fs f. if f \<in> set fs then (fs, False) else (fs @ [f], True)),
     l_RemoveFinalizer = (\<lambda>fs f. filter (\<lambda>g. g \<noteq> f) fs),
     l_ContainsFinalizer = (\<lambda>fs f. f \<in> set fs),
     l_IsPaused = (\<lambda>c as. cc_Paused c = Some True \<or> ghas as ''cluster.x-k8s.io/paused''),
     l_HasPaused = (\<lambda>as. ghas as ''cluster.x-k8s.io/paused''),
     l_CondIsTrue = (\<lambda>cs t. case map_of cs t of Some c \<Rightarrow> cd_Status c = ''True'' | None \<Rightarrow> False),
     l_CondHas = (\<lambda>cs t. map_of cs t \<noteq> None),
     l_CondSet = (\<lambda>cs t c. AList.update t c cs),
     l_MarkTrue = (\<lambda>cs t. AList.update t condTrue cs),
     l_MarkFalse = (\<lambda>cs t r sv m. AList.update t
        \<lparr>cd_Status = ''False'', cd_Reason = r, cd_Severity = sv, cd_Message = m\<rparr> cs),
     l_arnParse = demoArnParse,
     l_PausedAnnotation = ''cluster.x-k8s.io/paused'',
     l_AWSDNSMode = ''aws.giantswarm.io/dns-mode'', l_DNSModePrivate = ''private'',
     l_AWSVPCMode = ''aws.giantswarm.io/vpc-mode'', l_AWSVPCModePrivate = ''private'',
     l_AWSDNSAdditionalVPC = ''aws.giantswarm.io/dns-assign-additional-vpc'',
     l_NetworkWildcardCNAMETarget = ''network.giantswarm.io/wildcard-cname-target'',
     l_ResolverRulesOwnerAWSAccountId = ''aws.giantswarm.io/resolver-rules-owner-account'',
     l_NetworkTopologyMode = ''network-topology.giantswarm.io/mode'',
     l_ModeGiantSwarmManaged = ''GiantSwarmManaged'', l_ModeUserManaged = ''UserManaged'',
     l_ModeNone = ''None'',
     l_NetworkTopologyTransitGatewayID = ''network-topology.giantswarm.io/transit-gateway'',
     l_NetworkTopologyPrefixListID = ''network-topology.giantswarm.io/prefix-list'',
     l_VpcReadyCondition = ''VpcReady'', l_SubnetsReadyCondition = ''SubnetsReady'',
     l_SecurityGroupControlPlane = ''controlplane'', l_SecurityGroupNode = ''node'',
     l_NestedString = demoNestedString, l_ParseTolerant = demoParseTolerant, l_GE = demoGE, l_NewPatchHelper = (\<lambda>o'. Inr ()), l_urlHostname = demoHostname,
     l_AMIFamilyAL2023 = ''AL2023'', l_AMIFamilyCustom = ''Custom'',
     l_yamlMarshal = (\<lambda>j. Inr ''values'')\<rparr>"

lemma demoLib_finalizers: "finalizer_laws demoLib"
  by (auto simp: finalizer_laws_def demoLib_def)

definition demoLoadConfig :: "config_opts \<Rightarrow> 'w \<Rightarrow> (go_error + aws_config) \<times> 'w" where
  "demoLoadConfig co w = (Inr
     \<lparr>cf_Region = (case co_Region co of Some r \<Rightarrow> r | None \<Rightarrow> ''us-east-1''),
      cf_Endpoint = (case co_Endpoint co of Some e \<Rightarrow> e | None \<Rightarrow> ''''),
      cf_Creds = (case co_Role co of Some r \<Rightarrow> r | None \<Rightarrow> '''')\<rparr>, w)"

definition demoEnv :: "('w, (string \<times> cval) list) env" where
  "demoEnv = \<lparr>e_aws = demoAWS, e_kube = demoKube, e_cache = listCache, e_lib = demoLib,
     e_loadConfig = demoLoadConfig, e_now = (\<lambda>w. 1000), e_getenv = (\<lambda>v. ''''), e_fuel = 10\<rparr>"

definition demoSys :: "(unit, (string \<times> cval) list) sys" where
  "demoSys = \<lparr>world = (), trace = [], caches = (\<lambda>_. []), nextRef = 10, configCache = [],
     m_AWSCluster = demoAWSCluster, m_ControlPlane = demoControlPlane, m_Cluster = demoCluster,
     m_KMP = demoKMP, m_MachinePool = demoMachinePool\<rparr>"

definition demoCreds :: creds where
  "demoCreds = \<lparr>c_region = ''eu-west-1'', c_endpoint = '''', c_role = ''arn:aws:iam::1234:role/gs'',
     c_chainedRole = '''', c_externalId = ''''\<rparr>"

definition demoRoute53 :: Route53 where
  "demoRoute53 = \<lparr>r53_client = demoCreds, r53_upsertCache = 0, r53_zoneIdToNSRecordCache = 1,
     r53_zoneNameToIdCache = 2\<rparr>"

lemmas demo_defs = demoCreds_def demoRoute53_def demoEnv_def demoSys_def demoAWS_def demoKube_def demoLib_def
  demoAWSCluster_def demoControlPlane_def demoCluster_def condTrue_def demoArnParse_def demoLoadConfig_def
  demoKMP_def demoMachinePool_def demoEC2NodeClass_def demoParseTolerant_def demoGE_def demoNumber_def demoHostname_def

lemma demoEnv_sel [simp]:
  "e_cache demoEnv = listCache" "e_lib demoEnv = demoLib" "e_aws demoEnv = demoAWS"
  "e_kube demoEnv = demoKube" "e_fuel demoEnv = 10"
  by (simp_all add: demoEnv_def)

end
