(* ===== verification/K8s_Client.thy ===== *)
theory K8s_Client
  imports Scenario
begin

text \<open>
  \<^verbatim>\<open>pkg/k8sclient\<close>: reading the cluster objects and patching them. A reconciliation holds the
  object it works on by pointer; that object is a cell of the state. A patch sends the object
  as it was and as it is now; when the API server accepts it, the cell holds what the server
  answered, and when it does not, the cell keeps the local change.
\<close>

section \<open>The cells\<close>

definition holdAWSCluster :: "AWSCluster \<Rightarrow> ('w, 'c, unit) go" where
  "holdAWSCluster c = modM (\<lambda>s. s\<lparr>m_AWSCluster := c\<rparr>)"

definition holdControlPlane :: "AWSManagedControlPlane \<Rightarrow> ('w, 'c, unit) go" where
  "holdControlPlane c = modM (\<lambda>s. s\<lparr>m_ControlPlane := c\<rparr>)"

definition holdCluster :: "CapiCluster \<Rightarrow> ('w, 'c, unit) go" where
  "holdCluster c = modM (\<lambda>s. s\<lparr>m_Cluster := c\<rparr>)"

text \<open>Change the object in the cell, send the request made of its old and its new value, and
  keep the server's answer.\<close>

definition patchAWSCluster ::
  "('w, 'c) env \<Rightarrow> (AWSCluster \<Rightarrow> AWSCluster) \<Rightarrow> (AWSCluster \<Rightarrow> AWSCluster \<Rightarrow> k8s_op) \<Rightarrow> ('w, 'c, unit) go" where
  "patchAWSCluster E f req =
     bindM (getM m_AWSCluster) (\<lambda>original.
     bindM (holdAWSCluster (f original)) (\<lambda>_.
     bindM (call (k_AWSCluster (e_kube E)) (K8sReq (req original (f original)))) holdAWSCluster))"

definition patchControlPlane ::
  "('w, 'c) env \<Rightarrow> (AWSManagedControlPlane \<Rightarrow> AWSManagedControlPlane) \<Rightarrow>
   (AWSManagedControlPlane \<Rightarrow> AWSManagedControlPlane \<Rightarrow> k8s_op) \<Rightarrow> ('w, 'c, unit) go" where
  "patchControlPlane E f req =
     bindM (getM m_ControlPlane) (\<lambda>original.
     bindM (holdControlPlane (f original)) (\<lambda>_.
     bindM (call (k_ControlPlane (e_kube E)) (K8sReq (req original (f original)))) holdControlPlane))"

definition patchCluster ::
  "('w, 'c) env \<Rightarrow> (CapiCluster \<Rightarrow> CapiCluster) \<Rightarrow> (CapiCluster \<Rightarrow> CapiCluster \<Rightarrow> k8s_op) \<Rightarrow> ('w, 'c, unit) go" where
  "patchCluster E f req =
     bindM (getM m_Cluster) (\<lambda>original.
     bindM (holdCluster (f original)) (\<lambda>_.
     bindM (call (k_Cluster (e_kube E)) (K8sReq (req original (f original)))) holdCluster))"

section \<open>Reading\<close>

definition GetAWSCluster :: "('w, 'c) env \<Rightarrow> string \<Rightarrow> string \<Rightarrow> ('w, 'c, AWSCluster) go" where
  "GetAWSCluster E ns name = call (k_AWSCluster (e_kube E)) (K8sReq (K8sGet ''AWSCluster'' ns name))"

definition GetAWSManagedControlPlane ::
  "('w, 'c) env \<Rightarrow> string \<Rightarrow> string \<Rightarrow> ('w, 'c, AWSManagedControlPlane) go" where
  "GetAWSManagedControlPlane E ns name =
     call (k_ControlPlane (e_kube E)) (K8sReq (K8sGet ''AWSManagedControlPlane'' ns name))"

definition GetCluster :: "('w, 'c) env \<Rightarrow> string \<Rightarrow> string \<Rightarrow> ('w, 'c, CapiCluster) go" where
  "GetCluster E ns name = call (k_Cluster (e_kube E)) (K8sReq (K8sGet ''Cluster'' ns name))"

text \<open>An object without \<^verbatim>\<open>identityRef\<close> has no identity: the result is nil, without an error.\<close>

definition ClusterClient_GetIdentity ::
  "('w, 'c) env \<Rightarrow> string option \<Rightarrow> ('w, 'c, RoleIdentity option) go" where
  "ClusterClient_GetIdentity E identityRef =
     (case identityRef of
        None \<Rightarrow> retM None
      | Some name \<Rightarrow>
        bindM (call (k_RoleIdentity (e_kube E)) (K8sReq (K8sGet ''AWSClusterRoleIdentity'' '''' name)))
          (\<lambda>i. retM (Some i)))"

definition AWSClusterClient_GetIdentity ::
  "('w, 'c) env \<Rightarrow> AWSCluster \<Rightarrow> ('w, 'c, RoleIdentity option) go" where
  "AWSClusterClient_GetIdentity E awsCluster =
     (case ac_IdentityRef awsCluster of
        None \<Rightarrow> retM None
      | Some name \<Rightarrow>
        bindM (call (k_RoleIdentity (e_kube E))
            (K8sReq (K8sGet ''AWSClusterRoleIdentity'' (om_Namespace awsCluster) name)))
          (\<lambda>i. retM (Some i)))"

section \<open>Patching\<close>

definition AddFinalizer :: "('w, 'c) env \<Rightarrow> string \<Rightarrow> ('w, 'c, unit) go" where
  "AddFinalizer E f =
     patchAWSCluster E (om_Finalizers_update (\<lambda>fs. fst (l_AddFinalizer (e_lib E) fs f)))
       (\<lambda>old new. K8sPatchAWSCluster old new True)"

definition RemoveFinalizer :: "('w, 'c) env \<Rightarrow> string \<Rightarrow> ('w, 'c, unit) go" where
  "RemoveFinalizer E f =
     patchAWSCluster E (om_Finalizers_update (\<lambda>fs. l_RemoveFinalizer (e_lib E) fs f))
       (\<lambda>old new. K8sPatchAWSCluster old new True)"

text \<open>The \<^verbatim>\<open>ClusterClient\<close> only patches when the finalizer is new.\<close>

definition AddAWSClusterFinalizer :: "('w, 'c) env \<Rightarrow> string \<Rightarrow> ('w, 'c, unit) go" where
  "AddAWSClusterFinalizer E f =
     bindM (getM m_AWSCluster) (\<lambda>c.
     if snd (l_AddFinalizer (e_lib E) (om_Finalizers c) f)
     then patchAWSCluster E (om_Finalizers_update (\<lambda>fs. fst (l_AddFinalizer (e_lib E) fs f)))
            (\<lambda>old new. K8sPatchAWSCluster old new True)
     else holdAWSCluster (om_Finalizers_update (\<lambda>fs. fst (l_AddFinalizer (e_lib E) fs f)) c))"

definition AddAWSManagedControlPlaneFinalizer :: "('w, 'c) env \<Rightarrow> string \<Rightarrow> ('w, 'c, unit) go" where
  "AddAWSManagedControlPlaneFinalizer E f =
     bindM (getM m_ControlPlane) (\<lambda>c.
     if snd (l_AddFinalizer (e_lib E) (om_Finalizers c) f)
     then patchControlPlane E (om_Finalizers_update (\<lambda>fs. fst (l_AddFinalizer (e_lib E) fs f)))
            (\<lambda>old new. K8sPatchControlPlane old new True)
     else holdControlPlane (om_Finalizers_update (\<lambda>fs. fst (l_AddFinalizer (e_lib E) fs f)) c))"

definition AddClusterFinalizer :: "('w, 'c) env \<Rightarrow> string \<Rightarrow> ('w, 'c, unit) go" where
  "AddClusterFinalizer E f =
     bindM (getM m_Cluster) (\<lambda>c.
     if snd (l_AddFinalizer (e_lib E) (om_Finalizers c) f)
     then patchCluster E (om_Finalizers_update (\<lambda>fs. fst (l_AddFinalizer (e_lib E) fs f)))
            (\<lambda>old new. K8sPatchCluster old new True)
     else holdCluster (om_Finalizers_update (\<lambda>fs. fst (l_AddFinalizer (e_lib E) fs f)) c))"

definition RemoveAWSClusterFinalizer :: "('w, 'c) env \<Rightarrow> string \<Rightarrow> ('w, 'c, unit) go" where
  "RemoveAWSClusterFinalizer E f =
     patchAWSCluster E (om_Finalizers_update (\<lambda>fs. l_RemoveFinalizer (e_lib E) fs f))
       (\<lambda>old new. K8sPatchAWSCluster old new True)"

definition RemoveAWSManagedControlPlaneFinalizer :: "('w, 'c) env \<Rightarrow> string \<Rightarrow> ('w, 'c, unit) go" where
  "RemoveAWSManagedControlPlaneFinalizer E f =
     patchControlPlane E (om_Finalizers_update (\<lambda>fs. l_RemoveFinalizer (e_lib E) fs f))
       (\<lambda>old new. K8sPatchControlPlane old new True)"

definition RemoveClusterFinalizer :: "('w, 'c) env \<Rightarrow> string \<Rightarrow> ('w, 'c, unit) go" where
  "RemoveClusterFinalizer E f =
     patchCluster E (om_Finalizers_update (\<lambda>fs. l_RemoveFinalizer (e_lib E) fs f))
       (\<lambda>old new. K8sPatchCluster old new True)"

definition AWSClusterClient_MarkConditionTrue :: "('w, 'c) env \<Rightarrow> string \<Rightarrow> ('w, 'c, unit) go" where
  "AWSClusterClient_MarkConditionTrue E cond =
     patchAWSCluster E (ac_Conditions_update (\<lambda>cs. l_MarkTrue (e_lib E) cs cond)) K8sStatusPatchAWSCluster"

definition ClusterClient_MarkConditionTrue :: "('w, 'c) env \<Rightarrow> string \<Rightarrow> ('w, 'c, unit) go" where
  "ClusterClient_MarkConditionTrue E cond =
     patchCluster E (cc_Conditions_update (\<lambda>cs. l_MarkTrue (e_lib E) cs cond)) K8sStatusPatchCluster"

definition Unpause :: "('w, 'c) env \<Rightarrow> ('w, 'c, unit) go" where
  "Unpause E =
     bindM (patchCluster E
         (\<lambda>c. c\<lparr>cc_Paused := Some False,
                om_Annotations := AList.delete (l_PausedAnnotation (e_lib E)) (om_Annotations c)\<rparr>)
         (\<lambda>old new. K8sPatchCluster old new False)) (\<lambda>_.
     patchAWSCluster E
         (\<lambda>c. c\<lparr>om_Annotations := AList.delete (l_PausedAnnotation (e_lib E)) (om_Annotations c)\<rparr>)
         (\<lambda>old new. K8sPatchAWSCluster old new False))"

text \<open>The other client has the same operation.\<close>

definition ClusterClient_Unpause :: "('w, 'c) env \<Rightarrow> ('w, 'c, unit) go" where
  "ClusterClient_Unpause E =
     bindM (patchCluster E
         (\<lambda>c. c\<lparr>cc_Paused := Some False,
                om_Annotations := AList.delete (l_PausedAnnotation (e_lib E)) (om_Annotations c)\<rparr>)
         (\<lambda>old new. K8sPatchCluster old new False)) (\<lambda>_.
     patchAWSCluster E
         (\<lambda>c. c\<lparr>om_Annotations := AList.delete (l_PausedAnnotation (e_lib E)) (om_Annotations c)\<rparr>)
         (\<lambda>old new. K8sPatchAWSCluster old new False))"

text \<open>\<^verbatim>\<open>PatchCluster\<close> with a merge patch from a given earlier version of the object.\<close>

definition PatchCluster :: "('w, 'c) env \<Rightarrow> AWSCluster \<Rightarrow> ('w, 'c, unit) go" where
  "PatchCluster E base =
     bindM (getM m_AWSCluster) (\<lambda>cluster.
     bindM (call (k_AWSCluster (e_kube E)) (K8sReq (K8sPatchAWSCluster base cluster False))) holdAWSCluster)"

definition UpdateStatus :: "('w, 'c) env \<Rightarrow> ('w, 'c, unit) go" where
  "UpdateStatus E =
     bindM (getM m_AWSCluster) (\<lambda>cluster.
     bindM (call (k_AWSCluster (e_kube E)) (K8sReq (K8sStatusUpdateAWSCluster cluster))) holdAWSCluster)"

section \<open>Requests sent\<close>

lemma emits_hold [emits_rules]:
  "emits P (holdAWSCluster a)" "emits P (holdControlPlane b)" "emits P (holdCluster c)"
  unfolding holdAWSCluster_def holdControlPlane_def holdCluster_def by (rule emits_modM; simp)+

text \<open>A read of the management cluster, and a write to it.\<close>

definition k8sRead :: "event \<Rightarrow> bool" where
  "k8sRead e \<longleftrightarrow> (\<exists>k ns n. ev_req e = K8sReq (K8sGet k ns n))"

definition k8sEvent :: "event \<Rightarrow> bool" where
  "k8sEvent e \<longleftrightarrow> (\<exists>x. ev_req e = K8sReq x)"

lemma emits_read [emits_rules]:
  "emits k8sRead (GetAWSCluster E ns n)" "emits k8sRead (GetAWSManagedControlPlane E ns n)"
  "emits k8sRead (GetCluster E ns n)" "emits k8sRead (ClusterClient_GetIdentity E i)"
  "emits k8sRead (AWSClusterClient_GetIdentity E c)"
  unfolding GetAWSCluster_def GetAWSManagedControlPlane_def GetCluster_def
    ClusterClient_GetIdentity_def AWSClusterClient_GetIdentity_def
  by (intro emits_rules emits_call, simp add: k8sRead_def)+

lemma k8sRead_event: "k8sRead e \<Longrightarrow> k8sEvent e"
  by (auto simp: k8sRead_def k8sEvent_def)

lemma emits_patch [emits_rules]:
  "emits k8sEvent (patchAWSCluster E f q)" "emits k8sEvent (patchControlPlane E g q')"
  "emits k8sEvent (patchCluster E h q'')"
  unfolding patchAWSCluster_def patchControlPlane_def patchCluster_def
  by (intro emits_rules emits_call, simp add: k8sEvent_def)+

lemma emits_finalizer [emits_rules]:
  "emits k8sEvent (AddFinalizer E f)" "emits k8sEvent (RemoveFinalizer E f)"
  "emits k8sEvent (AddAWSClusterFinalizer E f)" "emits k8sEvent (RemoveAWSClusterFinalizer E f)"
  "emits k8sEvent (AddAWSManagedControlPlaneFinalizer E f)"
  "emits k8sEvent (RemoveAWSManagedControlPlaneFinalizer E f)"
  unfolding AddFinalizer_def RemoveFinalizer_def AddAWSClusterFinalizer_def RemoveAWSClusterFinalizer_def
    AddAWSManagedControlPlaneFinalizer_def RemoveAWSManagedControlPlaneFinalizer_def
  by (intro emits_rules)+

lemma emits_status [emits_rules]:
  "emits k8sEvent (AWSClusterClient_MarkConditionTrue E c)" "emits k8sEvent (UpdateStatus E)"
  "emits k8sEvent (PatchCluster E b)" "emits k8sEvent (Unpause E)"
  unfolding AWSClusterClient_MarkConditionTrue_def UpdateStatus_def PatchCluster_def Unpause_def
  by (intro emits_rules emits_call; simp add: k8sEvent_def)+

section \<open>Finalizers and the server's copy\<close>

text \<open>
  A request that removes a finalizer: the object had it, and the patched object has not.
\<close>

definition removesFinalizer :: "string \<Rightarrow> event \<Rightarrow> bool" where
  "removesFinalizer f e = (case ev_req e of
      K8sReq x \<Rightarrow> (case x of
          K8sPatchAWSCluster old new lock \<Rightarrow> f \<in> set (om_Finalizers old) \<and> f \<notin> set (om_Finalizers new)
        | K8sPatchControlPlane old new lock \<Rightarrow> f \<in> set (om_Finalizers old) \<and> f \<notin> set (om_Finalizers new)
        | K8sPatchCluster old new lock \<Rightarrow> f \<in> set (om_Finalizers old) \<and> f \<notin> set (om_Finalizers new)
        | K8sPatchKarpenterMachinePool old new \<Rightarrow> f \<in> set (om_Finalizers old) \<and> f \<notin> set (om_Finalizers new)
        | _ \<Rightarrow> False)
    | _ \<Rightarrow> False)"

lemma not_k8s_removes: "isAWS (ev_req e) \<Longrightarrow> \<not> removesFinalizer f e"
  by (cases "ev_req e") (auto simp: removesFinalizer_def)

text \<open>What adding a finalizer leaves in the cell when it succeeds: either the finalizer was
  there already, or the server's copy of the patched object.\<close>

lemma patchAWSCluster_run:
  assumes "k_AWSCluster (e_kube E) (K8sReq (req (m_AWSCluster s) (f (m_AWSCluster s)))) (world s) = (Inr c, w)"
  shows "patchAWSCluster E f req s =
     (Ok (), (logged (K8sReq (req (m_AWSCluster s) (f (m_AWSCluster s)))) None w
        (s\<lparr>m_AWSCluster := f (m_AWSCluster s)\<rparr>))\<lparr>m_AWSCluster := c\<rparr>)"
  using assms by (simp add: patchAWSCluster_def bindM_def holdAWSCluster_def call_def)

end
