(* ===== verification/Controllers_Common.thy ===== *)
theory Controllers_Common
  imports K8s_Client
begin

text \<open>
  What the controllers share: \<^verbatim>\<open>controllers/package.go\<close> (building the resolver's view of a cluster,
  the event filters, the transit gateway and prefix list of a cluster), \<^verbatim>\<open>pkg/util/annotations\<close>
  and \<^verbatim>\<open>pkg/conditions\<close>; and the protocol by which all of them use finalizers, as a locale
  that each controller's theory interprets on its own operations.
\<close>

section \<open>Annotations\<close>

definition GetAnnotation :: "gomap \<Rightarrow> string \<Rightarrow> string" where
  "GetAnnotation annotations annotation = gget annotations annotation"

definition hasAnnotation :: "gomap \<Rightarrow> string \<Rightarrow> bool" where
  "hasAnnotation annotations annotation = ghas annotations annotation"

text \<open>\<^verbatim>\<open>AddAnnotations\<close> only writes the values that differ.\<close>

fun AddAnnotations :: "gomap \<Rightarrow> gomap \<Rightarrow> gomap" where
  "AddAnnotations annotations [] = annotations"
| "AddAnnotations annotations ((k, v) # desired) =
     AddAnnotations
       (if \<not> ghas annotations k \<or> gget annotations k \<noteq> v then AList.update k v annotations else annotations)
       desired"

definition HasNetworkTopologyMode :: "lib \<Rightarrow> gomap \<Rightarrow> bool" where
  "HasNetworkTopologyMode L o' = hasAnnotation o' (l_NetworkTopologyMode L)"

definition IsNetworkTopologyModeGiantSwarmManaged :: "lib \<Rightarrow> gomap \<Rightarrow> bool" where
  "IsNetworkTopologyModeGiantSwarmManaged L o' =
     (GetAnnotation o' (l_NetworkTopologyMode L) = l_ModeGiantSwarmManaged L)"

definition IsNetworkTopologyModeUserManaged :: "lib \<Rightarrow> gomap \<Rightarrow> bool" where
  "IsNetworkTopologyModeUserManaged L o' =
     (GetAnnotation o' (l_NetworkTopologyMode L) = l_ModeUserManaged L)"

definition IsNetworkTopologyModeNone :: "lib \<Rightarrow> gomap \<Rightarrow> bool" where
  "IsNetworkTopologyModeNone L o' = (GetAnnotation o' (l_NetworkTopologyMode L) = l_ModeNone L)"

definition GetNetworkTopologyTransitGateway :: "lib \<Rightarrow> gomap \<Rightarrow> string" where
  "GetNetworkTopologyTransitGateway L o' = GetAnnotation o' (l_NetworkTopologyTransitGatewayID L)"

definition GetNetworkTopologyPrefixList :: "lib \<Rightarrow> gomap \<Rightarrow> string" where
  "GetNetworkTopologyPrefixList L o' = GetAnnotation o' (l_NetworkTopologyPrefixListID L)"

definition SetNetworkTopologyTransitGateway :: "lib \<Rightarrow> string \<Rightarrow> gomap \<Rightarrow> gomap" where
  "SetNetworkTopologyTransitGateway L transitGatewayID o' =
     AddAnnotations o' [(l_NetworkTopologyTransitGatewayID L, transitGatewayID)]"

definition SetNetworkTopologyPrefixList :: "lib \<Rightarrow> string \<Rightarrow> gomap \<Rightarrow> gomap" where
  "SetNetworkTopologyPrefixList L prefixList o' =
     AddAnnotations o' [(l_NetworkTopologyPrefixListID L, prefixList)]"

section \<open>Conditions\<close>

definition NetworkTopologyCondition :: string where
  "NetworkTopologyCondition = ''NetworkTopologyReady''"

definition TransitGatewayCreated :: string where
  "TransitGatewayCreated = ''TransitGatewayCreated''"

definition TransitGatewayAttached :: string where
  "TransitGatewayAttached = ''TransitGatewayAttached''"

definition PrefixListEntriesReady :: string where
  "PrefixListEntriesReady = ''PrefixListEntriesReady''"

definition MarkReady :: "('w, 'c) env \<Rightarrow> string \<Rightarrow> ('w, 'c, unit) go" where
  "MarkReady E condition =
     modM (\<lambda>s. s\<lparr>m_AWSCluster :=
       ac_Conditions_update (\<lambda>cs. l_MarkTrue (e_lib E) cs condition) (m_AWSCluster s)\<rparr>)"

definition MarkModeNotSupported :: "('w, 'c) env \<Rightarrow> ('w, 'c, unit) go" where
  "MarkModeNotSupported E = modM (\<lambda>s. s\<lparr>m_Cluster := cc_Conditions_update (\<lambda>cs.
     l_MarkFalse (e_lib E) cs NetworkTopologyCondition ''ModeNotSupported'' ''Info''
       (''The provided mode '' @ [CHR 0x27] @
        GetAnnotation (om_Annotations (m_Cluster s)) (l_NetworkTopologyMode (e_lib E)) @
        [CHR 0x27] @ '' is not supported'')) (m_Cluster s)\<rparr>)"

definition MarkVPCNotReady :: "('w, 'c) env \<Rightarrow> ('w, 'c, unit) go" where
  "MarkVPCNotReady E = modM (\<lambda>s. s\<lparr>m_Cluster := cc_Conditions_update (\<lambda>cs.
     l_MarkFalse (e_lib E) cs NetworkTopologyCondition ''VPCNotReady'' ''Info''
       (''The cluster'' @ [CHR 0x27] @ ''s VPC is not yet ready'')) (m_Cluster s)\<rparr>)"

definition MarkIDNotProvided :: "('w, 'c) env \<Rightarrow> string \<Rightarrow> ('w, 'c, unit) go" where
  "MarkIDNotProvided E id' = modM (\<lambda>s. s\<lparr>m_Cluster := cc_Conditions_update (\<lambda>cs.
     l_MarkFalse (e_lib E) cs NetworkTopologyCondition ''RequiredIDMissing'' ''Error''
       (''The '' @ id' @ '' ID is missing from the annotations'')) (m_Cluster s)\<rparr>)"

section \<open>Clusters\<close>

definition DnsFinalizer :: string where
  "DnsFinalizer = ''capa-operator.finalizers.giantswarm.io/dns-controller''"

definition DNSHostedZoneNameAnnotation :: string where
  "DNSHostedZoneNameAnnotation = ''network.giantswarm.io/dns-hosted-zone-name''"

definition DNSBaseDomainAnnotation :: string where
  "DNSBaseDomainAnnotation = ''network.giantswarm.io/base-domain''"

definition AWSDNSDelegationIdentityAnnotation :: string where
  "AWSDNSDelegationIdentityAnnotation = ''aws.giantswarm.io/dns-delegation-identity''"

definition getSubnetIds :: "SubnetSpec list \<Rightarrow> string list" where
  "getSubnetIds subnets =
     map sn_ResourceID (filter (\<lambda>subnet. ghas (sn_Tags subnet) ''subnet.giantswarm.io/endpoints'') subnets)"

definition buildClusterFromAWSCluster ::
  "lib \<Rightarrow> AWSCluster \<Rightarrow> RoleIdentity \<Rightarrow> RoleIdentity option \<Rightarrow> RoleIdentity option \<Rightarrow> Cluster" where
  "buildClusterFromAWSCluster L awsCluster identity mcIdentity delegationIdentity =
     (let a = om_Annotations awsCluster in
     \<lparr>cl_AdditionalTags = nilmap (ac_AdditionalTags awsCluster),
      cl_VPCsToAssociateToHostedZone =
        (if ghas a (l_AWSDNSAdditionalVPC L) then splitOn CHR '','' (gget a (l_AWSDNSAdditionalVPC L)) else []),
      cl_Name = om_Name awsCluster,
      cl_ControlPlaneEndpoint = ac_ControlPlaneHost awsCluster,
      cl_WildcardCNAMETarget = gget a (l_NetworkWildcardCNAMETarget L),
      cl_IsDnsModePrivate = (gget a (l_AWSDNSMode L) = l_DNSModePrivate L),
      cl_IsVpcModePrivate = (gget a (l_AWSVPCMode L) = l_AWSVPCModePrivate L),
      cl_IsEKS = False,
      cl_Region = ac_Region awsCluster,
      cl_VPCCidr = ac_VPC_CidrBlock awsCluster,
      cl_VPCId = ac_VPC_ID awsCluster,
      cl_IAMRoleARN = ri_RoleArn identity,
      cl_MCIAMRoleARN = (case mcIdentity of None \<Rightarrow> '''' | Some i \<Rightarrow> ri_RoleArn i),
      cl_Subnets = getSubnetIds (ac_Subnets awsCluster),
      cl_CustomHostedZoneName = gget a DNSHostedZoneNameAnnotation,
      cl_DelegationIAMRoleARN = (case delegationIdentity of None \<Rightarrow> '''' | Some i \<Rightarrow> ri_RoleArn i),
      cl_BaseDomain = gget a DNSBaseDomainAnnotation\<rparr>)"

definition buildClusterFromAWSManagedControlPlane ::
  "lib \<Rightarrow> AWSManagedControlPlane \<Rightarrow> RoleIdentity \<Rightarrow> RoleIdentity option \<Rightarrow> RoleIdentity option \<Rightarrow> Cluster" where
  "buildClusterFromAWSManagedControlPlane L cp identity mcIdentity delegationIdentity =
     (let a = om_Annotations cp in
     \<lparr>cl_AdditionalTags = nilmap (mcp_AdditionalTags cp),
      cl_VPCsToAssociateToHostedZone =
        (if ghas a (l_AWSDNSAdditionalVPC L) then splitOn CHR '','' (gget a (l_AWSDNSAdditionalVPC L)) else []),
      cl_Name = om_Name cp,
      cl_ControlPlaneEndpoint = mcp_ControlPlaneHost cp,
      cl_WildcardCNAMETarget = gget a (l_NetworkWildcardCNAMETarget L),
      cl_IsDnsModePrivate = (gget a (l_AWSDNSMode L) = l_DNSModePrivate L),
      cl_IsVpcModePrivate = (gget a (l_AWSVPCMode L) = l_AWSVPCModePrivate L),
      cl_IsEKS = True,
      cl_Region = mcp_Region cp,
      cl_VPCCidr = mcp_VPC_CidrBlock cp,
      cl_VPCId = mcp_VPC_ID cp,
      cl_IAMRoleARN = ri_RoleArn identity,
      cl_MCIAMRoleARN = (case mcIdentity of None \<Rightarrow> '''' | Some i \<Rightarrow> ri_RoleArn i),
      cl_Subnets = getSubnetIds (mcp_Subnets cp),
      cl_CustomHostedZoneName = gget a DNSHostedZoneNameAnnotation,
      cl_DelegationIAMRoleARN = (case delegationIdentity of None \<Rightarrow> '''' | Some i \<Rightarrow> ri_RoleArn i),
      cl_BaseDomain = gget a DNSBaseDomainAnnotation\<rparr>)"

definition getTransitGatewayARN :: "lib \<Rightarrow> AWSCluster \<Rightarrow> AWSCluster \<Rightarrow> string" where
  "getTransitGatewayARN L cluster managementCluster =
     (let transitGatewayARN = GetNetworkTopologyTransitGateway L (om_Annotations cluster) in
      if transitGatewayARN \<noteq> '''' then transitGatewayARN
      else GetNetworkTopologyTransitGateway L (om_Annotations managementCluster))"

definition getPrefixListARN :: "lib \<Rightarrow> AWSCluster \<Rightarrow> AWSCluster \<Rightarrow> string" where
  "getPrefixListARN L cluster managementCluster =
     (let prefixListARN = GetNetworkTopologyPrefixList L (om_Annotations cluster) in
      if prefixListARN \<noteq> '''' then prefixListARN
      else GetNetworkTopologyPrefixList L (om_Annotations managementCluster))"

section \<open>Event filters\<close>

text \<open>The status of an \<^verbatim>\<open>AWSCluster\<close>, as far as the operator uses it, is its conditions and the
  security groups of its network.\<close>

definition withoutStatus :: "AWSCluster \<Rightarrow> AWSCluster" where
  "withoutStatus c = c\<lparr>ac_Conditions := [], ac_SecurityGroups := [], om_ResourceVersion := ''''\<rparr>"

definition predicateToFilterAWSClusterResourceVersionChanges :: "AWSCluster \<Rightarrow> AWSCluster \<Rightarrow> bool" where
  "predicateToFilterAWSClusterResourceVersionChanges objectOld objectNew =
     (if om_Kind objectOld \<noteq> ''AWSCluster'' then True
      else withoutStatus objectOld \<noteq> withoutStatus objectNew)"

definition controlPlaneWithoutStatus :: "AWSManagedControlPlane \<Rightarrow> AWSManagedControlPlane" where
  "controlPlaneWithoutStatus c = c\<lparr>mcp_Conditions := [], om_ResourceVersion := ''''\<rparr>"

definition predicateToFilterAWSManagedControlPlaneResourceVersionChanges ::
  "AWSManagedControlPlane \<Rightarrow> AWSManagedControlPlane \<Rightarrow> bool" where
  "predicateToFilterAWSManagedControlPlaneResourceVersionChanges objectOld objectNew =
     (if om_Kind objectOld \<noteq> ''AWSManagedControlPlane'' then True
      else controlPlaneWithoutStatus objectOld \<noteq> controlPlaneWithoutStatus objectNew)"

section \<open>Results of a reconciliation\<close>

record Result =
  res_RequeueAfter :: nat

definition noRequeue :: Result where
  "noRequeue = \<lparr>res_RequeueAfter = 0\<rparr>"

definition requeueAfter :: "nat \<Rightarrow> Result" where
  "requeueAfter seconds = \<lparr>res_RequeueAfter = seconds\<rparr>"

text \<open>\<^verbatim>\<open>return ctrl.Result{}, client.IgnoreNotFound(err)\<close>\<close>

definition ignoreNotFound :: "go_error \<Rightarrow> ('w, 'c, Result) go" where
  "ignoreNotFound e = (if isNotFound e then retM noRequeue else errM e)"

lemma emits_ignoreNotFound [emits_rules]: "emits P (ignoreNotFound e)"
  unfolding ignoreNotFound_def by (intro emits_rules)

lemma emits_MarkReady [emits_rules]: "emits P (MarkReady E c)"
  unfolding MarkReady_def by (rule emits_modM) simp

section \<open>The finalizer protocol\<close>

text \<open>
  How a controller uses its finalizer. Before it makes anything in AWS it puts the finalizer
  on the object; before it removes the finalizer it cleans up in AWS. The interface asks only
  that the first steps do not already do what the second steps are for.
\<close>

locale finalizer_protocol =
  fixes fin :: string
    and add :: "('w, 'c) env \<Rightarrow> 'x \<Rightarrow> ('w, 'c, unit) go"
    and provide :: "('w, 'c) env \<Rightarrow> 'x \<Rightarrow> ('w, 'c, 'b) go"
    and cleanup :: "('w, 'c) env \<Rightarrow> 'x \<Rightarrow> ('w, 'c, unit) go"
    and remove :: "('w, 'c) env \<Rightarrow> 'x \<Rightarrow> ('w, 'c, 'd) go"
  assumes add_k8s: "emits k8sEvent (add E x)"
    and provide_any: "emits (\<lambda>_. True) (provide E x)"
    and cleanup_aws: "emits (\<lambda>e. isAWS (ev_req e)) (cleanup E x)"
    and remove_any: "emits (\<lambda>_. True) (remove E x)"
begin

text \<open>Nothing is made in AWS unless the finalizer is on the object.\<close>

lemma provided_after_finalizer:
  assumes "e \<in> set (sent (bindM (add E x) (\<lambda>_. provide E x)) s)" "isAWS (ev_req e)"
  shows "\<exists>t. add E x s = (Ok (), t) \<and> e \<in> set (sent (provide E x) t)"
proof -
  have quiet: "emits (\<lambda>e. \<not> isAWS (ev_req e)) (add E x)"
    using add_k8s by (rule emits_mono) (auto simp: k8sEvent_def)
  from sent_by_second [where F = "\<lambda>e. isAWS (ev_req e)", OF quiet provide_any assms]
  show ?thesis by auto
qed

text \<open>The finalizer is not removed unless the clean-up has succeeded.\<close>

lemma removed_after_cleanup:
  assumes "e \<in> set (sent (bindM (cleanup E x) (\<lambda>_. remove E x)) s)" "removesFinalizer fin e"
  shows "\<exists>t. cleanup E x s = (Ok (), t) \<and> e \<in> set (sent (remove E x) t) \<and>
    sent (bindM (cleanup E x) (\<lambda>_. remove E x)) s = sent (cleanup E x) s @ sent (remove E x) t"
proof -
  have quiet: "emits (\<lambda>e. \<not> removesFinalizer fin e) (cleanup E x)"
    using cleanup_aws by (rule emits_mono) (rule not_k8s_removes)
  from sent_by_second [where F = "removesFinalizer fin", OF quiet remove_any assms]
  show ?thesis by auto
qed

text \<open>The same for code that looks at the error of the clean-up, and then sends nothing more.\<close>

lemma removed_after_tried_cleanup:
  assumes "e \<in> set (sent (bindM (tryM (cleanup E x)) (\<lambda>r. case r of Inl e \<Rightarrow> h e | Inr _ \<Rightarrow> remove E x)) s)"
    and "removesFinalizer fin e" and "\<And>e. emits (\<lambda>_. False) (h e)"
  shows "\<exists>t. cleanup E x s = (Ok (), t) \<and> e \<in> set (sent (remove E x) t)"
proof -
  have quiet: "emits (\<lambda>e. \<not> removesFinalizer fin e) (tryM (cleanup E x))"
    using cleanup_aws by (intro within_tryM emits_mono [OF cleanup_aws]) (rule not_k8s_removes)
  have any: "emits (\<lambda>_. True) (case r of Inl e \<Rightarrow> h e | Inr _ \<Rightarrow> remove E x)" for r
    by (intro emits_rules remove_any emits_any [OF assms(3)])
  from sent_by_second [where F = "removesFinalizer fin", OF quiet any assms(1,2)]
  obtain r u where r: "tryM (cleanup E x) s = (Ok r, u)"
    and e: "e \<in> set (sent (case r of Inl e \<Rightarrow> h e | Inr _ \<Rightarrow> remove E x) u)" by blast
  show ?thesis
  proof (cases r)
    case (Inl e')
    with e emits_sent [OF assms(3), of e' u] show ?thesis by (simp add: list_all_iff)
  next
    case (Inr y)
    with r e show ?thesis by (auto simp: tryM_def split: prod.splits outcome.splits)
  qed
qed

lemma failed_cleanup:
  "fst (cleanup E x s) \<noteq> Ok () \<Longrightarrow> sent (bindM (cleanup E x) (\<lambda>_. remove E x)) s = sent (cleanup E x) s"
  by (rule sent_bindM_stop) simp

end

section \<open>Lemmas\<close>

lemma gget_AddAnnotations:
  "gget (AddAnnotations m desired) k =
     (case map_of (rev desired) k of Some v \<Rightarrow> v | None \<Rightarrow> gget m k)"
proof (induction m desired rule: AddAnnotations.induct)
  case (1 m)
  then show ?case by simp
next
  case (2 m k' v desired)
  have "gget (if \<not> ghas m k' \<or> gget m k' \<noteq> v then AList.update k' v m else m) k = (if k = k' then v else gget m k)"
    by (auto simp: gget_update)
  with 2 show ?case by (auto simp: map_of_append map_add_def split: option.split)
qed

text \<open>An update that changes only the status or the resource version of an AWSCluster does not
  trigger a reconciliation, and any other change of the object does.\<close>

lemma status_updates_filtered:
  assumes "om_Kind old = ''AWSCluster''"
  shows "predicateToFilterAWSClusterResourceVersionChanges old
       (old\<lparr>ac_Conditions := cs, ac_SecurityGroups := sg, om_ResourceVersion := rv\<rparr>) = False \<and>
     (predicateToFilterAWSClusterResourceVersionChanges old new = False \<longrightarrow>
        new = old\<lparr>ac_Conditions := ac_Conditions new, ac_SecurityGroups := ac_SecurityGroups new,
          om_ResourceVersion := om_ResourceVersion new\<rparr>)"
proof -
  have "new = old\<lparr>ac_Conditions := ac_Conditions new, ac_SecurityGroups := ac_SecurityGroups new,
          om_ResourceVersion := om_ResourceVersion new\<rparr>" if "withoutStatus old = withoutStatus new"
    using that by (cases old; cases new) (simp add: withoutStatus_def)
  with assms show ?thesis
    by (simp add: predicateToFilterAWSClusterResourceVersionChanges_def) (simp add: withoutStatus_def)
qed

lemma status_updates_filtered_example:
  "predicateToFilterAWSClusterResourceVersionChanges demoAWSCluster
     (demoAWSCluster\<lparr>ac_Conditions := [(''VpcReady'', condTrue)], ac_SecurityGroups := [], om_ResourceVersion := ''2''\<rparr>) = False"
  using status_updates_filtered [where old = demoAWSCluster and cs = "[(''VpcReady'', condTrue)]" and sg = "[]" and rv = "''2''"]
  by (simp add: demoAWSCluster_def)

end
