(* ===== verification/Route53_Client.thy ===== *)
theory Route53_Client
  imports Scenario
begin

text \<open>
  \<^verbatim>\<open>pkg/aws/route53.go\<close>: hosted zones, resource records and delegation through one Route53
  client, with its three caches (zone name to zone id, zone id to NS record set, recent
  upserts). The operations come first, in the order of the source; then the lemmas: which
  requests a client may send, what lookups and deletions do, and that the upsert cache
  never hides a needed request.
\<close>

section \<open>Data\<close>

definition canonicalHostedZones :: gomap where
  "canonicalHostedZones =
    [(''us-east-2'', ''Z3AADJGX6KTTL2''), (''us-east-1'', ''Z35SXDOTRQ7X7K''),
     (''us-west-1'', ''Z368ELLRRE2KJ0''), (''us-west-2'', ''Z1H1FL5HABSF5''),
     (''ca-central-1'', ''ZQSVJUPU6J1EY''), (''ap-east-1'', ''Z3DQVH9N71FHZ0''),
     (''ap-south-1'', ''ZP97RAFLXTNZK''), (''ap-northeast-2'', ''ZWKZPGTI48KDX''),
     (''ap-northeast-3'', ''Z5LXEXXYW11ES''), (''ap-southeast-1'', ''Z1LMS91P8CMLE5''),
     (''ap-southeast-2'', ''Z1GM3OXH4ZPM65''), (''ap-northeast-1'', ''Z14GRHDCWA56QT''),
     (''eu-central-1'', ''Z215JYRZR1TBD5''), (''eu-west-1'', ''Z32O12XQLNTSW2''),
     (''eu-west-2'', ''ZHURV8PSTC4K8''), (''eu-west-3'', ''Z3Q77PNBQS71R4''),
     (''eu-north-1'', ''Z23TAZ6LKFMNIO''), (''eu-south-1'', ''Z3ULH7SSC9OV64''),
     (''sa-east-1'', ''Z2P70J7HTTTPLU''), (''cn-north-1'', ''Z1GDH35T77C1KE''),
     (''cn-northwest-1'', ''ZM7IZAIOVVDZF''), (''us-gov-west-1'', ''Z33AYJ8TM3BH4J''),
     (''us-gov-east-1'', ''Z166TLBEWOO7G0''), (''me-south-1'', ''ZS929ML54UICD''),
     (''af-south-1'', ''Z268VQBMOI5EKX'')]"

definition NewRoute53 :: "('w, 'c) env \<Rightarrow> creds \<Rightarrow> ('w, 'c, Route53) go" where
  "NewRoute53 E client =
     bindM (cacheNew E) (\<lambda>upsert.
     bindM (cacheNew E) (\<lambda>ns.
     bindM (cacheNew E) (\<lambda>ids.
       retM \<lparr>r53_client = client, r53_upsertCache = upsert,
             r53_zoneIdToNSRecordCache = ns, r53_zoneNameToIdCache = ids\<rparr>)))"

definition sanitizeZoneId :: "string \<Rightarrow> string" where
  "sanitizeZoneId zoneId = trimPrefix zoneId ''/hostedzone/''"

definition normalizeDnsName :: "string \<Rightarrow> string" where
  "normalizeDnsName name = toLower (trimSuffix name ''.'') @ ''.''"

definition haveSameDnsNames :: "string list \<Rightarrow> string list \<Rightarrow> bool" where
  "haveSameDnsNames names otherNames =
     (sort (map normalizeDnsName names) = sort (map normalizeDnsName otherNames))"

text \<open>The request of a client.\<close>

abbreviation r53req :: "Route53 \<Rightarrow> r53_op \<Rightarrow> request" where
  "r53req r x \<equiv> AWSReq (r53_client r) (Route53Op x)"

section \<open>Zones\<close>

definition tagHostedZone ::
  "('w, 'c) env \<Rightarrow> Route53 \<Rightarrow> string \<Rightarrow> gomap \<Rightarrow> ('w, 'c, unit) go" where
  "tagHostedZone E r hostedZoneId tags =
     (if tags = [] then retM ()
      else call (a_done (e_aws E)) (r53req r (R53_ChangeTagsForResource hostedZoneId tags)))"

definition associateHostedZoneWithAdditionalVPCs ::
  "('w, 'c) env \<Rightarrow> Route53 \<Rightarrow> string \<Rightarrow> string \<Rightarrow> string list \<Rightarrow> ('w, 'c, unit) go" where
  "associateHostedZoneWithAdditionalVPCs E r hostedZoneId region vpcsToAssociate =
     forM_skip vpcsToAssociate (\<lambda>vpc.
       call (a_done (e_aws E)) (r53req r (R53_AssociateVPCWithHostedZone hostedZoneId vpc region)))"

text \<open>The search in the answer of \<^verbatim>\<open>ListHostedZonesByName\<close>; a second match is an error.\<close>

fun findZoneId :: "string \<Rightarrow> HostedZone list \<Rightarrow> string \<Rightarrow> go_error + string" where
  "findZoneId wanted [] found = Inr found"
| "findZoneId wanted (z # zs) found =
     (if hz_Name z = wanted
      then if found \<noteq> ''''
        then Inl (ErrorString ''found two identical zone names in ListHostedZonesByName response'')
        else findZoneId wanted zs (sanitizeZoneId (hz_Id z))
      else findZoneId wanted zs found)"

definition GetHostedZoneIdByName ::
  "('w, 'c) env \<Rightarrow> Route53 \<Rightarrow> string \<Rightarrow> ('w, 'c, string) go" where
  "GetHostedZoneIdByName E r zoneName =
     bindM (cacheGet E (r53_zoneNameToIdCache r) zoneName) (\<lambda>cached.
     case cached of
       Some v \<Rightarrow> (case v of CStr zoneId \<Rightarrow> retM zoneId | _ \<Rightarrow> panicM)
     | None \<Rightarrow>
       bindM (call (a_zones (e_aws E)) (r53req r (R53_ListHostedZonesByName zoneName 100)))
         (\<lambda>hostedZones.
       bindM (liftE (findZoneId (trimSuffix zoneName ''.'' @ ''.'') hostedZones ''''))
         (\<lambda>foundZoneId.
       bindM (forM hostedZones (\<lambda>z.
                cacheSet E (r53_zoneNameToIdCache r) (trimSuffix (hz_Name z) ''.'')
                  (CStr (sanitizeZoneId (hz_Id z)))))
         (\<lambda>_. if foundZoneId = '''' then errM HostedZoneNotFoundError
              else retM foundZoneId))))"

definition Route53_CreateHostedZone ::
  "('w, 'c) env \<Rightarrow> Route53 \<Rightarrow> DnsZone \<Rightarrow> ('w, 'c, string) go" where
  "Route53_CreateHostedZone E r dnsZone =
     bindM (tryM (GetHostedZoneIdByName E r (dz_DnsName dnsZone))) (\<lambda>lookup.
     bindM
       (case lookup of
          Inr hostedZoneId \<Rightarrow> retM hostedZoneId
        | Inl e \<Rightarrow>
          if \<not> isHostedZoneNotFound e then errM e
          else
            bindM (getM (\<lambda>s. e_now E (world s))) (\<lambda>now.
            bindM (call (a_id (e_aws E)) (r53req r
                (R53_CreateHostedZone (dz_DnsName dnsZone) now ''Zone for CAPI cluster''
                  (dz_IsPrivate dnsZone)
                  (if dz_IsPrivate dnsZone then Some (dz_VPCId dnsZone, dz_Region dnsZone)
                   else None)))) (\<lambda>newId.
            bindM (cacheSet E (r53_zoneNameToIdCache r) (dz_DnsName dnsZone)
                (CStr (sanitizeZoneId newId))) (\<lambda>_.
              retM (sanitizeZoneId newId)))))
       (\<lambda>hostedZoneId.
     bindM (tagHostedZone E r hostedZoneId (dz_Tags dnsZone)) (\<lambda>_.
     bindM (if dz_IsPrivate dnsZone
            then associateHostedZoneWithAdditionalVPCs E r hostedZoneId (dz_Region dnsZone)
                   (dz_VPCsToAssociate dnsZone)
            else retM ()) (\<lambda>_.
       retM hostedZoneId))))"

text \<open>\<^verbatim>\<open>for zoneName, item := range zoneNameToIdCache.Items() { ... break }\<close>\<close>

fun forgetZoneId ::
  "('w, 'c) env \<Rightarrow> Route53 \<Rightarrow> string \<Rightarrow> (string \<times> cval) list \<Rightarrow> ('w, 'c, unit) go" where
  "forgetZoneId E r zoneId [] = retM ()"
| "forgetZoneId E r zoneId ((zoneName, v) # items) =
     (case v of
        CStr cachedZoneId \<Rightarrow>
          if cachedZoneId = zoneId then cacheDelete E (r53_zoneNameToIdCache r) zoneName
          else forgetZoneId E r zoneId items
      | _ \<Rightarrow> panicM)"

definition Route53_DeleteHostedZone ::
  "('w, 'c) env \<Rightarrow> Route53 \<Rightarrow> string \<Rightarrow> ('w, 'c, unit) go" where
  "Route53_DeleteHostedZone E r zoneId =
     bindM (cacheItems E (r53_zoneNameToIdCache r)) (\<lambda>items.
     bindM (forgetZoneId E r zoneId items) (\<lambda>_.
     bindM (tryM (call (a_done (e_aws E)) (r53req r (R53_DeleteHostedZone zoneId)))) (\<lambda>res.
       case res of
         Inr _ \<Rightarrow> retM ()
       | Inl e \<Rightarrow> if hasException NoSuchHostedZone e then retM () else errM e)))"

section \<open>Records\<close>

definition DnsRecordExists ::
  "('w, 'c) env \<Rightarrow> Route53 \<Rightarrow> string \<Rightarrow> string \<Rightarrow> ('w, 'c, bool) go" where
  "DnsRecordExists E r hostedZoneId recordName =
     bindM (call (a_rrsets (e_aws E)) (r53req r
         (R53_ListResourceRecordSets hostedZoneId (Some 1) (Some recordName) None))) (\<lambda>recordSets.
       retM (list_ex (\<lambda>recordSet. rrs_Name recordSet = trimSuffix recordName ''.'' @ ''.'') recordSets))"

definition GetHostedZoneNSRecord ::
  "('w, 'c) env \<Rightarrow> Route53 \<Rightarrow> string \<Rightarrow> string \<Rightarrow> ('w, 'c, DNSRecord) go" where
  "GetHostedZoneNSRecord E r zoneId zoneName =
     bindM (cacheGet E (r53_zoneIdToNSRecordCache r) zoneId) (\<lambda>cached.
     bindM
       (case cached of
          Some v \<Rightarrow> (case v of CRRSet recordSet \<Rightarrow> retM recordSet | _ \<Rightarrow> panicM)
        | None \<Rightarrow>
          bindM (call (a_rrsets (e_aws E)) (r53req r
              (R53_ListResourceRecordSets zoneId (Some 1) (Some zoneName) (Some ''NS'')))) (\<lambda>recordSets.
          if length recordSets \<noteq> 1
          then errM (ErrorString ''logic error - did not receive exactly one resource record set'')
          else if rrs_Type (hd recordSets) \<noteq> ''NS''
          then errM (ErrorString (''logic error - did not receive a resource record set of type NS (got name ''
                 @ quote (rrs_Name (hd recordSets)) @ '' and type ''
                 @ quote (rrs_Type (hd recordSets)) @ '')''))
          else if rrs_Records (hd recordSets) = []
          then errM (ErrorString ''did not receive any NS resource record'')
          else bindM (cacheSet E (r53_zoneIdToNSRecordCache r) zoneId (CRRSet (hd recordSets))) (\<lambda>_.
            retM (hd recordSets))))
       (\<lambda>recordSet.
         retM \<lparr>dr_Kind = rrs_Type recordSet, dr_Name = rrs_Name recordSet,
               dr_Values = rrs_Records recordSet, dr_Region = ''''\<rparr>))"

definition parentZoneCacheKey :: "string \<Rightarrow> DNSRecord \<Rightarrow> string" where
  "parentZoneCacheKey parentZoneId rec =
     ''parentZoneId='' @ quote parentZoneId @ ''/name='' @ quote (dr_Name rec)
       @ ''/values='' @ quote (joinWith '','' (dr_Values rec))"

definition AddDelegationToParentZone ::
  "('w, 'c) env \<Rightarrow> Route53 \<Rightarrow> string \<Rightarrow> DNSRecord \<Rightarrow> ('w, 'c, unit) go" where
  "AddDelegationToParentZone E r parentZoneId rec =
     (if dr_Values rec = [] then errM (ErrorString ''logic error - no NS resource records'')
      else
        bindM (cacheGet E (r53_upsertCache r) (parentZoneCacheKey parentZoneId rec)) (\<lambda>cached.
        case cached of
          Some _ \<Rightarrow> retM ()
        | None \<Rightarrow>
          bindM (call (a_done (e_aws E)) (r53req r
              (R53_ChangeResourceRecordSets parentZoneId
                [ChangeUpsert \<lparr>rrs_Name = dr_Name rec, rrs_Type = ''NS'', rrs_TTL = Some 300,
                   rrs_Records = dr_Values rec, rrs_Alias = None\<rparr>]))) (\<lambda>_.
            cacheSet E (r53_upsertCache r) (parentZoneCacheKey parentZoneId rec) (CBool True))))"

text \<open>
  \<^verbatim>\<open>record.Values[0]\<close> panics on a record without values, which the result \<open>None\<close> stands for.
\<close>

fun getAWSSdkChangesFromDnsRecords :: "DNSRecord list \<Rightarrow> Change list option" where
  "getAWSSdkChangesFromDnsRecords [] = Some []"
| "getAWSSdkChangesFromDnsRecords (rec # recs) =
     (if dr_Kind rec = DnsRecordTypeCname \<or> dr_Kind rec = DnsRecordTypeA
      then (case dr_Values rec of
          [] \<Rightarrow> None
        | v # _ \<Rightarrow> map_option
            ((#) (ChangeUpsert \<lparr>rrs_Name = dr_Name rec, rrs_Type = dr_Kind rec,
               rrs_TTL = Some 300, rrs_Records = [v], rrs_Alias = None\<rparr>))
            (getAWSSdkChangesFromDnsRecords recs))
      else if dr_Kind rec = DnsRecordTypeAlias
      then (case dr_Values rec of
          [] \<Rightarrow> None
        | v # _ \<Rightarrow> map_option
            ((#) (ChangeUpsert \<lparr>rrs_Name = dr_Name rec, rrs_Type = ''A'', rrs_TTL = None,
               rrs_Records = [],
               rrs_Alias = Some \<lparr>at_DNSName = v, at_EvaluateTargetHealth = False,
                 at_HostedZoneId = gget canonicalHostedZones (dr_Region rec)\<rparr>\<rparr>))
            (getAWSSdkChangesFromDnsRecords recs))
      else getAWSSdkChangesFromDnsRecords recs)"

definition recordHash :: "DNSRecord list \<Rightarrow> string" where
  "recordHash recs = concat (map (\<lambda>rec.
     quote (dr_Kind rec) @ '','' @ quote (dr_Name rec) @ '','' @ quote (joinWith '','' (dr_Values rec))) recs)"

definition zoneCacheKeyPrefix :: "string \<Rightarrow> string" where
  "zoneCacheKeyPrefix hostedZoneId = ''zoneId='' @ quote hostedZoneId @ ''/''"

definition zoneCacheKey :: "string \<Rightarrow> DNSRecord list \<Rightarrow> string" where
  "zoneCacheKey hostedZoneId recs =
     ''zoneId='' @ quote hostedZoneId @ ''/hash='' @ recordHash recs"

definition AddDnsRecordsToHostedZone ::
  "('w, 'c) env \<Rightarrow> Route53 \<Rightarrow> string \<Rightarrow> DNSRecord list \<Rightarrow> ('w, 'c, unit) go" where
  "AddDnsRecordsToHostedZone E r hostedZoneId dnsRecords =
     (if dnsRecords = [] then errM (ErrorString ''logic error - no DNS records given'')
      else
        bindM (cacheGet E (r53_upsertCache r) (zoneCacheKey hostedZoneId dnsRecords)) (\<lambda>cached.
        case cached of
          Some _ \<Rightarrow> retM ()
        | None \<Rightarrow>
          (case getAWSSdkChangesFromDnsRecords dnsRecords of
             None \<Rightarrow> panicM
           | Some changes \<Rightarrow>
             bindM (call (a_done (e_aws E)) (r53req r
                 (R53_ChangeResourceRecordSets hostedZoneId changes))) (\<lambda>_.
               cacheSet E (r53_upsertCache r) (zoneCacheKey hostedZoneId dnsRecords) (CBool True)))))"

definition purgeZoneKeys ::
  "('w, 'c) env \<Rightarrow> Route53 \<Rightarrow> string \<Rightarrow> ('w, 'c, unit) go" where
  "purgeZoneKeys E r hostedZoneId =
     bindM (cacheItems E (r53_upsertCache r)) (\<lambda>items.
     forM (map fst items) (\<lambda>cacheKey.
       if hasPrefix cacheKey (zoneCacheKeyPrefix hostedZoneId)
       then cacheDelete E (r53_upsertCache r) cacheKey else retM ()))"

text \<open>The body of the loop over the listed record sets.\<close>

definition deleteRecordBody ::
  "('w, 'c) env \<Rightarrow> Route53 \<Rightarrow> string \<Rightarrow> string \<Rightarrow> string \<Rightarrow> ResourceRecordSet \<Rightarrow> ('w, 'c, unit) go" where
  "deleteRecordBody E r z recordType wantedName recordSet =
     (if replaceAll (rrs_Name recordSet) (backslash # ''052'') ''*'' \<noteq> wantedName
         \<or> rrs_Type recordSet \<noteq> recordType
      then retM ()
      else
        bindM (call (a_done (e_aws E)) (r53req r (R53_ChangeResourceRecordSets z [ChangeDelete recordSet])))
          (\<lambda>_. purgeZoneKeys E r z))"

definition DeleteDnsRecord ::
  "('w, 'c) env \<Rightarrow> Route53 \<Rightarrow> string \<Rightarrow> DNSRecord \<Rightarrow> ('w, 'c, unit) go" where
  "DeleteDnsRecord E r hostedZoneId dnsRecord =
     (let recordType = (if dr_Kind dnsRecord = DnsRecordTypeAlias then ''A'' else dr_Kind dnsRecord);
          wantedName = trimSuffix (dr_Name dnsRecord) ''.'' @ ''.'' in
     bindM (call (a_rrsets (e_aws E)) (r53req r
         (R53_ListResourceRecordSets hostedZoneId (Some 1) (Some (dr_Name dnsRecord))
           (Some recordType)))) (\<lambda>recordSets.
     forM recordSets (deleteRecordBody E r hostedZoneId recordType wantedName)))"

definition DeleteDnsRecordsFromHostedZone ::
  "('w, 'c) env \<Rightarrow> Route53 \<Rightarrow> string \<Rightarrow> ('w, 'c, unit) go" where
  "DeleteDnsRecordsFromHostedZone E r hostedZoneId =
     bindM (call (a_rrsets (e_aws E)) (r53req r
         (R53_ListResourceRecordSets hostedZoneId None None None))) (\<lambda>recordSets.
     let changes = map ChangeDelete
           (filter (\<lambda>recordSet. \<not> (rrs_Type recordSet = ''SOA'' \<or> rrs_Type recordSet = ''NS'')) recordSets) in
     if changes = [] then retM ()
     else call (a_done (e_aws E)) (r53req r (R53_ChangeResourceRecordSets hostedZoneId changes)))"

section \<open>Removing a delegation\<close>

text \<open>A Go slice of strings under \<^verbatim>\<open>%q\<close>.\<close>

definition quoteList :: "string list \<Rightarrow> string" where
  "quoteList xs = ''['' @ joinWith '' '' (map quote xs) @ '']''"

fun deleteDelegation ::
  "('w, 'c) env \<Rightarrow> Route53 \<Rightarrow> string \<Rightarrow> DNSRecord \<Rightarrow> ResourceRecordSet list \<Rightarrow> ('w, 'c, unit) go" where
  "deleteDelegation E r parentZoneId rec [] = retM ()"
| "deleteDelegation E r parentZoneId rec (recordSet # recordSets) =
     (if normalizeDnsName (rrs_Name recordSet) \<noteq> normalizeDnsName (dr_Name rec)
         \<or> rrs_Type recordSet \<noteq> ''NS''
      then deleteDelegation E r parentZoneId rec recordSets
      else if \<not> haveSameDnsNames (rrs_Records recordSet) (dr_Values rec)
      then errM (ErrorString (''NS record set '' @ quote (dr_Name rec) @ '' in parent zone ''
             @ quote parentZoneId @ '' delegates to name servers '' @ quoteList (rrs_Records recordSet)
             @ '' instead of '' @ quoteList (dr_Values rec) @ '', not deleting it''))
      else call (a_done (e_aws E)) (r53req r
             (R53_ChangeResourceRecordSets parentZoneId [ChangeDelete recordSet])))"

definition DeleteDelegationFromParentZone ::
  "('w, 'c) env \<Rightarrow> Route53 \<Rightarrow> string \<Rightarrow> DNSRecord \<Rightarrow> ('w, 'c, unit) go" where
  "DeleteDelegationFromParentZone E r parentZoneId rec =
     bindM (call (a_rrsets (e_aws E)) (r53req r
         (R53_ListResourceRecordSets parentZoneId (Some 1) (Some (dr_Name rec)) (Some ''NS''))))
       (deleteDelegation E r parentZoneId rec)"

section \<open>What requests a client sends, and which caches it writes\<close>

definition r53event :: "Route53 \<Rightarrow> event \<Rightarrow> bool" where
  "r53event r e = (case ev_req e of AWSReq c (Route53Op x) \<Rightarrow> c = r53_client r | _ \<Rightarrow> False)"

lemma r53event_req [simp]: "r53event r (Event (r53req r x) e)"
  by (simp add: r53event_def)

definition r53refs :: "Route53 \<Rightarrow> nat set" where
  "r53refs r = {r53_upsertCache r, r53_zoneIdToNSRecordCache r, r53_zoneNameToIdCache r}"

definition r53step :: "Route53 \<Rightarrow> ('w, 'c) sys \<Rightarrow> ('w, 'c) sys \<Rightarrow> bool" where
  "r53step r s t \<longleftrightarrow> appends (r53event r) s t \<and> onlyCaches (r53refs r) s t"

interpretation r53step: run_relation "r53step r" for r
  by unfold_locales
    (auto simp: r53step_def appends.refl onlyCaches.refl intro: appends.trans onlyCaches.trans)

lemmas [emits_rules] = r53step.rules

lemma r53step_emits: "within (r53step r) m \<Longrightarrow> emits (r53event r) m"
  by (erule within_mono) (simp add: r53step_def)

lemma step_call [emits_rules]: "within (r53step r) (call ans (r53req r x))"
  by (simp add: within_def r53step_def call_appends call_onlyCaches)

lemma step_cache [emits_rules]:
  "within (r53step r) (cacheGet E i k)"
  "within (r53step r) (cacheItems E i)"
  "i \<in> r53refs r \<Longrightarrow> within (r53step r) (cacheSet E i k v)"
  "i \<in> r53refs r \<Longrightarrow> within (r53step r) (cacheDelete E i k)"
  by (auto simp: within_def cache_run r53step_def onlyCaches_def appends_same)

lemma r53refs_mem [emits_rules]:
  "r53_upsertCache r \<in> r53refs r" "r53_zoneIdToNSRecordCache r \<in> r53refs r"
  "r53_zoneNameToIdCache r \<in> r53refs r"
  by (simp_all add: r53refs_def)

lemma emits_NewRoute53 [emits_rules]: "emits P (NewRoute53 E c)"
  unfolding NewRoute53_def by (intro emits_rules)

lemma step_tagHostedZone [emits_rules]: "within (r53step r) (tagHostedZone E r z tags)"
  unfolding tagHostedZone_def by (intro emits_rules)

lemma step_associate [emits_rules]:
  "within (r53step r) (associateHostedZoneWithAdditionalVPCs E r z reg vpcs)"
  unfolding associateHostedZoneWithAdditionalVPCs_def by (intro emits_rules)

lemma step_GetHostedZoneIdByName [emits_rules]: "within (r53step r) (GetHostedZoneIdByName E r n)"
  unfolding GetHostedZoneIdByName_def by (intro emits_rules)

lemma step_Route53_CreateHostedZone [emits_rules]: "within (r53step r) (Route53_CreateHostedZone E r z)"
  unfolding Route53_CreateHostedZone_def by (intro emits_rules)

lemma step_forgetZoneId [emits_rules]: "within (r53step r) (forgetZoneId E r z items)"
  by (induction E r z items rule: forgetZoneId.induct) (auto intro!: emits_rules)

lemma step_Route53_DeleteHostedZone [emits_rules]: "within (r53step r) (Route53_DeleteHostedZone E r z)"
  unfolding Route53_DeleteHostedZone_def by (intro emits_rules)

lemma step_DnsRecordExists [emits_rules]: "within (r53step r) (DnsRecordExists E r z n)"
  unfolding DnsRecordExists_def by (intro emits_rules)

lemma step_GetHostedZoneNSRecord [emits_rules]: "within (r53step r) (GetHostedZoneNSRecord E r z n)"
  unfolding GetHostedZoneNSRecord_def by (intro emits_rules)

lemma step_AddDelegationToParentZone [emits_rules]:
  "within (r53step r) (AddDelegationToParentZone E r z rec)"
  unfolding AddDelegationToParentZone_def by (intro emits_rules)

lemma step_AddDnsRecordsToHostedZone [emits_rules]:
  "within (r53step r) (AddDnsRecordsToHostedZone E r z recs)"
  unfolding AddDnsRecordsToHostedZone_def by (intro emits_rules)

lemma step_purgeZoneKeys [emits_rules]: "within (r53step r) (purgeZoneKeys E r z)"
  unfolding purgeZoneKeys_def by (intro emits_rules)

lemma step_deleteRecordBody [emits_rules]: "within (r53step r) (deleteRecordBody E r z ty n rs)"
  unfolding deleteRecordBody_def by (intro emits_rules)

lemma step_DeleteDnsRecord [emits_rules]: "within (r53step r) (DeleteDnsRecord E r z rec)"
  unfolding DeleteDnsRecord_def by (intro emits_rules)

lemma step_DeleteDnsRecords [emits_rules]: "within (r53step r) (DeleteDnsRecordsFromHostedZone E r z)"
  unfolding DeleteDnsRecordsFromHostedZone_def by (intro emits_rules)

lemma step_deleteDelegation [emits_rules]: "within (r53step r) (deleteDelegation E r z rec sets)"
  by (induction sets) (auto intro!: emits_rules)

lemma step_DeleteDelegation [emits_rules]: "within (r53step r) (DeleteDelegationFromParentZone E r z rec)"
  unfolding DeleteDelegationFromParentZone_def by (intro emits_rules)

section \<open>Names\<close>

lemma normalizeDnsName_idem: "normalizeDnsName (normalizeDnsName name) = normalizeDnsName name"
  by (simp add: normalizeDnsName_def)

lemma sort_eq_iff_mset:
  fixes xs ys :: "'a :: linorder list"
  shows "sort xs = sort ys \<longleftrightarrow> mset xs = mset ys"
  by (metis mset_sort properties_for_sort sorted_sort)

lemma haveSameDnsNames_mset:
  "haveSameDnsNames xs ys \<longleftrightarrow> mset (map normalizeDnsName xs) = mset (map normalizeDnsName ys)"
  unfolding haveSameDnsNames_def by (rule sort_eq_iff_mset)

section \<open>The upsert cache\<close>

text \<open>What a cache key remembers of a record.\<close>

definition recordSummary :: "DNSRecord \<Rightarrow> string \<times> string \<times> string" where
  "recordSummary rec = (dr_Kind rec, dr_Name rec, joinWith '','' (dr_Values rec))"

lemma recordHash_Cons:
  "recordHash (rec # recs) = quote (dr_Kind rec) @ '','' @ quote (dr_Name rec) @ '',''
     @ quote (joinWith '','' (dr_Values rec)) @ recordHash recs"
  by (simp add: recordHash_def)

lemma recordHash_Nil: "recordHash [] = ''''"
  by (simp add: recordHash_def)

lemma quote_append_not_Nil: "quote s @ r \<noteq> []"
  by (simp add: quote_def)

lemma recordHash_inject:
  "recordHash xs = recordHash ys \<longleftrightarrow> map recordSummary xs = map recordSummary ys"
proof (induction xs arbitrary: ys)
  case Nil
  show ?case
    by (cases ys) (simp_all add: recordHash_Nil recordHash_Cons quote_def)
next
  case (Cons x xs)
  show ?case
  proof (cases ys)
    case Nil
    then show ?thesis by (simp add: recordHash_Nil recordHash_Cons quote_def)
  next
    case (Cons y ys')
    then show ?thesis
      by (simp add: recordHash_Cons quote_append_inject Cons.IH recordSummary_def conj_assoc)
  qed
qed

lemma zoneCacheKey_inject:
  "zoneCacheKey z xs = zoneCacheKey z' ys \<longleftrightarrow> z = z' \<and> map recordSummary xs = map recordSummary ys"
  by (simp add: zoneCacheKey_def quote_append_inject recordHash_inject)

text \<open>The prefix of a zone covers the keys of that zone, and of no other zone.\<close>

lemma zoneCacheKey_prefix:
  "hasPrefix (zoneCacheKey z' recs) (zoneCacheKeyPrefix z) \<longleftrightarrow> z' = z"
proof
  assume "hasPrefix (zoneCacheKey z' recs) (zoneCacheKeyPrefix z)"
  then obtain rest where "zoneCacheKey z' recs = zoneCacheKeyPrefix z @ rest"
    by (auto simp: hasPrefix_def prefix_def)
  then show "z' = z"
    by (simp add: zoneCacheKey_def zoneCacheKeyPrefix_def quote_append_inject)
qed (simp add: hasPrefix_def zoneCacheKey_def zoneCacheKeyPrefix_def)

lemma parentZoneCacheKey_prefix:
  "\<not> hasPrefix (parentZoneCacheKey z' rec) (zoneCacheKeyPrefix z)"
  by (simp add: hasPrefix_def parentZoneCacheKey_def zoneCacheKeyPrefix_def)

text \<open>Deleting the keys of a list from a cache.\<close>

definition deleteKeys :: "('w, 'c) gocache \<Rightarrow> string list \<Rightarrow> 'c \<Rightarrow> 'c" where
  "deleteKeys G ks c = foldl (\<lambda>c k. gc_delete G k c) c ks"

lemma gc_get_deleteKeys:
  assumes "gocache_laws G"
  shows "gc_get G w (deleteKeys G ks c) k = (if k \<in> set ks then None else gc_get G w c k)"
proof (induction ks arbitrary: c)
  case Nil
  then show ?case by (simp add: deleteKeys_def)
next
  case (Cons k' ks)
  have "gc_get G w (gc_delete G k' c) k = (if k = k' then None else gc_get G w c k)"
    using assms by (simp add: gocache_laws_def)
  with Cons show ?case by (auto simp: deleteKeys_def)
qed

lemma forM_cacheDelete:
  "forM ks (\<lambda>k. if P k then cacheDelete E r k else retM ()) s =
     (Ok (), setCache r (deleteKeys (e_cache E) (filter P ks) (caches s r)) s)"
proof (induction ks arbitrary: s)
  case Nil
  then show ?case by (simp add: deleteKeys_def)
next
  case (Cons k ks)
  then show ?case
    by (simp add: bindM_def cache_run deleteKeys_def)
qed

lemma purgeZoneKeys_run:
  "purgeZoneKeys E r z s = (Ok (), setCache (r53_upsertCache r)
     (deleteKeys (e_cache E)
       (filter (\<lambda>k. hasPrefix k (zoneCacheKeyPrefix z))
          (map fst (gc_items (e_cache E) (world s) (caches s (r53_upsertCache r)))))
       (caches s (r53_upsertCache r))) s)"
  by (simp add: purgeZoneKeys_def cacheItems_def forM_cacheDelete)

text \<open>What the cache of recent upserts of a client says about a key.\<close>

definition upserted :: "('w, 'c) env \<Rightarrow> Route53 \<Rightarrow> ('w, 'c) sys \<Rightarrow> string \<Rightarrow> cval option" where
  "upserted E r s k = gc_get (e_cache E) (world s) (caches s (r53_upsertCache r)) k"

lemma purgeZoneKeys_upserted:
  assumes laws: "gocache_laws (e_cache E)"
  shows "upserted E r (snd (purgeZoneKeys E r z s)) k =
     (if hasPrefix k (zoneCacheKeyPrefix z) then None else upserted E r s k)"
proof -
  let ?G = "e_cache E" and ?c = "caches s (r53_upsertCache r)"
  have items: "map_of (gc_items ?G (world s) ?c) = gc_get ?G (world s) ?c"
    using laws by (simp add: gocache_laws_def)
  have "gc_get ?G (world s) ?c k = None" if "k \<notin> fst ` set (gc_items ?G (world s) ?c)"
    using that items by (metis map_of_eq_None_iff)
  then show ?thesis
    by (auto simp: upserted_def purgeZoneKeys_run gc_get_deleteKeys [OF laws])
qed

text \<open>The key under which a batch of upserted records is remembered determines the zone and,
  record by record, the kind, the name and the comma-joined values: two upserts share a key
  only when they agree on all of these, so that no other upsert is skipped by mistake.\<close>

lemma upsert_cache_key_injective:
  "zoneCacheKey z recs = zoneCacheKey z' recs' \<longleftrightarrow>
     z = z' \<and> map recordSummary recs = map recordSummary recs'"
  by (rule zoneCacheKey_inject)

lemma deleteRecordBody_cases:
  assumes laws: "gocache_laws (e_cache E)"
    and run: "deleteRecordBody E r z ty n rs s = (res, t)"
  shows "(t = s \<and> res = Ok ()) \<or>
    (length (trace s) < length (trace t) \<and>
      (res = Ok () \<longrightarrow> (\<forall>k. hasPrefix k (zoneCacheKeyPrefix z) \<longrightarrow> upserted E r t k = None)) \<and>
      (\<forall>w k. \<not> hasPrefix k (zoneCacheKeyPrefix z) \<longrightarrow>
         gc_get (e_cache E) w (caches t (r53_upsertCache r)) k
           = gc_get (e_cache E) w (caches s (r53_upsertCache r)) k))"
proof (cases "replaceAll (rrs_Name rs) (backslash # ''052'') ''*'' \<noteq> n \<or> rrs_Type rs \<noteq> ty")
  case True
  then show ?thesis using run by (simp add: deleteRecordBody_def)
next
  case False
  with run have "bindM (call (a_done (e_aws E)) (r53req r (R53_ChangeResourceRecordSets z [ChangeDelete rs])))
          (\<lambda>_. purgeZoneKeys E r z) s = (res, t)"
    by (simp add: deleteRecordBody_def)
  then show ?thesis
  proof (cases rule: bindM_cases)
    case (Ok x u)
    have purged: "t = snd (purgeZoneKeys E r z u)" using Ok(2) by simp
    have "length (trace s) < length (trace u)" "caches u = caches s"
      using Ok(1) by (auto elim!: call_cases)
    then show ?thesis
      by (auto simp: purged purgeZoneKeys_upserted [OF laws])
        (auto simp: purgeZoneKeys_run gc_get_deleteKeys [OF laws])
  next
    case (Err e)
    then show ?thesis by (auto elim!: call_cases)
  next
    case (Halt h)
    then show ?thesis by (auto elim!: call_cases)
  qed
qed

lemma call_state:
  "call ans q s = (res, u) \<Longrightarrow> length (trace u) = Suc (length (trace s)) \<and> caches u = caches s"
  by (auto elim!: call_cases)

lemma deleteRecordLoop:
  assumes laws: "gocache_laws (e_cache E)"
    and run: "forM sets (deleteRecordBody E r z ty n) s = (res, t)"
  shows "(t = s \<or> length (trace s) < length (trace t) \<and>
      (res = Ok () \<longrightarrow> (\<forall>k. hasPrefix k (zoneCacheKeyPrefix z) \<longrightarrow> upserted E r t k = None))) \<and>
      (\<forall>w k. \<not> hasPrefix k (zoneCacheKeyPrefix z) \<longrightarrow>
         gc_get (e_cache E) w (caches t (r53_upsertCache r)) k
           = gc_get (e_cache E) w (caches s (r53_upsertCache r)) k)"
  using run
proof (induction sets arbitrary: s)
  case Nil
  then show ?case by simp
next
  case (Cons rs sets)
  from Cons.prems have "bindM (deleteRecordBody E r z ty n rs) (\<lambda>_. forM sets (deleteRecordBody E r z ty n)) s
      = (res, t)"
    by simp
  then show ?case
  proof (cases rule: bindM_cases)
    case (Ok x u)
    show ?thesis
      using deleteRecordBody_cases [OF laws Ok(1)] Cons.IH [OF Ok(2)] by auto
  next
    case (Err e)
    then show ?thesis using deleteRecordBody_cases [OF laws Err(1)] by auto
  next
    case (Halt h)
    then show ?thesis using deleteRecordBody_cases [OF laws Halt(1)] by auto
  qed
qed

text \<open>C14: a successful deletion of a record (one more request than the listing was sent) forgets
  every remembered upsert of that zone, so that the next upsert of the zone's records is sent
  again, and leaves what is remembered about other zones and about delegations untouched.\<close>

theorem delete_record_invalidates_upserts:
  assumes "gocache_laws (e_cache E)"
    and "DeleteDnsRecord E r z rec s = (Ok (), t)"
    and "length (trace t) > length (trace s) + 1"
  shows "upserted E r t (zoneCacheKey z recs) = None \<and>
    (z' \<noteq> z \<longrightarrow> gc_get (e_cache E) w (caches t (r53_upsertCache r)) (zoneCacheKey z' recs)
           = gc_get (e_cache E) w (caches s (r53_upsertCache r)) (zoneCacheKey z' recs)) \<and>
    gc_get (e_cache E) w (caches t (r53_upsertCache r)) (parentZoneCacheKey p ns)
           = gc_get (e_cache E) w (caches s (r53_upsertCache r)) (parentZoneCacheKey p ns)"
proof -
  obtain sets u ty n where u: "length (trace u) = length (trace s) + 1" "caches u = caches s"
    and loop: "forM sets (deleteRecordBody E r z ty n) u = (Ok (), t)"
    using assms(2) unfolding DeleteDnsRecord_def Let_def
    by (elim bindM_OkE) (metis call_state Suc_eq_plus1)
  have "t \<noteq> u" using u(1) assms(3) by auto
  with deleteRecordLoop [OF assms(1) loop] show ?thesis
    by (simp add: zoneCacheKey_prefix parentZoneCacheKey_prefix u(2))
qed

text \<open>A zone with a stale wildcard record that was recently upserted.\<close>

definition staleRecord :: DNSRecord where
  "staleRecord = \<lparr>dr_Kind = ''CNAME'', dr_Name = ''*.wc.gaws.io'', dr_Values = [''ingress.wc.gaws.io''],
     dr_Region = ''''\<rparr>"

definition wildcardSet :: ResourceRecordSet where
  "wildcardSet = \<lparr>rrs_Name = backslash # ''052.wc.gaws.io.'', rrs_Type = ''CNAME'', rrs_TTL = Some 300,
     rrs_Records = [''ingress.wc.gaws.io''], rrs_Alias = None\<rparr>"

definition wildcardEnv :: "(unit, (string \<times> cval) list) env" where
  "wildcardEnv = demoEnv\<lparr>e_aws := demoAWS\<lparr>a_rrsets := okAns [wildcardSet]\<rparr>\<rparr>"

definition wildcardSys :: "(unit, (string \<times> cval) list) sys" where
  "wildcardSys = setCache 0 [(zoneCacheKey ''Z1'' [staleRecord], CBool True)] demoSys"

lemma wildcardEnv_sel [simp]: "e_cache wildcardEnv = listCache"
  by (simp add: wildcardEnv_def)

theorem delete_record_invalidates_upserts_witness:
  "upserted wildcardEnv demoRoute53 wildcardSys (zoneCacheKey ''Z1'' [staleRecord]) \<noteq> None \<and>
   upserted wildcardEnv demoRoute53
     (snd (DeleteDnsRecord wildcardEnv demoRoute53 ''Z1'' staleRecord wildcardSys))
     (zoneCacheKey ''Z1'' [staleRecord]) = None"
proof -
  have run: "fst (DeleteDnsRecord wildcardEnv demoRoute53 ''Z1'' staleRecord wildcardSys) = Ok ()"
    "length (trace (snd (DeleteDnsRecord wildcardEnv demoRoute53 ''Z1'' staleRecord wildcardSys))) = 2"
    by code_simp+
  have "trace wildcardSys = []" by (simp add: wildcardSys_def demo_defs)
  with run have "upserted wildcardEnv demoRoute53
     (snd (DeleteDnsRecord wildcardEnv demoRoute53 ''Z1'' staleRecord wildcardSys))
     (zoneCacheKey ''Z1'' [staleRecord]) = None"
    by (intro delete_record_invalidates_upserts [THEN conjunct1, of _ _ _ staleRecord wildcardSys])
      (auto simp: listCache_laws prod_eq_iff)
  moreover have "upserted wildcardEnv demoRoute53 wildcardSys (zoneCacheKey ''Z1'' [staleRecord]) \<noteq> None"
    by (simp add: upserted_def wildcardSys_def demo_defs)
  ultimately show ?thesis by simp
qed

text \<open>The two ways in which \<^const>\<open>AddDnsRecordsToHostedZone\<close> can return.\<close>

lemma AddDnsRecords_cases:
  assumes "AddDnsRecordsToHostedZone E r z recs s = (Ok (), t)"
  shows "recs \<noteq> [] \<and>
    (upserted E r s (zoneCacheKey z recs) \<noteq> None \<and> t = s \<or>
     (\<exists>changes w. getAWSSdkChangesFromDnsRecords recs = Some changes \<and>
        a_done (e_aws E) (r53req r (R53_ChangeResourceRecordSets z changes)) (world s) = (Inr (), w) \<and>
        t = setCache (r53_upsertCache r)
              (gc_set (e_cache E) w (zoneCacheKey z recs) (CBool True) (caches s (r53_upsertCache r)))
              (logged (r53req r (R53_ChangeResourceRecordSets z changes)) None w s)))"
  using assms unfolding AddDnsRecordsToHostedZone_def upserted_def
  by (auto split: if_splits option.splits elim!: bindM_OkE call_cases simp: cache_run)

text \<open>C21: upserting records is idempotent: once \<^verbatim>\<open>AddDnsRecordsToHostedZone\<close> has succeeded, doing it
  again at that moment succeeds without any request and changes nothing; a run that fails
  remembers nothing, so that the next one tries again.\<close>

theorem upsert_idempotent:
  assumes "gocache_laws (e_cache E)"
  shows "(AddDnsRecordsToHostedZone E r z recs s = (Ok (), t) \<longrightarrow>
            AddDnsRecordsToHostedZone E r z recs t = (Ok (), t)) \<and>
         (AddDnsRecordsToHostedZone E r z recs s = (Err e, t) \<longrightarrow> caches t = caches s)"
proof (intro conjI impI)
  assume run: "AddDnsRecordsToHostedZone E r z recs s = (Ok (), t)"
  have "upserted E r t (zoneCacheKey z recs) \<noteq> None" and "recs \<noteq> []"
    using AddDnsRecords_cases [OF run] assms by (auto simp: upserted_def gocache_laws_def)
  then show "AddDnsRecordsToHostedZone E r z recs t = (Ok (), t)"
    by (auto simp: AddDnsRecordsToHostedZone_def upserted_def bindM_def cache_run)
next
  assume "AddDnsRecordsToHostedZone E r z recs s = (Err e, t)"
  then show "caches t = caches s"
    unfolding AddDnsRecordsToHostedZone_def
    by (auto split: if_splits option.splits elim!: bindM_cases call_cases simp: cache_run)
qed

theorem upsert_idempotent_witness:
  "\<exists>t. AddDnsRecordsToHostedZone wildcardEnv demoRoute53 ''Z2'' [staleRecord] wildcardSys = (Ok (), t) \<and>
       length (trace t) = 1 \<and>
       AddDnsRecordsToHostedZone wildcardEnv demoRoute53 ''Z2'' [staleRecord] t = (Ok (), t)"
proof -
  let ?m = "AddDnsRecordsToHostedZone wildcardEnv demoRoute53 ''Z2'' [staleRecord]"
  have "fst (?m wildcardSys) = Ok ()" and len: "length (trace (snd (?m wildcardSys))) = 1"
    by code_simp+
  then have run: "?m wildcardSys = (Ok (), snd (?m wildcardSys))"
    by (simp add: prod_eq_iff)
  have "?m (snd (?m wildcardSys)) = (Ok (), snd (?m wildcardSys))"
    using upsert_idempotent [of wildcardEnv demoRoute53 "''Z2''" "[staleRecord]" wildcardSys "snd (?m wildcardSys)"] run
    by (simp add: listCache_laws)
  with run len show ?thesis by blast
qed

section \<open>Looking up a zone by name\<close>

lemma findZoneId_found:
  "found \<noteq> '''' \<Longrightarrow> findZoneId wanted zs found =
     (if filter (\<lambda>z. hz_Name z = wanted) zs = [] then Inr found
      else Inl (ErrorString ''found two identical zone names in ListHostedZonesByName response''))"
  by (induction zs) auto

lemma findZoneId_eq:
  assumes "\<forall>z\<in>set zs. sanitizeZoneId (hz_Id z) \<noteq> ''''"
  shows "findZoneId wanted zs '''' =
     (case filter (\<lambda>z. hz_Name z = wanted) zs of
        [] \<Rightarrow> Inr ''''
      | [z] \<Rightarrow> Inr (sanitizeZoneId (hz_Id z))
      | _ \<Rightarrow> Inl (ErrorString ''found two identical zone names in ListHostedZonesByName response''))"
  using assms by (induction zs) (auto simp: findZoneId_found split: list.splits)

definition rememberZones :: "('w, 'c) gocache \<Rightarrow> 'w \<Rightarrow> HostedZone list \<Rightarrow> 'c \<Rightarrow> 'c" where
  "rememberZones G w zs c =
     foldl (\<lambda>c z. gc_set G w (trimSuffix (hz_Name z) ''.'') (CStr (sanitizeZoneId (hz_Id z))) c) c zs"

lemma forM_rememberZones:
  "forM zs (\<lambda>z. cacheSet E r (trimSuffix (hz_Name z) ''.'') (CStr (sanitizeZoneId (hz_Id z)))) s =
     (Ok (), setCache r (rememberZones (e_cache E) (world s) zs (caches s r)) s)"
  by (induction zs arbitrary: s) (simp_all add: rememberZones_def bindM_def cache_run)

lemma gc_get_rememberZones:
  assumes "gocache_laws G" and "distinct (map (\<lambda>z. trimSuffix (hz_Name z) ''.'') zs)" and "z \<in> set zs"
  shows "gc_get G w (rememberZones G w zs c) (trimSuffix (hz_Name z) ''.'') = Some (CStr (sanitizeZoneId (hz_Id z)))"
  using assms(2,3)
proof (induction zs arbitrary: c rule: rev_induct)
  case Nil
  then show ?case by simp
next
  case (snoc y zs)
  have set_get: "gc_get G w (gc_set G w k v d) k' = (if k' = k then Some v else gc_get G w d k')" for k v d k'
    using assms(1) by (simp add: gocache_laws_def)
  show ?case
  proof (cases "z \<in> set zs")
    case True
    then have "trimSuffix (hz_Name z) ''.'' \<noteq> trimSuffix (hz_Name y) ''.''"
      using snoc.prems(1) by simp (metis image_eqI)
    with True snoc show ?thesis by (simp add: rememberZones_def set_get)
  next
    case False
    with snoc.prems have "z = y" by simp
    then show ?thesis by (simp add: rememberZones_def set_get)
  qed
qed

lemma GetHostedZoneIdByName_uncached:
  assumes "gc_get (e_cache E) (world s) (caches s (r53_zoneNameToIdCache r)) n = None"
    and "a_zones (e_aws E) (r53req r (R53_ListHostedZonesByName n 100)) (world s) = (Inr zs, w)"
  shows "GetHostedZoneIdByName E r n s =
     (let t = logged (r53req r (R53_ListHostedZonesByName n 100)) None w s;
          u = setCache (r53_zoneNameToIdCache r)
                (rememberZones (e_cache E) w zs (caches s (r53_zoneNameToIdCache r))) t in
      case findZoneId (trimSuffix n ''.'' @ ''.'') zs '''' of
        Inl e \<Rightarrow> (Err e, t)
      | Inr i \<Rightarrow> if i = '''' then (Err HostedZoneNotFoundError, u) else (Ok i, u))"
  using assms
  by (cases "findZoneId (trimSuffix n ''.'' @ ''.'') zs ''''")
    (simp_all add: GetHostedZoneIdByName_def bindM_def cache_run call_def forM_rememberZones Let_def)

text \<open>C20: looking up a zone that is not in the cache sends one request and answers exactly like a
  search of the response: the id of the only zone of that name, a not-found error when there is
  none (AWS may answer with other zones), and an error when there are two. A lookup repeated
  right after one that found the zone is answered from the cache.\<close>

theorem zone_lookup_correct:
  assumes laws: "gocache_laws (e_cache E)"
    and uncached: "gc_get (e_cache E) (world s) (caches s (r53_zoneNameToIdCache r)) n = None"
    and answer: "a_zones (e_aws E) (r53req r (R53_ListHostedZonesByName n 100)) (world s) = (Inr zs, w)"
    and ids: "\<forall>z\<in>set zs. sanitizeZoneId (hz_Id z) \<noteq> ''''"
    and dot: "\<not> suffix ''.'' n"
    and run: "GetHostedZoneIdByName E r n s = (res, t)"
  shows "trace t = trace s @ [Event (r53req r (R53_ListHostedZonesByName n 100)) None] \<and>
    res = (case filter (\<lambda>z. hz_Name z = n @ ''.'') zs of
        [] \<Rightarrow> Err HostedZoneNotFoundError
      | [z] \<Rightarrow> Ok (sanitizeZoneId (hz_Id z))
      | _ \<Rightarrow> Err (ErrorString ''found two identical zone names in ListHostedZonesByName response'')) \<and>
    (distinct (map (\<lambda>z. trimSuffix (hz_Name z) ''.'') zs) \<longrightarrow>
       (\<forall>i. res = Ok i \<longrightarrow> GetHostedZoneIdByName E r n t = (Ok i, t)))"
proof -
  let ?ms = "filter (\<lambda>z. hz_Name z = n @ ''.'') zs"
  let ?u = "setCache (r53_zoneNameToIdCache r)
      (rememberZones (e_cache E) w zs (caches s (r53_zoneNameToIdCache r)))
      (logged (r53req r (R53_ListHostedZonesByName n 100)) None w s)"
  have ms: "z \<in> set zs \<and> sanitizeZoneId (hz_Id z) \<noteq> '''' \<and> trimSuffix (hz_Name z) ''.'' = n"
    if "?ms = [z]" for z
  proof -
    have "z \<in> set ?ms" using that by simp
    then show ?thesis using ids by auto
  qed
  show ?thesis
  proof (cases "\<exists>z. ?ms = [z]")
    case True
    then obtain z where z: "?ms = [z]" by blast
    with run have rt: "res = Ok (sanitizeZoneId (hz_Id z))" "t = ?u"
      using ms [OF z] by (simp_all add: GetHostedZoneIdByName_uncached [OF uncached answer] Let_def
          findZoneId_eq [OF ids] trimSuffix_no_suffix [OF dot])
    have "gc_get (e_cache E) (world t) (caches t (r53_zoneNameToIdCache r)) n
        = Some (CStr (sanitizeZoneId (hz_Id z)))" if "distinct (map (\<lambda>z. trimSuffix (hz_Name z) ''.'') zs)"
      using gc_get_rememberZones [OF laws that, of z] ms [OF z] by (simp add: rt)
    then show ?thesis
      using z rt by (simp add: GetHostedZoneIdByName_def bindM_def cache_run)
  next
    case False
    with run show ?thesis
      by (auto simp: GetHostedZoneIdByName_uncached [OF uncached answer] Let_def
          findZoneId_eq [OF ids] trimSuffix_no_suffix [OF dot] split: list.splits)
  qed
qed

definition twoZones :: "HostedZone list" where
  "twoZones = [\<lparr>hz_Id = ''/hostedzone/Z1'', hz_Name = ''wc.gaws.io.''\<rparr>,
     \<lparr>hz_Id = ''/hostedzone/Z2'', hz_Name = ''wd.gaws.io.''\<rparr>]"

definition twoZonesEnv :: "(unit, (string \<times> cval) list) env" where
  "twoZonesEnv = demoEnv\<lparr>e_aws := demoAWS\<lparr>a_zones := okAns twoZones\<rparr>\<rparr>"

theorem zone_lookup_correct_witness:
  "fst (GetHostedZoneIdByName twoZonesEnv demoRoute53 ''wc.gaws.io'' demoSys) = Ok ''Z1'' \<and>
   fst (GetHostedZoneIdByName twoZonesEnv demoRoute53 ''we.gaws.io'' demoSys) = Err HostedZoneNotFoundError"
proof -
  have ids: "\<forall>z\<in>set twoZones. sanitizeZoneId (hz_Id z) \<noteq> ''''"
    by (simp add: twoZones_def sanitizeZoneId_def trimPrefix_def)
  have laws: "gocache_laws (e_cache twoZonesEnv)"
    by (simp add: twoZonesEnv_def listCache_laws)
  have uncached: "gc_get (e_cache twoZonesEnv) (world demoSys) (caches demoSys (r53_zoneNameToIdCache demoRoute53)) n = None" for n
    by (simp add: twoZonesEnv_def demo_defs)
  have ans: "a_zones (e_aws twoZonesEnv) q (world demoSys) = (Inr twoZones, ())" for q
    by (simp add: twoZonesEnv_def demo_defs)
  have nodot: "\<not> suffix ''.'' ''wc.gaws.io''" "\<not> suffix ''.'' ''we.gaws.io''"
    by code_simp+
  note lookup = zone_lookup_correct [OF laws uncached ans ids _ prod.collapse [symmetric]]
  show ?thesis
    using lookup [OF nodot(1)] lookup [OF nodot(2)]
    by (simp add: twoZones_def sanitizeZoneId_def trimPrefix_def)
qed

section \<open>What may be deleted\<close>

text \<open>The name servers a delegation record set points to, up to case and the final dot.\<close>

definition nameServers :: "string list \<Rightarrow> string multiset" where
  "nameServers ns = mset (map normalizeDnsName ns)"

definition delegationDeletion :: "string \<Rightarrow> DNSRecord \<Rightarrow> event \<Rightarrow> bool" where
  "delegationDeletion parentZoneId rec e \<longleftrightarrow> (isAWSMutation (ev_req e) \<longrightarrow>
     (\<exists>c rs. ev_req e = AWSReq c (Route53Op (R53_ChangeResourceRecordSets parentZoneId [ChangeDelete rs]))
        \<and> rrs_Type rs = ''NS'' \<and> normalizeDnsName (rrs_Name rs) = normalizeDnsName (dr_Name rec)
        \<and> nameServers (rrs_Records rs) = nameServers (dr_Values rec)))"

lemma emits_deleteDelegation_safe:
  "emits (delegationDeletion z rec) (deleteDelegation E r z rec sets)"
proof (induction sets)
  case Nil
  then show ?case by (auto intro!: emits_rules)
next
  case (Cons rs sets)
  then show ?case
    by (auto intro!: emits_rules emits_call
        simp: delegationDeletion_def haveSameDnsNames_mset nameServers_def)
qed

text \<open>C19: the only thing \<^verbatim>\<open>DeleteDelegationFromParentZone\<close> ever changes in AWS is to delete, from
  the given parent zone, the NS record set of the delegated name, and only when the name
  servers it holds are those of the zone being deleted (as a multiset of normalised names).\<close>

theorem delegation_deletion_safe:
  "list_all (delegationDeletion parentZoneId rec)
     (sent (DeleteDelegationFromParentZone E r parentZoneId rec) s)"
proof (rule emits_sent)
  show "emits (delegationDeletion parentZoneId rec) (DeleteDelegationFromParentZone E r parentZoneId rec)"
    unfolding DeleteDelegationFromParentZone_def
    by (intro emits_rules emits_call emits_deleteDelegation_safe) (simp add: delegationDeletion_def)
qed

text \<open>A delegation that points to other name servers is an error, and nothing is deleted.\<close>

lemma foreign_delegation_kept:
  assumes "a_rrsets (e_aws E) (r53req r
       (R53_ListResourceRecordSets p (Some 1) (Some (dr_Name rec)) (Some ''NS''))) (world s) = (Inr [rs], w)"
    and "rrs_Type rs = ''NS''" and "normalizeDnsName (rrs_Name rs) = normalizeDnsName (dr_Name rec)"
    and "nameServers (rrs_Records rs) \<noteq> nameServers (dr_Values rec)"
  shows "\<exists>msg. fst (DeleteDelegationFromParentZone E r p rec s) = Err (ErrorString msg) \<and>
    list_all (\<lambda>e. \<not> isAWSMutation (ev_req e)) (sent (DeleteDelegationFromParentZone E r p rec) s)"
  using assms
  by (simp add: DeleteDelegationFromParentZone_def bindM_def call_def haveSameDnsNames_mset
      nameServers_def sent_def)


definition nsRecord :: DNSRecord where
  "nsRecord = \<lparr>dr_Kind = ''NS'', dr_Name = ''wc.gaws.io.'', dr_Values = [''ns-1.awsdns.com.'', ''ns-2.awsdns.net.''],
     dr_Region = ''''\<rparr>"

definition otherNsSet :: ResourceRecordSet where
  "otherNsSet = \<lparr>rrs_Name = ''WC.gaws.io'', rrs_Type = ''NS'', rrs_TTL = Some 60,
     rrs_Records = [''ns-3.awsdns.org''], rrs_Alias = None\<rparr>"

definition otherNsEnv :: "(unit, (string \<times> cval) list) env" where
  "otherNsEnv = demoEnv\<lparr>e_aws := demoAWS\<lparr>a_rrsets := okAns [otherNsSet]\<rparr>\<rparr>"

lemma foreign_delegation_kept_example:
  "\<exists>msg. fst (DeleteDelegationFromParentZone otherNsEnv demoRoute53 ''ZP'' nsRecord demoSys) = Err (ErrorString msg)"
proof -
  have ans: "a_rrsets (e_aws otherNsEnv) q (world demoSys) = (Inr [otherNsSet], ())" for q
    by (simp add: otherNsEnv_def demo_defs)
  have "normalizeDnsName (rrs_Name otherNsSet) = normalizeDnsName (dr_Name nsRecord)"
    by code_simp
  moreover have "rrs_Type otherNsSet = ''NS''"
    by (simp add: otherNsSet_def)
  moreover have "size (nameServers (rrs_Records otherNsSet)) \<noteq> size (nameServers (dr_Values nsRecord))"
    by (simp add: nameServers_def otherNsSet_def nsRecord_def)
  ultimately show ?thesis
    using foreign_delegation_kept [OF ans] by metis
qed


end
