(* ===== verification/AWS_Clients.thy ===== *)
theory AWS_Clients
  imports Route53_Client
begin

text \<open>
  \<^verbatim>\<open>pkg/aws/clients.go\<close>: the factory of AWS clients. A client is the credentials it sends its
  requests with. Configurations are kept in the process-wide \<^verbatim>\<open>configCache\<close> (a \<^verbatim>\<open>sync.Map\<close>),
  by region for clients that assume their role themselves, and by role for the transit
  gateway, prefix list and route table clients. The locale \<open>client_factory\<close> is the contract of
  the constructors of the interface \<^verbatim>\<open>AWSClients\<close> in \<^verbatim>\<open>pkg/resolver/package.go\<close>.
\<close>

record Clients =
  cl_endpoint :: string

definition NewClients :: "string \<Rightarrow> Clients" where
  "NewClients endpoint = \<lparr>cl_endpoint = endpoint\<rparr>"

definition defaultSessionKey :: string where
  "defaultSessionKey = ''default''"

section \<open>Configurations\<close>

definition LoadDefaultConfig :: "('w, 'c) env \<Rightarrow> config_opts \<Rightarrow> ('w, 'c, aws_config) go" where
  "LoadDefaultConfig E co s = (case e_loadConfig E co (world s) of
      (Inr cf, w) \<Rightarrow> (Ok cf, s\<lparr>world := w\<rparr>)
    | (Inl e, w) \<Rightarrow> (Err e, s\<lparr>world := w\<rparr>))"

definition configCacheLoad :: "string \<Rightarrow> ('w, 'c, aws_config option) go" where
  "configCacheLoad k = getM (\<lambda>s. map_of (configCache s) k)"

definition configCacheStore :: "string \<Rightarrow> aws_config \<Rightarrow> ('w, 'c, unit) go" where
  "configCacheStore k cf = modM (\<lambda>s. s\<lparr>configCache := AList.update k cf (configCache s)\<rparr>)"

definition config :: "('w, 'c) env \<Rightarrow> Clients \<Rightarrow> ('w, 'c, aws_config) go" where
  "config E c =
     bindM (configCacheLoad defaultSessionKey) (\<lambda>hit.
     case hit of
       Some conf \<Rightarrow> retM conf
     | None \<Rightarrow>
       bindM (LoadDefaultConfig E \<lparr>co_Region = None, co_Endpoint = Some (cl_endpoint c), co_Role = None\<rparr>)
         (\<lambda>conf. bindM (configCacheStore defaultSessionKey conf) (\<lambda>_. retM conf)))"

definition configForRole :: "('w, 'c) env \<Rightarrow> Clients \<Rightarrow> string \<Rightarrow> ('w, 'c, aws_config) go" where
  "configForRole E c roleArn =
     bindM (configCacheLoad roleArn) (\<lambda>hit.
     case hit of
       Some conf \<Rightarrow> retM conf
     | None \<Rightarrow>
       bindM (config E c) (\<lambda>defaultConfig.
       let conf = defaultConfig\<lparr>cf_Creds := roleArn\<rparr> in
       bindM (configCacheStore roleArn conf) (\<lambda>_. retM conf)))"

definition configFromRegion :: "('w, 'c) env \<Rightarrow> Clients \<Rightarrow> string \<Rightarrow> ('w, 'c, aws_config) go" where
  "configFromRegion E c region =
     bindM (configCacheLoad region) (\<lambda>hit.
     case hit of
       Some conf \<Rightarrow> retM conf
     | None \<Rightarrow>
       bindM (LoadDefaultConfig E \<lparr>co_Region = Some region, co_Endpoint = Some (cl_endpoint c), co_Role = None\<rparr>)
         (\<lambda>conf. bindM (configCacheStore region conf) (\<lambda>_. retM conf)))"

section \<open>Clients\<close>

definition newEC2Client ::
  "('w, 'c) env \<Rightarrow> Clients \<Rightarrow> string \<Rightarrow> string \<Rightarrow> string \<Rightarrow> ('w, 'c, creds) go" where
  "newEC2Client E c region roleArn externalId =
     bindM (configFromRegion E c region) (\<lambda>conf.
       retM \<lparr>c_region = cf_Region conf, c_endpoint = cf_Endpoint conf, c_role = roleArn,
             c_chainedRole = '''', c_externalId = externalId\<rparr>)"

definition newRAMClient ::
  "('w, 'c) env \<Rightarrow> Clients \<Rightarrow> string \<Rightarrow> string \<Rightarrow> string \<Rightarrow> ('w, 'c, creds) go" where
  "newRAMClient E c region roleArn externalId =
     bindM (configFromRegion E c region) (\<lambda>conf.
       retM \<lparr>c_region = cf_Region conf, c_endpoint = cf_Endpoint conf, c_role = roleArn,
             c_chainedRole = '''', c_externalId = externalId\<rparr>)"

definition newRoute53Client ::
  "('w, 'c) env \<Rightarrow> Clients \<Rightarrow> string \<Rightarrow> string \<Rightarrow> string \<Rightarrow> ('w, 'c, creds) go" where
  "newRoute53Client E c region roleArn externalId =
     bindM (configFromRegion E c region) (\<lambda>conf.
       retM \<lparr>c_region = cf_Region conf, c_endpoint = cf_Endpoint conf, c_role = roleArn,
             c_chainedRole = '''', c_externalId = externalId\<rparr>)"

definition newS3Client ::
  "('w, 'c) env \<Rightarrow> Clients \<Rightarrow> string \<Rightarrow> string \<Rightarrow> string \<Rightarrow> ('w, 'c, creds) go" where
  "newS3Client E c region roleArn externalId =
     bindM (configFromRegion E c region) (\<lambda>conf.
       retM \<lparr>c_region = cf_Region conf, c_endpoint = cf_Endpoint conf, c_role = roleArn,
             c_chainedRole = '''', c_externalId = externalId\<rparr>)"

definition NewResolverClient ::
  "('w, 'c) env \<Rightarrow> Clients \<Rightarrow> string \<Rightarrow> string \<Rightarrow> ('w, 'c, creds) go" where
  "NewResolverClient E c region roleToAssume =
     bindM (configFromRegion E c region) (\<lambda>conf.
       retM \<lparr>c_region = cf_Region conf, c_endpoint = cf_Endpoint conf, c_role = roleToAssume,
             c_chainedRole = '''', c_externalId = ''''\<rparr>)"

text \<open>The region argument is not used: the region comes from the loaded configuration.\<close>

definition NewResolverClientWithExternalId ::
  "('w, 'c) env \<Rightarrow> Clients \<Rightarrow> string \<Rightarrow> string \<Rightarrow> string \<Rightarrow> string \<Rightarrow> ('w, 'c, creds) go" where
  "NewResolverClientWithExternalId E c region roleToAssume externalRoleToAssume externalId =
     bindM (LoadDefaultConfig E \<lparr>co_Region = None, co_Endpoint = None, co_Role = Some roleToAssume\<rparr>) (\<lambda>conf.
       retM \<lparr>c_region = cf_Region conf, c_endpoint = cf_Endpoint conf, c_role = cf_Creds conf,
             c_chainedRole = externalRoleToAssume, c_externalId = externalId\<rparr>)"

definition NewEC2Client ::
  "('w, 'c) env \<Rightarrow> Clients \<Rightarrow> string \<Rightarrow> string \<Rightarrow> ('w, 'c, creds) go" where
  "NewEC2Client E c region arn = newEC2Client E c region arn ''''"

definition NewEC2ClientWithExternalId ::
  "('w, 'c) env \<Rightarrow> Clients \<Rightarrow> string \<Rightarrow> string \<Rightarrow> string \<Rightarrow> ('w, 'c, creds) go" where
  "NewEC2ClientWithExternalId E c region arn externalId = newEC2Client E c region arn externalId"

definition NewRAMClient ::
  "('w, 'c) env \<Rightarrow> Clients \<Rightarrow> string \<Rightarrow> string \<Rightarrow> ('w, 'c, creds) go" where
  "NewRAMClient E c region arn = newRAMClient E c region arn ''''"

definition NewRAMClientWithExternalId ::
  "('w, 'c) env \<Rightarrow> Clients \<Rightarrow> string \<Rightarrow> string \<Rightarrow> string \<Rightarrow> ('w, 'c, creds) go" where
  "NewRAMClientWithExternalId E c region arn externalId = newRAMClient E c region arn externalId"

definition NewRoute53Client ::
  "('w, 'c) env \<Rightarrow> Clients \<Rightarrow> string \<Rightarrow> string \<Rightarrow> ('w, 'c, Route53) go" where
  "NewRoute53Client E c region arn = bindM (newRoute53Client E c region arn '''') (NewRoute53 E)"

definition NewS3Client ::
  "('w, 'c) env \<Rightarrow> Clients \<Rightarrow> string \<Rightarrow> string \<Rightarrow> ('w, 'c, creds) go" where
  "NewS3Client E c region arn = newS3Client E c region arn ''''"

text \<open>The three clients whose configuration already carries the role, with the region set on top.\<close>

definition NewTransitGatewayClient ::
  "('w, 'c) env \<Rightarrow> Clients \<Rightarrow> string \<Rightarrow> string \<Rightarrow> ('w, 'c, creds) go" where
  "NewTransitGatewayClient E c region rolearn =
     bindM (configForRole E c rolearn) (\<lambda>conf.
       retM \<lparr>c_region = region, c_endpoint = cf_Endpoint conf, c_role = cf_Creds conf,
             c_chainedRole = '''', c_externalId = ''''\<rparr>)"

definition NewPrefixListClient ::
  "('w, 'c) env \<Rightarrow> Clients \<Rightarrow> string \<Rightarrow> string \<Rightarrow> ('w, 'c, creds) go" where
  "NewPrefixListClient E c region rolearn =
     bindM (configForRole E c rolearn) (\<lambda>conf.
       retM \<lparr>c_region = region, c_endpoint = cf_Endpoint conf, c_role = cf_Creds conf,
             c_chainedRole = '''', c_externalId = ''''\<rparr>)"

definition NewRouteTableClient ::
  "('w, 'c) env \<Rightarrow> Clients \<Rightarrow> string \<Rightarrow> string \<Rightarrow> ('w, 'c, creds) go" where
  "NewRouteTableClient E c region rolearn =
     bindM (configForRole E c rolearn) (\<lambda>conf.
       retM \<lparr>c_region = region, c_endpoint = cf_Endpoint conf, c_role = cf_Creds conf,
             c_chainedRole = '''', c_externalId = ''''\<rparr>)"

section \<open>The configuration cache holds the configuration each key stands for\<close>

text \<open>What the SDK documents of its loader: the options given are what the result carries.\<close>

definition loader_laws :: "('w, 'c) env \<Rightarrow> bool" where
  "loader_laws E \<longleftrightarrow> (\<forall>co w cf w'. e_loadConfig E co w = (Inr cf, w') \<longrightarrow>
     (\<forall>r. co_Region co = Some r \<and> r \<noteq> '''' \<longrightarrow> cf_Region cf = r) \<and>
     (\<forall>e. co_Endpoint co = Some e \<longrightarrow> cf_Endpoint cf = e) \<and>
     (co_Role co = None \<longrightarrow> cf_Creds cf = '''') \<and>
     (\<forall>a. co_Role co = Some a \<longrightarrow> cf_Creds cf = a))"

text \<open>Roles are ARNs, regions are neither ARNs nor empty nor the key of the default configuration.\<close>

definition validRole :: "string \<Rightarrow> bool" where
  "validRole role = hasPrefix role ''arn:''"

definition validRegion :: "string \<Rightarrow> bool" where
  "validRegion region = (region \<noteq> '''' \<and> region \<noteq> defaultSessionKey \<and> \<not> hasPrefix region ''arn:'')"

definition configEntry_ok :: "Clients \<Rightarrow> string \<Rightarrow> aws_config \<Rightarrow> bool" where
  "configEntry_ok c k cf \<longleftrightarrow> cf_Endpoint cf = cl_endpoint c \<and>
     (if validRole k then cf_Creds cf = k
      else cf_Creds cf = '''' \<and> (validRegion k \<longrightarrow> cf_Region cf = k))"

definition configCache_inv :: "Clients \<Rightarrow> ('w, 'c) sys \<Rightarrow> bool" where
  "configCache_inv c s \<longleftrightarrow> (\<forall>k cf. map_of (configCache s) k = Some cf \<longrightarrow> configEntry_ok c k cf)"

definition roleCreds :: "Clients \<Rightarrow> string \<Rightarrow> string \<Rightarrow> creds" where
  "roleCreds c region role = \<lparr>c_region = region, c_endpoint = cl_endpoint c, c_role = role,
     c_chainedRole = '''', c_externalId = ''''\<rparr>"

lemma not_validRole_default: "\<not> validRole defaultSessionKey"
  by (simp add: validRole_def defaultSessionKey_def hasPrefix_def)

lemma configCache_inv_store:
  "configCache_inv c s \<Longrightarrow> configEntry_ok c k cf \<Longrightarrow>
   configCache_inv c (s\<lparr>configCache := AList.update k cf (configCache s)\<rparr>)"
  by (simp add: configCache_inv_def update_conv')

lemma configCache_inv_world: "configCache_inv c (s\<lparr>world := w\<rparr>) = configCache_inv c s"
  by (simp add: configCache_inv_def)

lemma cachedConfig_inv:
  assumes inv: "configCache_inv c s"
    and load: "\<And>s' cf t'. configCache_inv c s' \<Longrightarrow> ld s' = (Ok cf, t') \<Longrightarrow>
      configCache_inv c t' \<and> configEntry_ok c k cf"
    and run: "bindM (configCacheLoad k) (\<lambda>hit. case hit of
        Some conf \<Rightarrow> retM conf
      | None \<Rightarrow> bindM ld (\<lambda>conf. bindM (configCacheStore k conf) (\<lambda>_. retM conf))) s = (Ok cf, t)"
  shows "configCache_inv c t \<and> configEntry_ok c k cf"
proof (cases "map_of (configCache s) k")
  case (Some conf)
  with run inv show ?thesis
    by (auto simp: configCacheLoad_def configCache_inv_def)
next
  case None
  with run have "bindM ld (\<lambda>conf. bindM (configCacheStore k conf) (\<lambda>_. retM conf)) s = (Ok cf, t)"
    by (simp add: configCacheLoad_def)
  then obtain conf u where "ld s = (Ok conf, u)"
    and "bindM (configCacheStore k conf) (\<lambda>_. retM conf) u = (Ok cf, t)"
    by (rule bindM_OkE)
  with load [OF inv] show ?thesis
    by (auto simp: configCacheStore_def intro: configCache_inv_store)
qed

lemma LoadDefaultConfig_run:
  assumes "loader_laws E" and "LoadDefaultConfig E co s = (Ok cf, t)"
  shows "configCache t = configCache s"
    and "co_Region co = Some r \<Longrightarrow> r \<noteq> '''' \<Longrightarrow> cf_Region cf = r"
    and "co_Endpoint co = Some e \<Longrightarrow> cf_Endpoint cf = e"
    and "co_Role co = None \<Longrightarrow> cf_Creds cf = ''''"
    and "co_Role co = Some a \<Longrightarrow> cf_Creds cf = a"
proof -
  obtain w where w: "e_loadConfig E co (world s) = (Inr cf, w)" "t = s\<lparr>world := w\<rparr>"
    using assms(2) by (auto simp: LoadDefaultConfig_def split: prod.splits sum.splits)
  note law = assms(1) [unfolded loader_laws_def, rule_format, OF w(1)]
  show "configCache t = configCache s" by (simp add: w(2))
  show "co_Region co = Some r \<Longrightarrow> r \<noteq> '''' \<Longrightarrow> cf_Region cf = r" using law by blast
  show "co_Endpoint co = Some e \<Longrightarrow> cf_Endpoint cf = e" using law by blast
  show "co_Role co = None \<Longrightarrow> cf_Creds cf = ''''" using law by blast
  show "co_Role co = Some a \<Longrightarrow> cf_Creds cf = a" using law by blast
qed

lemma config_ok:
  assumes "loader_laws E" "configCache_inv c s" "config E c s = (Ok cf, t)"
  shows "configCache_inv c t \<and> configEntry_ok c defaultSessionKey cf"
  using assms(2) _ assms(3) unfolding config_def
proof (rule cachedConfig_inv)
  fix s' :: "('a, 'b) sys" and cf t'
  assume inv: "configCache_inv c s'"
    and run: "LoadDefaultConfig E \<lparr>co_Region = None, co_Endpoint = Some (cl_endpoint c), co_Role = None\<rparr> s' = (Ok cf, t')"
  show "configCache_inv c t' \<and> configEntry_ok c defaultSessionKey cf"
    using inv LoadDefaultConfig_run [OF assms(1) run]
    by (simp add: configCache_inv_def configEntry_ok_def not_validRole_default validRegion_def)
qed

lemma configForRole_ok:
  assumes "loader_laws E" "configCache_inv c s" "validRole role" "configForRole E c role s = (Ok cf, t)"
  shows "configCache_inv c t \<and> configEntry_ok c role cf"
proof (rule cachedConfig_inv [OF assms(2)])
  let ?ld = "bindM (config E c) (\<lambda>d. retM (d\<lparr>cf_Creds := role\<rparr>))"
  show "bindM (configCacheLoad role) (\<lambda>hit. case hit of Some conf \<Rightarrow> retM conf
      | None \<Rightarrow> bindM ?ld (\<lambda>conf. bindM (configCacheStore role conf) (\<lambda>_. retM conf))) s = (Ok cf, t)"
    using assms(4) by (simp add: configForRole_def bindM_assoc Let_def cong: option.case_cong)
  fix s' :: "('a, 'b) sys" and cf t'
  assume inv: "configCache_inv c s'" and "?ld s' = (Ok cf, t')"
  then obtain d where d: "config E c s' = (Ok d, t')" "cf = d\<lparr>cf_Creds := role\<rparr>"
    by (auto elim!: bindM_OkE)
  show "configCache_inv c t' \<and> configEntry_ok c role cf"
    using config_ok [OF assms(1) inv d(1)] d(2) assms(3) by (simp add: configEntry_ok_def)
qed

lemma configFromRegion_ok:
  assumes "loader_laws E" "configCache_inv c s" "validRegion region" "configFromRegion E c region s = (Ok cf, t)"
  shows "configCache_inv c t \<and> configEntry_ok c region cf"
  using assms(2) _ assms(4) unfolding configFromRegion_def
proof (rule cachedConfig_inv)
  fix s' :: "('a, 'b) sys" and cf t'
  assume inv: "configCache_inv c s'"
    and run: "LoadDefaultConfig E \<lparr>co_Region = Some region, co_Endpoint = Some (cl_endpoint c), co_Role = None\<rparr> s' = (Ok cf, t')"
  show "configCache_inv c t' \<and> configEntry_ok c region cf"
    using inv LoadDefaultConfig_run [OF assms(1) run] assms(3)
    by (simp add: configCache_inv_def configEntry_ok_def validRole_def validRegion_def)
qed

section \<open>The contract of the constructors\<close>

text \<open>
  A constructor of \<^verbatim>\<open>AWSClients\<close>, of which the code that uses it needs: the client talks to
  AWS with exactly the region and role that were asked for, the configuration cache stays
  sound, and making a client sends no request.
\<close>

locale client_factory =
  fixes new :: "('w, 'c) env \<Rightarrow> Clients \<Rightarrow> string \<Rightarrow> string \<Rightarrow> ('w, 'c, creds) go"
  assumes new_creds: "\<lbrakk>loader_laws E; configCache_inv c s; validRegion region; validRole role;
      new E c region role s = (Ok cr, t)\<rbrakk> \<Longrightarrow> cr = roleCreds c region role \<and> configCache_inv c t"
    and new_quiet: "emits P (new E c region role)"
begin

lemma new_again:
  assumes "loader_laws E" "configCache_inv c s" "validRegion region" "validRole role"
    and "new E c region role s = (Ok cr, t)" and "new E c region role t = (Ok cr', u)"
  shows "cr' = cr"
  using new_creds [OF assms(1-5)] new_creds [OF assms(1) _ assms(3,4,6)] by simp

end

lemma emits_LoadDefaultConfig [emits_rules]: "emits P (LoadDefaultConfig E co)"
  by (simp add: within_def LoadDefaultConfig_def appends_same split: prod.split sum.split)

lemma emits_configCache [emits_rules]:
  "emits P (configCacheLoad k)" "emits P (configCacheStore k cf)"
  unfolding configCacheLoad_def configCacheStore_def
  by (intro emits_rules emits_modM, simp?)+

lemma emits_config [emits_rules]: "emits P (config E c)"
  unfolding config_def by (intro emits_rules)

lemma emits_configForRole [emits_rules]: "emits P (configForRole E c role)"
  unfolding configForRole_def by (intro emits_rules)

lemma emits_configFromRegion [emits_rules]: "emits P (configFromRegion E c region)"
  unfolding configFromRegion_def by (intro emits_rules)

lemma regionClient_creds:
  assumes "loader_laws E" "configCache_inv c s" "validRegion region"
    and "bindM (configFromRegion E c region) (\<lambda>conf.
       retM \<lparr>c_region = cf_Region conf, c_endpoint = cf_Endpoint conf, c_role = role,
             c_chainedRole = '''', c_externalId = ''''\<rparr>) s = (Ok cr, t)"
  shows "cr = roleCreds c region role \<and> configCache_inv c t"
  using assms(4) configFromRegion_ok [OF assms(1-3)] assms(3)
  by (fastforce elim!: bindM_OkE simp: configEntry_ok_def roleCreds_def validRegion_def validRole_def)

lemma regionClient_xid:
  assumes "loader_laws E" "configCache_inv c s" "validRegion region"
    and "bindM (configFromRegion E c region) (\<lambda>conf.
       retM \<lparr>c_region = cf_Region conf, c_endpoint = cf_Endpoint conf, c_role = role,
             c_chainedRole = '''', c_externalId = xid\<rparr>) s = (Ok cr, t)"
  shows "cr = (roleCreds c region role)\<lparr>c_externalId := xid\<rparr> \<and> configCache_inv c t"
  using assms(4) configFromRegion_ok [OF assms(1-3)] assms(3)
  by (fastforce elim!: bindM_OkE simp: configEntry_ok_def roleCreds_def validRegion_def validRole_def)

lemma roleClient_creds:
  assumes "loader_laws E" "configCache_inv c s" "validRole role"
    and "bindM (configForRole E c role) (\<lambda>conf.
       retM \<lparr>c_region = region, c_endpoint = cf_Endpoint conf, c_role = cf_Creds conf,
             c_chainedRole = '''', c_externalId = ''''\<rparr>) s = (Ok cr, t)"
  shows "cr = roleCreds c region role \<and> configCache_inv c t"
  using assms(4) configForRole_ok [OF assms(1-3)] assms(3)
  by (fastforce elim!: bindM_OkE simp: configEntry_ok_def roleCreds_def)

interpretation resolverClients: client_factory NewResolverClient
  by unfold_locales (auto simp: NewResolverClient_def intro!: emits_rules dest: regionClient_creds)

interpretation ec2Clients: client_factory NewEC2Client
  by unfold_locales
    (auto simp: NewEC2Client_def newEC2Client_def intro!: emits_rules dest: regionClient_creds)

interpretation ramClients: client_factory NewRAMClient
  by unfold_locales
    (auto simp: NewRAMClient_def newRAMClient_def intro!: emits_rules dest: regionClient_creds)

interpretation s3Clients: client_factory NewS3Client
  by unfold_locales
    (auto simp: NewS3Client_def newS3Client_def intro!: emits_rules dest: regionClient_creds)

interpretation transitGatewayClients: client_factory NewTransitGatewayClient
  by unfold_locales (auto simp: NewTransitGatewayClient_def intro!: emits_rules dest: roleClient_creds)

interpretation prefixListClients: client_factory NewPrefixListClient
  by unfold_locales (auto simp: NewPrefixListClient_def intro!: emits_rules dest: roleClient_creds)

interpretation routeTableClients: client_factory NewRouteTableClient
  by unfold_locales (auto simp: NewRouteTableClient_def intro!: emits_rules dest: roleClient_creds)

declare resolverClients.new_quiet [emits_rules] ec2Clients.new_quiet [emits_rules]
  ramClients.new_quiet [emits_rules] s3Clients.new_quiet [emits_rules]
  transitGatewayClients.new_quiet [emits_rules] prefixListClients.new_quiet [emits_rules]
  routeTableClients.new_quiet [emits_rules]

lemma emits_NewResolverClientWithExternalId [emits_rules]:
  "emits P (NewResolverClientWithExternalId E c region role xrole xid)"
  unfolding NewResolverClientWithExternalId_def by (intro emits_rules)

lemma emits_NewRoute53Client [emits_rules]: "emits P (NewRoute53Client E c region role)"
  unfolding NewRoute53Client_def newRoute53Client_def by (intro emits_rules)

lemma NewRoute53_client: "NewRoute53 E cr s = (Ok r, t) \<Longrightarrow> r53_client r = cr \<and> configCache t = configCache s"
  by (auto simp: NewRoute53_def bindM_def cacheNew_def)

text \<open>A request for a client: one constructor for each one of the interface.\<close>

datatype clientRequest =
    ResolverClient string string
  | ResolverClientWithExternalId string string string string
  | EC2Client string string
  | EC2ClientWithExternalId string string string
  | RAMClient string string
  | RAMClientWithExternalId string string string
  | Route53Client string string
  | S3Client string string
  | TransitGatewayClient string string
  | PrefixListClient string string
  | RouteTableClient string string

fun requestedClient :: "('w, 'c) env \<Rightarrow> Clients \<Rightarrow> clientRequest \<Rightarrow> ('w, 'c, creds) go" where
  "requestedClient E c (ResolverClient region role) = NewResolverClient E c region role"
| "requestedClient E c (ResolverClientWithExternalId region role xrole xid) =
     NewResolverClientWithExternalId E c region role xrole xid"
| "requestedClient E c (EC2Client region role) = NewEC2Client E c region role"
| "requestedClient E c (EC2ClientWithExternalId region role xid) = NewEC2ClientWithExternalId E c region role xid"
| "requestedClient E c (RAMClient region role) = NewRAMClient E c region role"
| "requestedClient E c (RAMClientWithExternalId region role xid) = NewRAMClientWithExternalId E c region role xid"
| "requestedClient E c (Route53Client region role) = bindM (NewRoute53Client E c region role) (\<lambda>r. retM (r53_client r))"
| "requestedClient E c (S3Client region role) = NewS3Client E c region role"
| "requestedClient E c (TransitGatewayClient region role) = NewTransitGatewayClient E c region role"
| "requestedClient E c (PrefixListClient region role) = NewPrefixListClient E c region role"
| "requestedClient E c (RouteTableClient region role) = NewRouteTableClient E c region role"

text \<open>The region, the role and the external id that were asked for. The region of a resolver client with an external id is
  not the one asked for, and nothing is said about it.\<close>

fun askedFor :: "Clients \<Rightarrow> clientRequest \<Rightarrow> creds \<Rightarrow> bool" where
  "askedFor c (ResolverClientWithExternalId region role xrole xid) cr \<longleftrightarrow>
     c_role cr = role \<and> c_chainedRole cr = xrole \<and> c_externalId cr = xid"
| "askedFor c (EC2ClientWithExternalId region role xid) cr \<longleftrightarrow> cr = (roleCreds c region role)\<lparr>c_externalId := xid\<rparr>"
| "askedFor c (RAMClientWithExternalId region role xid) cr \<longleftrightarrow> cr = (roleCreds c region role)\<lparr>c_externalId := xid\<rparr>"
| "askedFor c (ResolverClient region role) cr \<longleftrightarrow> cr = roleCreds c region role"
| "askedFor c (EC2Client region role) cr \<longleftrightarrow> cr = roleCreds c region role"
| "askedFor c (RAMClient region role) cr \<longleftrightarrow> cr = roleCreds c region role"
| "askedFor c (Route53Client region role) cr \<longleftrightarrow> cr = roleCreds c region role"
| "askedFor c (S3Client region role) cr \<longleftrightarrow> cr = roleCreds c region role"
| "askedFor c (TransitGatewayClient region role) cr \<longleftrightarrow> cr = roleCreds c region role"
| "askedFor c (PrefixListClient region role) cr \<longleftrightarrow> cr = roleCreds c region role"
| "askedFor c (RouteTableClient region role) cr \<longleftrightarrow> cr = roleCreds c region role"

fun validRequest :: "clientRequest \<Rightarrow> bool" where
  "validRequest (ResolverClientWithExternalId region role xrole xid) \<longleftrightarrow> validRegion region \<and> validRole role"
| "validRequest (EC2ClientWithExternalId region role xid) \<longleftrightarrow> validRegion region \<and> validRole role"
| "validRequest (RAMClientWithExternalId region role xid) \<longleftrightarrow> validRegion region \<and> validRole role"
| "validRequest (ResolverClient region role) \<longleftrightarrow> validRegion region \<and> validRole role"
| "validRequest (EC2Client region role) \<longleftrightarrow> validRegion region \<and> validRole role"
| "validRequest (RAMClient region role) \<longleftrightarrow> validRegion region \<and> validRole role"
| "validRequest (Route53Client region role) \<longleftrightarrow> validRegion region \<and> validRole role"
| "validRequest (S3Client region role) \<longleftrightarrow> validRegion region \<and> validRole role"
| "validRequest (TransitGatewayClient region role) \<longleftrightarrow> validRegion region \<and> validRole role"
| "validRequest (PrefixListClient region role) \<longleftrightarrow> validRegion region \<and> validRole role"
| "validRequest (RouteTableClient region role) \<longleftrightarrow> validRegion region \<and> validRole role"

text \<open>Any requests, one after the other; those that fail give no client.\<close>

fun makeClients :: "('w, 'c) env \<Rightarrow> Clients \<Rightarrow> clientRequest list \<Rightarrow> ('w, 'c, (clientRequest \<times> creds) list) go" where
  "makeClients E c [] = retM []"
| "makeClients E c (q # qs) =
     bindM (tryM (requestedClient E c q)) (\<lambda>res.
     bindM (makeClients E c qs) (\<lambda>made.
     retM (case res of Inr cr \<Rightarrow> (q, cr) # made | Inl _ \<Rightarrow> made)))"

text \<open>A configuration that cannot be loaded leaves the cache as it was.\<close>

lemma config_failed:
  "LoadDefaultConfig E co s = (r, t) \<Longrightarrow> configCache t = configCache s"
  "config E c s = (r, t) \<Longrightarrow> (\<forall>cf. r \<noteq> Ok cf) \<Longrightarrow> configCache t = configCache s"
  "configForRole E c role s = (r, t) \<Longrightarrow> (\<forall>cf. r \<noteq> Ok cf) \<Longrightarrow> configCache t = configCache s"
  "configFromRegion E c region s = (r, t) \<Longrightarrow> (\<forall>cf. r \<noteq> Ok cf) \<Longrightarrow> configCache t = configCache s"
proof -
  show load: "LoadDefaultConfig E co s = (r, t) \<Longrightarrow> configCache t = configCache s" for co s r t
    by (auto simp: LoadDefaultConfig_def split: prod.splits sum.splits)
  show config: "config E c s = (r, t) \<Longrightarrow> (\<forall>cf. r \<noteq> Ok cf) \<Longrightarrow> configCache t = configCache s" for s r t
    unfolding config_def
    by (auto simp: bindM_def configCacheLoad_def configCacheStore_def dest: load split: option.splits prod.splits outcome.splits)
  show "configForRole E c role s = (r, t) \<Longrightarrow> (\<forall>cf. r \<noteq> Ok cf) \<Longrightarrow> configCache t = configCache s"
    unfolding configForRole_def
    by (auto simp: bindM_def configCacheLoad_def configCacheStore_def Let_def dest: config split: option.splits prod.splits outcome.splits)
  show "configFromRegion E c region s = (r, t) \<Longrightarrow> (\<forall>cf. r \<noteq> Ok cf) \<Longrightarrow> configCache t = configCache s"
    unfolding configFromRegion_def
    by (auto simp: bindM_def configCacheLoad_def configCacheStore_def dest: load split: option.splits prod.splits outcome.splits)
qed

text \<open>A computation that leaves the configuration cache as it was when it gives nothing.\<close>

definition failKeeps :: "('w, 'c, 'a) go \<Rightarrow> ('w, 'c) sys \<Rightarrow> bool" where
  "failKeeps m s \<longleftrightarrow> (\<forall>r t. m s = (r, t) \<longrightarrow> (\<forall>x. r \<noteq> Ok x) \<longrightarrow> configCache t = configCache s)"

lemma failKeeps_configs:
  "failKeeps (LoadDefaultConfig E co) s" "failKeeps (configForRole E c role) s" "failKeeps (configFromRegion E c region) s"
  using config_failed by (auto simp: failKeeps_def)

lemma failKeeps_bind: "failKeeps m s \<Longrightarrow> failKeeps (bindM m (\<lambda>x. retM (f x))) s"
  by (auto simp: failKeeps_def bindM_def split: prod.splits outcome.splits)

lemma failKeeps_NewRoute53: "failKeeps m s \<Longrightarrow> failKeeps (bindM m (NewRoute53 E)) s"
  by (auto simp: failKeeps_def bindM_def NewRoute53_def cacheNew_def split: prod.splits outcome.splits)

lemma requestedClient_failed: "failKeeps (requestedClient E c q) s"
  by (cases q)
    (auto simp: NewResolverClient_def NewResolverClientWithExternalId_def NewEC2Client_def NewEC2ClientWithExternalId_def
      newEC2Client_def NewRAMClient_def NewRAMClientWithExternalId_def newRAMClient_def NewS3Client_def newS3Client_def
      NewTransitGatewayClient_def NewPrefixListClient_def NewRouteTableClient_def NewRoute53Client_def newRoute53Client_def
      intro!: failKeeps_bind failKeeps_NewRoute53 failKeeps_configs)

lemma requestedClient_Ok:
  assumes "loader_laws E" "configCache_inv c s" "validRequest q" "requestedClient E c q s = (Ok cr, t)"
  shows "askedFor c q cr \<and> configCache_inv c t"
proof (cases q)
  case (ResolverClientWithExternalId region role xrole xid)
  then obtain conf where conf: "LoadDefaultConfig E \<lparr>co_Region = None, co_Endpoint = None, co_Role = Some role\<rparr> s = (Ok conf, t)"
    and cr: "cr = \<lparr>c_region = cf_Region conf, c_endpoint = cf_Endpoint conf, c_role = cf_Creds conf,
        c_chainedRole = xrole, c_externalId = xid\<rparr>"
    using assms(4) by (auto simp: NewResolverClientWithExternalId_def elim!: bindM_OkE)
  show ?thesis
    using LoadDefaultConfig_run [OF assms(1) conf] assms(2) by (simp add: ResolverClientWithExternalId cr configCache_inv_def)
next
  case (Route53Client region role)
  then obtain r where r: "NewRoute53Client E c region role s = (Ok r, t)" "cr = r53_client r"
    using assms(4) by (auto elim!: bindM_OkE)
  obtain cr' v where new: "newRoute53Client E c region role '''' s = (Ok cr', v)" "NewRoute53 E cr' v = (Ok r, t)"
    using r(1) unfolding NewRoute53Client_def by (rule bindM_OkE)
  then have "cr' = roleCreds c region role \<and> configCache_inv c v"
    using regionClient_creds [OF assms(1,2), of region role cr' v] assms(3) by (simp add: newRoute53Client_def Route53Client)
  with NewRoute53_client [OF new(2)] r(2) show ?thesis by (simp add: Route53Client configCache_inv_def)
next
  case (EC2ClientWithExternalId region role xid)
  with assms show ?thesis
    by (auto simp: NewEC2ClientWithExternalId_def newEC2Client_def dest: regionClient_xid)
next
  case (RAMClientWithExternalId region role xid)
  with assms show ?thesis
    by (auto simp: NewRAMClientWithExternalId_def newRAMClient_def dest: regionClient_xid)
qed (use assms in \<open>auto dest!: resolverClients.new_creds [rotated 4] ec2Clients.new_creds [rotated 4]
    ramClients.new_creds [rotated 4] s3Clients.new_creds [rotated 4] transitGatewayClients.new_creds [rotated 4]
    prefixListClients.new_creds [rotated 4] routeTableClients.new_creds [rotated 4]\<close>)

lemma requestedClient_ends: "fst (requestedClient E c q s) \<noteq> Halt h"
  by (cases q) (auto simp: NewResolverClient_def NewResolverClientWithExternalId_def NewEC2Client_def
      NewEC2ClientWithExternalId_def newEC2Client_def NewRAMClient_def NewRAMClientWithExternalId_def newRAMClient_def
      NewS3Client_def newS3Client_def NewTransitGatewayClient_def NewPrefixListClient_def NewRouteTableClient_def
      NewRoute53Client_def newRoute53Client_def NewRoute53_def cacheNew_def configFromRegion_def configForRole_def config_def
      configCacheLoad_def configCacheStore_def LoadDefaultConfig_def bindM_def Let_def
      split: prod.splits outcome.splits option.splits sum.splits)


definition someRequests :: "clientRequest list" where
  "someRequests = [TransitGatewayClient ''eu-north-1'' ''arn:a'', Route53Client ''eu-west-1'' ''arn:b'',
     EC2ClientWithExternalId ''eu-north-1'' ''arn:c'' ''id'']"


end
