(* ===== verification/Zoner.thy ===== *)
theory Zoner
  imports AWS_Clients
begin

text \<open>
  \<^verbatim>\<open>pkg/resolver/zoner.go\<close>: the DNS zone of a workload cluster. It decides the zone's name, its
  records and its parent, and drives two Route53 clients: one with the cluster's role for the
  zone itself, one with the delegation role (or the management cluster's) for the parent zone.
  Clients are kept in a cache by region and role.
\<close>

record Zoner =
  z_awsClients :: Clients
  z_awsClientCache :: nat
  z_workloadClusterBaseDomain :: string

definition NewDnsZone :: "('w, 'c) env \<Rightarrow> Clients \<Rightarrow> string \<Rightarrow> ('w, 'c, Zoner) go" where
  "NewDnsZone E awsClients workloadClusterBaseDomain =
     bindM (cacheNew E) (\<lambda>cache.
       retM \<lparr>z_awsClients = awsClients, z_awsClientCache = cache,
             z_workloadClusterBaseDomain = workloadClusterBaseDomain\<rparr>)"

definition clientCacheKey :: "string \<Rightarrow> string \<Rightarrow> string" where
  "clientCacheKey region arn = ''route53/'' @ region @ ''/'' @ arn"

definition getCachedOrNewRoute53Client ::
  "('w, 'c) env \<Rightarrow> Zoner \<Rightarrow> string \<Rightarrow> string \<Rightarrow> ('w, 'c, Route53) go" where
  "getCachedOrNewRoute53Client E d region arn =
     (if region = '''' \<or> arn = '''' then NewRoute53Client E (z_awsClients d) region arn
      else
        bindM (cacheGet E (z_awsClientCache d) (clientCacheKey region arn)) (\<lambda>cached.
        case cached of
          Some v \<Rightarrow> (case v of CRoute53 client \<Rightarrow> retM client | _ \<Rightarrow> panicM)
        | None \<Rightarrow>
          bindM (NewRoute53Client E (z_awsClients d) region arn) (\<lambda>client.
          bindM (cacheSet E (z_awsClientCache d) (clientCacheKey region arn) (CRoute53 client)) (\<lambda>_.
            retM client))))"

section \<open>Names, tags, records\<close>

definition isAWSChinaRegion :: "string \<Rightarrow> bool" where
  "isAWSChinaRegion region = hasPrefix region ''cn-''"

definition getHostedZoneName :: "Zoner \<Rightarrow> Cluster \<Rightarrow> string" where
  "getHostedZoneName d cluster =
     (if cl_CustomHostedZoneName cluster \<noteq> '''' then cl_CustomHostedZoneName cluster
      else cl_Name cluster @ ''.'' @
        (if cl_BaseDomain cluster \<noteq> '''' then cl_BaseDomain cluster else z_workloadClusterBaseDomain d))"

definition getParentHostedZoneName :: "Zoner \<Rightarrow> Cluster \<Rightarrow> string" where
  "getParentHostedZoneName d cluster =
     (if cl_BaseDomain cluster \<noteq> '''' then cl_BaseDomain cluster
      else if cl_CustomHostedZoneName cluster \<noteq> ''''
      then (case splitN2 CHR ''.'' (cl_CustomHostedZoneName cluster) of
          [_, p] \<Rightarrow> if containsStr p ''.'' then p else ''''
        | _ \<Rightarrow> '''')
      else z_workloadClusterBaseDomain d)"

definition getDelegationRoleARN :: "Cluster \<Rightarrow> string" where
  "getDelegationRoleARN cluster =
     (if cl_DelegationIAMRoleARN cluster \<noteq> '''' then cl_DelegationIAMRoleARN cluster
      else cl_MCIAMRoleARN cluster)"

definition getTagsForHostedZone :: "Cluster \<Rightarrow> gomap" where
  "getTagsForHostedZone cluster = gcopy
     (gcopy [] [(''Name'', cl_Name cluster),
        (''sigs.k8s.io/cluster-api-provider-aws/cluster/'' @ cl_Name cluster, ''owned''),
        (''sigs.k8s.io/cluster-api-provider-aws/role'', ''common'')])
     (cl_AdditionalTags cluster)"

definition getWildcardCNAMETarget :: "string \<Rightarrow> Cluster \<Rightarrow> string" where
  "getWildcardCNAMETarget zoneName cluster =
     (if cl_WildcardCNAMETarget cluster \<noteq> '''' then cl_WildcardCNAMETarget cluster @ ''.'' @ zoneName
      else ''ingress.'' @ zoneName)"

text \<open>The records of the control plane endpoint.\<close>

definition apiRecords :: "string \<Rightarrow> Cluster \<Rightarrow> DNSRecord list" where
  "apiRecords zoneName cluster =
     (if cl_ControlPlaneEndpoint cluster = '''' then []
      else if cl_IsEKS cluster
      then [\<lparr>dr_Kind = DnsRecordTypeCname, dr_Name = ''api.'' @ zoneName,
             dr_Values = [trimPrefix (cl_ControlPlaneEndpoint cluster) ''https://''],
             dr_Region = cl_Region cluster\<rparr>]
      else [\<lparr>dr_Kind = DnsRecordTypeAlias, dr_Name = ''api.'' @ zoneName,
             dr_Values = [cl_ControlPlaneEndpoint cluster], dr_Region = cl_Region cluster\<rparr>])"

definition wildcardRecord :: "string \<Rightarrow> string list \<Rightarrow> DNSRecord" where
  "wildcardRecord zoneName vals =
     \<lparr>dr_Kind = DnsRecordTypeCname, dr_Name = ''*.'' @ zoneName, dr_Values = vals, dr_Region = ''''\<rparr>"

text \<open>The wildcard record, to create when its target exists and to delete otherwise.\<close>

definition getWildcardRecords ::
  "('w, 'c) env \<Rightarrow> Route53 \<Rightarrow> string \<Rightarrow> Cluster \<Rightarrow> string \<Rightarrow> ('w, 'c, DNSRecord list \<times> DNSRecord list) go" where
  "getWildcardRecords E r zoneName cluster hostedZoneId =
     bindM (DnsRecordExists E r hostedZoneId (getWildcardCNAMETarget zoneName cluster)) (\<lambda>targetExists.
       if targetExists
       then retM ([wildcardRecord zoneName [getWildcardCNAMETarget zoneName cluster]], [])
       else retM ([], [wildcardRecord zoneName []]))"

definition getWorkloadClusterDnsRecords ::
  "('w, 'c) env \<Rightarrow> Route53 \<Rightarrow> string \<Rightarrow> Cluster \<Rightarrow> string \<Rightarrow> ('w, 'c, DNSRecord list \<times> DNSRecord list) go" where
  "getWorkloadClusterDnsRecords E r zoneName cluster hostedZoneId =
     bindM
       (if \<not> cl_IsEKS cluster \<and> \<not> isAWSChinaRegion (cl_Region cluster)
        then DnsRecordExists E r hostedZoneId (''irsa.'' @ zoneName)
        else retM True) (\<lambda>createWildcardRecord.
     bindM
       (if createWildcardRecord then getWildcardRecords E r zoneName cluster hostedZoneId
        else retM ([], [])) (\<lambda>wildcard.
       retM (fst wildcard @ apiRecords zoneName cluster, snd wildcard)))"

section \<open>Operations\<close>

definition reconcileDnsRecords ::
  "('w, 'c) env \<Rightarrow> Zoner \<Rightarrow> Cluster \<Rightarrow> string \<Rightarrow> ('w, 'c, unit) go" where
  "reconcileDnsRecords E d cluster hostedZoneId =
     bindM (getCachedOrNewRoute53Client E d (cl_Region cluster) (cl_IAMRoleARN cluster)) (\<lambda>route53Client.
     bindM (getWorkloadClusterDnsRecords E route53Client (getHostedZoneName d cluster) cluster hostedZoneId)
       (\<lambda>records.
     bindM (forM (snd records) (DeleteDnsRecord E route53Client hostedZoneId)) (\<lambda>_.
     if fst records = [] then retM ()
     else AddDnsRecordsToHostedZone E route53Client hostedZoneId (fst records))))"

definition dnsZoneToCreate :: "Zoner \<Rightarrow> Cluster \<Rightarrow> DnsZone" where
  "dnsZoneToCreate d cluster =
     (if cl_IsDnsModePrivate cluster
      then BuildPrivateHostedZone (getHostedZoneName d cluster) (getTagsForHostedZone cluster)
             (cl_VPCId cluster) (cl_Region cluster) (cl_VPCsToAssociateToHostedZone cluster)
      else BuildPublicHostedZone (getHostedZoneName d cluster) (getTagsForHostedZone cluster))"

definition Zoner_CreateHostedZone :: "('w, 'c) env \<Rightarrow> Zoner \<Rightarrow> Cluster \<Rightarrow> ('w, 'c, unit) go" where
  "Zoner_CreateHostedZone E d cluster =
     bindM (getCachedOrNewRoute53Client E d (cl_Region cluster) (cl_IAMRoleARN cluster)) (\<lambda>route53Client.
     bindM (Route53_CreateHostedZone E route53Client (dnsZoneToCreate d cluster)) (\<lambda>hostedZoneId.
     bindM (reconcileDnsRecords E d cluster hostedZoneId) (\<lambda>_.
     if cl_IsDnsModePrivate cluster then retM ()
     else if getParentHostedZoneName d cluster = '''' then retM ()
     else
       bindM (getCachedOrNewRoute53Client E d (cl_Region cluster) (getDelegationRoleARN cluster))
         (\<lambda>delegationRoute53Client.
       bindM (GetHostedZoneIdByName E delegationRoute53Client (getParentHostedZoneName d cluster))
         (\<lambda>parentHostedZoneId.
       bindM (GetHostedZoneNSRecord E route53Client hostedZoneId (dz_DnsName (dnsZoneToCreate d cluster)))
         (\<lambda>nsRecord.
       AddDelegationToParentZone E delegationRoute53Client parentHostedZoneId nsRecord))))))"

definition Zoner_DeleteHostedZone :: "('w, 'c) env \<Rightarrow> Zoner \<Rightarrow> Cluster \<Rightarrow> ('w, 'c, unit) go" where
  "Zoner_DeleteHostedZone E d cluster =
     bindM (getCachedOrNewRoute53Client E d (cl_Region cluster) (cl_IAMRoleARN cluster)) (\<lambda>route53Client.
     bindM (tryM (GetHostedZoneIdByName E route53Client (getHostedZoneName d cluster))) (\<lambda>lookup.
     case lookup of
       Inl e \<Rightarrow> if isHostedZoneNotFound e then retM () else errM e
     | Inr hostedZoneId \<Rightarrow>
       bindM
         (if cl_IsDnsModePrivate cluster then retM ()
          else if getParentHostedZoneName d cluster = '''' then retM ()
          else
            bindM (getCachedOrNewRoute53Client E d (cl_Region cluster) (getDelegationRoleARN cluster))
              (\<lambda>delegationRoute53Client.
            bindM (GetHostedZoneIdByName E delegationRoute53Client (getParentHostedZoneName d cluster))
              (\<lambda>parentHostedZoneId.
            bindM (GetHostedZoneNSRecord E route53Client hostedZoneId (getHostedZoneName d cluster))
              (\<lambda>nsRecord.
            DeleteDelegationFromParentZone E delegationRoute53Client parentHostedZoneId nsRecord))))
         (\<lambda>_.
       bindM (DeleteDnsRecordsFromHostedZone E route53Client hostedZoneId) (\<lambda>_.
       Route53_DeleteHostedZone E route53Client hostedZoneId))))"

section \<open>The clients the zoner uses\<close>

text \<open>
  Every client in the cache was made for the region and role of its key, and its own caches
  are not the cache it is stored in.
\<close>

definition clientFor :: "Zoner \<Rightarrow> string \<Rightarrow> string \<Rightarrow> Route53 \<Rightarrow> bool" where
  "clientFor d region arn r \<longleftrightarrow> r53_client r = roleCreds (z_awsClients d) region arn \<and>
     z_awsClientCache d \<notin> r53refs r"

definition goodTarget :: "string \<Rightarrow> string \<Rightarrow> bool" where
  "goodTarget region arn \<longleftrightarrow> validRegion region \<and> CHR ''/'' \<notin> set region \<and> validRole arn"

lemma goodTarget_region: "goodTarget region arn \<Longrightarrow> validRegion region"
  by (simp add: goodTarget_def)

definition zoner_inv :: "('w, 'c) env \<Rightarrow> Zoner \<Rightarrow> ('w, 'c) sys \<Rightarrow> bool" where
  "zoner_inv E d s \<longleftrightarrow> configCache_inv (z_awsClients d) s \<and> z_awsClientCache d < nextRef s \<and>
     (\<forall>w k v. gc_get (e_cache E) w (caches s (z_awsClientCache d)) k = Some v \<longrightarrow>
        (\<exists>region arn r. v = CRoute53 r \<and> k = clientCacheKey region arn \<and> goodTarget region arn \<and>
           clientFor d region arn r))"

lemma split_at_sep:
  "c \<notin> set a \<Longrightarrow> c \<notin> set b \<Longrightarrow> a @ c # x = b @ c # y \<longleftrightarrow> a = b \<and> x = y"
proof (induction a arbitrary: b)
  case Nil
  then show ?case by (cases b) auto
next
  case (Cons d a)
  then show ?case by (cases b) auto
qed

lemma clientCacheKey_inject:
  assumes "CHR ''/'' \<notin> set region" "CHR ''/'' \<notin> set region'"
    and "clientCacheKey region arn = clientCacheKey region' arn'"
  shows "region = region' \<and> arn = arn'"
proof -
  have "region @ CHR ''/'' # arn = region' @ CHR ''/'' # arn'"
    using assms(3) by (simp add: clientCacheKey_def)
  then show ?thesis
    using assms(1,2) by (simp add: split_at_sep)
qed

lemma NewRoute53_run:
  assumes "NewRoute53 E cr s = (res, t)" and "i < nextRef s"
  shows "\<exists>r. res = Ok r \<and> r53_client r = cr \<and> i \<notin> r53refs r \<and> caches t i = caches s i \<and>
    configCache t = configCache s \<and> nextRef s \<le> nextRef t \<and> trace t = trace s"
  using assms by (auto simp: NewRoute53_def bindM_def cacheNew_def r53refs_def)

lemma configFromRegion_frame:
  "configFromRegion E c region s = (res, t) \<Longrightarrow>
     caches t = caches s \<and> nextRef t = nextRef s \<and> trace t = trace s"
  by (auto simp: configFromRegion_def configCacheLoad_def configCacheStore_def LoadDefaultConfig_def
      bindM_def split: option.splits prod.splits sum.splits)

lemma configFromRegion_keeps_inv:
  assumes "loader_laws E" "configCache_inv c s" "validRegion region" "configFromRegion E c region s = (res, t)"
  shows "configCache_inv c t"
proof (cases res)
  case (Ok cf)
  then show ?thesis using configFromRegion_ok [OF assms(1-3)] assms(4) by blast
next
  case (Err e)
  then have "configCache t = configCache s"
    using assms(4) by (auto simp: configFromRegion_def configCacheLoad_def configCacheStore_def
        LoadDefaultConfig_def bindM_def split: option.splits prod.splits sum.splits)
  with assms(2) show ?thesis by (simp add: configCache_inv_def)
next
  case (Halt h)
  then show ?thesis
    using assms(4) by (auto simp: configFromRegion_def configCacheLoad_def configCacheStore_def
        LoadDefaultConfig_def bindM_def split: option.splits prod.splits sum.splits)
qed

lemma zoner_inv_frame:
  "zoner_inv E d s \<Longrightarrow> configCache_inv (z_awsClients d) t \<Longrightarrow> nextRef s \<le> nextRef t \<Longrightarrow>
   caches t (z_awsClientCache d) = caches s (z_awsClientCache d) \<Longrightarrow> zoner_inv E d t"
  by (auto simp: zoner_inv_def)

lemma safe_NewRoute53Client:
  assumes "loader_laws E" and region: "validRegion region"
  shows "safe (zoner_inv E d) P (NewRoute53Client E (z_awsClients d) region arn) (clientFor d region arn)"
  unfolding safe_def
proof (intro allI impI)
  fix s assume inv: "zoner_inv E d s"
  have ref: "z_awsClientCache d < nextRef s" and cfg: "configCache_inv (z_awsClients d) s"
    using inv by (simp_all add: zoner_inv_def)
  obtain res t where run: "NewRoute53Client E (z_awsClients d) region arn s = (res, t)"
    by (cases "NewRoute53Client E (z_awsClients d) region arn s")
  then have "bindM (configFromRegion E (z_awsClients d) region) (\<lambda>conf. NewRoute53 E
      \<lparr>c_region = cf_Region conf, c_endpoint = cf_Endpoint conf, c_role = arn,
       c_chainedRole = '''', c_externalId = ''''\<rparr>) s = (res, t)"
    by (simp add: NewRoute53Client_def newRoute53Client_def bindM_assoc)
  then have "trace t = trace s \<and> zoner_inv E d t \<and> (\<forall>r. res = Ok r \<longrightarrow> clientFor d region arn r)"
  proof (cases rule: bindM_cases)
    case (Ok cf u)
    note u = configFromRegion_ok [OF assms(1) cfg region Ok(1)] configFromRegion_frame [OF Ok(1)]
    have "z_awsClientCache d < nextRef u" using ref u by simp
    from NewRoute53_run [OF Ok(2) this] u region zoner_inv_frame [OF inv, of t] show ?thesis
      by (auto simp: clientFor_def roleCreds_def configEntry_ok_def configCache_inv_def
          validRegion_def validRole_def)
  next
    case (Err e)
    note u = configFromRegion_keeps_inv [OF assms(1) cfg region Err(1)] configFromRegion_frame [OF Err(1)]
    with zoner_inv_frame [OF inv, of t] Err show ?thesis by simp
  next
    case (Halt h)
    note u = configFromRegion_keeps_inv [OF assms(1) cfg region Halt(1)] configFromRegion_frame [OF Halt(1)]
    with zoner_inv_frame [OF inv, of t] Halt show ?thesis by simp
  qed
  with run show "appends P s (snd (NewRoute53Client E (z_awsClients d) region arn s)) \<and>
      zoner_inv E d (snd (NewRoute53Client E (z_awsClients d) region arn s)) \<and>
      (\<forall>x. fst (NewRoute53Client E (z_awsClients d) region arn s) = Ok x \<longrightarrow> clientFor d region arn x)"
    by (simp add: appends_same)
qed

lemma safe_cacheClient:
  assumes "gocache_laws (e_cache E)" "goodTarget region arn" "clientFor d region arn r"
  shows "safe (zoner_inv E d) P (cacheSet E (z_awsClientCache d) (clientCacheKey region arn) (CRoute53 r)) (\<lambda>_. True)"
proof -
  have get: "gc_get (e_cache E) w' (gc_set (e_cache E) w k v c) k' = Some x \<Longrightarrow>
      k' = k \<and> x = v \<or> gc_get (e_cache E) w' c k' = Some x" for w w' k k' v x c
    using assms(1) unfolding gocache_laws_def by (metis insertE option.distinct(1) option.inject singletonD)
  show ?thesis
    unfolding safe_def
  proof (intro allI impI)
    fix s assume inv: "zoner_inv E d s"
    have "zoner_inv E d (setCache (z_awsClientCache d)
       (gc_set (e_cache E) (world s) (clientCacheKey region arn) (CRoute53 r) (caches s (z_awsClientCache d))) s)"
      using inv assms(2,3) unfolding zoner_inv_def configCache_inv_def by simp (metis get)
    then show "appends P s (snd (cacheSet E (z_awsClientCache d) (clientCacheKey region arn) (CRoute53 r) s)) \<and>
        zoner_inv E d (snd (cacheSet E (z_awsClientCache d) (clientCacheKey region arn) (CRoute53 r) s)) \<and>
        (\<forall>x. fst (cacheSet E (z_awsClientCache d) (clientCacheKey region arn) (CRoute53 r) s) = Ok x \<longrightarrow> True)"
      by (simp add: cache_run appends_same)
  qed
qed

lemma safe_getCachedOrNewRoute53Client:
  assumes "loader_laws E" "gocache_laws (e_cache E)" "goodTarget region arn"
  shows "safe (zoner_inv E d) P (getCachedOrNewRoute53Client E d region arn) (clientFor d region arn)"
proof -
  have ne: "region \<noteq> ''''" "arn \<noteq> ''''"
    using assms(3) by (auto simp: goodTarget_def validRegion_def validRole_def hasPrefix_def)
  have hit: "safe (zoner_inv E d) P (cacheGet E (z_awsClientCache d) (clientCacheKey region arn))
      (\<lambda>v. \<forall>x. v = Some x \<longrightarrow> (\<exists>r. x = CRoute53 r \<and> clientFor d region arn r))"
    unfolding safe_def
  proof (intro allI impI conjI)
    fix s v x
    assume inv: "zoner_inv E d s"
      and v: "fst (cacheGet E (z_awsClientCache d) (clientCacheKey region arn) s) = Ok v" "v = Some x"
    then obtain region' arn' r where "x = CRoute53 r" "clientCacheKey region arn = clientCacheKey region' arn'"
        "goodTarget region' arn'" "clientFor d region' arn' r"
      unfolding zoner_inv_def by (metis cache_run(1) fst_conv outcome.inject(1))
    then show "\<exists>r. x = CRoute53 r \<and> clientFor d region arn r"
      using assms(3) clientCacheKey_inject unfolding goodTarget_def by metis
  qed (simp_all add: cache_run appends.refl)
  show ?thesis
    unfolding getCachedOrNewRoute53Client_def
    using ne
    by (auto intro!: safe_bindM [OF hit] safe_case_option safe_bindM [OF safe_NewRoute53Client]
        safe_bindM [OF safe_cacheClient] safe_retM assms goodTarget_region split: cval.split)
qed

lemma zoner_inv_r53step:
  assumes inv: "zoner_inv E d s" and step: "r53step r s t" and client: "clientFor d region arn r"
  shows "zoner_inv E d t"
  using step client
  by (intro zoner_inv_frame [OF inv])
    (use inv in \<open>auto simp: r53step_def onlyCaches_def clientFor_def zoner_inv_def configCache_inv_def\<close>)

lemma safe_r53:
  assumes "within (r53step r) m" "clientFor d region arn r"
    and "\<And>e. r53event r e \<Longrightarrow> P e"
  shows "safe (zoner_inv E d) P m (\<lambda>_. True)"
proof (rule safe_within [OF assms(1)])
  fix s t assume inv: "zoner_inv E d s" and step: "r53step r s t"
  have "zoner_inv E d t"
    using inv step assms(2) by (rule zoner_inv_r53step)
  then show "appends P s t \<and> zoner_inv E d t"
    using step assms(3) by (auto simp: r53step_def intro: appends_mono)
qed

text \<open>A request with the credentials of a role in a region.\<close>

definition requestAs :: "creds \<Rightarrow> event \<Rightarrow> bool" where
  "requestAs cr e \<longleftrightarrow> (\<exists>x. ev_req e = AWSReq cr (Route53Op x))"

lemma r53event_requestAs: "r53event r e \<longleftrightarrow> requestAs (r53_client r) e"
  by (cases "ev_req e") (auto simp: r53event_def requestAs_def split: aws_op.splits)

lemma step_getWorkloadClusterDnsRecords [emits_rules]:
  "within (r53step r) (getWorkloadClusterDnsRecords E r n cluster z)"
  unfolding getWorkloadClusterDnsRecords_def getWildcardRecords_def by (intro emits_rules)

lemma safe_zone:
  assumes "within (r53step r) m" "clientFor d region arn r"
    and "\<And>e. requestAs (roleCreds (z_awsClients d) region arn) e \<Longrightarrow> P e"
  shows "safe (zoner_inv E d) P m (\<lambda>_. True)"
  using assms(1,2)
  by (rule safe_r53) (use assms(2,3) in \<open>simp add: r53event_requestAs clientFor_def\<close>)

lemma safe_reconcileDnsRecords:
  assumes "loader_laws E" "gocache_laws (e_cache E)" "goodTarget (cl_Region cluster) (cl_IAMRoleARN cluster)"
    and P: "\<And>e. requestAs (roleCreds (z_awsClients d) (cl_Region cluster) (cl_IAMRoleARN cluster)) e \<Longrightarrow> P e"
  shows "safe (zoner_inv E d) P (reconcileDnsRecords E d cluster z) (\<lambda>_. True)"
  unfolding reconcileDnsRecords_def
proof (rule safe_bindM [OF safe_getCachedOrNewRoute53Client [OF assms(1-3)]])
  fix r assume client: "clientFor d (cl_Region cluster) (cl_IAMRoleARN cluster) r"
  show "safe (zoner_inv E d) P
     (bindM (getWorkloadClusterDnsRecords E r (getHostedZoneName d cluster) cluster z) (\<lambda>records.
      bindM (forM (snd records) (DeleteDnsRecord E r z)) (\<lambda>_.
      if fst records = [] then retM () else AddDnsRecordsToHostedZone E r z (fst records)))) (\<lambda>_. True)"
    by (intro safe_zone [OF _ client] P emits_rules)
qed

text \<open>With private DNS the parent zone is out of reach: whatever happens, creating and deleting
  the zone of a cluster in private mode sends all its requests with the cluster's own role in
  the cluster's region, whichever clients were cached before.\<close>

lemma private_zone_uses_cluster_role_only:
  assumes "loader_laws E" "gocache_laws (e_cache E)" "goodTarget (cl_Region cluster) (cl_IAMRoleARN cluster)"
    and "cl_IsDnsModePrivate cluster" and "zoner_inv E d s"
  shows "list_all (requestAs (roleCreds (z_awsClients d) (cl_Region cluster) (cl_IAMRoleARN cluster)))
      (sent (Zoner_CreateHostedZone E d cluster) s @ sent (Zoner_DeleteHostedZone E d cluster) s)"
proof -
  let ?P = "requestAs (roleCreds (z_awsClients d) (cl_Region cluster) (cl_IAMRoleARN cluster))"
  have "safe (zoner_inv E d) ?P (Zoner_CreateHostedZone E d cluster) (\<lambda>_. True)"
    unfolding Zoner_CreateHostedZone_def
  proof (rule safe_bindM [OF safe_getCachedOrNewRoute53Client [OF assms(1-3)]])
    fix r assume client: "clientFor d (cl_Region cluster) (cl_IAMRoleARN cluster) r"
    note rec = safe_reconcileDnsRecords [OF assms(1-3)]
    show "safe (zoner_inv E d) ?P
       (bindM (Route53_CreateHostedZone E r (dnsZoneToCreate d cluster)) (\<lambda>hostedZoneId.
        bindM (reconcileDnsRecords E d cluster hostedZoneId) (\<lambda>_.
        if cl_IsDnsModePrivate cluster then retM () else (X r hostedZoneId)))) (\<lambda>_. True)" for X
      using assms(4)
      by (intro safe_bindM [OF safe_zone [OF _ client]] safe_bindM [OF rec]) (simp_all add: emits_rules safe_retM)
  qed
  moreover have "safe (zoner_inv E d) ?P (Zoner_DeleteHostedZone E d cluster) (\<lambda>_. True)"
    unfolding Zoner_DeleteHostedZone_def
  proof (rule safe_bindM [OF safe_getCachedOrNewRoute53Client [OF assms(1-3)]])
    fix r assume client: "clientFor d (cl_Region cluster) (cl_IAMRoleARN cluster) r"
    show "safe (zoner_inv E d) ?P
       (bindM (tryM (GetHostedZoneIdByName E r (getHostedZoneName d cluster))) (\<lambda>lookup.
        case lookup of
          Inl e \<Rightarrow> if isHostedZoneNotFound e then retM () else errM e
        | Inr z \<Rightarrow> bindM (if cl_IsDnsModePrivate cluster then retM () else X r z) (\<lambda>_.
            bindM (DeleteDnsRecordsFromHostedZone E r z) (\<lambda>_. Route53_DeleteHostedZone E r z)))) (\<lambda>_. True)" for X
      using assms(4) by (intro safe_zone [OF _ client]) (auto intro!: emits_rules)
  qed
  ultimately show ?thesis
    using assms(5) by (auto dest: safe_sent)
qed

section \<open>The records of a workload cluster\<close>

lemma DnsRecordExists_Ok:
  assumes "DnsRecordExists E r z n s = (Ok b, t)"
  shows "\<exists>sets. a_rrsets (e_aws E) (r53req r (R53_ListResourceRecordSets z (Some 1) (Some n) None)) (world s)
       = (Inr sets, world t) \<and> (b \<longleftrightarrow> trimSuffix n ''.'' @ ''.'' \<in> rrs_Name ` set sets)"
  using assms unfolding DnsRecordExists_def
  by (auto elim!: bindM_OkE call_cases simp: list_ex_iff) (metis image_eqI)+

text \<open>\<open>recordListed E r z n w b w'\<close>: asked in the state \<open>w\<close> for the record sets of the zone from the name \<open>n\<close> on,
  Route53 answers in the state \<open>w'\<close>, and \<open>b\<close> says whether the name is in the answer.\<close>

definition recordListed :: "('w, 'c) env \<Rightarrow> Route53 \<Rightarrow> string \<Rightarrow> string \<Rightarrow> 'w \<Rightarrow> bool \<Rightarrow> 'w \<Rightarrow> bool" where
  "recordListed E r z n w b w' \<longleftrightarrow>
     (\<exists>sets. a_rrsets (e_aws E) (r53req r (R53_ListResourceRecordSets z (Some 1) (Some n) None)) w = (Inr sets, w') \<and>
        (b \<longleftrightarrow> trimSuffix n ''.'' @ ''.'' \<in> rrs_Name ` set sets))"

lemma DnsRecordExists_listed: "DnsRecordExists E r z n s = (Ok b, t) \<Longrightarrow> recordListed E r z n (world s) b (world t)"
  unfolding recordListed_def by (rule DnsRecordExists_Ok)

lemma getWildcardRecords_Ok:
  assumes "getWildcardRecords E r zoneName cluster z s = (Ok (cs, ds), t)"
  shows "\<exists>b. recordListed E r z (getWildcardCNAMETarget zoneName cluster) (world s) b (world t) \<and>
    (cs, ds) = (if b then ([wildcardRecord zoneName [getWildcardCNAMETarget zoneName cluster]], [])
                else ([], [wildcardRecord zoneName []]))"
proof -
  obtain b where "DnsRecordExists E r z (getWildcardCNAMETarget zoneName cluster) s = (Ok b, t)"
    and "(cs, ds) = (if b then ([wildcardRecord zoneName [getWildcardCNAMETarget zoneName cluster]], [])
                else ([], [wildcardRecord zoneName []]))"
    using assms unfolding getWildcardRecords_def by (auto elim!: bindM_OkE split: if_splits)
  then show ?thesis using DnsRecordExists_listed by blast
qed

text \<open>Whether the wildcard is due: at once for EKS and in China, else when there is an issuer record.\<close>

definition wildcardDue :: "('w, 'c) env \<Rightarrow> Route53 \<Rightarrow> string \<Rightarrow> Cluster \<Rightarrow> string \<Rightarrow> 'w \<Rightarrow> bool \<Rightarrow> 'w \<Rightarrow> bool" where
  "wildcardDue E r zoneName cluster z w due w' \<longleftrightarrow>
     (if cl_IsEKS cluster \<or> isAWSChinaRegion (cl_Region cluster) then due \<and> w' = w
      else recordListed E r z (''irsa.'' @ zoneName) w due w')"

lemma getWorkloadClusterDnsRecords_Ok:
  assumes "getWorkloadClusterDnsRecords E r zoneName cluster z s = (Ok (cs, ds), t)"
  shows "\<exists>due w. wildcardDue E r zoneName cluster z (world s) due w \<and>
    (if due then \<exists>b. recordListed E r z (getWildcardCNAMETarget zoneName cluster) w b (world t) \<and>
        (cs, ds) = (if b then (wildcardRecord zoneName [getWildcardCNAMETarget zoneName cluster] # apiRecords zoneName cluster, [])
                    else (apiRecords zoneName cluster, [wildcardRecord zoneName []]))
     else w = world t \<and> (cs, ds) = (apiRecords zoneName cluster, []))"
proof -
  obtain due u wild where due: "(if \<not> cl_IsEKS cluster \<and> \<not> isAWSChinaRegion (cl_Region cluster)
        then DnsRecordExists E r z (''irsa.'' @ zoneName) else retM True) s = (Ok due, u)"
    and wild: "(if due then getWildcardRecords E r zoneName cluster z else retM ([], [])) u = (Ok wild, t)"
    and cs: "cs = fst wild @ apiRecords zoneName cluster" "ds = snd wild"
    using assms unfolding getWorkloadClusterDnsRecords_def by (elim bindM_OkE) auto
  have "wildcardDue E r zoneName cluster z (world s) due (world u)"
    using due by (auto simp: wildcardDue_def split: if_splits dest: DnsRecordExists_listed)
  moreover have "\<exists>b. recordListed E r z (getWildcardCNAMETarget zoneName cluster) (world u) b (world t) \<and>
        (cs, ds) = (if b then (wildcardRecord zoneName [getWildcardCNAMETarget zoneName cluster] # apiRecords zoneName cluster, [])
                    else (apiRecords zoneName cluster, [wildcardRecord zoneName []]))" if due
  proof -
    have "getWildcardRecords E r zoneName cluster z u = (Ok (fst wild, snd wild), t)" using wild that by simp
    from getWildcardRecords_Ok [OF this] obtain b where
      listed: "recordListed E r z (getWildcardCNAMETarget zoneName cluster) (world u) b (world t)"
      and "(fst wild, snd wild) = (if b then ([wildcardRecord zoneName [getWildcardCNAMETarget zoneName cluster]], [])
                else ([], [wildcardRecord zoneName []]))" by blast
    with cs show ?thesis by (intro exI [of _ b] conjI) (rule listed, cases b, simp_all)
  qed
  moreover have "u = t \<and> wild = ([], [])" if "\<not> due" using wild that by auto
  ultimately show ?thesis using cs by (intro exI [of _ due] exI [of _ "world u"]) (cases due; simp)
qed

lemma apiRecords_names: "rec \<in> set (apiRecords zoneName cluster) \<Longrightarrow> dr_Name rec = ''api.'' @ zoneName"
  by (auto simp: apiRecords_def split: if_splits)

lemma apiRecords_changes:
  "\<exists>changes. getAWSSdkChangesFromDnsRecords (apiRecords zoneName cluster) = Some changes \<and>
     length changes = length (apiRecords zoneName cluster)"
  by (auto simp: apiRecords_def record_type_defs)


section \<open>The delegation role\<close>

text \<open>A request that changes nothing in AWS but one NS record set.\<close>

definition nsChangeOnly :: "event \<Rightarrow> bool" where
  "nsChangeOnly e \<longleftrightarrow> (isAWSMutation (ev_req e) \<longrightarrow>
     (\<exists>cr p rs. rrs_Type rs = ''NS'' \<and>
        ev_req e \<in> {AWSReq cr (Route53Op (R53_ChangeResourceRecordSets p [ChangeUpsert rs])),
                    AWSReq cr (Route53Op (R53_ChangeResourceRecordSets p [ChangeDelete rs]))}))"

lemma emits_ns_read: "\<not> r53_mutates x \<Longrightarrow> emits nsChangeOnly (call ans (r53req r x))"
  by (rule emits_call) (simp add: nsChangeOnly_def)

lemma emits_ns_lookup: "emits nsChangeOnly (GetHostedZoneIdByName E r n)"
  unfolding GetHostedZoneIdByName_def by (intro emits_rules emits_ns_read) simp_all

lemma emits_ns_add: "emits nsChangeOnly (AddDelegationToParentZone E r p rec)"
  unfolding AddDelegationToParentZone_def
  by (intro emits_rules emits_call) (auto simp: nsChangeOnly_def)

lemma emits_ns_delete: "emits nsChangeOnly (DeleteDelegationFromParentZone E r p rec)"
proof -
  have "emits nsChangeOnly (deleteDelegation E r p rec sets)" for sets
    by (induction sets) (auto intro!: emits_rules emits_call simp: nsChangeOnly_def)
  then show ?thesis
    unfolding DeleteDelegationFromParentZone_def
    by (intro emits_rules emits_ns_read) simp_all
qed

lemma appends_conj: "appends P s t \<Longrightarrow> appends Q s t \<Longrightarrow> appends (\<lambda>e. P e \<and> Q e) s t"
  by (auto simp: appends_def list_all_iff)

lemma safe_parent:
  assumes "within (r53step r) m" "emits nsChangeOnly m" "clientFor d region arn r"
    and "\<And>e. requestAs (roleCreds (z_awsClients d) region arn) e \<Longrightarrow> nsChangeOnly e \<Longrightarrow> P e"
  shows "safe (zoner_inv E d) P m (\<lambda>_. True)"
proof (rule safe_within [OF within_conj [OF assms(1,2)]])
  fix s t assume inv: "zoner_inv E d s" and step: "r53step r s t \<and> appends nsChangeOnly s t"
  have "appends (\<lambda>e. r53event r e \<and> nsChangeOnly e) s t"
    using step by (auto simp: r53step_def intro: appends_conj)
  then have "appends P s t"
    by (rule appends_mono) (use assms(3,4) in \<open>auto simp: r53event_requestAs clientFor_def\<close>)
  then show "appends P s t \<and> zoner_inv E d t"
    using zoner_inv_r53step [OF inv _ assms(3)] step by blast
qed

text \<open>The part of the two operations that works on the parent zone.\<close>

lemma safe_parent_part:
  assumes laws: "loader_laws E" "gocache_laws (e_cache E)" "goodTarget region darn"
    and client: "clientFor d region arn r"
    and P: "\<And>e. requestAs (roleCreds (z_awsClients d) region arn) e \<Longrightarrow> P e"
    and N: "\<And>e. requestAs (roleCreds (z_awsClients d) region darn) e \<Longrightarrow> nsChangeOnly e \<Longrightarrow> P e"
    and fin: "\<And>r' p ns. within (r53step r') (fin r' p ns)" "\<And>r' p ns. emits nsChangeOnly (fin r' p ns)"
  shows "safe (zoner_inv E d) P
    (bindM (getCachedOrNewRoute53Client E d region darn) (\<lambda>dr.
     bindM (GetHostedZoneIdByName E dr pname) (\<lambda>p.
     bindM (GetHostedZoneNSRecord E r z n) (\<lambda>ns. fin dr p ns)))) (\<lambda>_. True)"
proof (rule safe_bindM [OF safe_getCachedOrNewRoute53Client [OF laws]])
  fix dr assume dclient: "clientFor d region darn dr"
  show "safe (zoner_inv E d) P
    (bindM (GetHostedZoneIdByName E dr pname) (\<lambda>p.
     bindM (GetHostedZoneNSRecord E r z n) (\<lambda>ns. fin dr p ns))) (\<lambda>_. True)"
    by (intro safe_bindM [OF safe_parent [OF step_GetHostedZoneIdByName emits_ns_lookup dclient N]]
        safe_bindM [OF safe_zone [OF step_GetHostedZoneNSRecord client P]]
        safe_parent [OF fin dclient N])
qed

text \<open>A request made with the cluster's role, or one with the delegation role that changes only an NS record set.\<close>

abbreviation ownOrDelegation :: "Zoner \<Rightarrow> Cluster \<Rightarrow> event \<Rightarrow> bool" where
  "ownOrDelegation d cluster e \<equiv> requestAs (roleCreds (z_awsClients d) (cl_Region cluster) (cl_IAMRoleARN cluster)) e \<or>
     requestAs (roleCreds (z_awsClients d) (cl_Region cluster) (getDelegationRoleARN cluster)) e \<and> nsChangeOnly e"

lemma safe_Zoner_CreateHostedZone:
  assumes laws: "loader_laws E" "gocache_laws (e_cache E)"
    and targets: "goodTarget (cl_Region cluster) (cl_IAMRoleARN cluster)"
      "goodTarget (cl_Region cluster) (getDelegationRoleARN cluster)"
  shows "safe (zoner_inv E d) (ownOrDelegation d cluster) (Zoner_CreateHostedZone E d cluster) (\<lambda>_. True)" (is "safe _ ?P _ _")
  unfolding Zoner_CreateHostedZone_def
proof (rule safe_bindM [OF safe_getCachedOrNewRoute53Client [OF laws targets(1)]])
  fix r assume client: "clientFor d (cl_Region cluster) (cl_IAMRoleARN cluster) r"
  show "safe (zoner_inv E d) ?P
     (bindM (Route53_CreateHostedZone E r (dnsZoneToCreate d cluster)) (\<lambda>hostedZoneId.
      bindM (reconcileDnsRecords E d cluster hostedZoneId) (\<lambda>_.
      if cl_IsDnsModePrivate cluster then retM ()
      else if getParentHostedZoneName d cluster = '''' then retM ()
      else
        bindM (getCachedOrNewRoute53Client E d (cl_Region cluster) (getDelegationRoleARN cluster)) (\<lambda>dr.
        bindM (GetHostedZoneIdByName E dr (getParentHostedZoneName d cluster)) (\<lambda>p.
        bindM (GetHostedZoneNSRecord E r hostedZoneId (dz_DnsName (dnsZoneToCreate d cluster))) (\<lambda>ns.
        AddDelegationToParentZone E dr p ns)))))) (\<lambda>_. True)"
    by (intro safe_bindM [OF safe_zone [OF step_Route53_CreateHostedZone client]]
        safe_bindM [OF safe_reconcileDnsRecords [OF laws targets(1)]] safe_if safe_retM
        safe_parent_part [OF laws targets(2) client] step_AddDelegationToParentZone emits_ns_add) auto
qed

lemma safe_Zoner_DeleteHostedZone:
  assumes laws: "loader_laws E" "gocache_laws (e_cache E)"
    and targets: "goodTarget (cl_Region cluster) (cl_IAMRoleARN cluster)"
      "goodTarget (cl_Region cluster) (getDelegationRoleARN cluster)"
  shows "safe (zoner_inv E d) (ownOrDelegation d cluster) (Zoner_DeleteHostedZone E d cluster) (\<lambda>_. True)" (is "safe _ ?P _ _")
  unfolding Zoner_DeleteHostedZone_def
proof (rule safe_bindM [OF safe_getCachedOrNewRoute53Client [OF laws targets(1)]])
  fix r assume client: "clientFor d (cl_Region cluster) (cl_IAMRoleARN cluster) r"
  note zone = safe_zone [OF _ client, where P = ?P]
  show "safe (zoner_inv E d) ?P
     (bindM (tryM (GetHostedZoneIdByName E r (getHostedZoneName d cluster))) (\<lambda>lookup.
      case lookup of
        Inl e \<Rightarrow> if isHostedZoneNotFound e then retM () else errM e
      | Inr z \<Rightarrow> bindM
          (if cl_IsDnsModePrivate cluster then retM ()
           else if getParentHostedZoneName d cluster = '''' then retM ()
           else
             bindM (getCachedOrNewRoute53Client E d (cl_Region cluster) (getDelegationRoleARN cluster)) (\<lambda>dr.
             bindM (GetHostedZoneIdByName E dr (getParentHostedZoneName d cluster)) (\<lambda>p.
             bindM (GetHostedZoneNSRecord E r z (getHostedZoneName d cluster)) (\<lambda>ns.
             DeleteDelegationFromParentZone E dr p ns)))) (\<lambda>_.
          bindM (DeleteDnsRecordsFromHostedZone E r z) (\<lambda>_. Route53_DeleteHostedZone E r z)))) (\<lambda>_. True)"
    by (intro safe_bindM [OF zone [OF within_tryM [OF step_GetHostedZoneIdByName]]] safe_case_sum safe_if
        safe_errM safe_retM safe_bindM [where Q = "\<lambda>_. True"] safe_parent_part [OF laws targets(2) client]
        step_DeleteDelegation emits_ns_delete zone step_DeleteDnsRecords step_Route53_DeleteHostedZone) auto
qed

text \<open>C8: the delegation role is confined to the delegation: of all requests that creating or
  deleting a cluster's zone sends, those not made with the cluster's own role are made with the
  delegation role in the cluster's region, and change at most one NS record set each.\<close>

theorem delegation_role_confined:
  assumes laws: "loader_laws E" "gocache_laws (e_cache E)"
    and targets: "goodTarget (cl_Region cluster) (cl_IAMRoleARN cluster)"
      "goodTarget (cl_Region cluster) (getDelegationRoleARN cluster)"
    and inv: "zoner_inv E d s"
  shows "list_all (\<lambda>e. requestAs (roleCreds (z_awsClients d) (cl_Region cluster) (cl_IAMRoleARN cluster)) e \<or>
        requestAs (roleCreds (z_awsClients d) (cl_Region cluster) (getDelegationRoleARN cluster)) e \<and> nsChangeOnly e)
      (sent (Zoner_CreateHostedZone E d cluster) s @ sent (Zoner_DeleteHostedZone E d cluster) s)"
  using safe_sent [OF safe_Zoner_CreateHostedZone [OF laws targets] inv] safe_sent [OF safe_Zoner_DeleteHostedZone [OF laws targets] inv]
  by simp

section \<open>The parent zone\<close>


section \<open>The order of deletion\<close>

definition zoneDeletion :: "event \<Rightarrow> bool" where
  "zoneDeletion e \<longleftrightarrow> (\<exists>cr z. ev_req e = AWSReq cr (Route53Op (R53_DeleteHostedZone z)))"

lemma quiet_getCachedOrNewRoute53Client: "emits P (getCachedOrNewRoute53Client E d region arn)"
  unfolding getCachedOrNewRoute53Client_def by (intro emits_rules)

lemma strict_lookup: "strict (GetHostedZoneIdByName E r n)"
  unfolding GetHostedZoneIdByName_def by (intro strict_rules)

lemma strict_nsRecord: "strict (GetHostedZoneNSRecord E r z n)"
  unfolding GetHostedZoneNSRecord_def by (intro strict_rules)

lemma strict_deleteDelegation: "strict (DeleteDelegationFromParentZone E r p rec)"
proof -
  have "strict (deleteDelegation E r p rec sets)" for sets
    by (induction sets) (simp_all only: deleteDelegation.simps strict_rules)
  then show ?thesis
    unfolding DeleteDelegationFromParentZone_def by (intro strict_rules)
qed

lemma strict_deleteRecords: "strict (DeleteDnsRecordsFromHostedZone E r z)"
  unfolding DeleteDnsRecordsFromHostedZone_def by (intro strict_rules)

text \<open>The part of the deletion that comes before the zone itself.\<close>

definition emptyZone :: "('w, 'c) env \<Rightarrow> Zoner \<Rightarrow> Cluster \<Rightarrow> Route53 \<Rightarrow> string \<Rightarrow> ('w, 'c, unit) go" where
  "emptyZone E d cluster r z =
     bindM
         (if cl_IsDnsModePrivate cluster then retM ()
          else if getParentHostedZoneName d cluster = '''' then retM ()
          else
            bindM (getCachedOrNewRoute53Client E d (cl_Region cluster) (getDelegationRoleARN cluster)) (\<lambda>dr.
            bindM (GetHostedZoneIdByName E dr (getParentHostedZoneName d cluster)) (\<lambda>p.
            bindM (GetHostedZoneNSRecord E r z (getHostedZoneName d cluster)) (\<lambda>ns.
            DeleteDelegationFromParentZone E dr p ns))))
         (\<lambda>_. DeleteDnsRecordsFromHostedZone E r z)"

lemma Zoner_DeleteHostedZone_alt:
  "Zoner_DeleteHostedZone E d cluster =
     bindM (getCachedOrNewRoute53Client E d (cl_Region cluster) (cl_IAMRoleARN cluster)) (\<lambda>r.
     bindM (tryM (GetHostedZoneIdByName E r (getHostedZoneName d cluster))) (\<lambda>lookup.
     case lookup of
       Inl e \<Rightarrow> if isHostedZoneNotFound e then retM () else errM e
     | Inr z \<Rightarrow> bindM (emptyZone E d cluster r z) (\<lambda>_. Route53_DeleteHostedZone E r z)))"
  unfolding Zoner_DeleteHostedZone_def emptyZone_def bindM_assoc ..

lemma strict_emptyZone: "strict (emptyZone E d cluster r z)"
  unfolding emptyZone_def
  by (intro strict_rules strict_lookup strict_nsRecord strict_deleteDelegation strict_deleteRecords
      strict_quiet [OF quiet_getCachedOrNewRoute53Client])

lemma emits_notDeletion:
  assumes "\<And>z. x \<noteq> R53_DeleteHostedZone z"
  shows "emits (\<lambda>e. \<not> zoneDeletion e) (call ans (r53req r x))"
  by (rule emits_call) (use assms in \<open>simp add: zoneDeletion_def\<close>)

lemma quiet_lookup: "emits (\<lambda>e. \<not> zoneDeletion e) (GetHostedZoneIdByName E r n)"
  unfolding GetHostedZoneIdByName_def by (intro emits_rules emits_notDeletion) simp

lemma quiet_emptyZone: "emits (\<lambda>e. \<not> zoneDeletion e) (emptyZone E d cluster r z)"
proof -
  have "emits (\<lambda>e. \<not> zoneDeletion e) (deleteDelegation E r p rec sets)" for r p rec sets
    by (induction sets) (auto intro!: emits_rules emits_notDeletion)
  then have "emits (\<lambda>e. \<not> zoneDeletion e) (DeleteDelegationFromParentZone E r p rec)" for r p rec
    unfolding DeleteDelegationFromParentZone_def by (intro emits_rules emits_notDeletion) simp_all
  moreover have "emits (\<lambda>e. \<not> zoneDeletion e) (DeleteDnsRecordsFromHostedZone E r z)"
    unfolding DeleteDnsRecordsFromHostedZone_def by (intro emits_rules emits_notDeletion) simp_all
  moreover have "emits (\<lambda>e. \<not> zoneDeletion e) (GetHostedZoneNSRecord E r z n)" for n
    unfolding GetHostedZoneNSRecord_def by (intro emits_rules emits_notDeletion) simp_all
  ultimately show ?thesis
    unfolding emptyZone_def
    by (intro emits_rules quiet_getCachedOrNewRoute53Client quiet_lookup)
qed

lemma quiet_forgetZoneId: "emits P (forgetZoneId E r z items)"
  by (induction E r z items rule: forgetZoneId.induct) (auto intro!: emits_rules)

lemma sent_Route53_DeleteHostedZone:
  fixes E :: "('w, 'c) env" and s :: "('w, 'c) sys"
  assumes "e \<in> set (sent (Route53_DeleteHostedZone E r z) s)"
  shows "sent (Route53_DeleteHostedZone E r z) s = [e]"
proof -
  let ?del = "bindM (tryM (call (a_done (e_aws E)) (r53req r (R53_DeleteHostedZone z)) :: ('w, 'c, unit) go)) (\<lambda>res.
       case res of
         Inr _ \<Rightarrow> retM ()
       | Inl e \<Rightarrow> if hasException NoSuchHostedZone e then retM () else errM e)"
  let ?forget = "bindM (cacheItems E (r53_zoneNameToIdCache r)) (forgetZoneId E r z)"
  have alt: "Route53_DeleteHostedZone E r z = bindM ?forget (\<lambda>_. ?del)"
    by (simp add: Route53_DeleteHostedZone_def bindM_assoc)
  have quiet: "emits (\<lambda>_. \<not> True) ?forget"
    by (intro emits_rules quiet_forgetZoneId)
  then have none: "sent ?forget s = []"
    using emits_sent [OF quiet, of s] by (auto simp: list_all_iff)
  have in_sent: "e \<in> set (sent (bindM ?forget (\<lambda>_. ?del)) s)"
    using assms by (simp add: alt)
  have del: "emits (\<lambda>_. True) ?del"
    by (intro emits_rules emits_call) simp
  from sent_by_second [OF quiet del in_sent TrueI] obtain x u
    where e: "e \<in> set (sent ?del u)" and sent: "sent (bindM ?forget (\<lambda>_. ?del)) s = sent ?forget s @ sent ?del u"
    by blast
  have one: "length (sent ?del u) = 1"
    by (simp add: sent_def bindM_def tryM_def call_def split: prod.split sum.split)
  have "xs = [e]" if "length xs = 1" "e \<in> set xs" for xs
    using that by (cases xs) auto
  from this [OF one e] sent show ?thesis
    unfolding alt none by (simp only: append_Nil)
qed

text \<open>Emptying a zone and deleting it: the request that deletes it is the last, and those before it succeeded.\<close>

lemma emptied_then_deleted:
  assumes "e \<in> set (sent (bindM (emptyZone E d cluster r z) (\<lambda>_. Route53_DeleteHostedZone E r z)) s)" "zoneDeletion e"
  shows "\<exists>before. sent (bindM (emptyZone E d cluster r z) (\<lambda>_. Route53_DeleteHostedZone E r z)) s = before @ [e] \<and>
    list_all (\<lambda>e. ev_err e = None) before"
proof -
  from sent_by_second [where F = zoneDeletion, OF quiet_emptyZone emits_any [OF r53step_emits, OF step_Route53_DeleteHostedZone] assms]
  obtain x w where w: "emptyZone E d cluster r z s = (Ok x, w)" and del: "e \<in> set (sent (Route53_DeleteHostedZone E r z) w)"
    and sent: "sent (bindM (emptyZone E d cluster r z) (\<lambda>_. Route53_DeleteHostedZone E r z)) s
      = sent (emptyZone E d cluster r z) s @ sent (Route53_DeleteHostedZone E r z) w"
    by blast
  have "list_all (\<lambda>e. ev_err e = None) (sent (emptyZone E d cluster r z) s)"
    using w strict_emptyZone [of E d cluster r z] by (simp add: strict_def)
  with sent sent_Route53_DeleteHostedZone [OF del] show ?thesis by simp
qed

text \<open>C12: a zone is deleted last. If a deletion of a cluster's DNS sends the request that deletes
  the hosted zone, then this is its final request, and every request before it (finding the
  zones, removing the delegation from the parent zone in public mode, removing the records)
  has succeeded.\<close>

theorem zone_deleted_last:
  assumes "e \<in> set (sent (Zoner_DeleteHostedZone E d cluster) s)" "zoneDeletion e"
  shows "\<exists>before. sent (Zoner_DeleteHostedZone E d cluster) s = before @ [e] \<and>
    list_all (\<lambda>e. ev_err e = None) before"
proof -
  let ?rest = "\<lambda>r lookup. case lookup of
       Inl e \<Rightarrow> if isHostedZoneNotFound e then retM () else errM e
     | Inr z \<Rightarrow> bindM (emptyZone E d cluster r z) (\<lambda>_. Route53_DeleteHostedZone E r z)"
  let ?lookup = "\<lambda>r. GetHostedZoneIdByName E r (getHostedZoneName d cluster)"
  let ?get = "getCachedOrNewRoute53Client E d (cl_Region cluster) (cl_IAMRoleARN cluster)"
  note any = emits_any [OF r53step_emits]
  have some: "emits (\<lambda>_. True) (?rest r l)" "emits (\<lambda>_. True) (bindM (tryM (?lookup r)) (?rest r))" for r l
    by (intro emits_rules emits_any [OF quiet_emptyZone] any [OF step_Route53_DeleteHostedZone]
        any [OF step_GetHostedZoneIdByName])+
  have e: "e \<in> set (sent (bindM ?get (\<lambda>r. bindM (tryM (?lookup r)) (?rest r))) s)"
    using assms(1) by (simp add: Zoner_DeleteHostedZone_alt)
  from sent_by_second [where F = zoneDeletion and m = ?get and f = "\<lambda>r. bindM (tryM (?lookup r)) (?rest r)",
      OF quiet_getCachedOrNewRoute53Client some(2) e assms(2)] obtain r u
    where u: "e \<in> set (sent (bindM (tryM (?lookup r)) (?rest r)) u)"
      and sent1: "sent (Zoner_DeleteHostedZone E d cluster) s = sent ?get s @ sent (bindM (tryM (?lookup r)) (?rest r)) u"
    unfolding Zoner_DeleteHostedZone_alt [symmetric] by blast
  have get: "sent ?get s = []"
    using emits_sent [OF quiet_getCachedOrNewRoute53Client, of "\<lambda>_. False"] by (auto simp: list_all_iff)
  from sent_by_second [where F = zoneDeletion and m = "tryM (?lookup r)" and f = "?rest r",
      OF within_tryM [OF quiet_lookup] some(1) u assms(2)] obtain l v
    where l: "tryM (?lookup r) u = (Ok l, v)" and v: "e \<in> set (sent (?rest r l) v)"
      and sent2: "sent (bindM (tryM (?lookup r)) (?rest r)) u = sent (tryM (?lookup r)) u @ sent (?rest r l) v"
    by blast
  show ?thesis
  proof (cases l)
    case (Inl err)
    then have "sent (?rest r l) v = []" by (simp add: sent_def)
    with v show ?thesis by simp
  next
    case (Inr z)
    with v have "e \<in> set (sent (bindM (emptyZone E d cluster r z) (\<lambda>_. Route53_DeleteHostedZone E r z)) v)" by simp
    from emptied_then_deleted [OF this assms(2)] Inr obtain before where
      before: "sent (?rest r l) v = before @ [e]" "list_all (\<lambda>e. ev_err e = None) before" by auto
    have "fst (?lookup r u) = Ok z"
      using l Inr by (cases rule: tryM_cases) auto
    then have "list_all (\<lambda>e. ev_err e = None) (sent (tryM (?lookup r)) u)"
      using strict_lookup [of E r] by (simp add: strict_def sent_def tryM_state)
    with before sent1 sent2 get show ?thesis
      by (intro exI [of _ "sent (tryM (?lookup r)) u @ before"]) simp
  qed
qed

section \<open>Examples\<close>

definition demoWC :: Cluster where
  "demoWC = \<lparr>cl_AdditionalTags = [], cl_VPCsToAssociateToHostedZone = [''vpc-2''], cl_Name = ''wc'',
     cl_ControlPlaneEndpoint = ''lb.aws.com'', cl_WildcardCNAMETarget = '''', cl_IsDnsModePrivate = False,
     cl_IsVpcModePrivate = False, cl_IsEKS = False, cl_Region = ''eu-west-1'', cl_VPCCidr = ''10.0.0.0/16'',
     cl_VPCId = ''vpc-1'', cl_IAMRoleARN = ''arn:aws:iam::1:role/wc'', cl_MCIAMRoleARN = ''arn:aws:iam::2:role/mc'',
     cl_Subnets = [], cl_CustomHostedZoneName = '''', cl_DelegationIAMRoleARN = '''', cl_BaseDomain = ''''\<rparr>"

definition demoZoner :: Zoner where
  "demoZoner = \<lparr>z_awsClients = NewClients '''', z_awsClientCache = 3,
     z_workloadClusterBaseDomain = ''gaws.io''\<rparr>"

definition demoZones :: "HostedZone list" where
  "demoZones = [\<lparr>hz_Id = ''/hostedzone/ZP'', hz_Name = ''gaws.io.''\<rparr>,
     \<lparr>hz_Id = ''/hostedzone/Z1'', hz_Name = ''wc.gaws.io.''\<rparr>]"

definition demoSets :: "(unit, ResourceRecordSet list) answer" where
  "demoSets q w = (Inr (case q of
      AWSReq _ (Route53Op (R53_ListResourceRecordSets z m n ty)) \<Rightarrow>
        if ty = Some ''NS'' then [\<lparr>rrs_Name = ''wc.gaws.io.'', rrs_Type = ''NS'', rrs_TTL = Some 300,
              rrs_Records = [''ns-1.awsdns.com.''], rrs_Alias = None\<rparr>]
        else [\<lparr>rrs_Name = (case n of Some n \<Rightarrow> n | None \<Rightarrow> ''a'') @ ''.'', rrs_Type = ''A'', rrs_TTL = Some 300,
              rrs_Records = [''10.0.0.1''], rrs_Alias = None\<rparr>]
    | _ \<Rightarrow> []), w)"

definition zoneEnv :: "(unit, (string \<times> cval) list) env" where
  "zoneEnv = demoEnv\<lparr>e_aws := demoAWS\<lparr>a_zones := okAns demoZones, a_rrsets := demoSets\<rparr>\<rparr>"

lemma zoneEnv_laws: "loader_laws zoneEnv" "gocache_laws (e_cache zoneEnv)"
  by (auto simp: zoneEnv_def loader_laws_def demo_defs listCache_laws)

lemma demoZoner_inv: "zoner_inv zoneEnv demoZoner demoSys"
  by (auto simp: zoner_inv_def configCache_inv_def zoneEnv_def demoZoner_def demo_defs)

lemma demoWC_targets:
  "goodTarget (cl_Region demoWC) (cl_IAMRoleARN demoWC)" "goodTarget (cl_Region demoWC) (getDelegationRoleARN demoWC)"
  by (simp_all add: goodTarget_def validRegion_def validRole_def hasPrefix_def demoWC_def
      defaultSessionKey_def getDelegationRoleARN_def)

lemma private_zone_uses_cluster_role_only_example:
  "list_all (requestAs (roleCreds (NewClients '''') ''eu-west-1'' ''arn:aws:iam::1:role/wc''))
      (sent (Zoner_CreateHostedZone zoneEnv demoZoner (demoWC\<lparr>cl_IsDnsModePrivate := True\<rparr>)) demoSys @
       sent (Zoner_DeleteHostedZone zoneEnv demoZoner (demoWC\<lparr>cl_IsDnsModePrivate := True\<rparr>)) demoSys) \<and>
   length (sent (Zoner_CreateHostedZone zoneEnv demoZoner (demoWC\<lparr>cl_IsDnsModePrivate := True\<rparr>)) demoSys) = 6"
proof
  show "list_all (requestAs (roleCreds (NewClients '''') ''eu-west-1'' ''arn:aws:iam::1:role/wc''))
      (sent (Zoner_CreateHostedZone zoneEnv demoZoner (demoWC\<lparr>cl_IsDnsModePrivate := True\<rparr>)) demoSys @
       sent (Zoner_DeleteHostedZone zoneEnv demoZoner (demoWC\<lparr>cl_IsDnsModePrivate := True\<rparr>)) demoSys)"
    using private_zone_uses_cluster_role_only [OF zoneEnv_laws _ _ demoZoner_inv, of "demoWC\<lparr>cl_IsDnsModePrivate := True\<rparr>"]
      demoWC_targets(1) by (simp add: demoWC_def demoZoner_def)
  show "length (sent (Zoner_CreateHostedZone zoneEnv demoZoner (demoWC\<lparr>cl_IsDnsModePrivate := True\<rparr>)) demoSys) = 6"
    by code_simp
qed

theorem delegation_role_confined_witness:
  "list_all (\<lambda>e. requestAs (roleCreds (NewClients '''') ''eu-west-1'' ''arn:aws:iam::1:role/wc'') e \<or>
        requestAs (roleCreds (NewClients '''') ''eu-west-1'' ''arn:aws:iam::2:role/mc'') e \<and> nsChangeOnly e)
      (sent (Zoner_CreateHostedZone zoneEnv demoZoner demoWC) demoSys @
       sent (Zoner_DeleteHostedZone zoneEnv demoZoner demoWC) demoSys)"
  using delegation_role_confined [OF zoneEnv_laws demoWC_targets demoZoner_inv]
  by (simp add: demoWC_def demoZoner_def getDelegationRoleARN_def)



theorem zone_deleted_last_witness:
  "\<exists>before e. sent (Zoner_DeleteHostedZone zoneEnv demoZoner (demoWC\<lparr>cl_IsDnsModePrivate := True\<rparr>)) demoSys = before @ [e] \<and> zoneDeletion e \<and>
     list_all (\<lambda>e. ev_err e = None) before"
proof -
  define isDel where "isDel = (\<lambda>e. case ev_req e of AWSReq _ (Route53Op (R53_DeleteHostedZone _)) \<Rightarrow> True | _ \<Rightarrow> False)"
  have "list_ex isDel (sent (Zoner_DeleteHostedZone zoneEnv demoZoner (demoWC\<lparr>cl_IsDnsModePrivate := True\<rparr>)) demoSys)"
    unfolding isDel_def by code_simp
  then obtain e where "e \<in> set (sent (Zoner_DeleteHostedZone zoneEnv demoZoner (demoWC\<lparr>cl_IsDnsModePrivate := True\<rparr>)) demoSys)" and "isDel e"
    unfolding list_ex_iff by blast
  moreover from this(2) have "zoneDeletion e"
    by (simp add: zoneDeletion_def isDel_def split: request.splits aws_op.splits r53_op.splits)
  ultimately show ?thesis using zone_deleted_last by blast
qed

end
