(* ===== verification/Dns_Controller.thy ===== *)
theory Dns_Controller
  imports Controllers_Common Zoner
begin

text \<open>
  \<^verbatim>\<open>controllers/dns.go\<close> and \<^verbatim>\<open>controllers/eks_dns.go\<close>: the reconcilers that create the hosted zone of
  an \<^verbatim>\<open>AWSCluster\<close> or an \<^verbatim>\<open>AWSManagedControlPlane\<close> and delete it with the cluster.
\<close>

record DnsReconciler =
  dns_dnsZone :: Zoner
  dns_managementClusterName :: string
  dns_managementClusterNamespace :: string

definition NewDnsReconciler :: "Zoner \<Rightarrow> string \<Rightarrow> string \<Rightarrow> DnsReconciler" where
  "NewDnsReconciler dns managementClusterName managementClusterNamespace =
     \<lparr>dns_dnsZone = dns, dns_managementClusterName = managementClusterName,
      dns_managementClusterNamespace = managementClusterNamespace\<rparr>"

section \<open>AWSCluster\<close>

definition Dns_reconcileNormal :: "('w, 'c) env \<Rightarrow> DnsReconciler \<Rightarrow> Cluster \<Rightarrow> ('w, 'c, Result) go" where
  "Dns_reconcileNormal E r cluster =
     bindM (AddAWSClusterFinalizer E DnsFinalizer) (\<lambda>_.
     bindM (Zoner_CreateHostedZone E (dns_dnsZone r) cluster) (\<lambda>_.
     retM noRequeue))"

definition Dns_reconcileDelete :: "('w, 'c) env \<Rightarrow> DnsReconciler \<Rightarrow> Cluster \<Rightarrow> ('w, 'c, Result) go" where
  "Dns_reconcileDelete E r cluster =
     bindM (getM m_AWSCluster) (\<lambda>awsCluster.
     if \<not> l_ContainsFinalizer (e_lib E) (om_Finalizers awsCluster) DnsFinalizer then retM noRequeue
     else
       bindM (Zoner_DeleteHostedZone E (dns_dnsZone r) cluster) (\<lambda>_.
       bindM (RemoveAWSClusterFinalizer E DnsFinalizer) (\<lambda>_.
       retM noRequeue)))"

text \<open>The identity that an annotation names for the delegation, if any.\<close>

definition getDelegationIdentity :: "('w, 'c) env \<Rightarrow> gomap \<Rightarrow> ('w, 'c, RoleIdentity option) go" where
  "getDelegationIdentity E annotations =
     (if gget annotations AWSDNSDelegationIdentityAnnotation \<noteq> ''''
      then ClusterClient_GetIdentity E (Some (gget annotations AWSDNSDelegationIdentityAnnotation))
      else retM None)"

definition Dns_Reconcile ::
  "('w, 'c) env \<Rightarrow> DnsReconciler \<Rightarrow> string \<Rightarrow> string \<Rightarrow> ('w, 'c, Result) go" where
  "Dns_Reconcile E r ns name =
     bindM (GetAWSCluster E (dns_managementClusterNamespace r) (dns_managementClusterName r)) (\<lambda>mcAWSCluster.
     bindM (ClusterClient_GetIdentity E (ac_IdentityRef mcAWSCluster)) (\<lambda>mcIdentity.
     bindM (tryM (GetAWSCluster E ns name)) (\<lambda>got.
     case got of
       Inl e \<Rightarrow> ignoreNotFound e
     | Inr awsCluster \<Rightarrow>
       bindM (holdAWSCluster awsCluster) (\<lambda>_.
       bindM (GetCluster E ns name) (\<lambda>capiCluster.
       if l_IsPaused (e_lib E) capiCluster (om_Annotations awsCluster) then retM noRequeue
       else
         bindM (ClusterClient_GetIdentity E (ac_IdentityRef awsCluster)) (\<lambda>identity'.
         case identity' of
           None \<Rightarrow> retM noRequeue
         | Some identity \<Rightarrow>
           bindM (getDelegationIdentity E (om_Annotations awsCluster)) (\<lambda>delegationIdentity.
           let cluster = buildClusterFromAWSCluster (e_lib E) awsCluster identity mcIdentity delegationIdentity in
           if om_Deleting capiCluster then Dns_reconcileDelete E r cluster
           else Dns_reconcileNormal E r cluster)))))))"

section \<open>AWSManagedControlPlane\<close>

definition EKSDns_reconcileNormal :: "('w, 'c) env \<Rightarrow> DnsReconciler \<Rightarrow> Cluster \<Rightarrow> ('w, 'c, Result) go" where
  "EKSDns_reconcileNormal E r cluster =
     bindM (AddAWSManagedControlPlaneFinalizer E DnsFinalizer) (\<lambda>_.
     bindM (Zoner_CreateHostedZone E (dns_dnsZone r) cluster) (\<lambda>_.
     retM noRequeue))"

definition EKSDns_reconcileDelete :: "('w, 'c) env \<Rightarrow> DnsReconciler \<Rightarrow> Cluster \<Rightarrow> ('w, 'c, Result) go" where
  "EKSDns_reconcileDelete E r cluster =
     bindM (getM m_ControlPlane) (\<lambda>awsManagedControlPlane.
     if \<not> l_ContainsFinalizer (e_lib E) (om_Finalizers awsManagedControlPlane) DnsFinalizer then retM noRequeue
     else
       bindM (Zoner_DeleteHostedZone E (dns_dnsZone r) cluster) (\<lambda>_.
       bindM (RemoveAWSManagedControlPlaneFinalizer E DnsFinalizer) (\<lambda>_.
       retM noRequeue)))"

definition EKSDns_Reconcile ::
  "('w, 'c) env \<Rightarrow> DnsReconciler \<Rightarrow> string \<Rightarrow> string \<Rightarrow> ('w, 'c, Result) go" where
  "EKSDns_Reconcile E r ns name =
     bindM (GetAWSCluster E (dns_managementClusterNamespace r) (dns_managementClusterName r)) (\<lambda>mcAWSCluster.
     bindM (ClusterClient_GetIdentity E (ac_IdentityRef mcAWSCluster)) (\<lambda>mcIdentity.
     bindM (tryM (GetAWSManagedControlPlane E ns name)) (\<lambda>got.
     case got of
       Inl e \<Rightarrow> ignoreNotFound e
     | Inr awsManagedControlPlane \<Rightarrow>
       bindM (holdControlPlane awsManagedControlPlane) (\<lambda>_.
       bindM (GetCluster E ns name) (\<lambda>capiCluster.
       if l_IsPaused (e_lib E) capiCluster (om_Annotations awsManagedControlPlane) then retM noRequeue
       else
         bindM (ClusterClient_GetIdentity E (mcp_IdentityRef awsManagedControlPlane)) (\<lambda>identity'.
         case identity' of
           None \<Rightarrow> retM noRequeue
         | Some identity \<Rightarrow>
           bindM (getDelegationIdentity E (om_Annotations awsManagedControlPlane)) (\<lambda>delegationIdentity.
           let cluster = buildClusterFromAWSManagedControlPlane (e_lib E) awsManagedControlPlane
                 identity mcIdentity delegationIdentity in
           if om_Deleting capiCluster then EKSDns_reconcileDelete E r cluster
           else EKSDns_reconcileNormal E r cluster)))))))"

section \<open>The finalizer protocol\<close>

lemma r53_isAWS: "within (r53step r) m \<Longrightarrow> emits (\<lambda>e. isAWS (ev_req e)) m"
  by (drule r53step_emits) (erule emits_mono, auto simp: r53event_requestAs requestAs_def)

lemmas zoner_steps = step_Route53_CreateHostedZone step_GetHostedZoneIdByName step_GetHostedZoneNSRecord
  step_AddDelegationToParentZone step_DeleteDelegation step_DeleteDnsRecords step_Route53_DeleteHostedZone
  step_getWorkloadClusterDnsRecords step_DeleteDnsRecord step_AddDnsRecordsToHostedZone

lemma aws_Zoner_Create: "emits (\<lambda>e. isAWS (ev_req e)) (Zoner_CreateHostedZone E d cluster)"
  unfolding Zoner_CreateHostedZone_def reconcileDnsRecords_def
  by (intro emits_rules quiet_getCachedOrNewRoute53Client zoner_steps [THEN r53_isAWS])

lemma aws_Zoner_Delete: "emits (\<lambda>e. isAWS (ev_req e)) (Zoner_DeleteHostedZone E d cluster)"
  unfolding Zoner_DeleteHostedZone_def
  by (intro emits_rules quiet_getCachedOrNewRoute53Client zoner_steps [THEN r53_isAWS])

interpretation dns: finalizer_protocol DnsFinalizer
  "\<lambda>E _. AddAWSClusterFinalizer E DnsFinalizer"
  "\<lambda>E (d, cluster). bindM (Zoner_CreateHostedZone E d cluster) (\<lambda>_. retM noRequeue)"
  "\<lambda>E (d, cluster). Zoner_DeleteHostedZone E d cluster"
  "\<lambda>E _. bindM (RemoveAWSClusterFinalizer E DnsFinalizer) (\<lambda>_. retM noRequeue)"
  by unfold_locales
    (auto intro!: emits_rules emits_any [OF aws_Zoner_Create] aws_Zoner_Delete emits_any [OF emits_finalizer(4)])

interpretation eksDns: finalizer_protocol DnsFinalizer
  "\<lambda>E _. AddAWSManagedControlPlaneFinalizer E DnsFinalizer"
  "\<lambda>E (d, cluster). bindM (Zoner_CreateHostedZone E d cluster) (\<lambda>_. retM noRequeue)"
  "\<lambda>E (d, cluster). Zoner_DeleteHostedZone E d cluster"
  "\<lambda>E _. bindM (RemoveAWSManagedControlPlaneFinalizer E DnsFinalizer) (\<lambda>_. retM noRequeue)"
  by unfold_locales
    (auto intro!: emits_rules emits_any [OF aws_Zoner_Create] aws_Zoner_Delete emits_any [OF emits_finalizer(6)])

text \<open>C2: the DNS controllers put their finalizer on the object before they touch AWS, and remove it
  only after the hosted zone has been deleted: an AWS request of a normal reconciliation means
  that adding the finalizer succeeded, and a request that removes the finalizer means that the
  deletion of the zone returned without an error. A deletion that fails keeps the finalizer.\<close>

theorem dns_finalizer_protocol:
  shows "(e \<in> set (sent (Dns_reconcileNormal E r cluster) s) \<and> isAWS (ev_req e) \<longrightarrow>
      (\<exists>t. AddAWSClusterFinalizer E DnsFinalizer s = (Ok (), t))) \<and>
    (e \<in> set (sent (Dns_reconcileDelete E r cluster) s) \<and> removesFinalizer DnsFinalizer e \<longrightarrow>
      (\<exists>t. Zoner_DeleteHostedZone E (dns_dnsZone r) cluster s = (Ok (), t))) \<and>
    (fst (Zoner_DeleteHostedZone E (dns_dnsZone r) cluster s) \<noteq> Ok () \<longrightarrow>
      list_all (\<lambda>e. isAWS (ev_req e)) (sent (Dns_reconcileDelete E r cluster) s))"
proof (intro conjI impI)
  assume "e \<in> set (sent (Dns_reconcileNormal E r cluster) s) \<and> isAWS (ev_req e)"
  then show "\<exists>t. AddAWSClusterFinalizer E DnsFinalizer s = (Ok (), t)"
    using dns.provided_after_finalizer [of e E "(dns_dnsZone r, cluster)" s]
    by (auto simp: Dns_reconcileNormal_def)
next
  assume "e \<in> set (sent (Dns_reconcileDelete E r cluster) s) \<and> removesFinalizer DnsFinalizer e"
  then show "\<exists>t. Zoner_DeleteHostedZone E (dns_dnsZone r) cluster s = (Ok (), t)"
    using dns.removed_after_cleanup [of e E "(dns_dnsZone r, cluster)" s]
    by (auto simp: Dns_reconcileDelete_def sent_def split: if_splits)
next
  assume "fst (Zoner_DeleteHostedZone E (dns_dnsZone r) cluster s) \<noteq> Ok ()"
  then show "list_all (\<lambda>e. isAWS (ev_req e)) (sent (Dns_reconcileDelete E r cluster) s)"
    using dns.failed_cleanup [of E "(dns_dnsZone r, cluster)" s]
      emits_sent [OF aws_Zoner_Delete, of E "dns_dnsZone r" cluster s]
    by (auto simp: Dns_reconcileDelete_def sent_def)
qed

text \<open>The same protocol holds for the EKS control planes.\<close>

lemma eks_dns_finalizer_protocol:
  shows "(e \<in> set (sent (EKSDns_reconcileNormal E r cluster) s) \<and> isAWS (ev_req e) \<longrightarrow>
      (\<exists>t. AddAWSManagedControlPlaneFinalizer E DnsFinalizer s = (Ok (), t))) \<and>
    (e \<in> set (sent (EKSDns_reconcileDelete E r cluster) s) \<and> removesFinalizer DnsFinalizer e \<longrightarrow>
      (\<exists>t. Zoner_DeleteHostedZone E (dns_dnsZone r) cluster s = (Ok (), t)))"
proof (intro conjI impI)
  assume "e \<in> set (sent (EKSDns_reconcileNormal E r cluster) s) \<and> isAWS (ev_req e)"
  then show "\<exists>t. AddAWSManagedControlPlaneFinalizer E DnsFinalizer s = (Ok (), t)"
    using eksDns.provided_after_finalizer [of e E "(dns_dnsZone r, cluster)" s]
    by (auto simp: EKSDns_reconcileNormal_def)
next
  assume "e \<in> set (sent (EKSDns_reconcileDelete E r cluster) s) \<and> removesFinalizer DnsFinalizer e"
  then show "\<exists>t. Zoner_DeleteHostedZone E (dns_dnsZone r) cluster s = (Ok (), t)"
    using eksDns.removed_after_cleanup [of e E "(dns_dnsZone r, cluster)" s]
    by (auto simp: EKSDns_reconcileDelete_def sent_def split: if_splits)
qed

section \<open>Paused clusters\<close>

lemma safe_GetCluster:
  "(\<And>q w c w'. k_Cluster (e_kube E) q w = (Inr c, w') \<Longrightarrow> Q c) \<Longrightarrow>
   safe (\<lambda>_. True) k8sRead (GetCluster E ns n) Q"
  unfolding GetCluster_def by (rule safe_call) (auto simp: k8sRead_def)

lemma safe_read:
  "safe (\<lambda>_. True) k8sRead (GetAWSCluster E ns n) (\<lambda>_. True)"
  "safe (\<lambda>_. True) k8sRead (GetAWSManagedControlPlane E ns n) (\<lambda>_. True)"
  "safe (\<lambda>_. True) k8sRead (ClusterClient_GetIdentity E i) (\<lambda>_. True)"
  "safe (\<lambda>_. True) k8sRead (tryM (GetAWSCluster E ns n)) (\<lambda>_. True)"
  "safe (\<lambda>_. True) k8sRead (tryM (GetAWSManagedControlPlane E ns n)) (\<lambda>_. True)"
  "safe (\<lambda>_. True) k8sRead (holdAWSCluster a) (\<lambda>_. True)"
  "safe (\<lambda>_. True) k8sRead (holdControlPlane b) (\<lambda>_. True)"
  "safe (\<lambda>_. True) k8sRead (ignoreNotFound e) (\<lambda>_. True)"
  by (rule safe_emits, intro emits_rules)+

text \<open>While the API server reports a cluster as paused, the DNS controllers leave it alone: they
  only read Kubernetes objects, and send nothing to AWS.\<close>

lemma dns_paused_reads_only:
  assumes "\<And>q w c w' as. k_Cluster (e_kube E) q w = (Inr c, w') \<Longrightarrow> l_IsPaused (e_lib E) c as"
  shows "list_all k8sRead (sent (Dns_Reconcile E r ns name) s @ sent (EKSDns_Reconcile E r ns name) s)"
proof -
  let ?Q = "\<lambda>c. \<forall>as. l_IsPaused (e_lib E) c as"
  have get: "safe (\<lambda>_. True) k8sRead (GetCluster E ns name) ?Q"
    by (rule safe_GetCluster) (use assms in blast)
  have "safe (\<lambda>_. True) k8sRead (Dns_Reconcile E r ns name) (\<lambda>_. True)"
    unfolding Dns_Reconcile_def
    by (intro safe_read safe_bindM [OF safe_read(1)] safe_bindM [OF safe_read(3)] safe_bindM [OF safe_read(4)]
        safe_bindM [OF safe_read(6)] safe_bindM [OF get] safe_case_sum) (simp add: safe_retM)
  moreover have "safe (\<lambda>_. True) k8sRead (EKSDns_Reconcile E r ns name) (\<lambda>_. True)"
    unfolding EKSDns_Reconcile_def
    by (intro safe_read safe_bindM [OF safe_read(1)] safe_bindM [OF safe_read(3)] safe_bindM [OF safe_read(5)]
        safe_bindM [OF safe_read(7)] safe_bindM [OF get] safe_case_sum) (simp add: safe_retM)
  ultimately show ?thesis by (auto dest: safe_sent)
qed

section \<open>Examples\<close>

definition dnsSys :: "(unit, (string \<times> cval) list) sys" where
  "dnsSys = demoSys\<lparr>m_AWSCluster := demoAWSCluster\<lparr>om_Finalizers := [DnsFinalizer]\<rparr>,
     m_ControlPlane := demoControlPlane\<lparr>om_Finalizers := [DnsFinalizer]\<rparr>\<rparr>"

definition demoDns :: DnsReconciler where
  "demoDns = NewDnsReconciler demoZoner ''mc'' ''org''"

definition privateWC :: Cluster where
  "privateWC = demoWC\<lparr>cl_IsDnsModePrivate := True\<rparr>"

theorem dns_finalizer_protocol_witness:
  "list_ex (removesFinalizer DnsFinalizer) (sent (Dns_reconcileDelete zoneEnv demoDns privateWC) dnsSys) \<and>
   (\<exists>t. Zoner_DeleteHostedZone zoneEnv (dns_dnsZone demoDns) privateWC dnsSys = (Ok (), t))"
proof -
  have ex: "list_ex (removesFinalizer DnsFinalizer) (sent (Dns_reconcileDelete zoneEnv demoDns privateWC) dnsSys)"
    by code_simp
  then obtain e where "e \<in> set (sent (Dns_reconcileDelete zoneEnv demoDns privateWC) dnsSys)" "removesFinalizer DnsFinalizer e"
    unfolding list_ex_iff by blast
  with ex dns_finalizer_protocol show ?thesis by blast
qed

lemma eks_dns_finalizer_protocol_example:
  "list_ex (removesFinalizer DnsFinalizer) (sent (EKSDns_reconcileDelete zoneEnv demoDns privateWC) dnsSys) \<and>
   (\<exists>t. Zoner_DeleteHostedZone zoneEnv (dns_dnsZone demoDns) privateWC dnsSys = (Ok (), t))"
proof -
  have ex: "list_ex (removesFinalizer DnsFinalizer) (sent (EKSDns_reconcileDelete zoneEnv demoDns privateWC) dnsSys)"
    by code_simp
  then obtain e where "e \<in> set (sent (EKSDns_reconcileDelete zoneEnv demoDns privateWC) dnsSys)" "removesFinalizer DnsFinalizer e"
    unfolding list_ex_iff by blast
  with ex eks_dns_finalizer_protocol show ?thesis by blast
qed

definition pausedEnv :: "(unit, (string \<times> cval) list) env" where
  "pausedEnv = zoneEnv\<lparr>e_kube := demoKube\<lparr>k_Cluster := okAns (demoCluster\<lparr>cc_Paused := Some True\<rparr>)\<rparr>\<rparr>"

lemma dns_paused_reads_only_example:
  "list_all k8sRead (sent (Dns_Reconcile pausedEnv demoDns ''org'' ''wc'') demoSys @
     sent (EKSDns_Reconcile pausedEnv demoDns ''org'' ''wc'') demoSys)"
  by (rule dns_paused_reads_only) (auto simp: pausedEnv_def zoneEnv_def demo_defs)

end
