(* ===== verification/EC2_Client.thy ===== *)
theory EC2_Client
  imports Scenario
begin

text \<open>
  \<^verbatim>\<open>pkg/aws/errors.go\<close> (the test of an error code), \<^verbatim>\<open>pkg/aws/ec2client.go\<close> (security groups for the
  resolver endpoints; the instances of a node pool) and \<^verbatim>\<open>pkg/aws/s3client.go\<close>. A client is the
  credentials its requests carry. The paginator of the SDK is modelled by the number of the page
  it asks for and by whether an answer announces another page; the loop over the pages has fuel,
  since its length is decided by AWS.
\<close>

definition HasErrorCode :: "go_error \<Rightarrow> string \<Rightarrow> bool" where
  "HasErrorCode e code = (case root_error e of GenericAPIError c _ \<Rightarrow> c = code | _ \<Rightarrow> False)"

abbreviation ec2req :: "creds \<Rightarrow> ec2_op \<Rightarrow> request" where
  "ec2req c x \<equiv> AWSReq c (EC2Op x)"

text \<open>\<open>ignoreCode code m\<close>: the error with this code counts as success.\<close>

definition ignoreCode :: "string \<Rightarrow> ('s, unit) io \<Rightarrow> ('s, unit) io" where
  "ignoreCode code m = bindM (tryM m) (\<lambda>res. case res of
      Inl e \<Rightarrow> if HasErrorCode e code then retM () else errM e
    | Inr _ \<Rightarrow> retM ())"

section \<open>Security groups\<close>

definition DNSPort :: nat where
  "DNSPort = 53"

definition SecurityGroupDescription :: string where
  "SecurityGroupDescription = ''Security group for resolver rule endpoints''"

definition getEc2Tags :: "gomap \<Rightarrow> gomap" where
  "getEc2Tags t = map (\<lambda>(k, v). (k, v)) t"

definition getSecurityGroupByName ::
  "('w, 'c) env \<Rightarrow> creds \<Rightarrow> string \<Rightarrow> string \<Rightarrow> ('w, 'c, string) go" where
  "getSecurityGroupByName E a vpcId groupName =
     bindM (call (a_securityGroups (e_aws E)) (ec2req a (EC2_DescribeSecurityGroups vpcId groupName))) (\<lambda>groups.
     case groups of
       [] \<Rightarrow> errM SecurityGroupNotFoundError
     | g # _ \<Rightarrow> retM g)"

definition createSecurityGroup ::
  "('w, 'c) env \<Rightarrow> creds \<Rightarrow> string \<Rightarrow> string \<Rightarrow> gomap \<Rightarrow> ('w, 'c, string) go" where
  "createSecurityGroup E a vpcId groupName tags =
     bindM (tryM (call (a_id (e_aws E)) (ec2req a
         (EC2_CreateSecurityGroup SecurityGroupDescription groupName vpcId (getEc2Tags tags))))) (\<lambda>response.
     case response of
       Inl e \<Rightarrow>
         if HasErrorCode e ''InvalidGroup.Duplicate'' then getSecurityGroupByName E a vpcId groupName
         else errM e
     | Inr groupId \<Rightarrow> retM groupId)"

definition authorizeSecurityGroupIngress ::
  "('w, 'c) env \<Rightarrow> creds \<Rightarrow> string \<Rightarrow> string \<Rightarrow> string \<Rightarrow> nat \<Rightarrow> gomap \<Rightarrow> ('w, 'c, unit) go" where
  "authorizeSecurityGroupIngress E a securityGroupId protocol cidr port tags =
     ignoreCode ''InvalidPermission.Duplicate'' (call (a_done (e_aws E)) (ec2req a
       (EC2_AuthorizeSecurityGroupIngress securityGroupId protocol cidr port (getEc2Tags tags))))"

definition CreateSecurityGroupForResolverEndpoints ::
  "('w, 'c) env \<Rightarrow> creds \<Rightarrow> string \<Rightarrow> string \<Rightarrow> gomap \<Rightarrow> ('w, 'c, string) go" where
  "CreateSecurityGroupForResolverEndpoints E a vpcId groupName tags =
     bindM (createSecurityGroup E a vpcId groupName tags) (\<lambda>securityGroupId.
     bindM (authorizeSecurityGroupIngress E a securityGroupId ''udp'' ''0.0.0.0/0'' DNSPort tags) (\<lambda>_.
     bindM (authorizeSecurityGroupIngress E a securityGroupId ''tcp'' ''0.0.0.0/0'' DNSPort tags) (\<lambda>_.
     retM securityGroupId)))"

definition DeleteSecurityGroupForResolverEndpoints ::
  "('w, 'c) env \<Rightarrow> creds \<Rightarrow> string \<Rightarrow> string \<Rightarrow> ('w, 'c, unit) go" where
  "DeleteSecurityGroupForResolverEndpoints E a vpcId groupName =
     bindM (tryM (getSecurityGroupByName E a vpcId groupName)) (\<lambda>found.
     case found of
       Inl e \<Rightarrow> if isSecurityGroupNotFound e then retM () else errM e
     | Inr securityGroup \<Rightarrow>
         ignoreCode ''InvalidGroup.NotFound''
           (call (a_done (e_aws E)) (ec2req a (EC2_DeleteSecurityGroup securityGroup))))"

section \<open>Instances\<close>

text \<open>The instances of one page that are not terminated; those without id or state are skipped.\<close>

definition liveInstance :: "EC2Instance \<Rightarrow> bool" where
  "liveInstance i = (in_InstanceId i \<noteq> None \<and> in_State i \<noteq> None \<and> in_State i \<noteq> Some ''terminated'')"

definition pageInstances :: "EC2Instance list list \<Rightarrow> string list" where
  "pageInstances reservations = map (\<lambda>i. the (in_InstanceId i)) (filter liveInstance (concat reservations))"

primrec instancePages ::
  "('w, 'c) env \<Rightarrow> creds \<Rightarrow> gomap \<Rightarrow> nat \<Rightarrow> nat \<Rightarrow> string list \<Rightarrow> ('w, 'c, string list) go" where
  "instancePages E a filters page 0 instanceIDs = stallM"
| "instancePages E a filters page (Suc fuel) instanceIDs =
     bindM (call (a_instances (e_aws E)) (ec2req a (EC2_DescribeInstances filters page))) (\<lambda>out.
     if snd out then instancePages E a filters (Suc page) fuel (instanceIDs @ pageInstances (fst out))
     else retM (instanceIDs @ pageInstances (fst out)))"

definition GetNonTerminatedInstancesByTags ::
  "('w, 'c) env \<Rightarrow> creds \<Rightarrow> gomap \<Rightarrow> ('w, 'c, string list) go" where
  "GetNonTerminatedInstancesByTags E a tags =
     (if tags = [] then errM (ErrorString ''at least one tag filter is required'')
      else instancePages E a (map (\<lambda>(k, v). (''tag:'' @ k, v)) tags) 0 (e_fuel E) [])"

definition TerminateInstances :: "('w, 'c) env \<Rightarrow> creds \<Rightarrow> string list \<Rightarrow> ('w, 'c, unit) go" where
  "TerminateInstances E a instanceIDs =
     (if instanceIDs = [] then retM ()
      else call (a_done (e_aws E)) (ec2req a (EC2_TerminateInstances instanceIDs)))"

section \<open>S3\<close>

text \<open>\<^verbatim>\<open>Delete\<close> tests for any API error with the code, typed or generic: \<open>smithyCode\<close>.\<close>

definition smithyCode :: "go_error \<Rightarrow> string option" where
  "smithyCode e = (case root_error e of
      GenericAPIError c _ \<Rightarrow> Some c
    | SDKException x _ \<Rightarrow> Some (case x of
          NoSuchHostedZone \<Rightarrow> ''NoSuchHostedZone''
        | ResourceExistsException \<Rightarrow> ''ResourceExistsException''
        | ResourceNotFoundException \<Rightarrow> ''ResourceNotFoundException''
        | InvalidRequestException \<Rightarrow> ''InvalidRequestException''
        | OtherException c \<Rightarrow> c)
    | _ \<Rightarrow> None)"

definition S3_Put :: "('w, 'c) env \<Rightarrow> creds \<Rightarrow> string \<Rightarrow> string \<Rightarrow> string \<Rightarrow> ('w, 'c, unit) go" where
  "S3_Put E c bucket path data = call (a_done (e_aws E)) (AWSReq c (S3Op (S3_PutObject bucket path data)))"

definition S3_Delete :: "('w, 'c) env \<Rightarrow> creds \<Rightarrow> string \<Rightarrow> string \<Rightarrow> ('w, 'c, unit) go" where
  "S3_Delete E c bucket path =
     bindM (tryM (call (a_done (e_aws E)) (AWSReq c (S3Op (S3_DeleteObject bucket path))))) (\<lambda>res.
     case res of
       Inl e \<Rightarrow> if smithyCode e = Some ''NoSuchBucket'' then retM () else errM e
     | Inr _ \<Rightarrow> retM ())"

section \<open>Requests sent\<close>

lemma emits_ignoreCode [emits_rules]: "emits P m \<Longrightarrow> emits P (ignoreCode code m)"
  unfolding ignoreCode_def by (intro emits_rules)

lemma sent_call: "e \<in> set (sent (call ans q) s) \<Longrightarrow> ev_req e = q"
  using emits_sent [OF emits_call [where P = "\<lambda>e. ev_req e = q"], of q ans s] by (auto simp: list_all_iff)

lemma sent_wrapM: "sent (wrapM f m) s = sent m s"
  by (simp add: sent_def wrapM_state)

lemma sent_retM [simp]: "sent (retM x) s = []"
  by (simp add: sent_def)

text \<open>\<open>byClient c X e\<close>: a request made with the credentials \<open>c\<close> for an operation in \<open>X\<close>.\<close>

definition byClient :: "creds \<Rightarrow> (aws_op \<Rightarrow> bool) \<Rightarrow> event \<Rightarrow> bool" where
  "byClient c X e \<longleftrightarrow> (\<exists>x. ev_req e = AWSReq c x \<and> X x)"

lemma byClient_Event [simp]: "byClient c X (Event (AWSReq c' x) err) \<longleftrightarrow> c' = c \<and> X x"
  by (auto simp: byClient_def)

lemma byClient_isAWS: "byClient c X e \<Longrightarrow> isAWS (ev_req e)"
  by (auto simp: byClient_def)

lemma emits_securityGroup [emits_rules]:
  "emits (byClient a (\<lambda>x. True)) (CreateSecurityGroupForResolverEndpoints E a vpc n tags)"
  "emits (byClient a (\<lambda>x. True)) (DeleteSecurityGroupForResolverEndpoints E a vpc n)"
  unfolding CreateSecurityGroupForResolverEndpoints_def DeleteSecurityGroupForResolverEndpoints_def
    createSecurityGroup_def authorizeSecurityGroupIngress_def getSecurityGroupByName_def
  by (intro emits_rules emits_call; simp)+

lemma emits_instancePages:
  "emits (byClient a (\<lambda>x. \<not> aws_mutates x)) (instancePages E a filters page fuel ids)"
proof (induction fuel arbitrary: page ids)
  case 0
  show ?case by (simp add: within_def appends_same)
next
  case (Suc fuel)
  show ?case unfolding instancePages.simps by (intro emits_rules emits_call Suc) simp
qed

lemma emits_instances [emits_rules]:
  "emits (byClient a (\<lambda>x. \<not> aws_mutates x)) (GetNonTerminatedInstancesByTags E a tags)"
  "emits (byClient a (\<lambda>x. True)) (TerminateInstances E a ids)"
  unfolding GetNonTerminatedInstancesByTags_def TerminateInstances_def
  by (intro emits_rules emits_instancePages emits_call; simp)+

lemma emits_s3 [emits_rules]:
  "emits (byClient c (\<lambda>x. True)) (S3_Put E c bucket path d)" "emits (byClient c (\<lambda>x. True)) (S3_Delete E c bucket path)"
  unfolding S3_Put_def S3_Delete_def by (intro emits_rules emits_call; simp)+

section \<open>All pages are read\<close>

text \<open>A service that answers with the given pages, one after the other, whatever the outside does.\<close>

definition servesInstances :: "('w, 'c) env \<Rightarrow> creds \<Rightarrow> gomap \<Rightarrow> EC2Instance list list list \<Rightarrow> bool" where
  "servesInstances E a filters pages \<longleftrightarrow> pages \<noteq> [] \<and>
     (\<forall>i w. i < length pages \<longrightarrow> (\<exists>w'.
        a_instances (e_aws E) (ec2req a (EC2_DescribeInstances filters i)) w =
          (Inr (pages ! i, Suc i < length pages), w')))"

lemma instancePages_complete:
  assumes "servesInstances E a filters pages" "page < length pages" "length pages - page \<le> fuel"
  shows "fst (instancePages E a filters page fuel ids s) = Ok (ids @ concat (map pageInstances (drop page pages)))"
  using assms(2,3)
proof (induction fuel arbitrary: page ids s)
  case 0
  then show ?case by simp
next
  case (Suc fuel)
  obtain w' where w': "a_instances (e_aws E) (ec2req a (EC2_DescribeInstances filters page)) (world s) =
      (Inr (pages ! page, Suc page < length pages), w')"
    using assms(1) Suc.prems(1) unfolding servesInstances_def by blast
  have drop: "drop page pages = pages ! page # drop (Suc page) pages"
    using Suc.prems(1) by (simp add: Cons_nth_drop_Suc)
  show ?case
  proof (cases "Suc page < length pages")
    case True
    with Suc w' drop show ?thesis by (simp add: bindM_def call_def)
  next
    case False
    with w' drop show ?thesis by (simp add: bindM_def call_def)
  qed
qed

lemma strict_instancePages: "strict (instancePages E a filters page fuel ids)"
proof (induction fuel arbitrary: page ids)
  case 0
  show ?case by (rule strict_quiet) (simp add: within_def appends_same)
next
  case (Suc fuel)
  show ?case unfolding instancePages.simps by (intro strict_rules Suc)
qed

text \<open>C30: listing the instances of a node pool reads every page AWS has, and returns exactly the ids
  of the instances that have an id and a state other than terminated, in order, without changing
  anything in AWS; when a page cannot be read, no partial list is returned. (With fewer pages
  than fuel, the loop ends.)\<close>

theorem instances_all_pages:
  assumes "tags \<noteq> []" "servesInstances E a (map (\<lambda>(k, v). (''tag:'' @ k, v)) tags) pages"
    and "length pages \<le> e_fuel E"
  shows "fst (GetNonTerminatedInstancesByTags E a tags s) =
       Ok (map (\<lambda>i. the (in_InstanceId i)) (filter liveInstance (concat (concat pages)))) \<and>
     list_all (byClient a (\<lambda>x. \<not> aws_mutates x)) (sent (GetNonTerminatedInstancesByTags E a tags) s) \<and>
     (\<forall>E' s' ids. fst (GetNonTerminatedInstancesByTags E' a tags s') = Ok ids \<longrightarrow>
        list_all (\<lambda>e. ev_err e = None) (sent (GetNonTerminatedInstancesByTags E' a tags) s'))"
proof (intro conjI allI impI)
  have "0 < length pages"
    using assms(2) by (simp add: servesInstances_def)
  moreover have "concat (map pageInstances pages) = map (\<lambda>i. the (in_InstanceId i)) (filter liveInstance (concat (concat pages)))"
    by (induction pages) (simp_all add: pageInstances_def)
  ultimately show "fst (GetNonTerminatedInstancesByTags E a tags s) =
       Ok (map (\<lambda>i. the (in_InstanceId i)) (filter liveInstance (concat (concat pages))))"
    using instancePages_complete [OF assms(2), of 0 "e_fuel E" "[]" s] assms(1,3)
    by (simp add: GetNonTerminatedInstancesByTags_def)
  show "list_all (byClient a (\<lambda>x. \<not> aws_mutates x)) (sent (GetNonTerminatedInstancesByTags E a tags) s)"
    by (rule emits_sent) (rule emits_instances)
next
  fix E' :: "('c, 'd) env" and s' ids
  assume "fst (GetNonTerminatedInstancesByTags E' a tags s') = Ok ids"
  moreover have "strict (GetNonTerminatedInstancesByTags E' a tags)"
    unfolding GetNonTerminatedInstancesByTags_def by (intro strict_rules strict_instancePages)
  ultimately show "list_all (\<lambda>e. ev_err e = None) (sent (GetNonTerminatedInstancesByTags E' a tags) s')"
    by (simp add: strict_def)
qed

text \<open>Two pages, of which the second has a terminated instance.\<close>

definition twoPages :: "EC2Instance list list list" where
  "twoPages = [[[\<lparr>in_InstanceId = Some ''i-1'', in_State = Some ''running''\<rparr>]],
     [[\<lparr>in_InstanceId = Some ''i-2'', in_State = Some ''terminated''\<rparr>,
       \<lparr>in_InstanceId = Some ''i-3'', in_State = Some ''stopping''\<rparr>]]]"

definition pageAns :: "'a list \<Rightarrow> ('w, 'a \<times> bool) answer" where
  "pageAns pages q w = (case q of
      AWSReq _ (EC2Op (EC2_DescribeInstances _ i)) \<Rightarrow>
        if i < length pages then (Inr (pages ! i, Suc i < length pages), w) else (Inl (TransportError ''''), w)
    | _ \<Rightarrow> (Inl (TransportError ''''), w))"

definition instancesEnv :: "(unit, (string \<times> cval) list) env" where
  "instancesEnv = demoEnv\<lparr>e_aws := demoAWS\<lparr>a_instances := pageAns twoPages\<rparr>\<rparr>"

theorem instances_all_pages_witness:
  "fst (GetNonTerminatedInstancesByTags instancesEnv demoCreds [(''pool'', ''p1'')] demoSys) = Ok [''i-1'', ''i-3'']"
proof -
  have "servesInstances instancesEnv demoCreds (map (\<lambda>(k, v). (''tag:'' @ k, v)) [(''pool'', ''p1'')]) twoPages"
    unfolding servesInstances_def by (simp add: instancesEnv_def pageAns_def twoPages_def)
  from instances_all_pages [OF _ this, of demoSys, THEN conjunct1] show ?thesis
    by (simp add: instancesEnv_def demoEnv_def twoPages_def liveInstance_def)
qed


end
