(* ===== verification/Go_Net.thy ===== *)
theory Go_Net
  imports Go_Strings "HOL-Library.Word"
begin

text \<open>
  What the operator uses of Go's \<^verbatim>\<open>net\<close> package: \<^verbatim>\<open>net.ParseIP\<close>, \<^verbatim>\<open>net.ParseCIDR\<close> and
  \<^verbatim>\<open>(*net.IPNet).Contains\<close>. An address is read by the rules of \<^verbatim>\<open>net/netip\<close>: dotted decimal
  without leading zeros, or groups of hexadecimal digits with at most one \<^verbatim>\<open>::\<close> and optionally a
  dotted tail. As in Go, an address is a list of bytes: 4 or 16 of them, or none for nil.
\<close>

unbundle bit_operations_syntax

type_synonym byte = "8 word"
type_synonym IP = "byte list"

section \<open>Numbers\<close>

definition isDigit :: "char \<Rightarrow> bool" where
  "isDigit c = (48 \<le> (of_char c :: nat) \<and> (of_char c :: nat) \<le> 57)"

definition isHexDigit :: "char \<Rightarrow> bool" where
  "isHexDigit c = (isDigit c \<or> 97 \<le> (of_char c :: nat) \<and> (of_char c :: nat) \<le> 102
     \<or> 65 \<le> (of_char c :: nat) \<and> (of_char c :: nat) \<le> 70)"

definition hexVal :: "char \<Rightarrow> nat" where
  "hexVal c = (let n = (of_char c :: nat) in if n \<le> 57 then n - 48 else if n \<le> 70 then n - 55 else n - 87)"

fun decimal :: "nat \<Rightarrow> string \<Rightarrow> nat" where
  "decimal n [] = n"
| "decimal n (c # cs) = decimal (10 * n + ((of_char c :: nat) - 48)) cs"

fun hexadecimal :: "nat \<Rightarrow> string \<Rightarrow> nat" where
  "hexadecimal n [] = n"
| "hexadecimal n (c # cs) = hexadecimal (16 * n + hexVal c) cs"

section \<open>Addresses\<close>

text \<open>One field of a dotted address.\<close>

definition isOctet :: "string \<Rightarrow> bool" where
  "isOctet f \<longleftrightarrow> f \<noteq> [] \<and> list_all isDigit f \<and> (length f > 1 \<longrightarrow> hd f \<noteq> CHR ''0'') \<and> decimal 0 f \<le> 255"

definition parseIPv4 :: "string \<Rightarrow> IP option" where
  "parseIPv4 s = (let fs = splitOn CHR ''.'' s in
     if length fs = 4 \<and> list_all isOctet fs then Some (map (\<lambda>f. of_nat (decimal 0 f)) fs) else None)"

text \<open>
  The loop of \<^verbatim>\<open>parseIPv6\<close>: \<open>ip\<close> are the bytes filled so far, \<open>ellipsis\<close> is where \<^verbatim>\<open>::\<close> was seen. At
  the end the rest of the string must be empty, and an ellipsis stands for at least one group.
\<close>

definition ipv6End :: "IP \<Rightarrow> nat option \<Rightarrow> string \<Rightarrow> IP option" where
  "ipv6End ip ellipsis s =
     (if s \<noteq> [] then None
      else case ellipsis of
        None \<Rightarrow> if length ip < 16 then None else Some ip
      | Some k \<Rightarrow> if length ip < 16 then Some (take k ip @ replicate (16 - length ip) 0 @ drop k ip) else None)"

function ipv6Loop :: "IP \<Rightarrow> nat option \<Rightarrow> string \<Rightarrow> IP option" where
  "ipv6Loop ip ellipsis s =
     (if length ip \<ge> 16 then ipv6End ip ellipsis s
      else
        let g = takeWhile isHexDigit s; r = dropWhile isHexDigit s;
            ip' = ip @ [of_nat (hexadecimal 0 g div 256), of_nat (hexadecimal 0 g)] in
        if g = [] \<or> length g > 4 then None
        else if r \<noteq> [] \<and> hd r = CHR ''.'' then
          (if ellipsis = None \<and> length ip \<noteq> 12 \<or> length ip + 4 > 16 then None
           else case parseIPv4 s of None \<Rightarrow> None | Some v4 \<Rightarrow> ipv6End (ip @ v4) ellipsis [])
        else if r = [] then ipv6End ip' ellipsis []
        else if hd r \<noteq> CHR '':'' \<or> tl r = [] then None
        else if hd (tl r) \<noteq> CHR '':'' then ipv6Loop ip' ellipsis (tl r)
        else if ellipsis \<noteq> None then None
        else if tl (tl r) = [] then ipv6End ip' (Some (length ip')) []
        else ipv6Loop ip' (Some (length ip')) (tl (tl r)))"
  by pat_completeness auto
termination
  by (relation "measure (\<lambda>(ip, e, s). 16 - length ip)") auto

declare ipv6Loop.simps [simp del]

definition parseIPv6 :: "string \<Rightarrow> IP option" where
  "parseIPv6 s =
     (if prefix ''::'' s
      then (if s = ''::'' then Some (replicate 16 0) else ipv6Loop [] (Some 0) (drop 2 s))
      else ipv6Loop [] None s)"

text \<open>
  \<^verbatim>\<open>netip.ParseAddr\<close> chooses by the first dot, colon or percent sign. An address with a zone is
  refused by both callers, so that a percent sign anywhere means no address.
\<close>

definition parseAddr :: "string \<Rightarrow> IP option" where
  "parseAddr s =
     (if CHR ''%'' \<in> set s then None
      else case dropWhile (\<lambda>c. c \<noteq> CHR ''.'' \<and> c \<noteq> CHR '':'') s of
        [] \<Rightarrow> None
      | c # _ \<Rightarrow> if c = CHR ''.'' then parseIPv4 s else parseIPv6 s)"

definition v4InV6Prefix :: IP where
  "v4InV6Prefix = replicate 10 0 @ [255, 255]"

definition As16 :: "IP \<Rightarrow> IP" where
  "As16 ip = (if length ip = 4 then v4InV6Prefix @ ip else ip)"

definition To4 :: "IP \<Rightarrow> IP option" where
  "To4 ip = (if length ip = 4 then Some ip
     else if length ip = 16 \<and> take 12 ip = v4InV6Prefix then Some (drop 12 ip) else None)"

definition ParseIP :: "string \<Rightarrow> IP" where
  "ParseIP s = (case parseAddr s of None \<Rightarrow> [] | Some ip \<Rightarrow> As16 ip)"

section \<open>Networks\<close>

record IPNet =
  net_IP :: IP
  net_Mask :: IP

fun CIDRMask :: "nat \<Rightarrow> nat \<Rightarrow> IP" where
  "CIDRMask n 0 = []"
| "CIDRMask n (Suc l) =
     (if n \<ge> 8 then 255 # CIDRMask (n - 8) l else NOT (drop_bit n 255) # CIDRMask 0 l)"

lemma length_CIDRMask [simp]: "length (CIDRMask n l) = l"
  by (induction n l rule: CIDRMask.induct) simp_all

definition maskBytes :: "IP \<Rightarrow> IP \<Rightarrow> IP" where
  "maskBytes ip m = map2 (AND) ip m"

text \<open>\<^verbatim>\<open>IP.Mask\<close>; the mask of \<^verbatim>\<open>ParseCIDR\<close> is as long as the address that was written.\<close>

definition Mask :: "IP \<Rightarrow> IP \<Rightarrow> IP" where
  "Mask ip0 m =
     (let ip = (if length m = 4 \<and> length ip0 = 16 \<and> take 12 ip0 = v4InV6Prefix then drop 12 ip0 else ip0)
      in if length ip \<noteq> length m then [] else maskBytes ip m)"

definition ParseCIDR :: "string \<Rightarrow> IPNet option" where
  "ParseCIDR s = (case splitN2 CHR ''/'' s of
      [a, m] \<Rightarrow>
        (case parseAddr a of
           None \<Rightarrow> None
         | Some ip \<Rightarrow>
           if m = [] \<or> \<not> list_all isDigit m \<or> decimal 0 m > 8 * length ip then None
           else let mask' = CIDRMask (decimal 0 m) (length ip) in
             Some \<lparr>net_IP = Mask (As16 ip) mask', net_Mask = mask'\<rparr>)
    | _ \<Rightarrow> None)"

definition parsesCIDR :: "string \<Rightarrow> bool" where
  "parsesCIDR s = (ParseCIDR s \<noteq> None)"

definition networkNumberAndMask :: "IPNet \<Rightarrow> IP \<times> IP" where
  "networkNumberAndMask n =
     (let ip = (case To4 (net_IP n) of Some x \<Rightarrow> x | None \<Rightarrow> net_IP n); m = net_Mask n in
      if To4 (net_IP n) = None \<and> length ip \<noteq> 16 then ([], [])
      else if length m = 4 then (if length ip \<noteq> 4 then ([], []) else (ip, m))
      else if length m = 16 then (ip, if length ip = 4 then drop 12 m else m)
      else ([], []))"

definition Contains :: "IPNet \<Rightarrow> IP \<Rightarrow> bool" where
  "Contains n ip0 =
     (let (nn, m) = networkNumberAndMask n; ip = (case To4 ip0 of Some x \<Rightarrow> x | None \<Rightarrow> ip0) in
      length ip = length nn \<and> maskBytes nn m = maskBytes ip m)"

section \<open>Printed networks are read back\<close>

lemma isDigit_digit_char: "d < 10 \<Longrightarrow> isDigit (digit_char d)"
  by (simp add: isDigit_def digit_char_def)

lemma decimal_append: "decimal n (s @ t) = decimal (decimal n s) t"
  by (induction n s rule: decimal.induct) simp_all

lemma show_nat_digits: "list_all isDigit (show_nat n)"
  by (induction n rule: show_nat.induct) (subst show_nat.simps, simp add: isDigit_digit_char)

lemma show_nat_not_Nil [simp]: "show_nat n \<noteq> []"
  by (subst show_nat.simps) simp

lemma decimal_show_nat: "decimal 0 (show_nat n) = n"
proof (induction n rule: show_nat.induct)
  case (1 n)
  then show ?case
    by (subst show_nat.simps) (auto simp: decimal_append digit_char_def)
qed

lemma hd_show_nat: "0 < n \<Longrightarrow> hd (show_nat n) \<noteq> CHR ''0''"
proof (induction n rule: show_nat.induct)
  case (1 n)
  show ?case
  proof (cases "n < 10")
    case True
    then have "of_char (digit_char n) \<noteq> (48 :: nat)"
      using 1 by (simp add: digit_char_def)
    then have "digit_char n \<noteq> CHR ''0''" by auto
    with True show ?thesis by (subst show_nat.simps) simp
  next
    case False
    with 1 show ?thesis by (subst show_nat.simps) simp
  qed
qed

lemma isOctet_show_nat: "n \<le> 255 \<Longrightarrow> isOctet (show_nat n)"
  unfolding isOctet_def
  by (cases "n = 0") (auto simp: show_nat_digits decimal_show_nat hd_show_nat, simp add: show_nat.simps)

lemma not_digit: "\<not> isDigit CHR ''.''" "\<not> isDigit CHR ''/''" "\<not> isDigit CHR ''%''" "\<not> isDigit CHR '':''"
  by (simp_all add: isDigit_def)

lemma splitOn_append: "c \<notin> set w \<Longrightarrow> splitOn c (w @ c # s) = w # splitOn c s"
  by (induction w) auto

lemma splitOn_single: "c \<notin> set w \<Longrightarrow> splitOn c w = [w]"
  by (induction w) auto

lemma splitN2_append: "c \<notin> set w \<Longrightarrow> splitN2 c (w @ c # s) = [w, s]"
  by (induction w) auto

definition showIPv4 :: "byte \<Rightarrow> byte \<Rightarrow> byte \<Rightarrow> byte \<Rightarrow> string" where
  "showIPv4 a b c d =
     show_nat (unat a) @ ''.'' @ show_nat (unat b) @ ''.'' @ show_nat (unat c) @ ''.'' @ show_nat (unat d)"

lemma show_nat_free: "\<not> isDigit c \<Longrightarrow> c \<notin> set (show_nat n)"
  using show_nat_digits [of n] by (auto simp: list_all_iff)

lemma unat_byte: "unat (x :: byte) \<le> 255"
proof -
  have "unat x < 2 ^ LENGTH(8)" by (rule unsigned_less)
  then show ?thesis by simp
qed

lemma parseIPv4_show: "parseIPv4 (showIPv4 a b c d) = Some [a, b, c, d]"
  using unat_byte
  by (simp add: parseIPv4_def showIPv4_def splitOn_append splitOn_single isOctet_show_nat decimal_show_nat
      show_nat_free not_digit)

lemma parseAddr_show: "parseAddr (showIPv4 a b c d) = Some [a, b, c, d]"
proof -
  have "dropWhile (\<lambda>x. x \<noteq> CHR ''.'' \<and> x \<noteq> CHR '':'') (showIPv4 a b c d) =
      CHR ''.'' # show_nat (unat b) @ ''.'' @ show_nat (unat c) @ ''.'' @ show_nat (unat d)"
    unfolding showIPv4_def
    by (subst dropWhile_append2) (use show_nat_free not_digit in auto)
  moreover have "CHR ''%'' \<notin> set (showIPv4 a b c d)"
    by (simp add: showIPv4_def show_nat_free not_digit)
  ultimately show ?thesis by (simp add: parseAddr_def parseIPv4_show)
qed

lemma ParseCIDR_show:
  assumes "n \<le> 32"
  shows "ParseCIDR (showIPv4 a b c d @ ''/'' @ show_nat n) =
     Some \<lparr>net_IP = maskBytes [a, b, c, d] (CIDRMask n 4), net_Mask = CIDRMask n 4\<rparr>"
proof -
  have "CHR ''/'' \<notin> set (showIPv4 a b c d)"
    by (simp add: showIPv4_def show_nat_free not_digit)
  then have "splitN2 CHR ''/'' (showIPv4 a b c d @ ''/'' @ show_nat n) = [showIPv4 a b c d, show_nat n]"
    by (simp add: splitN2_append)
  moreover have "CIDRMask n (Suc (Suc (Suc (Suc 0)))) = CIDRMask n 4"
    by (rule arg_cong) simp
  ultimately show ?thesis
    using assms
    by (simp del: CIDRMask.simps add: ParseCIDR_def parseAddr_show show_nat_digits decimal_show_nat As16_def Mask_def
        v4InV6Prefix_def Let_def)
qed

section \<open>A network contains the addresses that agree on its first bits\<close>

text \<open>The bits of a byte, most significant first.\<close>

definition byteBits :: "byte \<Rightarrow> bool list" where
  "byteBits x = map (\<lambda>i. bit x (7 - i)) [0..<8]"

definition ipBits :: "IP \<Rightarrow> bool list" where
  "ipBits ip = concat (map byteBits ip)"

lemma length_byteBits [simp]: "length (byteBits x) = 8"
  by (simp add: byteBits_def)

lemma byte_AND_eq: "x AND m = y AND m \<longleftrightarrow> (\<forall>j<8. bit m j \<longrightarrow> bit x j = bit y j)" for x y m :: byte
  by (auto simp: bit_eq_iff bit_simps)

lemma maskByte_bits: "n < 8 \<Longrightarrow> j < 8 \<Longrightarrow> bit (NOT (drop_bit n 255) :: byte) j \<longleftrightarrow> 8 \<le> j + n"
proof -
  assume "n < 8" "j < 8"
  have "(255 :: byte) = - 1" by simp
  then have "bit (drop_bit n 255 :: byte) j \<longleftrightarrow> n + j < 8"
    by (simp only: bit_drop_bit_eq) (simp add: bit_simps)
  with \<open>j < 8\<close> show ?thesis by (auto simp: bit_simps)
qed

lemma take_byteBits:
  "n \<le> 8 \<Longrightarrow> take n (byteBits x) = take n (byteBits y) \<longleftrightarrow> (\<forall>j<8. 8 \<le> j + n \<longrightarrow> bit x j = bit y j)"
proof -
  assume n: "n \<le> 8"
  have "take n (byteBits x) = take n (byteBits y) \<longleftrightarrow> (\<forall>i<n. bit x (7 - i) = bit y (7 - i))"
    using n by (auto simp: byteBits_def take_map list_eq_iff_nth_eq)
  also have "\<dots> \<longleftrightarrow> (\<forall>j<8. 8 \<le> j + n \<longrightarrow> bit x j = bit y j)"
  proof
    assume eq: "\<forall>i<n. bit x (7 - i) = bit y (7 - i)"
    show "\<forall>j<8. 8 \<le> j + n \<longrightarrow> bit x j = bit y j"
    proof (intro allI impI)
      fix j :: nat assume "j < 8" "8 \<le> j + n"
      then have "7 - j < n" by simp
      with eq have "bit x (7 - (7 - j)) = bit y (7 - (7 - j))" by blast
      with \<open>j < 8\<close> show "bit x j = bit y j" by simp
    qed
  qed (use n in auto)
  finally show ?thesis .
qed

lemma AND_maskByte:
  "n < 8 \<Longrightarrow> x AND NOT (drop_bit n 255) = y AND NOT (drop_bit n 255) \<longleftrightarrow>
     take n (byteBits x) = take n (byteBits y)" for x y :: byte
  by (simp add: byte_AND_eq take_byteBits maskByte_bits)

lemma AND_255: "x AND 255 = x" for x :: byte
proof -
  have "(255 :: byte) = - 1" by simp
  then show ?thesis by (simp only: and.right_neutral)
qed

lemma byteBits_inject: "byteBits x = byteBits y \<longleftrightarrow> x = y"
proof -
  have "byteBits x = byteBits y \<longleftrightarrow> (\<forall>j<8. bit x j = bit y j)"
    using take_byteBits [of 8 x y] by simp
  then show ?thesis by (auto simp: bit_eq_iff)
qed

lemma maskBytes_eq_iff:
  "length x = l \<Longrightarrow> length y = l \<Longrightarrow> n \<le> 8 * l \<Longrightarrow>
   maskBytes x (CIDRMask n l) = maskBytes y (CIDRMask n l) \<longleftrightarrow> take n (ipBits x) = take n (ipBits y)"
proof (induction n l arbitrary: x y rule: CIDRMask.induct)
  case (1 n)
  then show ?case by (simp add: maskBytes_def)
next
  case (2 n l)
  obtain a x' b y' where xy: "x = a # x'" "y = b # y'" "length x' = l" "length y' = l"
    using 2(3,4) by (metis length_Suc_conv)
  show ?case
  proof (cases "8 \<le> n")
    case True
    with 2(1) [OF True xy(3,4)] 2(5) show ?thesis
      by (simp add: xy maskBytes_def ipBits_def AND_255 byteBits_inject)
  next
    case False
    with 2(2) [OF False xy(3,4)] show ?thesis
      by (simp add: xy maskBytes_def ipBits_def AND_maskByte)
  qed
qed

text \<open>The first \<open>n\<close> bits survive the mask.\<close>

lemma maskBytes_idem: "maskBytes (maskBytes x m) m = maskBytes x m"
  by (induction x m rule: list_induct2') (simp_all add: maskBytes_def ac_simps)

lemma length_maskBytes [simp]: "length (maskBytes x m) = min (length x) (length m)"
  by (simp add: maskBytes_def)

lemma Contains_IPv4:
  assumes "net = \<lparr>net_IP = maskBytes base (CIDRMask n 4), net_Mask = CIDRMask n 4\<rparr>"
    and "length base = 4" "n \<le> 32" "length ip = 4"
  shows "Contains net (As16 ip) \<longleftrightarrow> take n (ipBits ip) = take n (ipBits base)"
proof -
  have "To4 (As16 ip) = Some ip"
    using assms(4) by (simp add: To4_def As16_def v4InV6Prefix_def)
  then have "Contains net (As16 ip) \<longleftrightarrow> maskBytes (maskBytes base (CIDRMask n 4)) (CIDRMask n 4) = maskBytes ip (CIDRMask n 4)"
    using assms(2,4) by (simp add: Contains_def networkNumberAndMask_def To4_def assms(1))
  then show ?thesis
    using maskBytes_eq_iff [of base 4 ip n] assms(2-4) by (auto simp: maskBytes_idem)
qed

end
