(* ===== verification/Network_Clients.thy ===== *)
theory Network_Clients
  imports EC2_Client Go_Net
begin

text \<open>
  The clients behind the network topology: ARNs (\<^verbatim>\<open>pkg/aws/arn.go\<close>), managed prefix lists
  (\<^verbatim>\<open>pkg/aws/prefixlist.go\<close>), transit gateways and their attachments (\<^verbatim>\<open>pkg/aws/transitgateways.go\<close>),
  route tables (\<^verbatim>\<open>pkg/aws/routetable.go\<close>) and resource shares (\<^verbatim>\<open>pkg/aws/ramclient.go\<close>). All of them
  look first and change AWS only when what they want is missing, or what they want gone is
  there: the locale \<open>ensured\<close> states this once.
\<close>

section \<open>ARNs\<close>

text \<open>A resource without a slash makes the index expression panic.\<close>

definition GetARNResourceID :: "('w, 'c) env \<Rightarrow> string \<Rightarrow> ('w, 'c, string) go" where
  "GetARNResourceID E resourceARN =
     (case l_arnParse (e_lib E) resourceARN of
        Inl e \<Rightarrow> errM (Wrapped ''failed to parse arn'' e)
      | Inr arn \<Rightarrow>
        (case splitOn CHR ''/'' (arn_Resource arn) of
           _ # x # _ \<Rightarrow> retM x
         | _ \<Rightarrow> panicM))"

section \<open>Prefix lists\<close>

definition prefixListMaxEntries :: nat where
  "prefixListMaxEntries = 45"

definition ErrPrefixListNotFound :: string where
  "ErrPrefixListNotFound = ''InvalidPrefixListID.NotFound''"

definition ErrIncorrectState :: string where
  "ErrIncorrectState = ''IncorrectState''"

definition GetPrefixListName :: "string \<Rightarrow> string" where
  "GetPrefixListName name = name @ ''-tgw-prefixlist''"

definition validateCIDR :: "string \<Rightarrow> ('w, 'c, unit) go" where
  "validateCIDR cidr =
     (if parsesCIDR cidr then retM () else errM (ErrorString (''invalid CIDR address: '' @ cidr)))"

definition PrefixLists_get ::
  "('w, 'c) env \<Rightarrow> creds \<Rightarrow> ec2_op \<Rightarrow> ('w, 'c, ManagedPrefixList option) go" where
  "PrefixLists_get E t input =
     bindM (call (a_prefixLists (e_aws E)) (ec2req t input)) (\<lambda>out.
     case out of
       [pl] \<Rightarrow> retM (Some pl)
     | [] \<Rightarrow> retM None
     | _ \<Rightarrow> errM (ErrorString (''found unexpected number: '' @ show_nat (length out) @ '' of prefix lists'')))"

definition getByName :: "('w, 'c) env \<Rightarrow> creds \<Rightarrow> string \<Rightarrow> ('w, 'c, ManagedPrefixList option) go" where
  "getByName E t name = PrefixLists_get E t (EC2_DescribeManagedPrefixLists (Some (GetPrefixListName name)) None)"

definition getByID :: "('w, 'c) env \<Rightarrow> creds \<Rightarrow> string \<Rightarrow> ('w, 'c, ManagedPrefixList option) go" where
  "getByID E t id' = PrefixLists_get E t (EC2_DescribeManagedPrefixLists None (Some id'))"

definition PrefixLists_create :: "('w, 'c) env \<Rightarrow> creds \<Rightarrow> string \<Rightarrow> gomap \<Rightarrow> ('w, 'c, string) go" where
  "PrefixLists_create E t name tags =
     call (a_id (e_aws E)) (ec2req t (EC2_CreateManagedPrefixList ''IPv4'' prefixListMaxEntries
       (GetPrefixListName name) (if getEc2Tags tags = [] then None else Some (getEc2Tags tags))))"

definition PrefixLists_Apply :: "('w, 'c) env \<Rightarrow> creds \<Rightarrow> string \<Rightarrow> gomap \<Rightarrow> ('w, 'c, string) go" where
  "PrefixLists_Apply E t name tags =
     bindM (getByName E t name) (\<lambda>prefixList.
     case prefixList of
       Some pl \<Rightarrow> retM (pl_PrefixListArn pl)
     | None \<Rightarrow> PrefixLists_create E t name tags)"

definition PrefixLists_Delete :: "('w, 'c) env \<Rightarrow> creds \<Rightarrow> string \<Rightarrow> ('w, 'c, unit) go" where
  "PrefixLists_Delete E t name =
     bindM (getByName E t name) (\<lambda>prefixList.
     case prefixList of
       None \<Rightarrow> retM ()
     | Some pl \<Rightarrow> call (a_done (e_aws E)) (ec2req t (EC2_DeleteManagedPrefixList (pl_PrefixListId pl))))"

definition getCurrentVersion :: "('w, 'c) env \<Rightarrow> creds \<Rightarrow> string \<Rightarrow> ('w, 'c, int) go" where
  "getCurrentVersion E p prefixListID =
     bindM (getByID E p prefixListID) (\<lambda>prefixList.
     case prefixList of
       None \<Rightarrow> errM (ErrorString ''prefix list not found'')
     | Some pl \<Rightarrow> retM (pl_Version pl))"

text \<open>The loop over the entries stops at the first with the CIDR.\<close>

fun findEntry :: "PrefixListEntry \<Rightarrow> PrefixListItem list \<Rightarrow> ('w, 'c, bool) go" where
  "findEntry entry [] = retM False"
| "findEntry entry (e # es) =
     (if pi_Cidr e = pe_CIDR entry then
        (if pi_Description e \<noteq> pe_Description entry
         then errM (ErrorString ''found conflicting prefix list entry'') else retM True)
      else findEntry entry es)"

definition entryExists :: "('w, 'c) env \<Rightarrow> creds \<Rightarrow> string \<Rightarrow> PrefixListEntry \<Rightarrow> ('w, 'c, bool) go" where
  "entryExists E p prefixListID entry =
     bindM (tryM (call (a_entries (e_aws E)) (ec2req p (EC2_GetManagedPrefixListEntries prefixListID 100)))) (\<lambda>out.
     case out of
       Inl e \<Rightarrow> if HasErrorCode e ErrPrefixListNotFound then retM False else errM e
     | Inr es \<Rightarrow> findEntry entry es)"

definition createEntry :: "('w, 'c) env \<Rightarrow> creds \<Rightarrow> string \<Rightarrow> PrefixListEntry \<Rightarrow> ('w, 'c, unit) go" where
  "createEntry E p prefixListID entry =
     bindM (getCurrentVersion E p prefixListID) (\<lambda>currentVersion.
     call (a_done (e_aws E)) (ec2req p
       (EC2_AddPrefixListEntry prefixListID currentVersion (pe_CIDR entry) (pe_Description entry))))"

definition deleteEntry :: "('w, 'c) env \<Rightarrow> creds \<Rightarrow> string \<Rightarrow> PrefixListEntry \<Rightarrow> ('w, 'c, unit) go" where
  "deleteEntry E p prefixListID entry =
     bindM (getCurrentVersion E p prefixListID) (\<lambda>currentVersion.
     ignoreCode ErrPrefixListNotFound (call (a_done (e_aws E)) (ec2req p
       (EC2_RemovePrefixListEntry prefixListID currentVersion (pe_CIDR entry)))))"

definition ApplyEntry :: "('w, 'c) env \<Rightarrow> creds \<Rightarrow> PrefixListEntry \<Rightarrow> ('w, 'c, unit) go" where
  "ApplyEntry E p entry =
     bindM (GetARNResourceID E (pe_PrefixListARN entry)) (\<lambda>prefixListID.
     bindM (validateCIDR (pe_CIDR entry)) (\<lambda>_.
     bindM (entryExists E p prefixListID entry) (\<lambda>exists.
     if exists then retM () else createEntry E p prefixListID entry)))"

definition DeleteEntry :: "('w, 'c) env \<Rightarrow> creds \<Rightarrow> PrefixListEntry \<Rightarrow> ('w, 'c, unit) go" where
  "DeleteEntry E p entry =
     bindM (GetARNResourceID E (pe_PrefixListARN entry)) (\<lambda>prefixListID.
     bindM (validateCIDR (pe_CIDR entry)) (\<lambda>_.
     bindM (entryExists E p prefixListID entry) (\<lambda>exists.
     if \<not> exists then retM () else deleteEntry E p prefixListID entry)))"

section \<open>Transit gateways\<close>

definition clusterTagValue :: string where
  "clusterTagValue = ''owned''"

definition clusterTag :: "string \<Rightarrow> string" where
  "clusterTag name = ''kubernetes.io/cluster/'' @ name"

text \<open>Durations are counted in seconds.\<close>

definition transitGatewayNotDetached :: go_error where
  "transitGatewayNotDetached = RetryableError ''transit gateway not detached yet'' 10"

definition transitGatewayNotReady :: go_error where
  "transitGatewayNotReady = RetryableError ''transit gateway not ready yet'' 10"

text \<open>\<open>replaceCode code e m\<close>: the error with this code is reported as \<open>e\<close>.\<close>

definition replaceCode :: "string \<Rightarrow> go_error \<Rightarrow> ('s, 'a) io \<Rightarrow> ('s, 'a) io" where
  "replaceCode code e' m = wrapM (\<lambda>e. if HasErrorCode e code then e' else e) m"

definition isTransitGatewayDeleted :: "TransitGateway \<Rightarrow> bool" where
  "isTransitGatewayDeleted g = (tg_State g = ''deleted'' \<or> tg_State g = ''deleting'')"

definition filterDeletedTransitGateways :: "TransitGateway list \<Rightarrow> TransitGateway list" where
  "filterDeletedTransitGateways gs = filter (\<lambda>g. \<not> isTransitGatewayDeleted g) gs"

definition TransitGateways_get :: "('w, 'c) env \<Rightarrow> creds \<Rightarrow> string \<Rightarrow> ('w, 'c, TransitGateway option) go" where
  "TransitGateways_get E t name =
     bindM (call (a_gateways (e_aws E))
       (ec2req t (EC2_DescribeTransitGateways (''tag:'' @ clusterTag name) clusterTagValue))) (\<lambda>out.
     case filterDeletedTransitGateways out of
       [] \<Rightarrow> retM None
     | [g] \<Rightarrow> retM (Some g)
     | gs \<Rightarrow> errM (ErrorString (''found unexpected number: '' @ show_nat (length gs) @
         '' of transit gatways for cluster '' @ name)))"

definition gatewayTags :: "string \<Rightarrow> gomap \<Rightarrow> gomap" where
  "gatewayTags name tags =
     getEc2Tags tags @ (if ghas tags (clusterTag name) then [] else [(clusterTag name, clusterTagValue)])"

definition TransitGateways_create :: "('w, 'c) env \<Rightarrow> creds \<Rightarrow> string \<Rightarrow> gomap \<Rightarrow> ('w, 'c, string) go" where
  "TransitGateways_create E t name tags =
     call (a_id (e_aws E)) (ec2req t
       (EC2_CreateTransitGateway (''Transit Gateway for cluster '' @ name) (gatewayTags name tags)))"

definition TransitGateways_Apply :: "('w, 'c) env \<Rightarrow> creds \<Rightarrow> string \<Rightarrow> gomap \<Rightarrow> ('w, 'c, string) go" where
  "TransitGateways_Apply E t name tags =
     bindM (TransitGateways_get E t name) (\<lambda>gateway.
     case gateway of
       Some g \<Rightarrow> retM (tg_TransitGatewayArn g)
     | None \<Rightarrow> TransitGateways_create E t name tags)"

definition TransitGateways_delete :: "('w, 'c) env \<Rightarrow> creds \<Rightarrow> TransitGateway \<Rightarrow> ('w, 'c, unit) go" where
  "TransitGateways_delete E t gateway =
     replaceCode ErrIncorrectState transitGatewayNotDetached
       (call (a_done (e_aws E)) (ec2req t (EC2_DeleteTransitGateway (tg_TransitGatewayId gateway))))"

definition TransitGateways_Delete :: "('w, 'c) env \<Rightarrow> creds \<Rightarrow> string \<Rightarrow> ('w, 'c, unit) go" where
  "TransitGateways_Delete E t name =
     bindM (TransitGateways_get E t name) (\<lambda>gateway.
     case gateway of
       None \<Rightarrow> retM ()
     | Some g \<Rightarrow> TransitGateways_delete E t g)"

definition getAttachment :: "('w, 'c) env \<Rightarrow> creds \<Rightarrow> string \<Rightarrow> string \<Rightarrow> ('w, 'c, VpcAttachment option) go" where
  "getAttachment E t gatewayID vpcID =
     bindM (call (a_attachments (e_aws E)) (ec2req t (EC2_DescribeTransitGatewayVpcAttachments gatewayID vpcID))) (\<lambda>out.
     case out of
       [] \<Rightarrow> retM None
     | [a] \<Rightarrow> retM (Some a)
     | _ \<Rightarrow> errM (ErrorString (''wrong number of transit gateway attachments found. Expected 1, found '' @
         show_nat (length out))))"

definition attach :: "('w, 'c) env \<Rightarrow> creds \<Rightarrow> string \<Rightarrow> TransitGatewayAttachment \<Rightarrow> ('w, 'c, unit) go" where
  "attach E t transitGatewayID attachment =
     replaceCode ErrIncorrectState transitGatewayNotReady
       (call (a_done (e_aws E)) (ec2req t (EC2_CreateTransitGatewayVpcAttachment transitGatewayID
          (ta_VPCID attachment) (ta_SubnetIDs attachment) (ta_Tags attachment))))"

definition ApplyAttachment :: "('w, 'c) env \<Rightarrow> creds \<Rightarrow> TransitGatewayAttachment \<Rightarrow> ('w, 'c, unit) go" where
  "ApplyAttachment E t attachment =
     bindM (GetARNResourceID E (ta_TransitGatewayARN attachment)) (\<lambda>gatewayID.
     bindM (getAttachment E t gatewayID (ta_VPCID attachment)) (\<lambda>vpcAttachment.
     case vpcAttachment of
       Some _ \<Rightarrow> retM ()
     | None \<Rightarrow> attach E t gatewayID attachment))"

definition Detach :: "('w, 'c) env \<Rightarrow> creds \<Rightarrow> TransitGatewayAttachment \<Rightarrow> ('w, 'c, unit) go" where
  "Detach E t attachment =
     bindM (GetARNResourceID E (ta_TransitGatewayARN attachment)) (\<lambda>gatewayID.
     bindM (getAttachment E t gatewayID (ta_VPCID attachment)) (\<lambda>vpcAttachment.
     case vpcAttachment of
       None \<Rightarrow> retM ()
     | Some a \<Rightarrow> call (a_done (e_aws E))
         (ec2req t (EC2_DeleteTransitGatewayVpcAttachment (va_TransitGatewayAttachmentId a)))))"

section \<open>Route tables\<close>

definition getRouteTables :: "('w, 'c) env \<Rightarrow> creds \<Rightarrow> Filter \<Rightarrow> ('w, 'c, EC2RouteTable list) go" where
  "getRouteTables E r subnets =
     bindM (call (a_routeTables (e_aws E)) (ec2req r (EC2_DescribeRouteTables subnets))) (\<lambda>output.
     case output of
       Some tables \<Rightarrow> retM tables
     | None \<Rightarrow> errM RouteTableNotFoundError)"

definition createRoute :: "('w, 'c) env \<Rightarrow> creds \<Rightarrow> string \<Rightarrow> string \<Rightarrow> string \<Rightarrow> ('w, 'c, unit) go" where
  "createRoute E r routeTableId prefixListID transitGatewayID =
     call (a_done (e_aws E)) (ec2req r (EC2_CreateRoute routeTableId prefixListID transitGatewayID))"

definition deleteRoute :: "('w, 'c) env \<Rightarrow> creds \<Rightarrow> string \<Rightarrow> string \<Rightarrow> ('w, 'c, unit) go" where
  "deleteRoute E r routeTableId prefixListID =
     ignoreCode ''InvalidRoute.NotFound''
       (call (a_done (e_aws E)) (ec2req r (EC2_DeleteRoute routeTableId prefixListID)))"

definition isRouteOf :: "RouteRule \<Rightarrow> EC2Route \<Rightarrow> bool" where
  "isRouteOf rule route \<longleftrightarrow> ro_DestinationPrefixListId route = Some (rt_DestinationPrefixListId rule) \<and>
     ro_TransitGatewayId route = Some (rt_TransitGatewayId rule)"

definition routeExists :: "EC2Route list \<Rightarrow> RouteRule \<Rightarrow> bool" where
  "routeExists routes targetRoute = list_ex (isRouteOf targetRoute) routes"

text \<open>The text that describes the route in an error.\<close>

definition routeText :: "string \<Rightarrow> string \<Rightarrow> RouteRule \<Rightarrow> string" where
  "routeText sep table rule = ''routeTableID'' @ sep @ table @ '', prefixListID'' @ sep @
     rt_DestinationPrefixListId rule @ '', transitGatewayID'' @ sep @ rt_TransitGatewayId rule"

definition AddRoutes :: "('w, 'c) env \<Rightarrow> creds \<Rightarrow> RouteRule \<Rightarrow> Filter \<Rightarrow> ('w, 'c, unit) go" where
  "AddRoutes E r route subnets =
     bindM (getRouteTables E r subnets) (\<lambda>routeTables.
     forM routeTables (\<lambda>rt.
       if \<not> routeExists (rtb_Routes rt) route then
         wrapM (Wrapped (routeText ''='' (rtb_RouteTableId rt) route))
           (createRoute E r (rtb_RouteTableId rt) (rt_DestinationPrefixListId route) (rt_TransitGatewayId route))
       else retM ()))"

definition RemoveRoutes :: "('w, 'c) env \<Rightarrow> creds \<Rightarrow> RouteRule \<Rightarrow> Filter \<Rightarrow> ('w, 'c, unit) go" where
  "RemoveRoutes E r rule subnets =
     bindM (getRouteTables E r subnets) (\<lambda>routeTables.
     forM routeTables (\<lambda>rt.
       wrapM (Wrapped (routeText '': '' (rtb_RouteTableId rt) rule))
         (deleteRoute E r (rtb_RouteTableId rt) (rt_DestinationPrefixListId rule))))"

section \<open>Resource shares\<close>

abbreviation ramreq :: "creds \<Rightarrow> ram_op \<Rightarrow> request" where
  "ramreq c x \<equiv> AWSReq c (RAMOp x)"

definition isResourceShareDeleted :: "RAMResourceShare \<Rightarrow> bool" where
  "isResourceShareDeleted share = (ram_Status share = ''DELETED'' \<or> ram_Status share = ''DELETING'')"

definition filterDeletedResourceShares :: "RAMResourceShare list \<Rightarrow> RAMResourceShare list" where
  "filterDeletedResourceShares shares = filter (\<lambda>share. \<not> isResourceShareDeleted share) shares"

definition getResourceShare :: "('w, 'c) env \<Rightarrow> creds \<Rightarrow> string \<Rightarrow> ('w, 'c, RAMResourceShare option) go" where
  "getResourceShare E c name =
     bindM (call (a_shares (e_aws E)) (ramreq c (RAM_GetResourceShares name))) (\<lambda>out.
     case filterDeletedResourceShares out of
       [] \<Rightarrow> retM None
     | [share] \<Rightarrow> retM (Some share)
     | shares \<Rightarrow> errM (ErrorString (''expected 1 resource share, found '' @ show_nat (length shares))))"

text \<open>A share without resources makes the index expression panic.\<close>

definition ApplyResourceShare :: "('w, 'c) env \<Rightarrow> creds \<Rightarrow> ResourceShare \<Rightarrow> ('w, 'c, unit) go" where
  "ApplyResourceShare E c share =
     (case rs_ResourceArns share of
        [] \<Rightarrow> panicM
      | firstArn # _ \<Rightarrow>
        bindM (liftE (l_arnParse (e_lib E) firstArn)) (\<lambda>resourceARN.
        if rs_ExternalAccountID share = arn_AccountID resourceARN then retM ()
        else
          bindM (getResourceShare E c (rs_Name share)) (\<lambda>resourceShare.
          case resourceShare of
            Some _ \<Rightarrow> retM ()
          | None \<Rightarrow> call (a_done (e_aws E)) (ramreq c
              (RAM_CreateResourceShare (rs_Name share) (rs_ExternalAccountID share) (rs_ResourceArns share))))))"

definition DeleteResourceShare :: "('w, 'c) env \<Rightarrow> creds \<Rightarrow> string \<Rightarrow> ('w, 'c, unit) go" where
  "DeleteResourceShare E c name =
     bindM (getResourceShare E c name) (\<lambda>resourceShare.
     case resourceShare of
       None \<Rightarrow> retM ()
     | Some share \<Rightarrow> call (a_done (e_aws E)) (ramreq c (RAM_DeleteResourceShare (ram_ResourceShareArn share))))"

section \<open>Requests sent\<close>

lemma emits_replaceCode [emits_rules]: "emits P m \<Longrightarrow> emits P (replaceCode code e m)"
  unfolding replaceCode_def by (rule within_wrapM)

lemma emits_GetARNResourceID [emits_rules]: "emits P (GetARNResourceID E arn)"
  unfolding GetARNResourceID_def by (intro emits_rules)

lemma emits_validateCIDR [emits_rules]: "emits P (validateCIDR cidr)"
  unfolding validateCIDR_def by (intro emits_rules)

lemma emits_findEntry [emits_rules]: "emits P (findEntry entry es)"
  by (induction entry es rule: findEntry.induct) (simp_all add: within_def appends_same)

text \<open>A look at what there is.\<close>

abbreviation looks :: "event \<Rightarrow> bool" where
  "looks e \<equiv> \<not> isAWSMutation (ev_req e)"

lemma emits_lookup [emits_rules]:
  "emits (byClient t (\<lambda>x. \<not> aws_mutates x)) (getByName E t name)"
  "emits (byClient t (\<lambda>x. \<not> aws_mutates x)) (getByID E t i)"
  "emits (byClient t (\<lambda>x. \<not> aws_mutates x)) (entryExists E t i entry)"
  "emits (byClient t (\<lambda>x. \<not> aws_mutates x)) (TransitGateways_get E t name)"
  "emits (byClient t (\<lambda>x. \<not> aws_mutates x)) (getAttachment E t gw vpc)"
  "emits (byClient t (\<lambda>x. \<not> aws_mutates x)) (getRouteTables E t subnets)"
  "emits (byClient t (\<lambda>x. \<not> aws_mutates x)) (getResourceShare E t name)"
  "emits (byClient t (\<lambda>x. \<not> aws_mutates x)) (getCurrentVersion E t i)"
  unfolding getCurrentVersion_def getByName_def getByID_def PrefixLists_get_def entryExists_def TransitGateways_get_def
    getAttachment_def getRouteTables_def getResourceShare_def
  by (intro emits_rules emits_call; simp)+

lemma byClient_looks: "byClient t (\<lambda>x. \<not> aws_mutates x) e \<Longrightarrow> looks e"
  by (auto simp: byClient_def)

lemma byClient_any: "byClient t X e \<Longrightarrow> byClient t (\<lambda>_. True) e"
  by (auto simp: byClient_def)

lemmas looking = emits_lookup [THEN emits_mono, OF byClient_looks]
lemmas looking_client = emits_lookup [THEN emits_mono, OF byClient_any]

lemma emits_network [emits_rules]:
  "emits (byClient t (\<lambda>_. True)) (PrefixLists_Apply E t name tags)"
  "emits (byClient t (\<lambda>_. True)) (PrefixLists_Delete E t name)"
  "emits (byClient t (\<lambda>_. True)) (ApplyEntry E t entry)"
  "emits (byClient t (\<lambda>_. True)) (DeleteEntry E t entry)"
  "emits (byClient t (\<lambda>_. True)) (TransitGateways_Apply E t name tags)"
  "emits (byClient t (\<lambda>_. True)) (TransitGateways_Delete E t name)"
  "emits (byClient t (\<lambda>_. True)) (ApplyAttachment E t attachment)"
  "emits (byClient t (\<lambda>_. True)) (Detach E t attachment)"
  "emits (byClient t (\<lambda>_. True)) (AddRoutes E t rule subnets)"
  "emits (byClient t (\<lambda>_. True)) (RemoveRoutes E t rule subnets)"
  "emits (byClient t (\<lambda>_. True)) (ApplyResourceShare E t share)"
  "emits (byClient t (\<lambda>_. True)) (DeleteResourceShare E t name)"
  unfolding PrefixLists_Apply_def PrefixLists_create_def PrefixLists_Delete_def ApplyEntry_def createEntry_def DeleteEntry_def
    deleteEntry_def TransitGateways_Apply_def TransitGateways_create_def TransitGateways_Delete_def
    TransitGateways_delete_def ApplyAttachment_def attach_def Detach_def AddRoutes_def createRoute_def
    RemoveRoutes_def deleteRoute_def ApplyResourceShare_def DeleteResourceShare_def
  by (intro emits_rules looking_client emits_call; simp)+


section \<open>Look, then change\<close>

text \<open>
  What the operations have in common: a look that changes nothing and says whether the thing is
  there, followed by a change only in the one case.
\<close>

locale ensured =
  fixes present :: "('w, 'c) env \<Rightarrow> creds \<Rightarrow> 'x \<Rightarrow> ('w, 'c, 'p option) go"
  assumes present_looks: "emits looks (present E t x)"
begin

lemma change_after_look:
  assumes "e \<in> set (sent (bindM (present E t x) f) s)" "isAWSMutation (ev_req e)" "\<And>p. emits (\<lambda>_. True) (f p)"
  shows "\<exists>p u. present E t x s = (Ok p, u) \<and> e \<in> set (sent (f p) u)"
proof -
  have quiet: "emits (\<lambda>e. \<not> isAWSMutation (ev_req e)) (present E t x)"
    by (rule present_looks)
  from sent_by_second [where F = "\<lambda>e. isAWSMutation (ev_req e)", OF quiet assms(3,1,2)]
  show ?thesis by auto
qed

lemma made_only_if_absent:
  assumes "e \<in> set (sent (bindM (present E t x) (\<lambda>p. case p of Some y \<Rightarrow> retM (g y) | None \<Rightarrow> mk)) s)"
    and "isAWSMutation (ev_req e)" "emits (\<lambda>_. True) mk"
  shows "\<exists>u. present E t x s = (Ok None, u)"
proof -
  have "\<exists>p u. present E t x s = (Ok p, u) \<and> e \<in> set (sent (case p of Some y \<Rightarrow> retM (g y) | None \<Rightarrow> mk) u)"
    using assms(1,2) by (rule change_after_look) (intro emits_rules assms(3))
  then show ?thesis by (auto simp: sent_def split: option.splits)
qed

lemma unmade_only_if_present:
  assumes "e \<in> set (sent (bindM (present E t x) (\<lambda>p. case p of None \<Rightarrow> retM () | Some y \<Rightarrow> unmake y)) s)"
    and "isAWSMutation (ev_req e)" "\<And>y. emits (\<lambda>_. True) (unmake y)"
  shows "\<exists>y u. present E t x s = (Ok (Some y), u) \<and> e \<in> set (sent (unmake y) u)"
proof -
  have "\<exists>p u. present E t x s = (Ok p, u) \<and> e \<in> set (sent (case p of None \<Rightarrow> retM () | Some y \<Rightarrow> unmake y) u)"
    using assms(1,2) by (rule change_after_look) (intro emits_rules assms(3))
  then show ?thesis by (auto simp: sent_def split: option.splits)
qed

end

interpretation gateways: ensured TransitGateways_get
  by unfold_locales (rule looking)

interpretation prefixLists: ensured getByName
  by unfold_locales (rule looking)

interpretation attachments: ensured "\<lambda>E t (gw, vpc). getAttachment E t gw vpc"
  by unfold_locales (auto intro: looking)

interpretation shares: ensured getResourceShare
  by unfold_locales (rule looking)

definition entryFound :: "('w, 'c) env \<Rightarrow> creds \<Rightarrow> string \<times> PrefixListEntry \<Rightarrow> ('w, 'c, unit option) go" where
  "entryFound E t x = bindM (entryExists E t (fst x) (snd x)) (\<lambda>b. retM (if b then Some () else None))"

interpretation entries: ensured entryFound
  by unfold_locales (auto simp: entryFound_def intro!: emits_rules looking)

lemma GetARNResourceID_state: "snd (GetARNResourceID E arn s) = s"
  by (simp add: GetARNResourceID_def split: sum.split list.split)

lemma GetARNResourceID_bind:
  assumes "e \<in> set (sent (bindM (GetARNResourceID E arn) f) s)"
  shows "\<exists>i. GetARNResourceID E arn s = (Ok i, s) \<and> e \<in> set (sent (f i) s)"
  using assms GetARNResourceID_state [of E arn s]
  by (cases "GetARNResourceID E arn s"; cases "fst (GetARNResourceID E arn s)") (auto simp: sent_def bindM_def)

lemma entries_bind:
  "bindM (entryExists E t i entry) (\<lambda>b. if b then m else n) =
     bindM (entryFound E t (i, entry)) (\<lambda>p. case p of Some _ \<Rightarrow> m | None \<Rightarrow> n)"
  "bindM (entryExists E t i entry) (\<lambda>b. if \<not> b then n else m) =
     bindM (entryFound E t (i, entry)) (\<lambda>p. case p of Some _ \<Rightarrow> m | None \<Rightarrow> n)"
  by (auto simp: entryFound_def bindM_assoc intro!: arg_cong [where f = "bindM _"])

lemma entryFound_iff:
  "entryFound E t (i, entry) s = (Ok p, u) \<longleftrightarrow> entryExists E t i entry s = (Ok (p \<noteq> None), u)"
  by (cases p) (auto simp: entryFound_def bindM_def split: prod.splits outcome.splits)

lemma TransitGateways_Apply_changes:
  assumes "isAWSMutation (ev_req e)" "e \<in> set (sent (TransitGateways_Apply E t name tags) s)"
  shows "\<exists>u. TransitGateways_get E t name s = (Ok None, u)"
  using assms(2) unfolding TransitGateways_Apply_def
  by (rule gateways.made_only_if_absent [OF _ assms(1)]) (simp add: TransitGateways_create_def emits_call)

lemma PrefixLists_Apply_changes:
  assumes "isAWSMutation (ev_req e)" "e \<in> set (sent (PrefixLists_Apply E t name tags) s)"
  shows "\<exists>u. getByName E t name s = (Ok None, u)"
  using assms(2) unfolding PrefixLists_Apply_def
  by (rule prefixLists.made_only_if_absent [OF _ assms(1)]) (simp add: PrefixLists_create_def emits_call)

lemma ApplyAttachment_changes:
  assumes mut: "isAWSMutation (ev_req e)" and "e \<in> set (sent (ApplyAttachment E t att) s)"
  shows "\<exists>gw u. GetARNResourceID E (ta_TransitGatewayARN att) s = (Ok gw, s) \<and>
      getAttachment E t gw (ta_VPCID att) s = (Ok None, u)"
proof -
  from assms(2) obtain gw where gw: "GetARNResourceID E (ta_TransitGatewayARN att) s = (Ok gw, s)"
    and e: "e \<in> set (sent (bindM (getAttachment E t gw (ta_VPCID att)) (\<lambda>p. case p of
        Some _ \<Rightarrow> retM () | None \<Rightarrow> attach E t gw att)) s)"
    unfolding ApplyAttachment_def by (auto dest: GetARNResourceID_bind)
  have "emits (\<lambda>_. True) (attach E t gw att :: ('a, 'b, unit) go)"
    unfolding attach_def by (intro emits_rules emits_call) simp
  with attachments.made_only_if_absent [where x = "(gw, ta_VPCID att)" and g = "\<lambda>_. ()" and e = e and E = E] e mut gw
  show "\<exists>gw u. GetARNResourceID E (ta_TransitGatewayARN att) s = (Ok gw, s) \<and>
      getAttachment E t gw (ta_VPCID att) s = (Ok None, u)" by auto
qed

lemma ApplyEntry_changes:
  assumes mut: "isAWSMutation (ev_req e)" and "e \<in> set (sent (ApplyEntry E t entry) s)"
  shows "parsesCIDR (pe_CIDR entry) \<and>
      (\<exists>i u. GetARNResourceID E (pe_PrefixListARN entry) s = (Ok i, s) \<and> entryExists E t i entry s = (Ok False, u))"
proof -
  from assms(2) obtain i where i: "GetARNResourceID E (pe_PrefixListARN entry) s = (Ok i, s)"
    and e: "e \<in> set (sent (bindM (validateCIDR (pe_CIDR entry)) (\<lambda>_. bindM (entryExists E t i entry) (\<lambda>exists.
        if exists then retM () else createEntry E t i entry))) s)"
    unfolding ApplyEntry_def by (auto dest: GetARNResourceID_bind)
  then have cidr: "parsesCIDR (pe_CIDR entry)"
    by (auto simp: validateCIDR_def sent_def split: if_splits)
  have "emits (\<lambda>_. True) (createEntry E t i entry :: ('a, 'b, unit) go)"
    unfolding createEntry_def by (intro emits_rules emits_any [OF emits_lookup(8)] emits_call) simp
  then have "\<exists>u. entryFound E t (i, entry) s = (Ok None, u)"
    using e cidr entries.made_only_if_absent [OF _ mut, where x = "(i, entry)" and g = "\<lambda>y. y" and E = E]
    by (auto simp: validateCIDR_def entries_bind)
  with i cidr show ?thesis by (auto simp: entryFound_iff)
qed

lemma ApplyResourceShare_changes:
  assumes mut: "isAWSMutation (ev_req e)" and "e \<in> set (sent (ApplyResourceShare E t share) s)"
  shows "\<exists>u arn. getResourceShare E t (rs_Name share) s = (Ok None, u) \<and>
      l_arnParse (e_lib E) (hd (rs_ResourceArns share)) = Inr arn \<and> arn_AccountID arn \<noteq> rs_ExternalAccountID share"
proof -
  from assms(2) obtain a as arn where arns: "rs_ResourceArns share = a # as" "l_arnParse (e_lib E) a = Inr arn"
    and acc: "rs_ExternalAccountID share \<noteq> arn_AccountID arn"
    and e: "e \<in> set (sent (bindM (getResourceShare E t (rs_Name share)) (\<lambda>p. case p of Some _ \<Rightarrow> retM ()
        | None \<Rightarrow> call (a_done (e_aws E)) (ramreq t
              (RAM_CreateResourceShare (rs_Name share) (rs_ExternalAccountID share) (rs_ResourceArns share))))) s)"
    unfolding ApplyResourceShare_def
    by (cases "l_arnParse (e_lib E) (hd (rs_ResourceArns share))") (auto simp: sent_def split: list.splits if_splits)
  from shares.made_only_if_absent [OF e mut] have "\<exists>u. getResourceShare E t (rs_Name share) s = (Ok None, u)"
    by (simp add: emits_call)
  with arns acc show "\<exists>u arn. getResourceShare E t (rs_Name share) s = (Ok None, u) \<and>
      l_arnParse (e_lib E) (hd (rs_ResourceArns share)) = Inr arn \<and> arn_AccountID arn \<noteq> rs_ExternalAccountID share"
    by auto
qed

text \<open>C26: applying a transit gateway, a prefix list, an attachment, a prefix list entry or a resource
  share changes something in AWS only when the look before it found the thing missing (and, for
  an entry, the CIDR valid; for a share, the resource in another account): applying what is
  already there, or what cannot be looked up, changes nothing.\<close>

theorem apply_changes_only_missing:
  assumes mut: "isAWSMutation (ev_req e)"
  shows "(e \<in> set (sent (TransitGateways_Apply E t name tags) s) \<longrightarrow>
        (\<exists>u. TransitGateways_get E t name s = (Ok None, u))) \<and>
    (e \<in> set (sent (PrefixLists_Apply E t name tags) s) \<longrightarrow> (\<exists>u. getByName E t name s = (Ok None, u))) \<and>
    (e \<in> set (sent (ApplyAttachment E t att) s) \<longrightarrow>
        (\<exists>gw u. GetARNResourceID E (ta_TransitGatewayARN att) s = (Ok gw, s) \<and>
           getAttachment E t gw (ta_VPCID att) s = (Ok None, u))) \<and>
    (e \<in> set (sent (ApplyEntry E t entry) s) \<longrightarrow> parsesCIDR (pe_CIDR entry) \<and>
        (\<exists>i u. GetARNResourceID E (pe_PrefixListARN entry) s = (Ok i, s) \<and> entryExists E t i entry s = (Ok False, u))) \<and>
    (e \<in> set (sent (ApplyResourceShare E t share) s) \<longrightarrow>
        (\<exists>u arn. getResourceShare E t (rs_Name share) s = (Ok None, u) \<and>
           l_arnParse (e_lib E) (hd (rs_ResourceArns share)) = Inr arn \<and> arn_AccountID arn \<noteq> rs_ExternalAccountID share))"
  using TransitGateways_Apply_changes [OF mut, of E t name tags s] PrefixLists_Apply_changes [OF mut, of E t name tags s]
    ApplyAttachment_changes [OF mut, of E t att s] ApplyEntry_changes [OF mut, of E t entry s]
    ApplyResourceShare_changes [OF mut, of E t share s]
  by blast

theorem apply_changes_only_missing_witness:
  "list_ex (\<lambda>e. isAWSMutation (ev_req e)) (sent (TransitGateways_Apply demoEnv demoCreds ''wc'' []) demoSys) \<and>
   (\<exists>u. TransitGateways_get demoEnv demoCreds ''wc'' demoSys = (Ok None, u))"
proof -
  have ex: "list_ex (\<lambda>e. isAWSMutation (ev_req e)) (sent (TransitGateways_Apply demoEnv demoCreds ''wc'' []) demoSys)"
    by code_simp
  then obtain e where "e \<in> set (sent (TransitGateways_Apply demoEnv demoCreds ''wc'' []) demoSys)" "isAWSMutation (ev_req e)"
    unfolding list_ex_iff by blast
  with apply_changes_only_missing [THEN conjunct1] ex show ?thesis by blast
qed

lemma TransitGateways_Delete_changes:
  assumes "isAWSMutation (ev_req e)" "e \<in> set (sent (TransitGateways_Delete E t name) s)"
  shows "\<exists>g u. TransitGateways_get E t name s = (Ok (Some g), u) \<and>
     ev_req e = ec2req t (EC2_DeleteTransitGateway (tg_TransitGatewayId g))"
proof -
  have "\<exists>g u. TransitGateways_get E t name s = (Ok (Some g), u) \<and> e \<in> set (sent (TransitGateways_delete E t g) u)"
    using assms(2) unfolding TransitGateways_Delete_def TransitGateways_delete_def
    by (rule gateways.unmade_only_if_present [OF _ assms(1)]) (intro emits_rules emits_call, simp)
  then show ?thesis
    by (auto simp: TransitGateways_delete_def replaceCode_def sent_wrapM dest!: sent_call)
qed

lemma PrefixLists_Delete_changes:
  assumes "isAWSMutation (ev_req e)" "e \<in> set (sent (PrefixLists_Delete E t name) s)"
  shows "\<exists>pl u. getByName E t name s = (Ok (Some pl), u) \<and>
     ev_req e = ec2req t (EC2_DeleteManagedPrefixList (pl_PrefixListId pl))"
  using prefixLists.unmade_only_if_present [OF assms(2) [unfolded PrefixLists_Delete_def] assms(1)]
  by (auto simp: emits_call dest!: sent_call)

lemma DeleteResourceShare_changes:
  assumes "isAWSMutation (ev_req e)" "e \<in> set (sent (DeleteResourceShare E t name) s)"
  shows "\<exists>share u. getResourceShare E t name s = (Ok (Some share), u) \<and>
     ev_req e = ramreq t (RAM_DeleteResourceShare (ram_ResourceShareArn share))"
  using shares.unmade_only_if_present [OF assms(2) [unfolded DeleteResourceShare_def] assms(1)]
  by (auto simp: emits_call dest!: sent_call)

lemma Detach_changes:
  assumes "isAWSMutation (ev_req e)" "e \<in> set (sent (Detach E t att) s)"
  shows "\<exists>gw a u. GetARNResourceID E (ta_TransitGatewayARN att) s = (Ok gw, s) \<and>
     getAttachment E t gw (ta_VPCID att) s = (Ok (Some a), u) \<and>
     ev_req e = ec2req t (EC2_DeleteTransitGatewayVpcAttachment (va_TransitGatewayAttachmentId a))"
proof -
  obtain gw where gw: "GetARNResourceID E (ta_TransitGatewayARN att) s = (Ok gw, s)"
    and e: "e \<in> set (sent (bindM (getAttachment E t gw (ta_VPCID att)) (\<lambda>p. case p of None \<Rightarrow> retM ()
      | Some a \<Rightarrow> call (a_done (e_aws E))
         (ec2req t (EC2_DeleteTransitGatewayVpcAttachment (va_TransitGatewayAttachmentId a))))) s)"
    using assms(2) unfolding Detach_def by (auto dest: GetARNResourceID_bind)
  have "\<exists>a u. getAttachment E t gw (ta_VPCID att) s = (Ok (Some a), u) \<and> e \<in> set (sent (call (a_done (e_aws E))
         (ec2req t (EC2_DeleteTransitGatewayVpcAttachment (va_TransitGatewayAttachmentId a))) :: ('a, 'b, unit) go) u)"
    using attachments.unmade_only_if_present [where x = "(gw, ta_VPCID att)", simplified, OF e assms(1)]
    by (auto simp: emits_call)
  with gw show ?thesis by (auto dest!: sent_call)
qed

lemma DeleteEntry_changes:
  assumes "isAWSMutation (ev_req e)" "e \<in> set (sent (DeleteEntry E t entry) s)"
  shows "\<exists>i u version v. GetARNResourceID E (pe_PrefixListARN entry) s = (Ok i, s) \<and> entryExists E t i entry s = (Ok True, u) \<and>
     getCurrentVersion E t i u = (Ok version, v) \<and> ev_req e = ec2req t (EC2_RemovePrefixListEntry i version (pe_CIDR entry))"
proof -
  obtain i where i: "GetARNResourceID E (pe_PrefixListARN entry) s = (Ok i, s)"
    and "e \<in> set (sent (bindM (validateCIDR (pe_CIDR entry)) (\<lambda>_. bindM (entryExists E t i entry) (\<lambda>exists.
        if \<not> exists then retM () else deleteEntry E t i entry))) s)"
    using assms(2) unfolding DeleteEntry_def by (auto dest: GetARNResourceID_bind)
  then have e: "e \<in> set (sent (bindM (entryFound E t (i, entry)) (\<lambda>p. case p of None \<Rightarrow> retM ()
      | Some _ \<Rightarrow> deleteEntry E t i entry)) s)"
    by (cases "parsesCIDR (pe_CIDR entry)") (simp_all add: validateCIDR_def sent_def entries_bind)
  have "emits (\<lambda>_. True) (deleteEntry E t i entry :: ('a, 'b, unit) go)"
    unfolding deleteEntry_def by (intro emits_rules emits_any [OF emits_lookup(8)] emits_call) simp
  from entries.unmade_only_if_present [OF e assms(1) this] obtain u where u: "entryExists E t i entry s = (Ok True, u)"
    and e: "e \<in> set (sent (deleteEntry E t i entry) u)"
    by (auto simp: entryFound_iff)
  have quiet: "emits (\<lambda>e. \<not> isAWSMutation (ev_req e)) (getCurrentVersion E t i :: ('a, 'b, int) go)"
    by (rule emits_mono [OF emits_lookup(8)]) (rule byClient_looks)
  from sent_by_second [where F = "\<lambda>e. isAWSMutation (ev_req e)", OF quiet _ e [unfolded deleteEntry_def] assms(1)]
  obtain version v where v: "getCurrentVersion E t i u = (Ok version, v)"
    and "e \<in> set (sent (ignoreCode ErrPrefixListNotFound (call (a_done (e_aws E))
         (ec2req t (EC2_RemovePrefixListEntry i version (pe_CIDR entry))))) v)"
    by (auto intro!: emits_rules emits_call)
  then have "ev_req e = ec2req t (EC2_RemovePrefixListEntry i version (pe_CIDR entry))"
    by (auto simp: ignoreCode_def sent_def bindM_def tryM_def call_def split: prod.splits sum.splits if_splits)
  with i u v show ?thesis by blast
qed

text \<open>C27: deleting a transit gateway, a prefix list, an attachment or a resource share changes AWS only
  by the deletion of exactly the object that the look before it found under the name, and
  removing a prefix list entry only by the removal of its own CIDR from its own list, against the current version of
  the list, and only when the entry with its own description is there.\<close>

theorem delete_changes_only_present:
  assumes mut: "isAWSMutation (ev_req e)"
  shows "(e \<in> set (sent (TransitGateways_Delete E t name) s) \<longrightarrow>
        (\<exists>g u. TransitGateways_get E t name s = (Ok (Some g), u) \<and>
           ev_req e = ec2req t (EC2_DeleteTransitGateway (tg_TransitGatewayId g)))) \<and>
    (e \<in> set (sent (PrefixLists_Delete E t name) s) \<longrightarrow>
        (\<exists>pl u. getByName E t name s = (Ok (Some pl), u) \<and>
           ev_req e = ec2req t (EC2_DeleteManagedPrefixList (pl_PrefixListId pl)))) \<and>
    (e \<in> set (sent (Detach E t att) s) \<longrightarrow>
        (\<exists>gw a u. GetARNResourceID E (ta_TransitGatewayARN att) s = (Ok gw, s) \<and>
           getAttachment E t gw (ta_VPCID att) s = (Ok (Some a), u) \<and>
           ev_req e = ec2req t (EC2_DeleteTransitGatewayVpcAttachment (va_TransitGatewayAttachmentId a)))) \<and>
    (e \<in> set (sent (DeleteResourceShare E t name) s) \<longrightarrow>
        (\<exists>share u. getResourceShare E t name s = (Ok (Some share), u) \<and>
           ev_req e = ramreq t (RAM_DeleteResourceShare (ram_ResourceShareArn share)))) \<and>
    (e \<in> set (sent (DeleteEntry E t entry) s) \<longrightarrow>
        (\<exists>i u version v. GetARNResourceID E (pe_PrefixListARN entry) s = (Ok i, s) \<and> entryExists E t i entry s = (Ok True, u) \<and>
           getCurrentVersion E t i u = (Ok version, v) \<and> ev_req e = ec2req t (EC2_RemovePrefixListEntry i version (pe_CIDR entry))))"
  using mut TransitGateways_Delete_changes PrefixLists_Delete_changes Detach_changes DeleteResourceShare_changes
    DeleteEntry_changes by (intro conjI impI) blast+

definition gatewayEnv :: "(unit, (string \<times> cval) list) env" where
  "gatewayEnv = demoEnv\<lparr>e_aws := demoAWS\<lparr>a_gateways := okAns
     [\<lparr>tg_TransitGatewayId = ''tgw-1'', tg_TransitGatewayArn = ''arn:tgw'', tg_State = ''available''\<rparr>]\<rparr>\<rparr>"

theorem delete_changes_only_present_witness:
  "list_ex (\<lambda>e. isAWSMutation (ev_req e)) (sent (TransitGateways_Delete gatewayEnv demoCreds ''wc'') demoSys) \<and>
   (\<exists>g u. TransitGateways_get gatewayEnv demoCreds ''wc'' demoSys = (Ok (Some g), u))"
proof -
  have ex: "list_ex (\<lambda>e. isAWSMutation (ev_req e)) (sent (TransitGateways_Delete gatewayEnv demoCreds ''wc'') demoSys)"
    by code_simp
  then obtain e where "e \<in> set (sent (TransitGateways_Delete gatewayEnv demoCreds ''wc'') demoSys)" "isAWSMutation (ev_req e)"
    unfolding list_ex_iff by blast
  with delete_changes_only_present [THEN conjunct1] ex show ?thesis by blast
qed

section \<open>Functional behaviour\<close>

lemma sent_forM:
  assumes "\<And>x u. x \<in> set xs \<Longrightarrow> fst (f x u) = Ok () \<and> map ev_req (sent (f x) u) = g x"
    and "\<And>x. emits (\<lambda>_. True) (f x)"
  shows "fst (forM xs f s) = Ok () \<and> map ev_req (sent (forM xs f) s) = concat (map g xs)"
  using assms(1)
proof (induction xs arbitrary: s)
  case Nil
  then show ?case by (simp add: sent_def)
next
  case (Cons x xs)
  obtain u where u: "f x s = (Ok (), u)"
    using Cons.prems [of x s] by (cases "f x s") simp
  have "emits (\<lambda>_. True) (forM xs f)"
    by (intro emits_rules assms(2))
  then have "sent (forM (x # xs) f) s = sent (f x) s @ sent (forM xs f) u"
    unfolding forM.simps using sent_bindM_Ok [where m = "f x" and f = "\<lambda>_. forM xs f", OF u assms(2)] by blast
  with Cons u show ?case by (simp add: bindM_run)
qed

lemma call_ok:
  assumes "\<And>q w. \<exists>w'. ans q w = (Inr x, w')"
  shows "fst (call ans q s) = Ok x \<and> map ev_req (sent (call ans q) s) = [q]"
proof -
  obtain w' where "ans q (world s) = (Inr x, w')" using assms by blast
  then show ?thesis by (simp add: call_def sent_def)
qed

lemma ignoreCode_ok: "fst (m s) = Ok () \<Longrightarrow> fst (ignoreCode code m s) = Ok () \<and> sent (ignoreCode code m) s = sent m s"
  by (cases "m s") (simp add: ignoreCode_def bindM_def tryM_def sent_def)

lemma wrapM_ok: "fst (m s) = Ok x \<Longrightarrow> fst (wrapM f m s) = Ok x"
  by (cases "m s") (simp add: wrapM_def)

lemma getRouteTables_bind:
  assumes "a_routeTables (e_aws E) (ec2req r (EC2_DescribeRouteTables subnets)) (world s) = (Inr (Some tables), w)"
    and "emits (\<lambda>_. True) (f tables)"
  shows "\<exists>u. bindM (getRouteTables E r subnets) f s = f tables u \<and>
     map ev_req (sent (bindM (getRouteTables E r subnets) f) s) =
       ec2req r (EC2_DescribeRouteTables subnets) # map ev_req (sent (f tables) u)"
proof -
  define u where "u = logged (ec2req r (EC2_DescribeRouteTables subnets)) None w s"
  have run: "getRouteTables E r subnets s = (Ok tables, u)"
    using assms(1) by (simp add: getRouteTables_def bindM_def call_def u_def)
  have "sent (getRouteTables E r subnets) s = [Event (ec2req r (EC2_DescribeRouteTables subnets)) None]"
    by (simp add: sent_def run u_def)
  with run show ?thesis
    using sent_bindM_Ok [where f = f, OF run emits_lookup(6) assms(2)] by (auto simp: bindM_def)
qed

text \<open>When the route tables of the subnets are found and AWS accepts the requests, adding a route
  creates it in exactly the tables that do not have it yet, and removing it deletes it from every
  table; both succeed. A route that is already gone is not an error.\<close>

lemma routes_exact:
  assumes "a_routeTables (e_aws E) (ec2req r (EC2_DescribeRouteTables subnets)) (world s) = (Inr (Some tables), w)"
    and accepted: "\<And>q w. \<exists>w'. a_done (e_aws E) q w = (Inr (), w')"
  shows "fst (AddRoutes E r rule subnets s) = Ok () \<and>
     map ev_req (sent (AddRoutes E r rule subnets) s) =
       ec2req r (EC2_DescribeRouteTables subnets) #
       map (\<lambda>t. ec2req r (EC2_CreateRoute (rtb_RouteTableId t) (rt_DestinationPrefixListId rule) (rt_TransitGatewayId rule)))
         (filter (\<lambda>t. \<not> routeExists (rtb_Routes t) rule) tables) \<and>
     fst (RemoveRoutes E r rule subnets s) = Ok () \<and>
     map ev_req (sent (RemoveRoutes E r rule subnets) s) =
       ec2req r (EC2_DescribeRouteTables subnets) #
       map (\<lambda>t. ec2req r (EC2_DeleteRoute (rtb_RouteTableId t) (rt_DestinationPrefixListId rule))) tables"
proof -
  let ?add = "\<lambda>t. (if \<not> routeExists (rtb_Routes t) rule then
         wrapM (Wrapped (routeText ''='' (rtb_RouteTableId t) rule))
           (createRoute E r (rtb_RouteTableId t) (rt_DestinationPrefixListId rule) (rt_TransitGatewayId rule))
       else retM ()) :: ('a, 'b, unit) go"
  let ?rem = "\<lambda>t. wrapM (Wrapped (routeText '': '' (rtb_RouteTableId t) rule))
         (deleteRoute E r (rtb_RouteTableId t) (rt_DestinationPrefixListId rule)) :: ('a, 'b, unit) go"
  have emits: "emits (\<lambda>_. True) (?add t)" "emits (\<lambda>_. True) (?rem t)" for t
    unfolding createRoute_def deleteRoute_def by (intro emits_rules emits_call; simp)+
  have add: "fst (forM tables ?add u) = Ok () \<and> map ev_req (sent (forM tables ?add) u) =
      concat (map (\<lambda>t. if \<not> routeExists (rtb_Routes t) rule then [ec2req r (EC2_CreateRoute (rtb_RouteTableId t)
        (rt_DestinationPrefixListId rule) (rt_TransitGatewayId rule))] else []) tables)" for u
    by (rule sent_forM [OF _ emits(1)])
      (simp add: createRoute_def sent_wrapM wrapM_ok call_ok [of "a_done (e_aws E)", OF accepted])
  have rem: "fst (forM tables ?rem u) = Ok () \<and> map ev_req (sent (forM tables ?rem) u) =
      concat (map (\<lambda>t. [ec2req r (EC2_DeleteRoute (rtb_RouteTableId t) (rt_DestinationPrefixListId rule))]) tables)" for u
    by (rule sent_forM [OF _ emits(2)])
      (simp add: deleteRoute_def sent_wrapM wrapM_ok ignoreCode_ok call_ok [of "a_done (e_aws E)", OF accepted])
  have flat: "concat (map (\<lambda>t. if P t then [h t] else []) ts) = map h (filter P ts)"
    "concat (map (\<lambda>t. [h t]) ts) = map h ts" for P ts and h :: "EC2RouteTable \<Rightarrow> request"
    by (induction ts) simp_all
  have "emits (\<lambda>_. True) (forM tables ?add)" "emits (\<lambda>_. True) (forM tables ?rem)"
    by (intro emits_rules emits)+
  note getRouteTables_bind [where f = "\<lambda>ts. forM ts ?add", OF assms(1) this(1)]
    getRouteTables_bind [where f = "\<lambda>ts. forM ts ?rem", OF assms(1) this(2)]
  then show ?thesis
    unfolding AddRoutes_def RemoveRoutes_def using add rem unfolding flat by auto
qed


definition routesEnv :: "(unit, (string \<times> cval) list) env" where
  "routesEnv = demoEnv\<lparr>e_aws := demoAWS\<lparr>a_routeTables := okAns (Some
     [\<lparr>rtb_RouteTableId = ''rtb-1'', rtb_Routes = [\<lparr>ro_DestinationPrefixListId = Some ''pl-1'', ro_TransitGatewayId = Some ''tgw-1''\<rparr>]\<rparr>,
      \<lparr>rtb_RouteTableId = ''rtb-2'', rtb_Routes = []\<rparr>])\<rparr>\<rparr>"

lemma routes_exact_example:
  "map ev_req (sent (AddRoutes routesEnv demoCreds \<lparr>rt_DestinationPrefixListId = ''pl-1'', rt_TransitGatewayId = ''tgw-1''\<rparr>
       [''subnet-1'']) demoSys) =
     [ec2req demoCreds (EC2_DescribeRouteTables [''subnet-1'']), ec2req demoCreds (EC2_CreateRoute ''rtb-2'' ''pl-1'' ''tgw-1'')]"
proof -
  have tables: "a_routeTables (e_aws routesEnv) (ec2req demoCreds (EC2_DescribeRouteTables [''subnet-1''])) (world demoSys) =
     (Inr (Some [\<lparr>rtb_RouteTableId = ''rtb-1'', rtb_Routes =
        [\<lparr>ro_DestinationPrefixListId = Some ''pl-1'', ro_TransitGatewayId = Some ''tgw-1''\<rparr>]\<rparr>,
      \<lparr>rtb_RouteTableId = ''rtb-2'', rtb_Routes = []\<rparr>]), ())"
    by (simp add: routesEnv_def)
  have "\<exists>w'. a_done (e_aws routesEnv) q w = (Inr (), w')" for q w
    by (simp add: routesEnv_def demoAWS_def)
  from routes_exact [OF tables this, of "\<lparr>rt_DestinationPrefixListId = ''pl-1'', rt_TransitGatewayId = ''tgw-1''\<rparr>"]
  show ?thesis by (simp add: routeExists_def isRouteOf_def)
qed

lemma findEntry_find:
  "findEntry entry es s = (case find (\<lambda>e. pi_Cidr e = pe_CIDR entry) es of
      None \<Rightarrow> (Ok False, s)
    | Some e \<Rightarrow> if pi_Description e = pe_Description entry then (Ok True, s)
        else (Err (ErrorString ''found conflicting prefix list entry''), s))"
  by (induction entry es rule: findEntry.induct) simp_all

lemma GetARNResourceID_run:
  assumes "l_arnParse (e_lib E) a = Inr arn" "arn_Resource arn = kind @ ''/'' @ i"
    "CHR ''/'' \<notin> set kind" "CHR ''/'' \<notin> set i"
  shows "GetARNResourceID E a = retM i"
  using assms by (simp add: GetARNResourceID_def splitOn_append splitOn_single)

text \<open>Applying and deleting the entry of a cluster in a prefix list, by what the list holds under its
  CIDR: nothing, and the entry is added for the list's current version, or there is nothing to
  delete; the same entry, and there is nothing to add; or an entry with another description, which
  belongs to another cluster, and both operations end in an error without touching it.\<close>

lemma prefix_list_entry_cases:
  assumes "l_arnParse (e_lib E) (pe_PrefixListARN entry) = Inr arn" "arn_Resource arn = ''prefix-list/'' @ pid"
    and "CHR ''/'' \<notin> set pid" "parsesCIDR (pe_CIDR entry)"
    and "a_entries (e_aws E) (ec2req p (EC2_GetManagedPrefixListEntries pid 100)) (world s) = (Inr es, w)"
  defines "t \<equiv> logged (ec2req p (EC2_GetManagedPrefixListEntries pid 100)) None w s"
  shows "case find (\<lambda>e. pi_Cidr e = pe_CIDR entry) es of
      None \<Rightarrow> ApplyEntry E p entry s = createEntry E p pid entry t \<and> DeleteEntry E p entry s = (Ok (), t)
    | Some e \<Rightarrow>
        if pi_Description e = pe_Description entry
        then ApplyEntry E p entry s = (Ok (), t) \<and> DeleteEntry E p entry s = deleteEntry E p pid entry t
        else ApplyEntry E p entry s = (Err (ErrorString ''found conflicting prefix list entry''), t) \<and>
             DeleteEntry E p entry s = (Err (ErrorString ''found conflicting prefix list entry''), t)"
proof -
  have id': "GetARNResourceID E (pe_PrefixListARN entry) = (retM pid :: ('a, 'b, string) go)"
    using assms(1-3) by (intro GetARNResourceID_run [of _ _ arn "''prefix-list''"]) simp_all
  have cidr: "validateCIDR (pe_CIDR entry) = (retM () :: ('a, 'b, unit) go)"
    by (simp add: validateCIDR_def assms(4))
  have exists: "entryExists E p pid entry s = findEntry entry es t"
    using assms(5) by (simp add: entryExists_def bindM_def tryM_def call_def t_def)
  show ?thesis
    unfolding ApplyEntry_def DeleteEntry_def id' cidr bindM_retM
    by (cases "find (\<lambda>e. pi_Cidr e = pe_CIDR entry) es") (simp_all add: bindM_def exists findEntry_find)
qed

definition entryOf :: "string \<Rightarrow> PrefixListEntry" where
  "entryOf d = \<lparr>pe_PrefixListARN = ''arn:aws:ec2:eu-west-1:1234:prefix-list/pl-1'', pe_CIDR = ''10.0.0.0/16'', pe_Description = d\<rparr>"

definition entriesEnv :: "(unit, (string \<times> cval) list) env" where
  "entriesEnv = demoEnv\<lparr>e_aws := demoAWS\<lparr>a_entries := okAns [\<lparr>pi_Cidr = ''10.0.0.0/16'', pi_Description = ''other''\<rparr>]\<rparr>\<rparr>"

lemma prefix_list_entry_cases_example:
  "fst (ApplyEntry entriesEnv demoCreds (entryOf ''mine'') demoSys) = Err (ErrorString ''found conflicting prefix list entry'')"
proof -
  have 1: "l_arnParse (e_lib entriesEnv) (pe_PrefixListARN (entryOf ''mine'')) = Inr \<lparr>arn_AccountID = ''1234'', arn_Resource = ''prefix-list/'' @ ''pl-1''\<rparr>"
    by code_simp
  have 2: "parsesCIDR (pe_CIDR (entryOf ''mine''))"
    by code_simp
  have 3: "a_entries (e_aws entriesEnv) (ec2req demoCreds (EC2_GetManagedPrefixListEntries ''pl-1'' 100)) (world demoSys) =
      (Inr [\<lparr>pi_Cidr = ''10.0.0.0/16'', pi_Description = ''other''\<rparr>], ())"
    by (simp add: entriesEnv_def)
  from prefix_list_entry_cases [OF 1 _ _ 2 3] show ?thesis
    by (simp add: entryOf_def)
qed


end
