(* ===== verification/Network_Controllers.thy ===== *)
theory Network_Controllers
  imports Controllers_Common Network_Clients AWS_Clients
begin

text \<open>
  The controllers of the network topology: the management cluster's transit gateway and prefix
  list (\<^verbatim>\<open>controllers/management_cluster_network.go\<close>), the attachment of a cluster's VPC to the
  transit gateway (\<^verbatim>\<open>transit_gateway_attachment.go\<close>), the entry of its CIDR in the prefix list
  (\<^verbatim>\<open>prefix_list_entry.go\<close>), the routes in its route tables (\<^verbatim>\<open>route_controller.go\<close>) and the sharing
  of both resources with its account (\<^verbatim>\<open>share.go\<close>). The reconciled \<^verbatim>\<open>AWSCluster\<close> is the cell
  \<open>m_AWSCluster\<close>; the deferred status update is \<open>deferM\<close>. A nil identity is dereferenced by four of
  them, which panics.
\<close>

text \<open>The five reconcilers have the same fields.\<close>

record NetworkReconciler =
  nr_managementClusterNamespace :: string
  nr_managementClusterName :: string
  nr_clients :: Clients

definition GetManagementCluster :: "('w, 'c) env \<Rightarrow> NetworkReconciler \<Rightarrow> ('w, 'c, AWSCluster) go" where
  "GetManagementCluster E r = GetAWSCluster E (nr_managementClusterNamespace r) (nr_managementClusterName r)"

text \<open>Getting the reconciled cluster: a missing one ends the reconciliation.\<close>

definition withAWSCluster ::
  "('w, 'c) env \<Rightarrow> string \<Rightarrow> string \<Rightarrow> (AWSCluster \<Rightarrow> ('w, 'c, Result) go) \<Rightarrow> ('w, 'c, Result) go" where
  "withAWSCluster E ns name f =
     bindM (tryM (GetAWSCluster E ns name)) (\<lambda>got.
     case got of
       Inl e \<Rightarrow> ignoreNotFound e
     | Inr cluster \<Rightarrow> bindM (holdAWSCluster cluster) (\<lambda>_. f cluster))"

text \<open>\<^verbatim>\<open>identity.Spec.RoleArn\<close> of a possibly nil identity.\<close>

definition roleOf :: "RoleIdentity option \<Rightarrow> ('w, 'c, string) go" where
  "roleOf identity = (case identity of None \<Rightarrow> panicM | Some i \<Rightarrow> retM (ri_RoleArn i))"

section \<open>Management cluster\<close>

definition FinalizerManagementCluster :: string where
  "FinalizerManagementCluster = ''network-topology.finalizers.giantswarm.io/management-cluster''"

definition isManagementCluster :: "NetworkReconciler \<Rightarrow> AWSCluster \<Rightarrow> bool" where
  "isManagementCluster r cluster \<longleftrightarrow> om_Name cluster = nr_managementClusterName r \<and>
     om_Namespace cluster = nr_managementClusterNamespace r"

definition setAnnotations :: "(gomap \<Rightarrow> gomap) \<Rightarrow> ('w, 'c, unit) go" where
  "setAnnotations f = modM (\<lambda>s. s\<lparr>m_AWSCluster := om_Annotations_update f (m_AWSCluster s)\<rparr>)"

definition applyTransitGateway :: "('w, 'c) env \<Rightarrow> creds \<Rightarrow> ('w, 'c, unit) go" where
  "applyTransitGateway E transitGatewayClient =
     bindM (getM m_AWSCluster) (\<lambda>cluster.
     bindM (TransitGateways_Apply E transitGatewayClient (om_Name cluster) (nilmap (ac_AdditionalTags cluster))) (\<lambda>id'.
     bindM (setAnnotations (SetNetworkTopologyTransitGateway (e_lib E) id')) (\<lambda>_.
     bindM (PatchCluster E cluster) (\<lambda>_.
     MarkReady E TransitGatewayCreated))))"

definition applyPrefixList :: "('w, 'c) env \<Rightarrow> creds \<Rightarrow> ('w, 'c, unit) go" where
  "applyPrefixList E prefixListClient =
     bindM (getM m_AWSCluster) (\<lambda>cluster.
     bindM (PrefixLists_Apply E prefixListClient (om_Name cluster) (nilmap (ac_AdditionalTags cluster))) (\<lambda>id'.
     bindM (setAnnotations (SetNetworkTopologyPrefixList (e_lib E) id')) (\<lambda>_.
     bindM (PatchCluster E cluster) (\<lambda>_.
     MarkReady E TransitGatewayCreated))))"

definition MC_reconcileNormal :: "('w, 'c) env \<Rightarrow> creds \<Rightarrow> creds \<Rightarrow> ('w, 'c, Result) go" where
  "MC_reconcileNormal E transitGatewayClient prefixListClient =
     bindM (AddFinalizer E FinalizerManagementCluster) (\<lambda>_.
     bindM (applyTransitGateway E transitGatewayClient) (\<lambda>_.
     bindM (applyPrefixList E prefixListClient) (\<lambda>_.
     retM noRequeue)))"

text \<open>A retryable error asks for another reconciliation, every other one is returned.\<close>

definition requeueRetryable :: "go_error \<Rightarrow> ('w, 'c, Result) go" where
  "requeueRetryable e = (case asRetryable e of Some (_, retryAfter) \<Rightarrow> retM (requeueAfter retryAfter) | None \<Rightarrow> errM e)"

definition MC_reconcileDelete :: "('w, 'c) env \<Rightarrow> creds \<Rightarrow> creds \<Rightarrow> ('w, 'c, Result) go" where
  "MC_reconcileDelete E transitGatewayClient prefixListClient =
     bindM (getM m_AWSCluster) (\<lambda>cluster.
     if \<not> l_ContainsFinalizer (e_lib E) (om_Finalizers cluster) FinalizerManagementCluster then retM noRequeue
     else
       bindM (tryM (TransitGateways_Delete E transitGatewayClient (om_Name cluster))) (\<lambda>res.
       case res of
         Inl e \<Rightarrow> requeueRetryable e
       | Inr _ \<Rightarrow>
         bindM (PrefixLists_Delete E prefixListClient (om_Name cluster)) (\<lambda>_.
         bindM (RemoveFinalizer E FinalizerManagementCluster) (\<lambda>_.
         retM noRequeue))))"

definition markInProgress :: "('w, 'c) env \<Rightarrow> ('w, 'c, unit) go" where
  "markInProgress E = modM (\<lambda>s.
     if l_CondHas (e_lib E) (ac_Conditions (m_AWSCluster s)) NetworkTopologyCondition then s
     else s\<lparr>m_AWSCluster := ac_Conditions_update
       (\<lambda>cs. l_MarkFalse (e_lib E) cs NetworkTopologyCondition ''InProgress'' ''Info'' '''') (m_AWSCluster s)\<rparr>)"

definition MC_Reconcile :: "('w, 'c) env \<Rightarrow> NetworkReconciler \<Rightarrow> string \<Rightarrow> string \<Rightarrow> ('w, 'c, Result) go" where
  "MC_Reconcile E r ns name =
     withAWSCluster E ns name (\<lambda>cluster.
     if \<not> isManagementCluster r cluster then retM noRequeue
     else if \<not> IsNetworkTopologyModeGiantSwarmManaged (e_lib E) (om_Annotations cluster) then retM noRequeue
     else if l_HasPaused (e_lib E) (om_Annotations cluster) then retM noRequeue
     else
       bindM (AWSClusterClient_GetIdentity E cluster) (\<lambda>identity.
       bindM (roleOf identity) (\<lambda>role.
       bindM (NewTransitGatewayClient E (nr_clients r) (ac_Region cluster) role) (\<lambda>transitGatewayClient.
       bindM (NewPrefixListClient E (nr_clients r) (ac_Region cluster) role) (\<lambda>prefixListClient.
       deferM
         (bindM (markInProgress E) (\<lambda>_.
          if om_Deleting cluster then MC_reconcileDelete E transitGatewayClient prefixListClient
          else MC_reconcileNormal E transitGatewayClient prefixListClient))
         (UpdateStatus E))))))"

section \<open>Transit gateway attachment\<close>

definition FinalizerTransitGatewayAttachment :: string where
  "FinalizerTransitGatewayAttachment = ''network-topology.finalizers.giantswarm.io/transit-gateway-attachment''"

definition TagSubnetTGWAttachements :: string where
  "TagSubnetTGWAttachements = ''subnet.giantswarm.io/tgw''"

definition filterTGWSubnets :: "SubnetSpec list \<Rightarrow> SubnetSpec list" where
  "filterTGWSubnets subnets =
     (let filtered = filter (\<lambda>s. ghas (sn_Tags s) TagSubnetTGWAttachements) subnets in
      if filtered = [] then subnets else filtered)"

text \<open>The loop of \<^verbatim>\<open>getSubnets\<close>, with the ids collected and the zones seen so far.\<close>

fun subnetLoop :: "SubnetSpec list \<Rightarrow> string list \<Rightarrow> string list \<Rightarrow> go_error + string list" where
  "subnetLoop [] subnetIDs availabilityZones = Inr subnetIDs"
| "subnetLoop (s # subnets) subnetIDs availabilityZones =
     (if sn_ResourceID s = '''' then Inl (ErrorString ''not all subnets have been created'')
      else if \<not> hasPrefix (sn_ResourceID s) ''subnet-''
      then Inl (ErrorString (''invalid subnet ID '' @ sn_ResourceID s))
      else if sn_AvailabilityZone s \<notin> set availabilityZones
      then subnetLoop subnets (subnetIDs @ [sn_ResourceID s]) (sn_AvailabilityZone s # availabilityZones)
      else subnetLoop subnets subnetIDs availabilityZones)"

definition getSubnets :: "AWSCluster \<Rightarrow> go_error + string list" where
  "getSubnets cluster = (case subnetLoop (filterTGWSubnets (ac_Subnets cluster)) [] [] of
      Inl e \<Rightarrow> Inl e
    | Inr subnetIDs \<Rightarrow>
        if subnetIDs = [] then Inl (ErrorString ''cluster has no subnets'') else Inr subnetIDs)"

text \<open>A non-nil map of tags belongs to the cluster object, and is changed in place.\<close>

definition attachmentTags :: "AWSCluster \<Rightarrow> gomap" where
  "attachmentTags cluster =
     AList.update (''kubernetes.io/cluster/'' @ om_Name cluster) ''owned''
       (AList.update ''Name'' (om_Name cluster) (nilmap (ac_AdditionalTags cluster)))"

definition getAttachmentTags :: "('w, 'c, gomap) go" where
  "getAttachmentTags =
     bindM (getM m_AWSCluster) (\<lambda>cluster.
     bindM (case ac_AdditionalTags cluster of
         None \<Rightarrow> retM ()
       | Some _ \<Rightarrow> holdAWSCluster (cluster\<lparr>ac_AdditionalTags := Some (attachmentTags cluster)\<rparr>)) (\<lambda>_.
     retM (attachmentTags cluster)))"

definition Attachment_reconcileNormal :: "('w, 'c) env \<Rightarrow> creds \<Rightarrow> string \<Rightarrow> ('w, 'c, Result) go" where
  "Attachment_reconcileNormal E transitGatewayClient transitGatewayARN =
     bindM (getM m_AWSCluster) (\<lambda>cluster.
     if ac_VPC_ID cluster = '''' then retM noRequeue
     else
       bindM (liftE (getSubnets cluster)) (\<lambda>subnets.
       bindM (AddFinalizer E FinalizerTransitGatewayAttachment) (\<lambda>_.
       bindM (getM m_AWSCluster) (\<lambda>cluster'.
       bindM getAttachmentTags (\<lambda>tags.
       bindM (tryM (ApplyAttachment E transitGatewayClient
           \<lparr>ta_TransitGatewayARN = transitGatewayARN, ta_SubnetIDs = subnets,
            ta_VPCID = ac_VPC_ID cluster', ta_Tags = tags\<rparr>)) (\<lambda>res.
       case res of
         Inl e \<Rightarrow> requeueRetryable e
       | Inr _ \<Rightarrow> bindM (MarkReady E TransitGatewayAttached) (\<lambda>_. retM noRequeue)))))))"

definition Attachment_reconcileDelete :: "('w, 'c) env \<Rightarrow> creds \<Rightarrow> string \<Rightarrow> ('w, 'c, Result) go" where
  "Attachment_reconcileDelete E transitGatewayClient transitGatewayARN =
     bindM (getM m_AWSCluster) (\<lambda>cluster.
     if \<not> l_ContainsFinalizer (e_lib E) (om_Finalizers cluster) FinalizerTransitGatewayAttachment then retM noRequeue
     else
       bindM (Detach E transitGatewayClient
           \<lparr>ta_TransitGatewayARN = transitGatewayARN, ta_SubnetIDs = [],
            ta_VPCID = ac_VPC_ID cluster, ta_Tags = []\<rparr>) (\<lambda>_.
       bindM (RemoveFinalizer E FinalizerTransitGatewayAttachment) (\<lambda>_.
       retM noRequeue)))"

definition Attachment_Reconcile ::
  "('w, 'c) env \<Rightarrow> NetworkReconciler \<Rightarrow> string \<Rightarrow> string \<Rightarrow> ('w, 'c, Result) go" where
  "Attachment_Reconcile E r ns name =
     withAWSCluster E ns name (\<lambda>cluster.
     bindM (GetManagementCluster E r) (\<lambda>managementCluster.
     if \<not> IsNetworkTopologyModeGiantSwarmManaged (e_lib E) (om_Annotations cluster) then retM noRequeue
     else if l_HasPaused (e_lib E) (om_Annotations cluster) then retM noRequeue
     else
       let transitGatewayARN = getTransitGatewayARN (e_lib E) cluster managementCluster in
       if transitGatewayARN = '''' then retM (requeueAfter 60)
       else
         bindM (AWSClusterClient_GetIdentity E cluster) (\<lambda>identity.
         bindM (roleOf identity) (\<lambda>role.
         bindM (NewTransitGatewayClient E (nr_clients r) (ac_Region cluster) role) (\<lambda>attacher.
         deferM
           (if om_Deleting cluster then Attachment_reconcileDelete E attacher transitGatewayARN
            else Attachment_reconcileNormal E attacher transitGatewayARN)
           (UpdateStatus E))))))"

section \<open>Prefix list entry\<close>

definition FinalizerPrefixListEntry :: string where
  "FinalizerPrefixListEntry = ''network-topology.finalizers.giantswarm.io/prefix-list-entries''"

definition getPrefixListEntryDescription :: "string \<Rightarrow> string" where
  "getPrefixListEntryDescription clusterName = ''CIDR block for cluster '' @ clusterName"

definition clusterEntry :: "string \<Rightarrow> AWSCluster \<Rightarrow> PrefixListEntry" where
  "clusterEntry prefixListARN cluster =
     \<lparr>pe_PrefixListARN = prefixListARN, pe_CIDR = ac_VPC_CidrBlock cluster,
      pe_Description = getPrefixListEntryDescription (om_Name cluster)\<rparr>"

definition Entry_reconcileNormal :: "('w, 'c) env \<Rightarrow> creds \<Rightarrow> string \<Rightarrow> ('w, 'c, Result) go" where
  "Entry_reconcileNormal E prefixListClient prefixListARN =
     bindM (getM m_AWSCluster) (\<lambda>cluster.
     if ac_VPC_ID cluster = '''' then retM noRequeue
     else
       bindM (AddFinalizer E FinalizerPrefixListEntry) (\<lambda>_.
       bindM (getM m_AWSCluster) (\<lambda>cluster'.
       bindM (ApplyEntry E prefixListClient (clusterEntry prefixListARN cluster')) (\<lambda>_.
       bindM (MarkReady E PrefixListEntriesReady) (\<lambda>_.
       retM noRequeue)))))"

definition Entry_reconcileDelete :: "('w, 'c) env \<Rightarrow> creds \<Rightarrow> string \<Rightarrow> ('w, 'c, Result) go" where
  "Entry_reconcileDelete E prefixListClient prefixListARN =
     bindM (getM m_AWSCluster) (\<lambda>cluster.
     if \<not> l_ContainsFinalizer (e_lib E) (om_Finalizers cluster) FinalizerPrefixListEntry then retM noRequeue
     else
       bindM (DeleteEntry E prefixListClient (clusterEntry prefixListARN cluster)) (\<lambda>_.
       bindM (RemoveFinalizer E FinalizerPrefixListEntry) (\<lambda>_.
       retM noRequeue)))"

text \<open>The prefix list belongs to the management cluster, whose identity is used, in the region of the cluster.\<close>

definition Entry_Reconcile ::
  "('w, 'c) env \<Rightarrow> NetworkReconciler \<Rightarrow> string \<Rightarrow> string \<Rightarrow> ('w, 'c, Result) go" where
  "Entry_Reconcile E r ns name =
     withAWSCluster E ns name (\<lambda>cluster.
     bindM (GetManagementCluster E r) (\<lambda>managementCluster.
     if \<not> IsNetworkTopologyModeGiantSwarmManaged (e_lib E) (om_Annotations cluster) then retM noRequeue
     else if l_HasPaused (e_lib E) (om_Annotations cluster) then retM noRequeue
     else
       let prefixListARN = getPrefixListARN (e_lib E) cluster managementCluster in
       if prefixListARN = '''' then retM (requeueAfter 60)
       else
         bindM (AWSClusterClient_GetIdentity E managementCluster) (\<lambda>identity.
         bindM (roleOf identity) (\<lambda>role.
         bindM (NewPrefixListClient E (nr_clients r) (ac_Region cluster) role) (\<lambda>prefixListClient.
         deferM
           (if om_Deleting cluster then Entry_reconcileDelete E prefixListClient prefixListARN
            else Entry_reconcileNormal E prefixListClient prefixListARN)
           (UpdateStatus E))))))"

section \<open>Routes\<close>

definition RouteFinalizer :: string where
  "RouteFinalizer = ''capa-operator.finalizers.giantswarm.io/route-controller''"

definition Route_reconcileNormal :: "('w, 'c) env \<Rightarrow> creds \<Rightarrow> RouteRule \<Rightarrow> Filter \<Rightarrow> ('w, 'c, Result) go" where
  "Route_reconcileNormal E routeTableClient routeRule subnetFilter =
     bindM (AddAWSClusterFinalizer E RouteFinalizer) (\<lambda>_.
     bindM (AddRoutes E routeTableClient routeRule subnetFilter) (\<lambda>_.
     retM noRequeue))"

definition Route_reconcileDelete :: "('w, 'c) env \<Rightarrow> creds \<Rightarrow> RouteRule \<Rightarrow> Filter \<Rightarrow> ('w, 'c, Result) go" where
  "Route_reconcileDelete E routeTableClient routeRule subnetFilter =
     bindM (getM m_AWSCluster) (\<lambda>awsCluster.
     if \<not> l_ContainsFinalizer (e_lib E) (om_Finalizers awsCluster) RouteFinalizer then retM noRequeue
     else
       bindM (RemoveRoutes E routeTableClient routeRule subnetFilter) (\<lambda>_.
       bindM (RemoveAWSClusterFinalizer E RouteFinalizer) (\<lambda>_.
       retM noRequeue)))"

datatype routeMode = RouteSkip | RouteHandle | RouteInvalid

definition routeModeOf :: "lib \<Rightarrow> AWSCluster \<Rightarrow> routeMode" where
  "routeModeOf L awsCluster =
     (let val = GetAnnotation (om_Annotations awsCluster) (l_NetworkTopologyMode L) in
      if val = '''' then RouteSkip
      else if val = l_ModeNone L then RouteSkip
      else if val = l_ModeUserManaged L \<or> val = l_ModeGiantSwarmManaged L then RouteHandle
      else RouteInvalid)"

text \<open>What \<^verbatim>\<open>Reconcile\<close> does once the mode is one it handles and the identity is known.\<close>

definition Route_reconcileRules ::
  "('w, 'c) env \<Rightarrow> NetworkReconciler \<Rightarrow> AWSCluster \<Rightarrow> AWSCluster \<Rightarrow> RoleIdentity \<Rightarrow> ('w, 'c, Result) go" where
  "Route_reconcileRules E r awsCluster managementCluster identity =
     (let transitGatewayARN = getTransitGatewayARN (e_lib E) awsCluster managementCluster;
          prefixListARN = getPrefixListARN (e_lib E) awsCluster managementCluster in
      if transitGatewayARN = '''' then retM (requeueAfter 60)
      else
        bindM (GetARNResourceID E transitGatewayARN) (\<lambda>transitGatewayID.
        if prefixListARN = '''' then retM (requeueAfter 60)
        else
          bindM (GetARNResourceID E prefixListARN) (\<lambda>prefixListID.
          let subnets = map sn_ResourceID (ac_Subnets awsCluster);
              routeRule = \<lparr>rt_DestinationPrefixListId = prefixListID, rt_TransitGatewayId = transitGatewayID\<rparr> in
          bindM (NewRouteTableClient E (nr_clients r) (ac_Region awsCluster) (ri_RoleArn identity)) (\<lambda>routeTableClient.
          if om_Deleting awsCluster then Route_reconcileDelete E routeTableClient routeRule subnets
          else Route_reconcileNormal E routeTableClient routeRule subnets))))"

definition Route_Reconcile ::
  "('w, 'c) env \<Rightarrow> NetworkReconciler \<Rightarrow> string \<Rightarrow> string \<Rightarrow> ('w, 'c, Result) go" where
  "Route_Reconcile E r ns name =
     withAWSCluster E ns name (\<lambda>awsCluster.
     case routeModeOf (e_lib E) awsCluster of
       RouteSkip \<Rightarrow> retM noRequeue
     | RouteInvalid \<Rightarrow> errM (ErrorString ''invalid NetworkTopologyMode value'')
     | RouteHandle \<Rightarrow>
       bindM (GetManagementCluster E r) (\<lambda>managementCluster.
       bindM (ClusterClient_GetIdentity E (ac_IdentityRef awsCluster)) (\<lambda>identity'.
       case identity' of
         None \<Rightarrow> retM noRequeue
       | Some identity \<Rightarrow> Route_reconcileRules E r awsCluster managementCluster identity)))"

section \<open>Sharing\<close>

definition FinalizerResourceShare :: string where
  "FinalizerResourceShare = ''network-topology.finalizers.giantswarm.io/share''"

definition getTransitGatewayResourceShareName :: "AWSCluster \<Rightarrow> string" where
  "getTransitGatewayResourceShareName cluster = om_Name cluster @ ''-transit-gateway''"

definition getPrefixListResourceShareName :: "AWSCluster \<Rightarrow> string" where
  "getPrefixListResourceShareName cluster = om_Name cluster @ ''-prefix-list''"

definition resourcesStillInUse :: "lib \<Rightarrow> AWSCluster \<Rightarrow> bool" where
  "resourcesStillInUse L cluster \<longleftrightarrow>
     l_ContainsFinalizer L (om_Finalizers cluster) FinalizerTransitGatewayAttachment \<or>
     l_ContainsFinalizer L (om_Finalizers cluster) FinalizerPrefixListEntry"

definition getRamClientFromCluster ::
  "('w, 'c) env \<Rightarrow> NetworkReconciler \<Rightarrow> AWSCluster \<Rightarrow> ('w, 'c, creds) go" where
  "getRamClientFromCluster E r cluster =
     bindM (AWSClusterClient_GetIdentity E cluster) (\<lambda>identity.
     bindM (roleOf identity) (\<lambda>role.
     NewRAMClient E (nr_clients r) (ac_Region cluster) role))"

definition getRamClient :: "('w, 'c) env \<Rightarrow> NetworkReconciler \<Rightarrow> ('w, 'c, creds) go" where
  "getRamClient E r = bindM (GetManagementCluster E r) (getRamClientFromCluster E r)"

definition getAccountId :: "('w, 'c) env \<Rightarrow> AWSCluster \<Rightarrow> ('w, 'c, string) go" where
  "getAccountId E cluster =
     bindM (AWSClusterClient_GetIdentity E cluster) (\<lambda>identity.
     bindM (roleOf identity) (\<lambda>role.
     bindM (liftE (l_arnParse (e_lib E) role)) (\<lambda>roleArn.
     retM (arn_AccountID roleArn))))"

text \<open>The finalizer is added with the transit gateway's share only.\<close>

definition shareTransitGateway ::
  "('w, 'c) env \<Rightarrow> AWSCluster \<Rightarrow> string \<Rightarrow> creds \<Rightarrow> ('w, 'c, bool) go" where
  "shareTransitGateway E managementCluster accountID ramClient =
     bindM (getM m_AWSCluster) (\<lambda>cluster.
     let transitGatewayARN = getTransitGatewayARN (e_lib E) cluster managementCluster in
     if transitGatewayARN = '''' then retM True
     else
       bindM (AddFinalizer E FinalizerResourceShare) (\<lambda>_.
       bindM (getM m_AWSCluster) (\<lambda>cluster'.
       bindM (ApplyResourceShare E ramClient
           \<lparr>rs_Name = getTransitGatewayResourceShareName cluster', rs_ResourceArns = [transitGatewayARN],
            rs_ExternalAccountID = accountID\<rparr>) (\<lambda>_.
       retM False))))"

definition sharePrefixList ::
  "('w, 'c) env \<Rightarrow> AWSCluster \<Rightarrow> string \<Rightarrow> creds \<Rightarrow> ('w, 'c, bool) go" where
  "sharePrefixList E managementCluster accountID ramClient =
     bindM (getM m_AWSCluster) (\<lambda>cluster.
     let prefixListARN = getPrefixListARN (e_lib E) cluster managementCluster in
     if prefixListARN = '''' then retM True
     else
       bindM (ApplyResourceShare E ramClient
           \<lparr>rs_Name = getPrefixListResourceShareName cluster, rs_ResourceArns = [prefixListARN],
            rs_ExternalAccountID = accountID\<rparr>) (\<lambda>_.
       retM False))"

definition Share_reconcileNormal :: "('w, 'c) env \<Rightarrow> NetworkReconciler \<Rightarrow> ('w, 'c, Result) go" where
  "Share_reconcileNormal E r =
     bindM (getM m_AWSCluster) (\<lambda>cluster.
     bindM (getAccountId E cluster) (\<lambda>accountID.
     bindM (GetManagementCluster E r) (\<lambda>managementCluster.
     bindM (getRamClientFromCluster E r managementCluster) (\<lambda>ramClient.
     bindM (shareTransitGateway E managementCluster accountID ramClient) (\<lambda>requeue.
     bindM (sharePrefixList E managementCluster accountID ramClient) (\<lambda>requeue'.
     retM (if requeue \<or> requeue' then requeueAfter 60 else noRequeue)))))))"

definition Share_reconcileDelete :: "('w, 'c) env \<Rightarrow> NetworkReconciler \<Rightarrow> ('w, 'c, Result) go" where
  "Share_reconcileDelete E r =
     bindM (getM m_AWSCluster) (\<lambda>cluster.
     if \<not> l_ContainsFinalizer (e_lib E) (om_Finalizers cluster) FinalizerResourceShare then retM noRequeue
     else
       bindM (getRamClient E r) (\<lambda>ramClient.
       if resourcesStillInUse (e_lib E) cluster then retM noRequeue
       else
         bindM (DeleteResourceShare E ramClient (getTransitGatewayResourceShareName cluster)) (\<lambda>_.
         bindM (DeleteResourceShare E ramClient (getPrefixListResourceShareName cluster)) (\<lambda>_.
         bindM (RemoveFinalizer E FinalizerResourceShare) (\<lambda>_.
         retM noRequeue)))))"

definition Share_Reconcile ::
  "('w, 'c) env \<Rightarrow> NetworkReconciler \<Rightarrow> string \<Rightarrow> string \<Rightarrow> ('w, 'c, Result) go" where
  "Share_Reconcile E r ns name =
     withAWSCluster E ns name (\<lambda>cluster.
     if GetAnnotation (om_Annotations cluster) (l_NetworkTopologyMode (e_lib E)) \<noteq> l_ModeGiantSwarmManaged (e_lib E)
     then retM noRequeue
     else if om_Deleting cluster then Share_reconcileDelete E r
     else Share_reconcileNormal E r)"


section \<open>The finalizer protocol\<close>

lemma emits_roleOf [emits_rules]: "emits P (roleOf identity)"
  unfolding roleOf_def by (intro emits_rules)

lemma emits_requeueRetryable [emits_rules]: "emits P (requeueRetryable e)"
  unfolding requeueRetryable_def by (intro emits_rules)

lemma emits_setAnnotations [emits_rules]: "emits P (setAnnotations f)"
  unfolding setAnnotations_def by (rule emits_modM) simp

lemma emits_markInProgress [emits_rules]: "emits P (markInProgress E)"
  unfolding markInProgress_def by (rule emits_modM) simp

lemma emits_getAttachmentTags [emits_rules]: "emits P getAttachmentTags"
  unfolding getAttachmentTags_def by (intro emits_rules)

lemmas network_aws = emits_network [THEN emits_mono, OF byClient_isAWS]
lemmas network_any = emits_network [THEN emits_any]
lemmas k8s_any = emits_finalizer [THEN emits_any] emits_status [THEN emits_any]

text \<open>The steps of each controller that its finalizer stands for, and the finalizer's removal.\<close>

interpretation mcGateway: finalizer_protocol FinalizerManagementCluster
  "\<lambda>E _. AddFinalizer E FinalizerManagementCluster"
  "\<lambda>E (tgw, pl, name). bindM (applyTransitGateway E tgw) (\<lambda>_. bindM (applyPrefixList E pl) (\<lambda>_. retM noRequeue))"
  "\<lambda>E (tgw, pl, name). TransitGateways_Delete E tgw name"
  "\<lambda>E (tgw, pl, name). bindM (PrefixLists_Delete E pl name) (\<lambda>_.
     bindM (RemoveFinalizer E FinalizerManagementCluster) (\<lambda>_. retM noRequeue))"
  by unfold_locales
    (auto simp: applyTransitGateway_def applyPrefixList_def intro!: emits_rules network_aws network_any k8s_any)

interpretation mcPrefixList: finalizer_protocol FinalizerManagementCluster
  "\<lambda>E _. AddFinalizer E FinalizerManagementCluster"
  "\<lambda>E (tgw, pl, name). bindM (applyTransitGateway E tgw) (\<lambda>_. bindM (applyPrefixList E pl) (\<lambda>_. retM noRequeue))"
  "\<lambda>E (tgw, pl, name). PrefixLists_Delete E pl name"
  "\<lambda>E _. bindM (RemoveFinalizer E FinalizerManagementCluster) (\<lambda>_. retM noRequeue)"
  by unfold_locales
    (auto simp: applyTransitGateway_def applyPrefixList_def intro!: emits_rules network_aws network_any k8s_any)

definition attachAll :: "('w, 'c) env \<Rightarrow> creds \<Rightarrow> string \<Rightarrow> string list \<Rightarrow> ('w, 'c, Result) go" where
  "attachAll E tgw arn subnets =
     bindM (getM m_AWSCluster) (\<lambda>cluster'.
     bindM getAttachmentTags (\<lambda>tags.
     bindM (tryM (ApplyAttachment E tgw \<lparr>ta_TransitGatewayARN = arn, ta_SubnetIDs = subnets,
         ta_VPCID = ac_VPC_ID cluster', ta_Tags = tags\<rparr>)) (\<lambda>res.
     case res of
       Inl e \<Rightarrow> requeueRetryable e
     | Inr _ \<Rightarrow> bindM (MarkReady E TransitGatewayAttached) (\<lambda>_. retM noRequeue))))"

interpretation attachment: finalizer_protocol FinalizerTransitGatewayAttachment
  "\<lambda>E _. AddFinalizer E FinalizerTransitGatewayAttachment"
  "\<lambda>E (tgw, arn, subnets, att). attachAll E tgw arn subnets"
  "\<lambda>E (tgw, arn, subnets, att). Detach E tgw att"
  "\<lambda>E _. bindM (RemoveFinalizer E FinalizerTransitGatewayAttachment) (\<lambda>_. retM noRequeue)"
  by unfold_locales (auto simp: attachAll_def intro!: emits_rules network_aws network_any k8s_any)

definition addEntry :: "('w, 'c) env \<Rightarrow> creds \<Rightarrow> string \<Rightarrow> ('w, 'c, Result) go" where
  "addEntry E pl arn =
     bindM (getM m_AWSCluster) (\<lambda>cluster'.
     bindM (ApplyEntry E pl (clusterEntry arn cluster')) (\<lambda>_.
     bindM (MarkReady E PrefixListEntriesReady) (\<lambda>_.
     retM noRequeue)))"

interpretation entry: finalizer_protocol FinalizerPrefixListEntry
  "\<lambda>E _. AddFinalizer E FinalizerPrefixListEntry"
  "\<lambda>E (pl, arn, en). addEntry E pl arn"
  "\<lambda>E (pl, arn, en). DeleteEntry E pl en"
  "\<lambda>E _. bindM (RemoveFinalizer E FinalizerPrefixListEntry) (\<lambda>_. retM noRequeue)"
  by unfold_locales (auto simp: addEntry_def intro!: emits_rules network_aws network_any k8s_any)

interpretation route: finalizer_protocol RouteFinalizer
  "\<lambda>E _. AddAWSClusterFinalizer E RouteFinalizer"
  "\<lambda>E (rt, rule, subnets). bindM (AddRoutes E rt rule subnets) (\<lambda>_. retM noRequeue)"
  "\<lambda>E (rt, rule, subnets). RemoveRoutes E rt rule subnets"
  "\<lambda>E _. bindM (RemoveAWSClusterFinalizer E RouteFinalizer) (\<lambda>_. retM noRequeue)"
  by unfold_locales (auto intro!: emits_rules network_aws network_any k8s_any)

definition unshareBoth :: "('w, 'c) env \<Rightarrow> creds \<Rightarrow> AWSCluster \<Rightarrow> ('w, 'c, unit) go" where
  "unshareBoth E ram cluster =
     bindM (DeleteResourceShare E ram (getTransitGatewayResourceShareName cluster)) (\<lambda>_.
     DeleteResourceShare E ram (getPrefixListResourceShareName cluster))"

interpretation share: finalizer_protocol FinalizerResourceShare
  "\<lambda>E _. AddFinalizer E FinalizerResourceShare"
  "\<lambda>E (ram, arn, account, cluster). bindM (getM m_AWSCluster) (\<lambda>cluster'.
     bindM (ApplyResourceShare E ram \<lparr>rs_Name = getTransitGatewayResourceShareName cluster', rs_ResourceArns = [arn],
            rs_ExternalAccountID = account\<rparr>) (\<lambda>_. retM False))"
  "\<lambda>E (ram, arn, account, cluster). unshareBoth E ram cluster"
  "\<lambda>E _. bindM (RemoveFinalizer E FinalizerResourceShare) (\<lambda>_. retM noRequeue)"
  by unfold_locales (auto simp: unshareBoth_def intro!: emits_rules network_aws network_any k8s_any)

text \<open>C16: each network controller removes its finalizer only after what the finalizer stands for is
  gone: the management cluster's after both the transit gateway and the prefix list were
  deleted, the attachment's after the VPC was detached, the entry's after the CIDR was removed
  from the prefix list, and the routes' after the routes were removed.\<close>

theorem network_finalizers_removed_last:
  shows "(e \<in> set (sent (MC_reconcileDelete E tgw pl) s) \<and> removesFinalizer FinalizerManagementCluster e \<longrightarrow>
      (\<exists>t u. TransitGateways_Delete E tgw (om_Name (m_AWSCluster s)) s = (Ok (), t) \<and>
         PrefixLists_Delete E pl (om_Name (m_AWSCluster s)) t = (Ok (), u))) \<and>
    (e \<in> set (sent (Attachment_reconcileDelete E tgw arn) s) \<and> removesFinalizer FinalizerTransitGatewayAttachment e \<longrightarrow>
      (\<exists>t. Detach E tgw \<lparr>ta_TransitGatewayARN = arn, ta_SubnetIDs = [],
            ta_VPCID = ac_VPC_ID (m_AWSCluster s), ta_Tags = []\<rparr> s = (Ok (), t))) \<and>
    (e \<in> set (sent (Entry_reconcileDelete E pl arn) s) \<and> removesFinalizer FinalizerPrefixListEntry e \<longrightarrow>
      (\<exists>t. DeleteEntry E pl (clusterEntry arn (m_AWSCluster s)) s = (Ok (), t))) \<and>
    (e \<in> set (sent (Route_reconcileDelete E rt rule subnets) s) \<and> removesFinalizer RouteFinalizer e \<longrightarrow>
      (\<exists>t. RemoveRoutes E rt rule subnets s = (Ok (), t)))"
proof (intro conjI impI)
  assume e: "e \<in> set (sent (MC_reconcileDelete E tgw pl) s) \<and> removesFinalizer FinalizerManagementCluster e"
  let ?x = "(tgw, pl, om_Name (m_AWSCluster s))"
  obtain t where "TransitGateways_Delete E tgw (om_Name (m_AWSCluster s)) s = (Ok (), t)"
    and "e \<in> set (sent (bindM (PrefixLists_Delete E pl (om_Name (m_AWSCluster s)))
      (\<lambda>_. bindM (RemoveFinalizer E FinalizerManagementCluster) (\<lambda>_. retM noRequeue))) t)"
    using e mcGateway.removed_after_tried_cleanup [of e E ?x requeueRetryable s] emits_requeueRetryable
    by (auto simp: MC_reconcileDelete_def sent_def split: if_splits)
  with e show "\<exists>t u. TransitGateways_Delete E tgw (om_Name (m_AWSCluster s)) s = (Ok (), t) \<and>
      PrefixLists_Delete E pl (om_Name (m_AWSCluster s)) t = (Ok (), u)"
    using mcPrefixList.removed_after_cleanup [of e E ?x t] by auto
next
  assume "e \<in> set (sent (Attachment_reconcileDelete E tgw arn) s) \<and> removesFinalizer FinalizerTransitGatewayAttachment e"
  then show "\<exists>t. Detach E tgw \<lparr>ta_TransitGatewayARN = arn, ta_SubnetIDs = [],
      ta_VPCID = ac_VPC_ID (m_AWSCluster s), ta_Tags = []\<rparr> s = (Ok (), t)"
    using attachment.removed_after_cleanup [of e E "(tgw, arn, [], \<lparr>ta_TransitGatewayARN = arn, ta_SubnetIDs = [],
      ta_VPCID = ac_VPC_ID (m_AWSCluster s), ta_Tags = []\<rparr>)" s]
    by (auto simp: Attachment_reconcileDelete_def sent_def split: if_splits)
next
  assume "e \<in> set (sent (Entry_reconcileDelete E pl arn) s) \<and> removesFinalizer FinalizerPrefixListEntry e"
  then show "\<exists>t. DeleteEntry E pl (clusterEntry arn (m_AWSCluster s)) s = (Ok (), t)"
    using entry.removed_after_cleanup [of e E "(pl, arn, clusterEntry arn (m_AWSCluster s))" s]
    by (auto simp: Entry_reconcileDelete_def sent_def split: if_splits)
next
  assume "e \<in> set (sent (Route_reconcileDelete E rt rule subnets) s) \<and> removesFinalizer RouteFinalizer e"
  then show "\<exists>t. RemoveRoutes E rt rule subnets s = (Ok (), t)"
    using route.removed_after_cleanup [of e E "(rt, rule, subnets)" s]
    by (auto simp: Route_reconcileDelete_def sent_def split: if_splits)
qed


definition netSys :: "(unit, (string \<times> cval) list) sys" where
  "netSys = demoSys\<lparr>m_AWSCluster := demoAWSCluster\<lparr>om_Finalizers := [FinalizerManagementCluster, RouteFinalizer, FinalizerResourceShare]\<rparr>\<rparr>"

theorem network_finalizers_removed_last_witness:
  "list_ex (removesFinalizer FinalizerManagementCluster) (sent (MC_reconcileDelete gatewayEnv demoCreds demoCreds) netSys) \<and>
   (\<exists>t u. TransitGateways_Delete gatewayEnv demoCreds (om_Name (m_AWSCluster netSys)) netSys = (Ok (), t) \<and>
      PrefixLists_Delete gatewayEnv demoCreds (om_Name (m_AWSCluster netSys)) t = (Ok (), u))"
proof -
  have ex: "list_ex (removesFinalizer FinalizerManagementCluster) (sent (MC_reconcileDelete gatewayEnv demoCreds demoCreds) netSys)"
    by code_simp
  then obtain e where "e \<in> set (sent (MC_reconcileDelete gatewayEnv demoCreds demoCreds) netSys)"
      "removesFinalizer FinalizerManagementCluster e"
    unfolding list_ex_iff by blast
  with ex network_finalizers_removed_last [THEN conjunct1] show ?thesis by blast
qed


definition demoRule :: RouteRule where
  "demoRule = \<lparr>rt_DestinationPrefixListId = ''pl-1'', rt_TransitGatewayId = ''tgw-1''\<rparr>"


section \<open>Shares\<close>

lemma emits_ramClient: "emits k8sRead (getRamClient E r)"
  unfolding getRamClient_def getRamClientFromCluster_def GetManagementCluster_def by (intro emits_rules)

text \<open>C15: the share of the transit gateway and of the prefix list outlives their use: while the cluster
  still carries the finalizer of its attachment or of its prefix list entry, deleting the cluster
  does not touch AWS and keeps the share's finalizer; and otherwise the share's finalizer is
  removed only after both shares were deleted.\<close>

theorem shares_outlive_their_use:
  shows "(resourcesStillInUse (e_lib E) (m_AWSCluster s) \<longrightarrow>
      list_all k8sRead (sent (Share_reconcileDelete E r) s)) \<and>
    (e \<in> set (sent (Share_reconcileDelete E r) s) \<and> removesFinalizer FinalizerResourceShare e \<longrightarrow>
      (\<exists>ram t u v. getRamClient E r s = (Ok ram, t) \<and>
         DeleteResourceShare E ram (getTransitGatewayResourceShareName (m_AWSCluster s)) t = (Ok (), u) \<and>
         DeleteResourceShare E ram (getPrefixListResourceShareName (m_AWSCluster s)) u = (Ok (), v)))"
proof (intro conjI impI)
  assume "resourcesStillInUse (e_lib E) (m_AWSCluster s)"
  then have "sent (Share_reconcileDelete E r) s = [] \<or>
      sent (Share_reconcileDelete E r) s = sent (bindM (getRamClient E r) (\<lambda>_. retM noRequeue)) s"
    by (auto simp: Share_reconcileDelete_def sent_def)
  moreover have "emits k8sRead (bindM (getRamClient E r) (\<lambda>_. retM noRequeue))"
    by (intro emits_rules emits_ramClient)
  ultimately show "list_all k8sRead (sent (Share_reconcileDelete E r) s)"
    using emits_sent by fastforce
next
  assume e: "e \<in> set (sent (Share_reconcileDelete E r) s) \<and> removesFinalizer FinalizerResourceShare e"
  let ?c = "m_AWSCluster s"
  let ?del = "\<lambda>ram. bindM (unshareBoth E ram ?c) (\<lambda>_. bindM (RemoveFinalizer E FinalizerResourceShare) (\<lambda>_. retM noRequeue))"
  let ?f = "\<lambda>ram. if resourcesStillInUse (e_lib E) ?c then retM noRequeue else ?del ram"
  have "e \<in> set (sent (bindM (getRamClient E r) ?f) s)"
    using e by (auto simp: Share_reconcileDelete_def unshareBoth_def bindM_assoc sent_def cong: if_cong split: if_splits)
  moreover have "emits (\<lambda>e. \<not> removesFinalizer FinalizerResourceShare e) (getRamClient E r :: ('a, 'b, creds) go)"
    by (rule emits_mono [OF emits_ramClient]) (auto simp: k8sRead_def removesFinalizer_def)
  moreover have "emits (\<lambda>_. True) (?f ram)" for ram
    unfolding unshareBoth_def by (intro emits_rules network_any k8s_any)
  ultimately obtain ram t where ram: "getRamClient E r s = (Ok ram, t)" and "e \<in> set (sent (?f ram) t)"
    using e sent_by_second [where F = "removesFinalizer FinalizerResourceShare" and m = "getRamClient E r" and f = ?f] by blast
  then have "\<exists>v. unshareBoth E ram ?c t = (Ok (), v)"
    using e share.removed_after_cleanup [of e E "(ram, undefined, undefined, ?c)" t] by (auto split: if_splits)
  with ram show "\<exists>ram t u v. getRamClient E r s = (Ok ram, t) \<and>
      DeleteResourceShare E ram (getTransitGatewayResourceShareName ?c) t = (Ok (), u) \<and>
      DeleteResourceShare E ram (getPrefixListResourceShareName ?c) u = (Ok (), v)"
    unfolding unshareBoth_def by (auto elim!: bindM_OkE)
qed

definition demoNetwork :: NetworkReconciler where
  "demoNetwork = \<lparr>nr_managementClusterNamespace = ''org'', nr_managementClusterName = ''mc'', nr_clients = NewClients ''''\<rparr>"

theorem shares_outlive_their_use_witness:
  "list_all k8sRead (sent (Share_reconcileDelete demoEnv demoNetwork) (netSys\<lparr>m_AWSCluster :=
     demoAWSCluster\<lparr>om_Finalizers := [FinalizerResourceShare, FinalizerTransitGatewayAttachment]\<rparr>\<rparr>))"
  by (rule shares_outlive_their_use [THEN conjunct1, THEN mp]) (simp add: resourcesStillInUse_def demo_defs)


section \<open>The subnets of an attachment\<close>

lemma subnetLoop_spec:
  "subnetLoop ss ids azs = Inr out \<Longrightarrow>
   \<exists>chosen. out = ids @ map sn_ResourceID chosen \<and> subseq chosen ss \<and> distinct (map sn_AvailabilityZone chosen) \<and>
     set (map sn_AvailabilityZone chosen) = set (map sn_AvailabilityZone ss) - set azs"
proof (induction ss ids azs rule: subnetLoop.induct)
  case (1 ids azs)
  then show ?case by (intro exI [of _ "[]"]) simp
next
  case (2 s ss ids azs)
  show ?case
  proof (cases "sn_AvailabilityZone s \<in> set azs")
    case True
    with 2 obtain chosen where "out = ids @ map sn_ResourceID chosen" "subseq chosen ss"
      "distinct (map sn_AvailabilityZone chosen)"
      "set (map sn_AvailabilityZone chosen) = set (map sn_AvailabilityZone ss) - set azs"
      by (auto split: if_splits)
    with True show ?thesis by (intro exI [of _ chosen]) auto
  next
    case False
    with 2 obtain chosen where "out = (ids @ [sn_ResourceID s]) @ map sn_ResourceID chosen" "subseq chosen ss"
      "distinct (map sn_AvailabilityZone chosen)"
      "set (map sn_AvailabilityZone chosen) = set (map sn_AvailabilityZone ss) - set (sn_AvailabilityZone s # azs)"
      by (auto split: if_splits)
    with False show ?thesis by (intro exI [of _ "s # chosen"]) auto
  qed
qed

lemma subnetLoop_valid:
  "subnetLoop ss ids azs = Inr out \<Longrightarrow> list_all (\<lambda>s. hasPrefix (sn_ResourceID s) ''subnet-'') ss"
  by (induction ss ids azs rule: subnetLoop.induct) (auto split: if_splits)

text \<open>A VPC is attached through one subnet of every availability zone that has one: the subnets are
  those tagged for it, or all when none is tagged; each of them has been created (its id starts
  with \<^verbatim>\<open>subnet-\<close>), no zone has two, none is missing, and an empty attachment is an error.\<close>

lemma one_subnet_per_zone:
  assumes "getSubnets cluster = Inr ids"
  defines "candidates \<equiv> filterTGWSubnets (ac_Subnets cluster)"
  shows "ids \<noteq> [] \<and> list_all (\<lambda>s. hasPrefix (sn_ResourceID s) ''subnet-'') candidates \<and>
    (\<exists>chosen. ids = map sn_ResourceID chosen \<and> subseq chosen candidates \<and>
       distinct (map sn_AvailabilityZone chosen) \<and>
       set (map sn_AvailabilityZone chosen) = set (map sn_AvailabilityZone candidates)) \<and>
    (\<forall>s \<in> set candidates. ghas (sn_Tags s) TagSubnetTGWAttachements \<or>
       (\<forall>s' \<in> set (ac_Subnets cluster). \<not> ghas (sn_Tags s') TagSubnetTGWAttachements))"
proof -
  have loop: "subnetLoop candidates [] [] = Inr ids" and "ids \<noteq> []"
    using assms(1) by (auto simp: getSubnets_def candidates_def split: sum.splits if_splits)
  moreover have "\<forall>s \<in> set candidates. ghas (sn_Tags s) TagSubnetTGWAttachements \<or>
       (\<forall>s' \<in> set (ac_Subnets cluster). \<not> ghas (sn_Tags s') TagSubnetTGWAttachements)"
    by (auto simp: candidates_def filterTGWSubnets_def Let_def filter_empty_conv split: if_splits)
  ultimately show ?thesis
    using subnetLoop_spec [OF loop] subnetLoop_valid [OF loop] by auto
qed

definition threeSubnets :: "SubnetSpec list" where
  "threeSubnets =
     [\<lparr>sn_ResourceID = ''subnet-1'', sn_AvailabilityZone = ''a'', sn_Tags = []\<rparr>,
      \<lparr>sn_ResourceID = ''subnet-2'', sn_AvailabilityZone = ''a'', sn_Tags = []\<rparr>,
      \<lparr>sn_ResourceID = ''subnet-3'', sn_AvailabilityZone = ''b'', sn_Tags = []\<rparr>]"

lemma one_subnet_per_zone_example:
  "getSubnets (demoAWSCluster\<lparr>ac_Subnets := threeSubnets\<rparr>) = Inr [''subnet-1'', ''subnet-3''] \<and>
   (\<exists>chosen. [''subnet-1'', ''subnet-3''] = map sn_ResourceID chosen \<and> subseq chosen threeSubnets \<and>
      set (map sn_AvailabilityZone chosen) = {''a'', ''b''})"
proof -
  have get: "getSubnets (demoAWSCluster\<lparr>ac_Subnets := threeSubnets\<rparr>) = Inr [''subnet-1'', ''subnet-3'']"
    by code_simp
  have all: "filterTGWSubnets (ac_Subnets (demoAWSCluster\<lparr>ac_Subnets := threeSubnets\<rparr>)) = threeSubnets"
    by (simp add: filterTGWSubnets_def threeSubnets_def ghas_def)
  have zones: "set (map sn_AvailabilityZone threeSubnets) = {''a'', ''b''}"
    by (auto simp: threeSubnets_def)
  from one_subnet_per_zone [OF get, THEN conjunct2, THEN conjunct2, THEN conjunct1, unfolded all zones]
  obtain chosen where c: "[''subnet-1'', ''subnet-3''] = map sn_ResourceID chosen \<and> subseq chosen threeSubnets \<and>
      distinct (map sn_AvailabilityZone chosen) \<and> set (map sn_AvailabilityZone chosen) = {''a'', ''b''}"
    by (rule exE)
  show ?thesis
    by (intro conjI get exI [of _ chosen] c [THEN conjunct1] c [THEN conjunct2, THEN conjunct1]
        c [THEN conjunct2, THEN conjunct2, THEN conjunct2])
qed

section \<open>A transit gateway that is still attached\<close>

lemma asRetryable_replaced:
  "HasErrorCode e ErrIncorrectState \<Longrightarrow>
   requeueRetryable transitGatewayNotDetached = (retM (requeueAfter 10) :: ('w, 'c, Result) go)"
  by (simp add: requeueRetryable_def asRetryable_def transitGatewayNotDetached_def)

text \<open>Deleting the management cluster while its transit gateway still has attachments asks for
  another reconciliation after ten seconds, and leaves the prefix list and the finalizer alone.\<close>

lemma attached_gateway_requeues:
  assumes fin: "l_ContainsFinalizer (e_lib E) (om_Finalizers (m_AWSCluster s)) FinalizerManagementCluster"
    and get: "TransitGateways_get E tgw (om_Name (m_AWSCluster s)) s = (Ok (Some g), u)"
    and refused: "a_done (e_aws E) (ec2req tgw (EC2_DeleteTransitGateway (tg_TransitGatewayId g))) (world u) = (Inl err, w)"
    and state: "HasErrorCode err ErrIncorrectState"
  shows "MC_reconcileDelete E tgw pl s =
     (Ok (requeueAfter 10), logged (ec2req tgw (EC2_DeleteTransitGateway (tg_TransitGatewayId g))) (Some err) w u)"
proof -
  have "TransitGateways_Delete E tgw (om_Name (m_AWSCluster s)) s =
      (Err transitGatewayNotDetached, logged (ec2req tgw (EC2_DeleteTransitGateway (tg_TransitGatewayId g))) (Some err) w u)"
    using get refused state
    by (simp add: TransitGateways_Delete_def TransitGateways_delete_def bindM_run replaceCode_def wrapM_def call_def)
  with fin show ?thesis
    by (simp add: MC_reconcileDelete_def bindM_def tryM_def asRetryable_replaced [OF state])
qed

definition attachedEnv :: "(unit, (string \<times> cval) list) env" where
  "attachedEnv = gatewayEnv\<lparr>e_aws := (e_aws gatewayEnv)\<lparr>a_done := errAns (GenericAPIError ErrIncorrectState ''attached'')\<rparr>\<rparr>"

lemma attached_gateway_requeues_example:
  "fst (MC_reconcileDelete attachedEnv demoCreds demoCreds netSys) = Ok (requeueAfter 10)"
proof -
  have fin: "l_ContainsFinalizer (e_lib attachedEnv) (om_Finalizers (m_AWSCluster netSys)) FinalizerManagementCluster"
    by (simp add: attachedEnv_def gatewayEnv_def netSys_def demo_defs)
  have get: "TransitGateways_get attachedEnv demoCreds (om_Name (m_AWSCluster netSys)) netSys =
     (Ok (Some \<lparr>tg_TransitGatewayId = ''tgw-1'', tg_TransitGatewayArn = ''arn:tgw'', tg_State = ''available''\<rparr>),
      snd (TransitGateways_get attachedEnv demoCreds (om_Name (m_AWSCluster netSys)) netSys))"
    by (simp add: TransitGateways_get_def bindM_def call_def attachedEnv_def gatewayEnv_def
        filterDeletedTransitGateways_def isTransitGatewayDeleted_def)
  show ?thesis
    using attached_gateway_requeues [OF fin get, of "GenericAPIError ErrIncorrectState ''attached''" "()" demoCreds]
    by (simp add: attachedEnv_def HasErrorCode_def)
qed


section \<open>Two behaviours to know about\<close>

text \<open>
  When only the prefix list is known, it is shared although the finalizer is added with the
  transit gateway's share only: a cluster deleted at that moment leaves the share behind.
\<close>

definition prefixOnlySys :: "(unit, (string \<times> cval) list) sys" where
  "prefixOnlySys = demoSys\<lparr>m_AWSCluster := demoAWSCluster\<lparr>om_Annotations :=
     [(''network-topology.giantswarm.io/prefix-list'', ''arn:aws:ec2:eu-west-1:999:prefix-list/pl-1'')]\<rparr>\<rparr>"

definition createsShare :: "event \<Rightarrow> bool" where
  "createsShare e = (case ev_req e of AWSReq _ (RAMOp (RAM_CreateResourceShare _ _ _)) \<Rightarrow> True | _ \<Rightarrow> False)"

definition patchesCluster :: "event \<Rightarrow> bool" where
  "patchesCluster e = (case ev_req e of K8sReq (K8sPatchAWSCluster _ _ _) \<Rightarrow> True | _ \<Rightarrow> False)"

lemma prefix_list_shared_without_finalizer:
  "list_ex createsShare (sent (Share_reconcileNormal demoEnv demoNetwork) prefixOnlySys) \<and>
   \<not> list_ex patchesCluster (sent (Share_reconcileNormal demoEnv demoNetwork) prefixOnlySys)"
  by code_simp

text \<open>A cluster without an identity reference makes the reconciliation of its attachment panic.\<close>

lemma nil_identity_panics:
  assumes "k_AWSCluster (e_kube E) (K8sReq (K8sGet ''AWSCluster'' ns name)) (world s) = (Inr c, w)"
    and "k_AWSCluster (e_kube E) (K8sReq (K8sGet ''AWSCluster'' (nr_managementClusterNamespace r) (nr_managementClusterName r))) w = (Inr mc, w')"
    and "IsNetworkTopologyModeGiantSwarmManaged (e_lib E) (om_Annotations c)" "\<not> l_HasPaused (e_lib E) (om_Annotations c)"
    and "getTransitGatewayARN (e_lib E) c mc \<noteq> ''''" and "ac_IdentityRef c = None"
  shows "fst (Attachment_Reconcile E r ns name s) = Halt GoPanic"
  using assms
  by (simp add: Attachment_Reconcile_def withAWSCluster_def GetAWSCluster_def GetManagementCluster_def bindM_def tryM_def
      call_def holdAWSCluster_def AWSClusterClient_GetIdentity_def roleOf_def)


end
