(* ===== verification/Resolver_Client.thy ===== *)
theory Resolver_Client
  imports EC2_Client
begin

text \<open>
  \<^verbatim>\<open>pkg/aws/resolverclient.go\<close>: Route 53 Resolver rules, their endpoints, and their associations with
  VPCs. Listing is paged by tokens; the loop has fuel, since AWS decides how long it is, and a
  theorem says how much is enough.
\<close>

abbreviation resreq :: "creds \<Rightarrow> resolver_op \<Rightarrow> request" where
  "resreq c x \<equiv> AWSReq c (ResolverOp x)"

section \<open>Pages\<close>

definition moreToken :: "string option \<Rightarrow> bool" where
  "moreToken t = (case t of None \<Rightarrow> False | Some x \<Rightarrow> x \<noteq> '''')"

text \<open>Fetch a page, and as long as it comes with a token, the next.\<close>

primrec pageLoop ::
  "(string option \<Rightarrow> ('s, 'a list \<times> string option) io) \<Rightarrow> nat \<Rightarrow> string option \<Rightarrow> 'a list \<Rightarrow> ('s, 'a list) io" where
  "pageLoop fetch 0 token acc = stallM"
| "pageLoop fetch (Suc fuel) token acc =
     bindM (fetch token) (\<lambda>out.
     if moreToken (snd out) then pageLoop fetch fuel (snd out) (acc @ fst out)
     else retM (acc @ fst out))"

section \<open>Rules and endpoints\<close>

definition buildResolverRule :: "SDKResolverRule \<Rightarrow> ResolverRule" where
  "buildResolverRule rule =
     \<lparr>rr_Arn = sr_Arn rule, rr_Id = sr_Id rule, rr_IPs = sr_TargetIps rule, rr_Name = sr_Name rule\<rparr>"

definition getInboundEndpointName :: "string \<Rightarrow> string" where
  "getInboundEndpointName clusterName = clusterName @ ''-inbound''"

definition getOutboundEndpointName :: "string \<Rightarrow> string" where
  "getOutboundEndpointName clusterName = clusterName @ ''-outbound''"

definition getRoute53ResolverTags :: "gomap \<Rightarrow> gomap" where
  "getRoute53ResolverTags t = map (\<lambda>(key, v). (key, v)) t"

definition nowNano :: "('w, 'c) env \<Rightarrow> ('w, 'c, nat) go" where
  "nowNano E = getM (\<lambda>s. e_now E (world s))"

definition GetResolverRuleByName ::
  "('w, 'c) env \<Rightarrow> creds \<Rightarrow> string \<Rightarrow> string \<Rightarrow> ('w, 'c, ResolverRule) go" where
  "GetResolverRuleByName E a resolverRuleName resolverRuleType =
     bindM (call (a_rules (e_aws E)) (resreq a (RES_ListResolverRulesByName resolverRuleName resolverRuleType))) (\<lambda>out.
     case fst out of
       rule # _ \<Rightarrow> retM (buildResolverRule rule)
     | [] \<Rightarrow> errM ResolverRuleNotFoundError)"

definition getResolverEndpoint :: "('w, 'c) env \<Rightarrow> creds \<Rightarrow> string \<Rightarrow> ('w, 'c, SDKResolverEndpoint) go" where
  "getResolverEndpoint E a resolverEndpointName =
     bindM (call (a_endpoints (e_aws E)) (resreq a (RES_ListResolverEndpoints resolverEndpointName))) (\<lambda>endpoints.
     case endpoints of
       endpoint # _ \<Rightarrow> retM endpoint
     | [] \<Rightarrow> errM ResolverEndpointNotFoundError)"

text \<open>After a creation that lost a race, the endpoint is looked up; an empty answer makes the index expression panic.\<close>

definition newResolverEndpoint ::
  "('w, 'c) env \<Rightarrow> creds \<Rightarrow> string \<Rightarrow> string \<Rightarrow> string list \<Rightarrow> string list \<Rightarrow> gomap \<Rightarrow> ('w, 'c, string) go" where
  "newResolverEndpoint E a direction name securityGroupIds subnetIds tags =
     bindM (nowNano E) (\<lambda>now.
     bindM (tryM (call (a_endpoint (e_aws E)) (resreq a (RES_CreateResolverEndpoint now direction subnetIds name
         securityGroupIds (getRoute53ResolverTags tags))))) (\<lambda>response.
     case response of
       Inr endpoint \<Rightarrow> retM (se_Id endpoint)
     | Inl e \<Rightarrow>
       if hasException ResourceExistsException e then
         bindM (call (a_endpoints (e_aws E)) (resreq a (RES_ListResolverEndpoints name))) (\<lambda>endpoints.
         case endpoints of
           endpoint # _ \<Rightarrow> retM (se_Id endpoint)
         | [] \<Rightarrow> panicM)
       else errM e))"

definition createResolverEndpoint ::
  "('w, 'c) env \<Rightarrow> creds \<Rightarrow> string \<Rightarrow> string \<Rightarrow> string list \<Rightarrow> string list \<Rightarrow> gomap \<Rightarrow> ('w, 'c, string) go" where
  "createResolverEndpoint E a direction name securityGroupIds subnetIds tags =
     bindM (tryM (getResolverEndpoint E a name)) (\<lambda>found.
     case found of
       Inr endpoint \<Rightarrow> retM (se_Id endpoint)
     | Inl e \<Rightarrow>
       if \<not> isResolverEndpointNotFound e then errM e
       else newResolverEndpoint E a direction name securityGroupIds subnetIds tags)"

definition createResolverRule ::
  "('w, 'c) env \<Rightarrow> creds \<Rightarrow> string \<Rightarrow> string \<Rightarrow> string \<Rightarrow> (string \<times> nat) list \<Rightarrow> gomap \<Rightarrow> ('w, 'c, ResolverRule) go" where
  "createResolverRule E a domainName resolverRuleName endpointId targetIps tags =
     bindM (nowNano E) (\<lambda>now.
     bindM (tryM (call (a_rule (e_aws E)) (resreq a (RES_CreateResolverRule now domainName resolverRuleName endpointId
         targetIps (getRoute53ResolverTags tags))))) (\<lambda>response.
     case response of
       Inr rule \<Rightarrow> retM (buildResolverRule rule)
     | Inl e \<Rightarrow>
       if hasException ResourceExistsException e then GetResolverRuleByName E a resolverRuleName ''FORWARD''
       else errM e))"

definition newResolverRule ::
  "('w, 'c) env \<Rightarrow> creds \<Rightarrow> Cluster \<Rightarrow> string \<Rightarrow> string \<Rightarrow> string \<Rightarrow> ('w, 'c, ResolverRule) go" where
  "newResolverRule E a cluster securityGroupId domainName resolverRuleName =
     bindM (createResolverEndpoint E a ''INBOUND'' (getInboundEndpointName (cl_Name cluster)) [securityGroupId]
         (cl_Subnets cluster) (cl_AdditionalTags cluster)) (\<lambda>inboundEndpointId.
     bindM (createResolverEndpoint E a ''OUTBOUND'' (getOutboundEndpointName (cl_Name cluster)) [securityGroupId]
         (cl_Subnets cluster) (cl_AdditionalTags cluster)) (\<lambda>outboundEndpointId.
     bindM (call (a_ips (e_aws E)) (resreq a (RES_ListResolverEndpointIpAddresses inboundEndpointId))) (\<lambda>ips.
     createResolverRule E a domainName resolverRuleName outboundEndpointId (map (\<lambda>ip. (ip, 53)) ips)
       (cl_AdditionalTags cluster))))"

definition CreateResolverRule ::
  "('w, 'c) env \<Rightarrow> creds \<Rightarrow> Cluster \<Rightarrow> string \<Rightarrow> string \<Rightarrow> string \<Rightarrow> ('w, 'c, ResolverRule) go" where
  "CreateResolverRule E a cluster securityGroupId domainName resolverRuleName =
     bindM (tryM (GetResolverRuleByName E a resolverRuleName ''FORWARD'')) (\<lambda>found.
     case found of
       Inr rule \<Rightarrow> retM rule
     | Inl e \<Rightarrow>
       if \<not> isResolverRuleNotFound e then errM e
       else newResolverRule E a cluster securityGroupId domainName resolverRuleName)"

text \<open>\<open>ignoreException x m\<close>: the typed exception counts as success.\<close>

definition ignoreException :: "sdk_exception \<Rightarrow> ('s, unit) io \<Rightarrow> ('s, unit) io" where
  "ignoreException x m = bindM (tryM m) (\<lambda>res. case res of
      Inl e \<Rightarrow> if hasException x e then retM () else errM e
    | Inr _ \<Rightarrow> retM ())"

definition deleteResolverRule :: "('w, 'c) env \<Rightarrow> creds \<Rightarrow> string \<Rightarrow> ('w, 'c, unit) go" where
  "deleteResolverRule E a resolverRuleId =
     ignoreException ResourceNotFoundException
       (call (a_done (e_aws E)) (resreq a (RES_DeleteResolverRule resolverRuleId)))"

definition deleteResolverEndpoint :: "('w, 'c) env \<Rightarrow> creds \<Rightarrow> string \<Rightarrow> ('w, 'c, unit) go" where
  "deleteResolverEndpoint E a resolverEndpointName =
     bindM (tryM (getResolverEndpoint E a resolverEndpointName)) (\<lambda>found.
     case found of
       Inl e \<Rightarrow> if isResolverEndpointNotFound e then retM () else errM e
     | Inr endpoint \<Rightarrow>
       ignoreException ResourceNotFoundException
         (call (a_done (e_aws E)) (resreq a (RES_DeleteResolverEndpoint (se_Id endpoint)))))"

definition DeleteResolverRule :: "('w, 'c) env \<Rightarrow> creds \<Rightarrow> Cluster \<Rightarrow> string \<Rightarrow> ('w, 'c, unit) go" where
  "DeleteResolverRule E a cluster resolverRuleId =
     bindM (deleteResolverRule E a resolverRuleId) (\<lambda>_.
     bindM (deleteResolverEndpoint E a (getInboundEndpointName (cl_Name cluster))) (\<lambda>_.
     deleteResolverEndpoint E a (getOutboundEndpointName (cl_Name cluster))))"

section \<open>Associations\<close>

definition sameDomainText :: string where
  "sameDomainText = ''Cannot associate rules with same domain name with same VPC''"

definition AssociateResolverRule ::
  "('w, 'c) env \<Rightarrow> creds \<Rightarrow> string \<Rightarrow> string \<Rightarrow> string \<Rightarrow> ('w, 'c, unit) go" where
  "AssociateResolverRule E a associationName vpcId resolverRuleId =
     bindM (tryM (call (a_done (e_aws E)) (resreq a (RES_AssociateResolverRule associationName resolverRuleId vpcId)))) (\<lambda>res.
     case res of
       Inr _ \<Rightarrow> retM ()
     | Inl e \<Rightarrow>
       if hasException InvalidRequestException e then
         (if containsStr (errText e) sameDomainText then retM () else errM e)
       else errM e)"

definition DisassociateResolverRule :: "('w, 'c) env \<Rightarrow> creds \<Rightarrow> string \<Rightarrow> string \<Rightarrow> ('w, 'c, unit) go" where
  "DisassociateResolverRule E a vpcID resolverRuleId =
     ignoreException ResourceNotFoundException
       (call (a_done (e_aws E)) (resreq a (RES_DisassociateResolverRule resolverRuleId vpcID)))"

definition listRulesPage :: "('w, 'c) env \<Rightarrow> creds \<Rightarrow> string option \<Rightarrow> ('w, 'c, SDKResolverRule list \<times> string option) go" where
  "listRulesPage E a token = call (a_rules (e_aws E)) (resreq a (RES_ListResolverRules 100 token))"

definition FindResolverRulesByAWSAccountId ::
  "('w, 'c) env \<Rightarrow> creds \<Rightarrow> string \<Rightarrow> ('w, 'c, ResolverRule list) go" where
  "FindResolverRulesByAWSAccountId E a awsAccountId =
     bindM (pageLoop (listRulesPage E a) (e_fuel E) None []) (\<lambda>rules.
     retM (map buildResolverRule (filter (\<lambda>rule. awsAccountId = '''' \<or> sr_OwnerId rule = awsAccountId) rules)))"

definition listAssociationsPage ::
  "('w, 'c) env \<Rightarrow> creds \<Rightarrow> string \<Rightarrow> string option \<Rightarrow> ('w, 'c, string list \<times> string option) go" where
  "listAssociationsPage E a vpcId token =
     call (a_associations (e_aws E)) (resreq a (RES_ListResolverRuleAssociations 100 token vpcId))"

definition FindResolverRuleIdsAssociatedWithVPCId ::
  "('w, 'c) env \<Rightarrow> creds \<Rightarrow> string \<Rightarrow> ('w, 'c, string list) go" where
  "FindResolverRuleIdsAssociatedWithVPCId E a vpcId = pageLoop (listAssociationsPage E a vpcId) (e_fuel E) None []"

section \<open>Requests sent\<close>

lemma emits_ignoreException [emits_rules]: "emits P m \<Longrightarrow> emits P (ignoreException x m)"
  unfolding ignoreException_def by (intro emits_rules)

lemma emits_pageLoop: "(\<And>token. emits P (fetch token)) \<Longrightarrow> emits P (pageLoop fetch fuel token acc)"
proof (induction fuel arbitrary: token acc)
  case 0
  show ?case by (simp add: within_def appends_same)
next
  case (Suc fuel)
  show ?case unfolding pageLoop.simps by (intro emits_rules Suc)
qed

lemma emits_nowNano [emits_rules]: "emits P (nowNano E)"
  unfolding nowNano_def by (intro emits_rules)

lemma emits_find [emits_rules]:
  "emits (byClient a (\<lambda>x. \<not> aws_mutates x)) (FindResolverRulesByAWSAccountId E a account)"
  "emits (byClient a (\<lambda>x. \<not> aws_mutates x)) (FindResolverRuleIdsAssociatedWithVPCId E a vpc)"
  "emits (byClient a (\<lambda>x. \<not> aws_mutates x)) (GetResolverRuleByName E a n ty)"
  "emits (byClient a (\<lambda>x. \<not> aws_mutates x)) (getResolverEndpoint E a n)"
  unfolding FindResolverRulesByAWSAccountId_def FindResolverRuleIdsAssociatedWithVPCId_def
    listRulesPage_def listAssociationsPage_def GetResolverRuleByName_def getResolverEndpoint_def
  by (intro emits_rules emits_pageLoop emits_call; simp)+

lemma byClient_weaken: "byClient t X e \<Longrightarrow> byClient t (\<lambda>_. True) e"
  by (auto simp: byClient_def)

lemmas finding_client = emits_find [THEN emits_mono, OF byClient_weaken]

lemma emits_resolver [emits_rules]:
  "emits (byClient a (\<lambda>_. True)) (CreateResolverRule E a cluster sg domain rule)"
  "emits (byClient a (\<lambda>_. True)) (DeleteResolverRule E a cluster ruleId)"
  "emits (byClient a (\<lambda>_. True)) (AssociateResolverRule E a n vpc ruleId)"
  "emits (byClient a (\<lambda>_. True)) (DisassociateResolverRule E a vpc ruleId)"
  unfolding CreateResolverRule_def newResolverRule_def createResolverEndpoint_def newResolverEndpoint_def createResolverRule_def
    DeleteResolverRule_def deleteResolverRule_def deleteResolverEndpoint_def AssociateResolverRule_def DisassociateResolverRule_def
  by (intro emits_rules finding_client emits_call; simp)+

section \<open>All pages are read\<close>

text \<open>\<open>served fetch token pages\<close>: from this token on, the service answers with these pages.\<close>

inductive served :: "(string option \<Rightarrow> ('s, 'a list \<times> string option) io) \<Rightarrow> string option \<Rightarrow> 'a list list \<Rightarrow> bool" where
  last: "(\<And>s. fst (fetch token s) = Ok (xs, next_token)) \<Longrightarrow> \<not> moreToken next_token \<Longrightarrow> served fetch token [xs]"
| more: "(\<And>s. fst (fetch token s) = Ok (xs, next_token)) \<Longrightarrow> moreToken next_token \<Longrightarrow> served fetch next_token pages \<Longrightarrow>
    served fetch token (xs # pages)"

lemma pageLoop_complete:
  "served fetch token pages \<Longrightarrow> length pages \<le> fuel \<Longrightarrow> fst (pageLoop fetch fuel token acc s) = Ok (acc @ concat pages)"
proof (induction arbitrary: fuel acc s rule: served.induct)
  case (last fetch token xs next_token)
  obtain f where "fuel = Suc f" using last.prems by (cases fuel) auto
  moreover obtain t where "fetch token s = (Ok (xs, next_token), t)"
    using last.hyps(1) [of s] by (cases "fetch token s") simp
  ultimately show ?case using last.hyps(2) by (simp add: bindM_run)
next
  case (more fetch token xs next_token pages)
  obtain f where f: "fuel = Suc f" using more.prems by (cases fuel) auto
  obtain t where "fetch token s = (Ok (xs, next_token), t)"
    using more.hyps(1) [of s] by (cases "fetch token s") simp
  with f more.hyps(2) more.IH [of f "acc @ xs" t] more.prems show ?case by (simp add: bindM_run)
qed

text \<open>C29: listing resolver rules and their associations reads every page AWS has, whatever the number of
  rules: with at least as much fuel as there are pages, the result has exactly the rules of the
  account (all rules when no account is given), and exactly the associations of the VPC.\<close>

theorem resolver_listing_complete:
  assumes "served (listRulesPage E a) None pages" "length pages \<le> e_fuel E"
    and "served (listAssociationsPage E a vpc) None ids" "length ids \<le> e_fuel E"
  shows "fst (FindResolverRulesByAWSAccountId E a account s) =
       Ok (map buildResolverRule (filter (\<lambda>r. account = '''' \<or> sr_OwnerId r = account) (concat pages))) \<and>
     fst (FindResolverRuleIdsAssociatedWithVPCId E a vpc s) = Ok (concat ids)"
proof -
  obtain t where "pageLoop (listRulesPage E a) (e_fuel E) None [] s = (Ok (concat pages), t)"
    using pageLoop_complete [OF assms(1,2), of "[]" s]
    by (cases "pageLoop (listRulesPage E a) (e_fuel E) None [] s") simp
  then show ?thesis
    using pageLoop_complete [OF assms(3,4), of "[]" s]
    by (simp add: FindResolverRulesByAWSAccountId_def FindResolverRuleIdsAssociatedWithVPCId_def bindM_run)
qed

definition demoSDKRule :: "string \<Rightarrow> string \<Rightarrow> string list \<Rightarrow> SDKResolverRule" where
  "demoSDKRule i owner ips = \<lparr>sr_Arn = ''arn:aws:route53resolver:eu-west-1:'' @ owner @ '':resolver-rule/'' @ i, sr_Id = i,
     sr_TargetIps = ips, sr_Name = i, sr_OwnerId = owner\<rparr>"

text \<open>Rules in two pages, the first of which comes with a token.\<close>

definition pagedRules :: "('w, SDKResolverRule list \<times> string option) answer" where
  "pagedRules q w = (case q of
      AWSReq _ (ResolverOp (RES_ListResolverRules _ (Some _))) \<Rightarrow> (Inr ([demoSDKRule ''rr-2'' ''222'' [''10.1.0.5'']], None), w)
    | _ \<Rightarrow> (Inr ([demoSDKRule ''rr-1'' ''111'' [''10.0.0.5'']], Some ''t''), w))"

definition rulesEnv :: "(unit, (string \<times> cval) list) env" where
  "rulesEnv = demoEnv\<lparr>e_aws := demoAWS\<lparr>a_rules := pagedRules\<rparr>\<rparr>"

lemma rulesEnv_served:
  "served (listRulesPage rulesEnv a) None [[demoSDKRule ''rr-1'' ''111'' [''10.0.0.5'']], [demoSDKRule ''rr-2'' ''222'' [''10.1.0.5'']]]"
  by (rule served.more [where next_token = "Some ''t''"], simp add: listRulesPage_def call_def rulesEnv_def pagedRules_def,
      simp add: moreToken_def, rule served.last [where next_token = None])
    (simp_all add: listRulesPage_def call_def rulesEnv_def pagedRules_def moreToken_def)

lemma rulesEnv_associations: "served (listAssociationsPage rulesEnv a vpc) None [[]]"
  by (rule served.last [where next_token = None])
    (simp_all add: listAssociationsPage_def call_def rulesEnv_def demoAWS_def moreToken_def)

theorem resolver_listing_complete_witness:
  "fst (FindResolverRulesByAWSAccountId rulesEnv demoCreds ''222'' demoSys) =
     Ok [buildResolverRule (demoSDKRule ''rr-2'' ''222'' [''10.1.0.5''])]"
  using resolver_listing_complete [OF rulesEnv_served _ rulesEnv_associations, of demoCreds "''222''" demoSys]
  by (simp add: rulesEnv_def demoEnv_def) (simp add: demoSDKRule_def)

section \<open>A rule is made once\<close>

text \<open>Creating the resolver rule of a cluster changes AWS only when no rule of that name exists:
  a rule that is found is returned as it is, and a look-up that fails makes nothing.\<close>

lemma resolver_rule_created_once:
  assumes "e \<in> set (sent (CreateResolverRule E a cluster sg domain name) s)" "isAWSMutation (ev_req e)"
  shows "\<exists>err u. GetResolverRuleByName E a name ''FORWARD'' s = (Err err, u) \<and> isResolverRuleNotFound err"
proof -
  let ?f = "\<lambda>found. case found of Inr rule \<Rightarrow> retM rule | Inl e \<Rightarrow>
       if \<not> isResolverRuleNotFound e then errM e else newResolverRule E a cluster sg domain name"
  have quiet: "emits (\<lambda>e. \<not> isAWSMutation (ev_req e)) (tryM (GetResolverRuleByName E a name ''FORWARD'') :: ('a, 'b, _) go)"
    by (intro within_tryM emits_mono [OF emits_find(3)]) (auto simp: byClient_def)
  have any: "emits (\<lambda>_. True) (?f x)" for x
  proof -
    have "emits (byClient a (\<lambda>_. True)) (?f x)"
      unfolding newResolverRule_def createResolverEndpoint_def newResolverEndpoint_def createResolverRule_def
      by (intro emits_rules finding_client emits_call; simp)
    then show ?thesis by (rule emits_any)
  qed
  have "e \<in> set (sent (bindM (tryM (GetResolverRuleByName E a name ''FORWARD'')) ?f) s)"
    using assms(1) by (simp add: CreateResolverRule_def)
  from sent_by_second [where F = "\<lambda>e. isAWSMutation (ev_req e)" and f = ?f, OF quiet any this assms(2)]
  obtain x u where x: "tryM (GetResolverRuleByName E a name ''FORWARD'') s = (Ok x, u)" "e \<in> set (sent (?f x) u)" by blast
  then obtain err where "x = Inl err" "isResolverRuleNotFound err"
    by (cases x) (auto simp: sent_def split: if_splits)
  with x(1) show ?thesis by (auto simp: tryM_def split: prod.splits outcome.splits)
qed

lemma resolver_rule_created_once_example:
  "\<exists>err u. GetResolverRuleByName demoEnv demoCreds ''giantswarm-wc'' ''FORWARD'' demoSys = (Err err, u) \<and> isResolverRuleNotFound err"
proof -
  define c :: Cluster where "c = \<lparr>cl_AdditionalTags = [], cl_VPCsToAssociateToHostedZone = [], cl_Name = ''wc'',
    cl_ControlPlaneEndpoint = '''', cl_WildcardCNAMETarget = '''', cl_IsDnsModePrivate = True, cl_IsVpcModePrivate = True,
    cl_IsEKS = False, cl_Region = ''eu-west-1'', cl_VPCCidr = ''10.0.0.0/16'', cl_VPCId = ''vpc-1'', cl_IAMRoleARN = ''arn:a'',
    cl_MCIAMRoleARN = '''', cl_Subnets = [], cl_CustomHostedZoneName = '''', cl_DelegationIAMRoleARN = '''', cl_BaseDomain = ''''\<rparr>"
  have "list_ex (\<lambda>e. isAWSMutation (ev_req e)) (sent (CreateResolverRule demoEnv demoCreds c ''sg-1'' ''wc.example.com'' ''giantswarm-wc'') demoSys)"
    unfolding c_def by code_simp
  then show ?thesis
    unfolding list_ex_iff by (blast dest: resolver_rule_created_once)
qed


end
