(* ===== verification/Resolver_Rules.thy ===== *)
theory Resolver_Rules
  imports Resolver_Client Network_Clients AWS_Clients Controllers_Common
begin

text \<open>
  \<^verbatim>\<open>pkg/resolver/rule.go\<close> and \<^verbatim>\<open>pkg/resolver/resolver.go\<close>: the resolver rule of a cluster in private DNS
  mode, shared with the account of the DNS server and associated with its VPC, and the association
  of the rules of an account with the VPC of a cluster; \<^verbatim>\<open>controllers/resolver_rules.go\<close> and
  \<^verbatim>\<open>controllers/unpause.go\<close>: the controllers that drive them.
\<close>

section \<open>Rules and networks\<close>

definition TargetIPsBelongToCidr :: "ResolverRule \<Rightarrow> string \<Rightarrow> go_error + bool" where
  "TargetIPsBelongToCidr r vpcCidr =
     (case ParseCIDR vpcCidr of
        None \<Rightarrow> Inl (ErrorString (''invalid CIDR address: '' @ vpcCidr))
      | Some parsedCidr \<Rightarrow> Inr (list_ex (\<lambda>targetIp. Contains parsedCidr (ParseIP targetIp)) (rr_IPs r)))"

text \<open>C28: whether a rule targets a VPC is decided as it should be: for a VPC with the IPv4 network
  \<open>a.b.c.d/n\<close>, the rule counts exactly when one of its target addresses agrees with the network on
  the first \<open>n\<close> bits.\<close>

theorem rule_targets_network:
  assumes "n \<le> 32"
  shows "TargetIPsBelongToCidr r (showIPv4 a b c d @ ''/'' @ show_nat n) =
     Inr (list_ex (\<lambda>t. case To4 (ParseIP t) of None \<Rightarrow> False | Some ip \<Rightarrow> take n (ipBits ip) = take n (ipBits [a, b, c, d]))
       (rr_IPs r))"
proof -
  define net where "net = \<lparr>net_IP = maskBytes [a, b, c, d] (CIDRMask n 4), net_Mask = CIDRMask n 4\<rparr>"
  have "Contains net (ParseIP t) \<longleftrightarrow>
      (case To4 (ParseIP t) of None \<Rightarrow> False | Some ip \<Rightarrow> take n (ipBits ip) = take n (ipBits [a, b, c, d]))" for t
  proof (cases "To4 (ParseIP t)")
    case None
    then have "length (ParseIP t) \<noteq> 4" by (auto simp: To4_def)
    with None show ?thesis
      by (simp add: Contains_def networkNumberAndMask_def To4_def net_def)
  next
    case (Some ip)
    then have "length ip = 4" by (auto simp: To4_def split: if_splits)
    then have "To4 (As16 ip) = Some ip" by (simp add: To4_def As16_def v4InV6Prefix_def)
    with Some have "Contains net (ParseIP t) = Contains net (As16 ip)" by (simp add: Contains_def)
    with Some Contains_IPv4 [OF net_def _ assms \<open>length ip = 4\<close>] show ?thesis by simp
  qed
  with ParseCIDR_show [OF assms, of a b c d] show ?thesis
    by (simp add: TargetIPsBelongToCidr_def net_def [symmetric])
qed

section \<open>The resolver\<close>

record Resolver =
  rs_awsClients :: Clients
  rs_dnsServer :: DNSServer
  rs_workloadClusterBaseDomain :: string

definition NewResolver :: "Clients \<Rightarrow> DNSServer \<Rightarrow> string \<Rightarrow> Resolver" where
  "NewResolver awsClients dnsServer workloadClusterBaseDomain =
     \<lparr>rs_awsClients = awsClients, rs_dnsServer = dnsServer,
      rs_workloadClusterBaseDomain = workloadClusterBaseDomain\<rparr>"

definition getSecurityGroupName :: "string \<Rightarrow> string" where
  "getSecurityGroupName clusterName = clusterName @ ''-resolverrules-endpoints''"

definition getResolverRuleName :: "string \<Rightarrow> string" where
  "getResolverRuleName clusterName = ''giantswarm-'' @ clusterName"

definition getResourceShareName :: "string \<Rightarrow> string \<Rightarrow> string" where
  "getResourceShareName clusterName resolverRuleID = ''giantswarm-'' @ clusterName @ ''-'' @ resolverRuleID @ ''-rr''"

definition getAssociationName :: "string \<Rightarrow> string" where
  "getAssociationName clusterName = ''giantswarm-'' @ clusterName @ ''-rr-association''"

definition getResolverRuleDomainName :: "string \<Rightarrow> string \<Rightarrow> string" where
  "getResolverRuleDomainName clusterName baseDomain = clusterName @ ''.'' @ baseDomain"

text \<open>The client of the DNS server's account: the cluster's role assumes the server's role.\<close>

definition dnsServerResolverClient :: "('w, 'c) env \<Rightarrow> Resolver \<Rightarrow> Cluster \<Rightarrow> ('w, 'c, creds) go" where
  "dnsServerResolverClient E r cluster =
     NewResolverClientWithExternalId E (rs_awsClients r) (ds_AWSRegion (rs_dnsServer r)) (cl_IAMRoleARN cluster)
       (ds_IAMRoleToAssume (rs_dnsServer r)) (ds_IAMExternalId (rs_dnsServer r))"

definition createRule :: "('w, 'c) env \<Rightarrow> Resolver \<Rightarrow> Cluster \<Rightarrow> ('w, 'c, ResolverRule) go" where
  "createRule E r cluster =
     bindM (NewEC2Client E (rs_awsClients r) (cl_Region cluster) (cl_IAMRoleARN cluster)) (\<lambda>ec2Client.
     bindM (NewResolverClient E (rs_awsClients r) (cl_Region cluster) (cl_IAMRoleARN cluster)) (\<lambda>resolverClient.
     bindM (CreateSecurityGroupForResolverEndpoints E ec2Client (cl_VPCId cluster)
         (getSecurityGroupName (cl_Name cluster)) (cl_AdditionalTags cluster)) (\<lambda>securityGroupId.
     CreateResolverRule E resolverClient cluster securityGroupId
       (getResolverRuleDomainName (cl_Name cluster) (rs_workloadClusterBaseDomain r))
       (getResolverRuleName (cl_Name cluster)))))"

definition associateRule :: "('w, 'c) env \<Rightarrow> Resolver \<Rightarrow> Cluster \<Rightarrow> ResolverRule \<Rightarrow> ('w, 'c, unit) go" where
  "associateRule E r cluster resolverRule =
     bindM (NewRAMClient E (rs_awsClients r) (cl_Region cluster) (cl_IAMRoleARN cluster)) (\<lambda>ramClient.
     bindM (dnsServerResolverClient E r cluster) (\<lambda>dnsServerClient.
     bindM (ApplyResourceShare E ramClient
         \<lparr>rs_Name = getResourceShareName (cl_Name cluster) (rr_Id resolverRule), rs_ResourceArns = [rr_Arn resolverRule],
          rs_ExternalAccountID = ds_AWSAccountId (rs_dnsServer r)\<rparr>) (\<lambda>_.
     AssociateResolverRule E dnsServerClient (getAssociationName (cl_Name cluster))
       (ds_VPCId (rs_dnsServer r)) (rr_Id resolverRule))))"

definition CreateRule :: "('w, 'c) env \<Rightarrow> Resolver \<Rightarrow> Cluster \<Rightarrow> ('w, 'c, ResolverRule) go" where
  "CreateRule E r cluster =
     bindM (createRule E r cluster) (\<lambda>resolverRule.
     bindM (associateRule E r cluster resolverRule) (\<lambda>_.
     retM resolverRule))"

primrec resolverRuleIdIsAlreadyAssociatedWithVPC :: "string list \<Rightarrow> string \<Rightarrow> bool" where
  "resolverRuleIdIsAlreadyAssociatedWithVPC [] e = False"
| "resolverRuleIdIsAlreadyAssociatedWithVPC (a # s) e = (if a = e then True else resolverRuleIdIsAlreadyAssociatedWithVPC s e)"

lemma already_associated [simp]: "resolverRuleIdIsAlreadyAssociatedWithVPC s e \<longleftrightarrow> e \<in> set s"
  by (induction s) auto

text \<open>One rule: its own networks and associated ones are skipped, a failing association is logged.\<close>

definition associateOne :: "('w, 'c) env \<Rightarrow> creds \<Rightarrow> Cluster \<Rightarrow> string list \<Rightarrow> ResolverRule \<Rightarrow> ('w, 'c, unit) go" where
  "associateOne E resolverClient cluster associatedResolverRuleIds rule =
     bindM (liftE (TargetIPsBelongToCidr rule (cl_VPCCidr cluster))) (\<lambda>targetIPsBelongToVPC.
     if targetIPsBelongToVPC then retM ()
     else if resolverRuleIdIsAlreadyAssociatedWithVPC associatedResolverRuleIds (rr_Id rule) then retM ()
     else bindM (tryM (AssociateResolverRule E resolverClient (rr_Name rule) (cl_VPCId cluster) (rr_Id rule)))
       (\<lambda>_. retM ()))"

definition AssociateResolverRulesInAccountWithClusterVPC ::
  "('w, 'c) env \<Rightarrow> Resolver \<Rightarrow> Cluster \<Rightarrow> string \<Rightarrow> ('w, 'c, unit) go" where
  "AssociateResolverRulesInAccountWithClusterVPC E r cluster awsAccountId =
     bindM (NewResolverClient E (rs_awsClients r) (cl_Region cluster) (cl_IAMRoleARN cluster)) (\<lambda>resolverClient.
     bindM (FindResolverRulesByAWSAccountId E resolverClient awsAccountId) (\<lambda>resolverRules.
     bindM (FindResolverRuleIdsAssociatedWithVPCId E resolverClient (cl_VPCId cluster)) (\<lambda>associatedResolverRuleIds.
     forM resolverRules (associateOne E resolverClient cluster associatedResolverRuleIds))))"

definition DisassociateResolverRulesInAccountWithClusterVPC ::
  "('w, 'c) env \<Rightarrow> Resolver \<Rightarrow> Cluster \<Rightarrow> ('w, 'c, unit) go" where
  "DisassociateResolverRulesInAccountWithClusterVPC E r cluster =
     bindM (NewResolverClient E (rs_awsClients r) (cl_Region cluster) (cl_IAMRoleARN cluster)) (\<lambda>resolverClient.
     bindM (FindResolverRuleIdsAssociatedWithVPCId E resolverClient (cl_VPCId cluster)) (\<lambda>resolverRuleAssociations.
     forM_skip resolverRuleAssociations (DisassociateResolverRule E resolverClient (cl_VPCId cluster))))"

text \<open>What is deleted after the rule, or when there is none; the share's name has the rule's id, empty when it was not found.\<close>

definition deleteShareAndGroup :: "('w, 'c) env \<Rightarrow> creds \<Rightarrow> creds \<Rightarrow> Cluster \<Rightarrow> string \<Rightarrow> ('w, 'c, unit) go" where
  "deleteShareAndGroup E ramClient ec2Client cluster resolverRuleId =
     bindM (DeleteResourceShare E ramClient (getResourceShareName (cl_Name cluster) resolverRuleId)) (\<lambda>_.
     DeleteSecurityGroupForResolverEndpoints E ec2Client (cl_VPCId cluster) (getSecurityGroupName (cl_Name cluster)))"

definition DeleteRule :: "('w, 'c) env \<Rightarrow> Resolver \<Rightarrow> Cluster \<Rightarrow> ('w, 'c, unit) go" where
  "DeleteRule E r cluster =
     bindM (NewResolverClient E (rs_awsClients r) (cl_Region cluster) (cl_IAMRoleARN cluster)) (\<lambda>resolverClient.
     bindM (dnsServerResolverClient E r cluster) (\<lambda>dnsServerClient.
     bindM (NewRAMClient E (rs_awsClients r) (cl_Region cluster) (cl_IAMRoleARN cluster)) (\<lambda>ramClient.
     bindM (NewEC2Client E (rs_awsClients r) (cl_Region cluster) (cl_IAMRoleARN cluster)) (\<lambda>ec2Client.
     bindM (tryM (GetResolverRuleByName E resolverClient (getResolverRuleName (cl_Name cluster)) ''FORWARD'')) (\<lambda>found.
     case found of
       Inl e \<Rightarrow>
         if \<not> isResolverRuleNotFound e then errM e
         else deleteShareAndGroup E ramClient ec2Client cluster ''''
     | Inr resolverRule \<Rightarrow>
         bindM (DisassociateResolverRule E dnsServerClient (ds_VPCId (rs_dnsServer r)) (rr_Id resolverRule)) (\<lambda>_.
         bindM (DeleteResolverRule E resolverClient cluster (rr_Id resolverRule)) (\<lambda>_.
         deleteShareAndGroup E ramClient ec2Client cluster (rr_Id resolverRule))))))))"

section \<open>The resolver rules controller\<close>

definition ResolverRulesFinalizer :: string where
  "ResolverRulesFinalizer = ''capa-operator.finalizers.giantswarm.io/resolver-rules-controller''"

definition ResolverRulesAssociatedCondition :: string where
  "ResolverRulesAssociatedCondition = ''ResolverRulesAssociated''"

definition Rules_reconcileNormal :: "('w, 'c) env \<Rightarrow> Resolver \<Rightarrow> RoleIdentity \<Rightarrow> ('w, 'c, Result) go" where
  "Rules_reconcileNormal E r identity =
     bindM (AddFinalizer E ResolverRulesFinalizer) (\<lambda>_.
     bindM (getM m_AWSCluster) (\<lambda>awsCluster.
     let cluster = buildClusterFromAWSCluster (e_lib E) awsCluster identity None None;
         annotations = om_Annotations awsCluster in
     bindM (if \<not> ghas annotations (l_ResolverRulesOwnerAWSAccountId (e_lib E)) then retM ()
        else AssociateResolverRulesInAccountWithClusterVPC E r cluster
          (gget annotations (l_ResolverRulesOwnerAWSAccountId (e_lib E)))) (\<lambda>_.
     bindM (AWSClusterClient_MarkConditionTrue E ResolverRulesAssociatedCondition) (\<lambda>_.
     bindM (CreateRule E r cluster) (\<lambda>_.
     retM noRequeue)))))"

definition Rules_cleanup :: "('w, 'c) env \<Rightarrow> Resolver \<Rightarrow> Cluster \<Rightarrow> bool \<Rightarrow> ('w, 'c, unit) go" where
  "Rules_cleanup E r cluster owned =
     bindM (DeleteRule E r cluster) (\<lambda>_.
     if \<not> owned then retM () else DisassociateResolverRulesInAccountWithClusterVPC E r cluster)"

definition Rules_removeFinalizer :: "('w, 'c) env \<Rightarrow> ('w, 'c, Result) go" where
  "Rules_removeFinalizer E =
     bindM (tryM (RemoveFinalizer E ResolverRulesFinalizer)) (\<lambda>res.
     case res of
       Inl e \<Rightarrow> ignoreNotFound e
     | Inr _ \<Rightarrow> retM noRequeue)"

definition Rules_reconcileDelete :: "('w, 'c) env \<Rightarrow> Resolver \<Rightarrow> RoleIdentity \<Rightarrow> ('w, 'c, Result) go" where
  "Rules_reconcileDelete E r identity =
     bindM (getM m_AWSCluster) (\<lambda>awsCluster.
     if \<not> l_ContainsFinalizer (e_lib E) (om_Finalizers awsCluster) ResolverRulesFinalizer then retM noRequeue
     else
       let cluster = buildClusterFromAWSCluster (e_lib E) awsCluster identity None None in
       bindM (Rules_cleanup E r cluster (ghas (om_Annotations awsCluster) (l_ResolverRulesOwnerAWSAccountId (e_lib E)))) (\<lambda>_.
       Rules_removeFinalizer E))"

definition Rules_Reconcile :: "('w, 'c) env \<Rightarrow> Resolver \<Rightarrow> string \<Rightarrow> string \<Rightarrow> ('w, 'c, Result) go" where
  "Rules_Reconcile E r ns name =
     bindM (tryM (GetAWSCluster E ns name)) (\<lambda>got.
     case got of
       Inl e \<Rightarrow> ignoreNotFound e
     | Inr awsCluster \<Rightarrow>
       bindM (holdAWSCluster awsCluster) (\<lambda>_.
       bindM (AWSClusterClient_GetIdentity E awsCluster) (\<lambda>identity'.
       case identity' of
         None \<Rightarrow> retM noRequeue
       | Some identity \<Rightarrow>
         let dnsMode = map_of (om_Annotations awsCluster) (l_AWSDNSMode (e_lib E)) in
         if dnsMode \<noteq> Some (l_DNSModePrivate (e_lib E)) then retM noRequeue
         else if om_Deleting awsCluster then Rules_reconcileDelete E r identity
         else if \<not> l_CondIsTrue (e_lib E) (ac_Conditions awsCluster) (l_VpcReadyCondition (e_lib E)) \<or>
           \<not> l_CondIsTrue (e_lib E) (ac_Conditions awsCluster) (l_SubnetsReadyCondition (e_lib E)) then retM noRequeue
         else Rules_reconcileNormal E r identity)))"

section \<open>The unpause controller\<close>

definition Unpause_reconcileNormal :: "('w, 'c) env \<Rightarrow> ('w, 'c, Result) go" where
  "Unpause_reconcileNormal E =
     bindM (getM m_AWSCluster) (\<lambda>awsCluster.
     let isTrue = l_CondIsTrue (e_lib E) (ac_Conditions awsCluster);
         dnsMode = gget (om_Annotations awsCluster) (l_AWSDNSMode (e_lib E)) in
     if isTrue (l_VpcReadyCondition (e_lib E)) \<and> isTrue (l_SubnetsReadyCondition (e_lib E)) then
       if dnsMode \<noteq> l_DNSModePrivate (e_lib E) then bindM (Unpause E) (\<lambda>_. retM noRequeue)
       else if isTrue ResolverRulesAssociatedCondition then bindM (Unpause E) (\<lambda>_. retM noRequeue)
       else retM noRequeue
     else retM noRequeue)"

definition Unpause_Reconcile :: "('w, 'c) env \<Rightarrow> string \<Rightarrow> string \<Rightarrow> ('w, 'c, Result) go" where
  "Unpause_Reconcile E ns name =
     bindM (tryM (GetAWSCluster E ns name)) (\<lambda>got.
     case got of
       Inl e \<Rightarrow> ignoreNotFound e
     | Inr awsCluster \<Rightarrow>
       bindM (holdAWSCluster awsCluster) (\<lambda>_.
       bindM (GetCluster E ns name) (\<lambda>cluster.
       bindM (holdCluster cluster) (\<lambda>_.
       if map_of (om_Annotations awsCluster) (l_AWSVPCMode (e_lib E)) \<noteq> Some (l_AWSVPCModePrivate (e_lib E)) then retM noRequeue
       else if om_Deleting awsCluster then retM noRequeue
       else Unpause_reconcileNormal E))))"

section \<open>Which rules are associated\<close>

lemma sent_client:
  "byClient c X (Event q e) \<Longrightarrow> (\<And>x. X x \<Longrightarrow> \<not> aws_mutates x) \<Longrightarrow> \<not> isAWSMutation q"
  by (auto simp: byClient_def)

lemma no_mutations:
  assumes "emits (byClient c (\<lambda>x. \<not> aws_mutates x)) m"
  shows "filter isAWSMutation (map ev_req (sent m s)) = []"
proof -
  have "\<not> isAWSMutation (ev_req e)" if "e \<in> set (sent m s)" for e
    using emits_sent [OF assms, of s] that by (auto simp: list_all_iff byClient_def)
  then show ?thesis by (auto simp: filter_empty_conv)
qed

lemma sent_quiet: "emits (\<lambda>_. False) m \<Longrightarrow> sent m s = []"
  using emits_sent [of "\<lambda>_. False" m s] by (cases "sent m s") auto

lemma call_sends: "map ev_req (sent (call ans q) s) = [q]"
  by (auto simp: call_def sent_def split: prod.splits sum.splits)

lemma tried_sent: "sent (bindM (tryM m) (\<lambda>_. retM ())) s = sent m s"
  by (auto simp: sent_def bindM_def tryM_def split: prod.splits outcome.splits)

lemma AssociateResolverRule_run:
  "(\<forall>h. fst (AssociateResolverRule E a n vpc i s) \<noteq> Halt h) \<and>
   map ev_req (sent (AssociateResolverRule E a n vpc i) s) = [resreq a (RES_AssociateResolverRule n i vpc)]"
  by (auto simp: AssociateResolverRule_def bindM_def tryM_def call_def sent_def split: prod.splits sum.splits)

lemma tried_ok: "(\<And>h. fst (m s) \<noteq> Halt h) \<Longrightarrow> fst (bindM (tryM m) (\<lambda>_. retM ()) s) = Ok ()"
  by (cases "m s"; cases "fst (m s)") (simp_all add: bindM_def tryM_def)

lemma associateOne_run:
  assumes "ParseCIDR (cl_VPCCidr cluster) = Some net"
  shows "fst (associateOne E c cluster ids rule u) = Ok () \<and>
     map ev_req (sent (associateOne E c cluster ids rule) u) =
       (if \<not> list_ex (\<lambda>ip. Contains net (ParseIP ip)) (rr_IPs rule) \<and> rr_Id rule \<notin> set ids
        then [resreq c (RES_AssociateResolverRule (rr_Name rule) (rr_Id rule) (cl_VPCId cluster))] else [])"
  using AssociateResolverRule_run [of E c "rr_Name rule" "cl_VPCId cluster" "rr_Id rule" u]
  by (simp add: associateOne_def TargetIPsBelongToCidr_def assms tried_ok tried_sent)

lemma emits_associateOne: "emits (\<lambda>_. True) (associateOne E c cluster ids rule)"
  unfolding associateOne_def by (intro emits_rules emits_any [OF emits_resolver(3)])

lemma associateAll_run:
  assumes "ParseCIDR (cl_VPCCidr cluster) = Some net"
  shows "fst (forM rules (associateOne E c cluster ids) u) = Ok () \<and>
     map ev_req (sent (forM rules (associateOne E c cluster ids)) u) =
       map (\<lambda>r. resreq c (RES_AssociateResolverRule (rr_Name r) (rr_Id r) (cl_VPCId cluster)))
         (filter (\<lambda>r. \<not> list_ex (\<lambda>ip. Contains net (ParseIP ip)) (rr_IPs r) \<and> rr_Id r \<notin> set ids) rules)"
proof -
  have flat: "concat (map (\<lambda>r. if P r then [h r] else []) rs) = map h (filter P rs)" for P rs and h :: "ResolverRule \<Rightarrow> request"
    by (induction rs) simp_all
  show ?thesis
    unfolding flat [symmetric] using associateOne_run [OF assms] emits_associateOne by (rule sent_forM)
qed

text \<open>C9: the rules of an account that get associated with the VPC of a cluster are exactly those whose
  targets lie outside the VPC's own network and that are not associated with it yet, over all
  pages of both lists; nothing else is changed, and an association that AWS refuses does not
  keep the others from being made.\<close>

theorem rules_associated_exactly:
  fixes account :: string
  assumes client: "NewResolverClient E (rs_awsClients r) (cl_Region cluster) (cl_IAMRoleARN cluster) s = (Ok c, s1)"
    and rules: "served (listRulesPage E c) None pages" "length pages \<le> e_fuel E"
    and ids: "served (listAssociationsPage E c (cl_VPCId cluster)) None ids" "length ids \<le> e_fuel E"
    and net: "ParseCIDR (cl_VPCCidr cluster) = Some net"
  defines "m \<equiv> AssociateResolverRulesInAccountWithClusterVPC E r cluster account"
    and "candidates \<equiv> map buildResolverRule (filter (\<lambda>x. account = '''' \<or> sr_OwnerId x = account) (concat pages))"
  shows "fst (m s) = Ok () \<and>
     filter isAWSMutation (map ev_req (sent m s)) =
       map (\<lambda>x. resreq c (RES_AssociateResolverRule (rr_Name x) (rr_Id x) (cl_VPCId cluster)))
         (filter (\<lambda>x. \<not> list_ex (\<lambda>ip. Contains net (ParseIP ip)) (rr_IPs x) \<and> rr_Id x \<notin> set (concat ids)) candidates)"
proof -
  note complete = resolver_listing_complete [OF rules ids]
  obtain s2 where s2: "FindResolverRulesByAWSAccountId E c account s1 = (Ok candidates, s2)"
    using complete [of account s1] by (cases "FindResolverRulesByAWSAccountId E c account s1") (simp add: candidates_def)
  obtain s3 where s3: "FindResolverRuleIdsAssociatedWithVPCId E c (cl_VPCId cluster) s2 = (Ok (concat ids), s3)"
    using complete [of account s2] by (cases "FindResolverRuleIdsAssociatedWithVPCId E c (cl_VPCId cluster) s2") simp
  let ?loop = "\<lambda>ids. forM candidates (associateOne E c cluster ids) :: ('a, 'b, unit) go"
  let ?ids = "\<lambda>cs. bindM (FindResolverRuleIdsAssociatedWithVPCId E c (cl_VPCId cluster))
      (\<lambda>ids. forM cs (associateOne E c cluster ids)) :: ('a, 'b, unit) go"
  let ?all = "\<lambda>c. bindM (FindResolverRulesByAWSAccountId E c account) (\<lambda>rs.
      bindM (FindResolverRuleIdsAssociatedWithVPCId E c (cl_VPCId cluster)) (\<lambda>ids.
      forM rs (associateOne E c cluster ids))) :: ('a, 'b, unit) go"
  have loop: "emits (\<lambda>_. True) (?loop ids)" for ids
    by (intro emits_rules emits_associateOne)
  have second: "emits (\<lambda>_. True) (?ids cs)" for cs
    by (intro emits_rules emits_any [OF emits_find(2)] emits_associateOne)
  have first: "emits (\<lambda>_. True) (?all c)"
    by (intro emits_rules emits_any [OF emits_find(1)] emits_any [OF emits_find(2)] emits_associateOne)
  have "sent m s = sent (NewResolverClient E (rs_awsClients r) (cl_Region cluster) (cl_IAMRoleARN cluster)) s @ sent (?all c) s1"
    unfolding m_def AssociateResolverRulesInAccountWithClusterVPC_def
    by (rule sent_bindM_Ok [where f = ?all, OF client resolverClients.new_quiet first])
  also have "sent (NewResolverClient E (rs_awsClients r) (cl_Region cluster) (cl_IAMRoleARN cluster)) s = []"
    by (intro sent_quiet resolverClients.new_quiet)
  also have "sent (?all c) s1 = sent (FindResolverRulesByAWSAccountId E c account) s1 @
      sent (FindResolverRuleIdsAssociatedWithVPCId E c (cl_VPCId cluster)) s2 @ sent (?loop (concat ids)) s3"
    using sent_bindM_Ok [where f = ?ids, OF s2 emits_find(1) second]
      sent_bindM_Ok [where f = ?loop, OF s3 emits_find(2) loop] by simp
  finally have sent: "sent m s = sent (FindResolverRulesByAWSAccountId E c account) s1 @
      sent (FindResolverRuleIdsAssociatedWithVPCId E c (cl_VPCId cluster)) s2 @ sent (?loop (concat ids)) s3" by simp
  have "m s = ?loop (concat ids) s3"
    unfolding m_def AssociateResolverRulesInAccountWithClusterVPC_def
    using client s2 s3 by (simp add: bindM_run)
  moreover have "filter isAWSMutation (map (\<lambda>x. resreq c (RES_AssociateResolverRule (rr_Name x) (rr_Id x) v)) xs) =
      map (\<lambda>x. resreq c (RES_AssociateResolverRule (rr_Name x) (rr_Id x) v)) xs" for v xs
    by simp
  ultimately show ?thesis
    using associateAll_run [OF net, of candidates E c "concat ids" s3]
    by (simp add: sent no_mutations [OF emits_find(1)] no_mutations [OF emits_find(2)])
qed


definition demoVPC :: Cluster where
  "demoVPC = \<lparr>cl_AdditionalTags = [], cl_VPCsToAssociateToHostedZone = [], cl_Name = ''wc'',
    cl_ControlPlaneEndpoint = '''', cl_WildcardCNAMETarget = '''', cl_IsDnsModePrivate = True, cl_IsVpcModePrivate = True,
    cl_IsEKS = False, cl_Region = ''eu-west-1'', cl_VPCCidr = ''10.0.0.0/16'', cl_VPCId = ''vpc-1'', cl_IAMRoleARN = ''arn:a'',
    cl_MCIAMRoleARN = '''', cl_Subnets = [], cl_CustomHostedZoneName = '''', cl_DelegationIAMRoleARN = '''', cl_BaseDomain = ''''\<rparr>"

definition demoResolver :: Resolver where
  "demoResolver = NewResolver (NewClients '''') (NewDNSServer ''333'' ''ext'' ''eu-west-1'' ''arn:dns'' ''vpc-dns'') ''example.com''"

definition demoNet :: IPNet where
  "demoNet = \<lparr>net_IP = [10, 0, 0, 0], net_Mask = [255, 255, 0, 0]\<rparr>"

theorem rules_associated_exactly_witness:
  "\<exists>c. filter isAWSMutation (map ev_req (sent (AssociateResolverRulesInAccountWithClusterVPC rulesEnv demoResolver demoVPC '''') demoSys)) =
     [resreq c (RES_AssociateResolverRule ''rr-2'' ''rr-2'' ''vpc-1'')]"
proof -
  let ?new = "NewResolverClient rulesEnv (rs_awsClients demoResolver) (cl_Region demoVPC) (cl_IAMRoleARN demoVPC) demoSys"
  have "(case fst ?new of Ok _ \<Rightarrow> True | _ \<Rightarrow> False)"
    by code_simp
  then obtain c s1 where client: "?new = (Ok c, s1)"
    by (cases ?new) (auto split: outcome.splits)
  have net: "ParseCIDR (cl_VPCCidr demoVPC) = Some demoNet"
    by code_simp
  have inside: "Contains demoNet (ParseIP ''10.0.0.5'') = True" "Contains demoNet (ParseIP ''10.1.0.5'') = False"
    by code_simp+
  show ?thesis
    using rules_associated_exactly [OF client rulesEnv_served _ rulesEnv_associations _ net, of "''''"]
    by (simp add: rulesEnv_def demoSDKRule_def buildResolverRule_def inside demoVPC_def)
qed

theorem rule_targets_network_witness:
  "TargetIPsBelongToCidr (buildResolverRule (demoSDKRule ''rr-1'' ''111'' [''10.0.0.5''])) (showIPv4 10 0 0 0 @ ''/'' @ show_nat 16) =
     Inr (list_ex (\<lambda>t. case To4 (ParseIP t) of None \<Rightarrow> False
       | Some ip \<Rightarrow> take 16 (ipBits ip) = take 16 (ipBits [10, 0, 0, 0])) [''10.0.0.5''])"
  using rule_targets_network [of 16] by (simp add: buildResolverRule_def demoSDKRule_def)

section \<open>Ordering\<close>

lemma resolver_quiet_clients [emits_rules]: "emits P (dnsServerResolverClient E r cluster)"
  unfolding dnsServerResolverClient_def by (intro emits_rules)

lemma byClient_AWS: "emits (byClient c X) m \<Longrightarrow> emits (\<lambda>e. isAWS (ev_req e)) m"
  by (erule emits_mono) (rule byClient_isAWS)

lemmas resolver_aws = emits_resolver [THEN byClient_AWS] emits_find [THEN byClient_AWS]
  emits_network(11,12) [THEN byClient_AWS] emits_securityGroup [THEN byClient_AWS]

lemma aws_DeleteRule: "emits (\<lambda>e. isAWS (ev_req e)) (DeleteRule E r cluster)"
  unfolding DeleteRule_def deleteShareAndGroup_def by (intro emits_rules resolver_aws)

lemma aws_CreateRule: "emits (\<lambda>e. isAWS (ev_req e)) (CreateRule E r cluster)"
  unfolding CreateRule_def createRule_def associateRule_def by (intro emits_rules resolver_aws)

lemma aws_Associate: "emits (\<lambda>e. isAWS (ev_req e)) (AssociateResolverRulesInAccountWithClusterVPC E r cluster account)"
  unfolding AssociateResolverRulesInAccountWithClusterVPC_def associateOne_def by (intro emits_rules resolver_aws)

lemma aws_Rules_cleanup: "emits (\<lambda>e. isAWS (ev_req e)) (Rules_cleanup E r cluster owned)"
  unfolding Rules_cleanup_def DisassociateResolverRulesInAccountWithClusterVPC_def
  by (intro emits_rules resolver_aws aws_DeleteRule)

definition Rules_provide :: "('w, 'c) env \<Rightarrow> Resolver \<Rightarrow> RoleIdentity \<Rightarrow> ('w, 'c, Result) go" where
  "Rules_provide E r identity =
     bindM (getM m_AWSCluster) (\<lambda>awsCluster.
     let cluster = buildClusterFromAWSCluster (e_lib E) awsCluster identity None None;
         annotations = om_Annotations awsCluster in
     bindM (if \<not> ghas annotations (l_ResolverRulesOwnerAWSAccountId (e_lib E)) then retM ()
        else AssociateResolverRulesInAccountWithClusterVPC E r cluster
          (gget annotations (l_ResolverRulesOwnerAWSAccountId (e_lib E)))) (\<lambda>_.
     bindM (AWSClusterClient_MarkConditionTrue E ResolverRulesAssociatedCondition) (\<lambda>_.
     bindM (CreateRule E r cluster) (\<lambda>_.
     retM noRequeue))))"

interpretation rules: finalizer_protocol ResolverRulesFinalizer
  "\<lambda>E _. AddFinalizer E ResolverRulesFinalizer"
  "\<lambda>E (r, identity, cluster, owned). Rules_provide E r identity"
  "\<lambda>E (r, identity, cluster, owned). Rules_cleanup E r cluster owned"
  "\<lambda>E _. Rules_removeFinalizer E"
  by unfold_locales
    (auto simp: Rules_provide_def Rules_removeFinalizer_def intro!: emits_rules aws_Rules_cleanup
      emits_any [OF aws_Associate] emits_any [OF aws_CreateRule] emits_any [OF emits_finalizer(2)] emits_any [OF emits_status(1)])

text \<open>C31: the resolver rules controller keeps the finalizer protocol: it touches AWS only after its
  finalizer was added, and removes the finalizer only after the rule of the cluster was deleted
  and the rules of the account were disassociated.\<close>

theorem rules_finalizer_protocol:
  fixes s :: "('w, 'c) sys"
  defines "c \<equiv> m_AWSCluster s"
  shows "(e \<in> set (sent (Rules_reconcileNormal E r identity) s) \<and> isAWS (ev_req e) \<longrightarrow>
      (\<exists>t. AddFinalizer E ResolverRulesFinalizer s = (Ok (), t))) \<and>
    (e \<in> set (sent (Rules_reconcileDelete E r identity) s) \<and> removesFinalizer ResolverRulesFinalizer e \<longrightarrow>
      (\<exists>t. Rules_cleanup E r (buildClusterFromAWSCluster (e_lib E) c identity None None)
         (ghas (om_Annotations c) (l_ResolverRulesOwnerAWSAccountId (e_lib E))) s = (Ok (), t)))"
proof (intro conjI impI)
  assume "e \<in> set (sent (Rules_reconcileNormal E r identity) s) \<and> isAWS (ev_req e)"
  then show "\<exists>t. AddFinalizer E ResolverRulesFinalizer s = (Ok (), t)"
    using rules.provided_after_finalizer [of e E "(r, identity, undefined, undefined)" s]
    by (auto simp: Rules_reconcileNormal_def Rules_provide_def)
next
  let ?cluster = "buildClusterFromAWSCluster (e_lib E) c identity None None"
  let ?owned = "ghas (om_Annotations c) (l_ResolverRulesOwnerAWSAccountId (e_lib E))"
  assume "e \<in> set (sent (Rules_reconcileDelete E r identity) s) \<and> removesFinalizer ResolverRulesFinalizer e"
  then show "\<exists>t. Rules_cleanup E r ?cluster ?owned s = (Ok (), t)"
    using rules.removed_after_cleanup [of e E "(r, identity, ?cluster, ?owned)" s]
    by (auto simp: Rules_reconcileDelete_def c_def sent_def Let_def split: if_splits)
qed


definition rulesSys :: "(unit, (string \<times> cval) list) sys" where
  "rulesSys = demoSys\<lparr>m_AWSCluster := demoAWSCluster\<lparr>om_Finalizers := [ResolverRulesFinalizer]\<rparr>\<rparr>"

theorem rules_finalizer_protocol_witness:
  "list_ex (removesFinalizer ResolverRulesFinalizer)
     (sent (Rules_reconcileDelete demoEnv demoResolver \<lparr>ri_RoleArn = ''arn:a''\<rparr>) rulesSys) \<and>
   (\<exists>t. Rules_cleanup demoEnv demoResolver
     (buildClusterFromAWSCluster demoLib (m_AWSCluster rulesSys) \<lparr>ri_RoleArn = ''arn:a''\<rparr> None None)
     (ghas (om_Annotations (m_AWSCluster rulesSys)) (l_ResolverRulesOwnerAWSAccountId demoLib)) rulesSys = (Ok (), t))"
proof -
  have ex: "list_ex (removesFinalizer ResolverRulesFinalizer)
     (sent (Rules_reconcileDelete demoEnv demoResolver \<lparr>ri_RoleArn = ''arn:a''\<rparr>) rulesSys)"
    by code_simp
  then obtain e where "e \<in> set (sent (Rules_reconcileDelete demoEnv demoResolver \<lparr>ri_RoleArn = ''arn:a''\<rparr>) rulesSys)"
      "removesFinalizer ResolverRulesFinalizer e"
    unfolding list_ex_iff by blast
  from ex rules_finalizer_protocol [THEN conjunct2, THEN mp, OF conjI, OF this, unfolded demoEnv_sel] show ?thesis by (rule conjI)
qed

section \<open>The condition that unpauses a private cluster\<close>

definition marksAssociated :: "event \<Rightarrow> bool" where
  "marksAssociated e = (case ev_req e of K8sReq (K8sStatusPatchAWSCluster old new) \<Rightarrow> True | _ \<Rightarrow> False)"

lemma emits_AddFinalizer_patch: "emits (\<lambda>e. \<not> marksAssociated e) (AddFinalizer E f)"
  unfolding AddFinalizer_def patchAWSCluster_def
  by (intro emits_rules emits_call) (simp add: marksAssociated_def)

text \<open>The condition that the rules of the account are associated is reported only after the
  association of all of them returned without an error, or when no account was given; the
  cluster's own rule is created only after the condition was reported.\<close>

lemma condition_marked_after_association:
  assumes "e \<in> set (sent (Rules_reconcileNormal E r identity) s)" "marksAssociated e"
  shows "\<exists>t u. AddFinalizer E ResolverRulesFinalizer s = (Ok (), t) \<and>
     (ghas (om_Annotations (m_AWSCluster t)) (l_ResolverRulesOwnerAWSAccountId (e_lib E)) \<longrightarrow>
      AssociateResolverRulesInAccountWithClusterVPC E r (buildClusterFromAWSCluster (e_lib E) (m_AWSCluster t) identity None None)
        (gget (om_Annotations (m_AWSCluster t)) (l_ResolverRulesOwnerAWSAccountId (e_lib E))) t = (Ok (), u))"
proof -
  let ?cl = "\<lambda>c. buildClusterFromAWSCluster (e_lib E) c identity None None"
  let ?assoc = "\<lambda>c. (if \<not> ghas (om_Annotations c) (l_ResolverRulesOwnerAWSAccountId (e_lib E)) then retM ()
        else AssociateResolverRulesInAccountWithClusterVPC E r (?cl c)
          (gget (om_Annotations c) (l_ResolverRulesOwnerAWSAccountId (e_lib E)))) :: ('a, 'b, unit) go"
  let ?rest = "\<lambda>c. bindM (AWSClusterClient_MarkConditionTrue E ResolverRulesAssociatedCondition) (\<lambda>_.
     bindM (CreateRule E r (?cl c)) (\<lambda>_. retM noRequeue)) :: ('a, 'b, Result) go"
  let ?f = "\<lambda>_. Rules_provide E r identity"
  have rest: "emits (\<lambda>_. True) (?rest c)" for c
    by (intro emits_rules emits_any [OF aws_CreateRule] emits_any [OF emits_status(1)])
  have assoc: "emits (\<lambda>e. \<not> marksAssociated e) (?assoc c)" for c
    by (intro emits_rules emits_mono [OF aws_Associate]) (auto simp: marksAssociated_def split: request.splits)
  have provide: "emits (\<lambda>_. True) (?f x)" for x :: unit
    unfolding Rules_provide_def Let_def
    by (intro emits_rules emits_any [OF aws_Associate] emits_any [OF aws_CreateRule] emits_any [OF emits_status(1)])
  have "e \<in> set (sent (bindM (AddFinalizer E ResolverRulesFinalizer) ?f) s)"
    using assms(1) by (simp add: Rules_reconcileNormal_def Rules_provide_def)
  from sent_by_second [where F = marksAssociated and f = ?f, OF emits_AddFinalizer_patch provide this assms(2)]
  obtain t where t: "AddFinalizer E ResolverRulesFinalizer s = (Ok (), t)" and e: "e \<in> set (sent (Rules_provide E r identity) t)"
    by auto
  let ?c = "m_AWSCluster t"
  have "e \<in> set (sent (bindM (?assoc ?c) (\<lambda>_. ?rest ?c)) t)"
    using e by (simp add: Rules_provide_def sent_def Let_def cong: if_cong)
  from sent_by_second [where F = marksAssociated and f = "\<lambda>_. ?rest ?c", OF assoc rest this assms(2)]
  obtain u where "?assoc ?c t = (Ok (), u)" by auto
  with t show ?thesis by auto
qed

definition ownedEnv :: "(unit, (string \<times> cval) list) env" where
  "ownedEnv = demoEnv\<lparr>e_aws := demoAWS\<lparr>a_id := errAns (TransportError ''timeout'')\<rparr>, e_kube := demoKube\<lparr>k_AWSCluster := okAns (demoAWSCluster\<lparr>om_Annotations :=
     [(''aws.giantswarm.io/resolver-rules-owner-account'', ''222'')]\<rparr>)\<rparr>\<rparr>"

lemma condition_marked_after_association_example:
  "list_ex marksAssociated (sent (Rules_reconcileNormal ownedEnv demoResolver \<lparr>ri_RoleArn = ''arn:a''\<rparr>) demoSys) \<and>
   (\<exists>t. AddFinalizer ownedEnv ResolverRulesFinalizer demoSys = (Ok (), t))"
proof -
  have ex: "list_ex marksAssociated (sent (Rules_reconcileNormal ownedEnv demoResolver \<lparr>ri_RoleArn = ''arn:a''\<rparr>) demoSys)"
    by code_simp
  then obtain e where "e \<in> set (sent (Rules_reconcileNormal ownedEnv demoResolver \<lparr>ri_RoleArn = ''arn:a''\<rparr>) demoSys)" "marksAssociated e"
    unfolding list_ex_iff by blast
  from condition_marked_after_association [OF this] ex show ?thesis by blast
qed

text \<open>What a cluster needs to be unpaused: its VPC is in private mode and it is not being deleted, its VPC and its subnets are
  ready and, in private DNS mode, the resolver rules are associated.\<close>

definition mayUnpause :: "lib \<Rightarrow> AWSCluster \<Rightarrow> bool" where
  "mayUnpause L c \<longleftrightarrow>
     map_of (om_Annotations c) (l_AWSVPCMode L) = Some (l_AWSVPCModePrivate L) \<and> \<not> om_Deleting c \<and>
     l_CondIsTrue L (ac_Conditions c) (l_VpcReadyCondition L) \<and> l_CondIsTrue L (ac_Conditions c) (l_SubnetsReadyCondition L) \<and>
     (gget (om_Annotations c) (l_AWSDNSMode L) = l_DNSModePrivate L \<longrightarrow>
        l_CondIsTrue L (ac_Conditions c) ResolverRulesAssociatedCondition)"

text \<open>C32: a cluster is unpaused exactly when it is ready. With the two objects read, the controller sends nothing more
  unless the VPC is in private mode, the AWSCluster is not being deleted, the VPC and the subnets are ready and, in private DNS
  mode, the resolver rules are associated. If all this holds, it sends two patches and nothing else: the Cluster gets
  \<^verbatim>\<open>spec.paused\<close> set to false and loses the paused annotation, and when this was accepted, the AWSCluster loses its paused
  annotation; nothing else of either changes. The reconciliation succeeds exactly when no request failed.\<close>

theorem unpaused_exactly_when_ready:
  fixes E :: "('w, 'c) env" and cl :: CapiCluster and c :: AWSCluster
  defines "paused \<equiv> l_PausedAnnotation (e_lib E)"
  defines "patchCl \<equiv> K8sReq (K8sPatchCluster cl (cl\<lparr>cc_Paused := Some False, om_Annotations := AList.delete paused (om_Annotations cl)\<rparr>) False)"
    and "patchAWS \<equiv> K8sReq (K8sPatchAWSCluster c (c\<lparr>om_Annotations := AList.delete paused (om_Annotations c)\<rparr>) False)"
  assumes "k_AWSCluster (e_kube E) (K8sReq (K8sGet ''AWSCluster'' ns n)) (world s) = (Inr c, w)"
    and "k_Cluster (e_kube E) (K8sReq (K8sGet ''Cluster'' ns n)) w = (Inr cl, w')"
  shows "map ev_req (sent (Unpause_Reconcile E ns n) s) =
      [K8sReq (K8sGet ''AWSCluster'' ns n), K8sReq (K8sGet ''Cluster'' ns n)] @
      (if \<not> mayUnpause (e_lib E) c then []
       else if isl (fst (k_Cluster (e_kube E) patchCl w')) then [patchCl] else [patchCl, patchAWS]) \<and>
    (fst (Unpause_Reconcile E ns n s) = Ok noRequeue \<longleftrightarrow>
       list_all (\<lambda>e. ev_err e = None) (sent (Unpause_Reconcile E ns n) s))"
proof -
  define g where "g = s\<lparr>m_AWSCluster := c, world := w', trace := trace s @
    [Event (K8sReq (K8sGet ''AWSCluster'' ns n)) None, Event (K8sReq (K8sGet ''Cluster'' ns n)) None], m_Cluster := cl\<rparr>"
  have read: "Unpause_Reconcile E ns n s = (if mayUnpause (e_lib E) c then bindM (Unpause E) (\<lambda>_. retM noRequeue) g else (Ok noRequeue, g))"
    using assms(4,5)
    by (simp add: Unpause_Reconcile_def Unpause_reconcileNormal_def mayUnpause_def GetAWSCluster_def GetCluster_def
        holdAWSCluster_def holdCluster_def bindM_def tryM_def call_def logged_def g_def Let_def)
  show ?thesis
  proof (cases "mayUnpause (e_lib E) c")
    case False
    with read show ?thesis by (simp add: sent_def g_def)
  next
    case True
    obtain a w2 where a: "k_Cluster (e_kube E) patchCl w' = (a, w2)" by (cases "k_Cluster (e_kube E) patchCl w'")
    obtain b w3 where b: "k_AWSCluster (e_kube E) patchAWS w2 = (b, w3)" by (cases "k_AWSCluster (e_kube E) patchAWS w2")
    from a b read True show ?thesis
      unfolding patchCl_def patchAWS_def paused_def
      by (cases a; cases b) (simp_all add: Unpause_def patchCluster_def patchAWSCluster_def holdAWSCluster_def holdCluster_def
          bindM_def call_def logged_def sent_def g_def)
  qed
qed

definition readyAWSCluster :: AWSCluster where
  "readyAWSCluster = demoAWSCluster\<lparr>om_Deleting := False,
     om_Annotations := [(''aws.giantswarm.io/vpc-mode'', ''private''), (l_PausedAnnotation demoLib, ''true'')],
     ac_Conditions := [(l_VpcReadyCondition demoLib, condTrue), (l_SubnetsReadyCondition demoLib, condTrue)]\<rparr>"

definition readyEnv :: "(unit, (string \<times> cval) list) env" where
  "readyEnv = demoEnv\<lparr>e_kube := demoKube\<lparr>k_AWSCluster := okAns readyAWSCluster\<rparr>\<rparr>"

theorem unpaused_exactly_when_ready_witness:
  "map ev_req (sent (Unpause_Reconcile readyEnv ''ns'' ''wc'') demoSys) =
     [K8sReq (K8sGet ''AWSCluster'' ''ns'' ''wc''), K8sReq (K8sGet ''Cluster'' ''ns'' ''wc''),
      K8sReq (K8sPatchCluster demoCluster (demoCluster\<lparr>cc_Paused := Some False,
        om_Annotations := AList.delete (l_PausedAnnotation demoLib) (om_Annotations demoCluster)\<rparr>) False),
      K8sReq (K8sPatchAWSCluster readyAWSCluster (readyAWSCluster\<lparr>om_Annotations := [(''aws.giantswarm.io/vpc-mode'', ''private'')]\<rparr>) False)]"
proof -
  have "mayUnpause (e_lib readyEnv) readyAWSCluster" by code_simp
  moreover have "AList.delete (l_PausedAnnotation demoLib) (om_Annotations readyAWSCluster) = [(''aws.giantswarm.io/vpc-mode'', ''private'')]"
    by code_simp
  ultimately show ?thesis
    using unpaused_exactly_when_ready [of readyEnv "''ns''" "''wc''" demoSys readyAWSCluster "()" demoCluster "()"]
    by (simp add: readyEnv_def demoKube_def okAns_def)
qed

end
