(* ===== verification/Go_Data.thy ===== *)
theory Go_Data
  imports World "HOL-Library.Word"
begin

text \<open>
  What the operator uses of Go's standard library to make data: \<^verbatim>\<open>path.Join\<close> and \<^verbatim>\<open>path.Clean\<close>,
  \<^verbatim>\<open>json.Marshal\<close> of maps, slices and strings, and \<^verbatim>\<open>sha256.Sum256\<close> printed with \<^verbatim>\<open>%x\<close>. Strings
  are their bytes; what comes from the Kubernetes API is valid UTF-8.
\<close>

unbundle bit_operations_syntax

section \<open>Paths\<close>

text \<open>The elements of a path are put on a stack, the last one on top.\<close>

definition pathStep :: "bool \<Rightarrow> string list \<Rightarrow> string \<Rightarrow> string list" where
  "pathStep rooted out e =
     (if e = '''' \<or> e = ''.'' then out
      else if e = ''..'' then (case out of
          [] \<Rightarrow> if rooted then [] else [''..'']
        | x # xs \<Rightarrow> if x = ''..'' then ''..'' # out else xs)
      else e # out)"

definition pathClean :: "string \<Rightarrow> string" where
  "pathClean p =
     (let rooted = hasPrefix p ''/'';
          s = joinWith ''/'' (rev (foldl (pathStep rooted) [] (splitOn CHR ''/'' p))) in
      if rooted then CHR ''/'' # s else if s = '''' then ''.'' else s)"

definition pathJoin :: "string list \<Rightarrow> string" where
  "pathJoin elem =
     (if concat elem = '''' then ''''
      else pathClean (joinWith ''/'' (dropWhile (\<lambda>e. e = '''') elem)))"

section \<open>JSON\<close>

definition jsonShort :: "nat \<Rightarrow> char option" where
  "jsonShort n = (if n = 34 then Some (CHR 0x22) else if n = 92 then Some (CHR 0x5C)
     else if n = 8 then Some (CHR ''b'') else if n = 12 then Some (CHR ''f'')
     else if n = 10 then Some (CHR ''n'') else if n = 13 then Some (CHR ''r'')
     else if n = 9 then Some (CHR ''t'') else None)"

definition jsonChar :: "char \<Rightarrow> string" where
  "jsonChar c = (let n = (of_char c :: nat) in
     case jsonShort n of
       Some x \<Rightarrow> [CHR 0x5C, x]
     | None \<Rightarrow>
         if n < 32 \<or> c \<in> {CHR ''<'', CHR ''>'', CHR ''&''}
         then [CHR 0x5C, CHR ''u'', CHR ''0'', CHR ''0'', hexDigit (n div 16), hexDigit (n mod 16)]
         else [c])"

text \<open>The separators U+2028 and U+2029 are escaped too.\<close>

fun jsonBody :: "string \<Rightarrow> string" where
  "jsonBody [] = []"
| "jsonBody (c # cs) =
     (case cs of
        d # e # r \<Rightarrow>
          if c = CHR 0xE2 \<and> d = CHR 0x80 \<and> e = CHR 0xA8 then CHR 0x5C # ''u2028'' @ jsonBody r
          else if c = CHR 0xE2 \<and> d = CHR 0x80 \<and> e = CHR 0xA9 then CHR 0x5C # ''u2029'' @ jsonBody r
          else jsonChar c @ jsonBody cs
      | _ \<Rightarrow> jsonChar c @ jsonBody cs)"

definition jsonString :: "string \<Rightarrow> string" where
  "jsonString s = CHR 0x22 # jsonBody s @ [CHR 0x22]"

text \<open>The keys of a map are sorted.\<close>

fun jsonMarshal :: "json \<Rightarrow> string" where
  "jsonMarshal (JStr s) = jsonString s"
| "jsonMarshal (JArr js) = ''['' @ joinWith '','' (map jsonMarshal js) @ '']''"
| "jsonMarshal (JObj kvs) = ''{'' @ joinWith '',''
     (map (\<lambda>(k, v). jsonString k @ '':'' @ v)
       (sort_key fst (map (\<lambda>(k, v). (k, jsonMarshal v)) kvs))) @ ''}''"

section \<open>SHA-256\<close>

type_synonym u32 = "32 word"

definition rotr :: "nat \<Rightarrow> u32 \<Rightarrow> u32" where
  "rotr n x = (drop_bit n x OR push_bit (32 - n) x)"

text \<open>The round constants and the initial value, in decimal.\<close>

definition shaK :: "u32 list" where
  "shaK = [1116352408, 1899447441, 3049323471, 3921009573, 961987163, 1508970993, 2453635748,
     2870763221, 3624381080, 310598401, 607225278, 1426881987, 1925078388, 2162078206,
     2614888103, 3248222580, 3835390401, 4022224774, 264347078, 604807628, 770255983,
     1249150122, 1555081692, 1996064986, 2554220882, 2821834349, 2952996808, 3210313671,
     3336571891, 3584528711, 113926993, 338241895, 666307205, 773529912, 1294757372,
     1396182291, 1695183700, 1986661051, 2177026350, 2456956037, 2730485921, 2820302411,
     3259730800, 3345764771, 3516065817, 3600352804, 4094571909, 275423344, 430227734,
     506948616, 659060556, 883997877, 958139571, 1322822218, 1537002063, 1747873779,
     1955562222, 2024104815, 2227730452, 2361852424, 2428436474, 2756734187, 3204031479,
     3329325298]"

definition shaInit :: "u32 list" where
  "shaInit = [1779033703, 3144134277, 1013904242, 2773480762, 1359893119, 2600822924, 528734635,
     1541459225]"

text \<open>The message, a one bit, zeros, and the length in bits as a 64-bit number: whole blocks of 64 bytes.\<close>

definition shaBytes :: "nat \<Rightarrow> int \<Rightarrow> int list" where
  "shaBytes k n = map (\<lambda>i. (n div 256 ^ (k - 1 - i)) mod 256) [0..<k]"

definition shaPad :: "int list \<Rightarrow> int list" where
  "shaPad m = m @ [128] @ replicate ((119 - length m mod 64) mod 64) 0 @ shaBytes 8 (8 * int (length m))"

fun shaWords :: "int list \<Rightarrow> u32 list" where
  "shaWords (a # b # c # d # r) = of_int (((a * 256 + b) * 256 + c) * 256 + d) # shaWords r"
| "shaWords _ = []"

text \<open>The schedule, newest word first.\<close>

definition shaNext :: "u32 list \<Rightarrow> u32" where
  "shaNext w = (let a = w ! 1; b = w ! 14 in
     (rotr 17 a XOR rotr 19 a XOR drop_bit 10 a) + w ! 6 + (rotr 7 b XOR rotr 18 b XOR drop_bit 3 b) + w ! 15)"

fun shaSchedule :: "nat \<Rightarrow> u32 list \<Rightarrow> u32 list" where
  "shaSchedule 0 w = w"
| "shaSchedule (Suc n) w = shaSchedule n (shaNext w # w)"

definition shaRound :: "u32 list \<Rightarrow> u32 \<times> u32 \<Rightarrow> u32 list" where
  "shaRound v kw = (case v of
      [a, b, c, d, e, f, g, h] \<Rightarrow>
        (let t1 = h + (rotr 6 e XOR rotr 11 e XOR rotr 25 e) + ((e AND f) XOR (NOT e AND g)) + fst kw + snd kw;
             t2 = (rotr 2 a XOR rotr 13 a XOR rotr 22 a) + ((a AND b) XOR (a AND c) XOR (b AND c)) in
         [t1 + t2, a, b, c, d + t1, e, f, g])
    | _ \<Rightarrow> v)"

definition shaBlock :: "u32 list \<Rightarrow> u32 list \<Rightarrow> u32 list" where
  "shaBlock h block = map2 (+) h (foldl shaRound h (zip shaK (rev (shaSchedule 48 (rev block)))))"

fun shaBlocks :: "nat \<Rightarrow> u32 list \<Rightarrow> u32 list \<Rightarrow> u32 list" where
  "shaBlocks 0 h ws = h"
| "shaBlocks (Suc n) h ws = shaBlocks n (shaBlock h (take 16 ws)) (drop 16 ws)"

definition hexByte :: "int \<Rightarrow> string" where
  "hexByte n = [hexDigit (nat (n div 16)), hexDigit (nat (n mod 16))]"

text \<open>\<^verbatim>\<open>fmt.Sprintf("%x", sha256.Sum256(data))\<close>\<close>

definition sha256hex :: "string \<Rightarrow> string" where
  "sha256hex s = (let m = shaPad (map of_char s) in
     concat (map hexByte (concat (map (\<lambda>w. shaBytes 4 (uint w)) (shaBlocks (length m div 64) shaInit (shaWords m))))))"

end
