(* ===== verification/Karpenter_Conversions.thy ===== *)
theory Karpenter_Conversions
  imports Controllers_Common Go_Data
begin

text \<open>
  The pure parts of \<^verbatim>\<open>controllers/karpentermachinepool_controller.go\<close>: the conversions from the
  custom resource to the Karpenter API's structs, the specs of the two resources made in the
  workload cluster, and the user data; with \<^verbatim>\<open>pkg/versionskew\<close> and the conditions of
  \<^verbatim>\<open>pkg/conditions\<close> that are set on the pool.
\<close>

section \<open>Conversions\<close>

definition toKarpenterNillableDuration :: "NillableDuration \<Rightarrow> KarpNillableDuration" where
  "toKarpenterNillableDuration src = \<lparr>knd_Duration = nd_Duration src, knd_Raw = nd_Raw src\<rparr>"

definition toKarpenterBudgets :: "Budget list \<Rightarrow> KarpBudget list option" where
  "toKarpenterBudgets src =
     (if length src = 0 then None
      else Some (map (\<lambda>budget.
        let reasons = (if length (bu_Reasons budget) > 0 then Some (map (\<lambda>reason. reason) (bu_Reasons budget))
                       else None) in
        \<lparr>kb_Reasons = reasons, kb_Nodes = bu_Nodes budget, kb_Schedule = bu_Schedule budget,
         kb_Duration = bu_Duration budget\<rparr>) src))"

definition toKarpenterAMISelectorTerms :: "AMISelectorTerm list \<Rightarrow> AMISelectorTerm list option" where
  "toKarpenterAMISelectorTerms src =
     (if length src = 0 then None
      else Some (map (\<lambda>t. \<lparr>ami_Alias = ami_Alias t, ami_Tags = ami_Tags t, ami_ID = ami_ID t,
        ami_Name = ami_Name t, ami_Owner = ami_Owner t, ami_SSMParameter = ami_SSMParameter t\<rparr>) src))"

definition toKarpenterSubnetSelectorTerms :: "SubnetSelectorTerm list \<Rightarrow> SubnetSelectorTerm list option" where
  "toKarpenterSubnetSelectorTerms src =
     (if length src = 0 then None
      else Some (map (\<lambda>t. \<lparr>sst_Tags = sst_Tags t, sst_ID = sst_ID t\<rparr>) src))"

definition toKarpenterSecurityGroupSelectorTerms ::
  "SecurityGroupSelectorTerm list \<Rightarrow> SecurityGroupSelectorTerm list option" where
  "toKarpenterSecurityGroupSelectorTerms src =
     (if length src = 0 then None
      else Some (map (\<lambda>t. \<lparr>sgt_Tags = sgt_Tags t, sgt_ID = sgt_ID t, sgt_Name = sgt_Name t\<rparr>) src))"

definition toKarpenterBlockDevice :: "BlockDevice option \<Rightarrow> BlockDevice option" where
  "toKarpenterBlockDevice src = (case src of
      None \<Rightarrow> None
    | Some d \<Rightarrow> Some \<lparr>bd_DeleteOnTermination = bd_DeleteOnTermination d, bd_Encrypted = bd_Encrypted d,
        bd_IOPS = bd_IOPS d, bd_KMSKeyID = bd_KMSKeyID d, bd_SnapshotID = bd_SnapshotID d,
        bd_Throughput = bd_Throughput d, bd_VolumeInitializationRate = bd_VolumeInitializationRate d,
        bd_VolumeSize = bd_VolumeSize d, bd_VolumeType = bd_VolumeType d\<rparr>)"

definition toKarpenterBlockDeviceMappings ::
  "BlockDeviceMapping option list \<Rightarrow> BlockDeviceMapping option list option" where
  "toKarpenterBlockDeviceMappings src =
     (if length src = 0 then None
      else Some (map (\<lambda>mapping. case mapping of
          None \<Rightarrow> None
        | Some m \<Rightarrow> Some \<lparr>bdm_DeviceName = bdm_DeviceName m, bdm_EBS = toKarpenterBlockDevice (bdm_EBS m),
            bdm_RootVolume = bdm_RootVolume m\<rparr>) src))"

definition toKarpenterInstanceStorePolicy :: "string option \<Rightarrow> string option" where
  "toKarpenterInstanceStorePolicy src = (case src of None \<Rightarrow> None | Some policy \<Rightarrow> Some policy)"

definition toKarpenterMetadataOptions :: "MetadataOptions option \<Rightarrow> MetadataOptions option" where
  "toKarpenterMetadataOptions src = (case src of
      None \<Rightarrow> None
    | Some o' \<Rightarrow> Some \<lparr>mo_HTTPEndpoint = mo_HTTPEndpoint o', mo_HTTPProtocolIPv6 = mo_HTTPProtocolIPv6 o',
        mo_HTTPPutResponseHopLimit = mo_HTTPPutResponseHopLimit o', mo_HTTPTokens = mo_HTTPTokens o'\<rparr>)"

definition toKarpenterRequirements ::
  "NodeSelectorRequirementWithMinValues list \<Rightarrow> KarpRequirement list option" where
  "toKarpenterRequirements src =
     (if length src = 0 then None
      else Some (map (\<lambda>r. \<lparr>kr_Key = nr_Key r, kr_Operator = nr_Operator r, kr_Values = nr_Values r,
        kr_MinValues = nr_MinValues r\<rparr>) src))"

definition mergeMaps :: "('k \<times> 'v) list list \<Rightarrow> ('k \<times> 'v) list" where
  "mergeMaps maps = foldl gcopy [] maps"

section \<open>The two resources\<close>

definition EC2NodeClassAPIGroup :: string where
  "EC2NodeClassAPIGroup = ''karpenter.k8s.aws''"

definition managedByLabels :: gomap where
  "managedByLabels = [(''app.kubernetes.io/managed-by'', ''aws-resolver-rules-operator'')]"

definition ec2NodeClassSpec ::
  "EC2NodeClassSpec \<Rightarrow> gomap option \<Rightarrow> string option \<Rightarrow> string option \<Rightarrow> KarpEC2NodeClassSpec" where
  "ec2NodeClassSpec nc additionalTags amiFamily userData =
     \<lparr>ke_AMIFamily = amiFamily,
      ke_AMISelectorTerms = toKarpenterAMISelectorTerms (ec_AMISelectorTerms nc),
      ke_BlockDeviceMappings = toKarpenterBlockDeviceMappings (ec_BlockDeviceMappings nc),
      ke_InstanceProfile = ec_InstanceProfile nc,
      ke_InstanceStorePolicy = toKarpenterInstanceStorePolicy (ec_InstanceStorePolicy nc),
      ke_MetadataOptions = toKarpenterMetadataOptions (ec_MetadataOptions nc),
      ke_SecurityGroupSelectorTerms = toKarpenterSecurityGroupSelectorTerms (ec_SecurityGroupSelectorTerms nc),
      ke_SubnetSelectorTerms = toKarpenterSubnetSelectorTerms (ec_SubnetSelectorTerms nc),
      ke_UserData = userData,
      ke_Tags = mergeMaps [nilmap additionalTags, nilmap (ec_Tags nc)],
      ke_SystemReserved = [(''cpu'', ''250m''), (''memory'', ''384Mi'')],
      ke_KubeReserved = [(''cpu'', ''350m''), (''memory'', ''1280Mi''), (''ephemeral-storage'', ''1024Mi'')],
      ke_EvictionHard = [(''memory.available'', ''200Mi'')]\<rparr>"

definition defaultStartupTaints :: "Taint list" where
  "defaultStartupTaints =
     [\<lparr>tn_Key = ''node.cilium.io/agent-not-ready'', tn_Value = ''true'', tn_Effect = ''NoExecute''\<rparr>,
      \<lparr>tn_Key = ''node.cluster.x-k8s.io/uninitialized'', tn_Value = ''true'', tn_Effect = ''NoExecute''\<rparr>]"

text \<open>The spec without a \<^verbatim>\<open>nodePool\<close> in the resource, with the zero values of the fields not set.\<close>

definition baseNodePoolSpec :: "string \<Rightarrow> KarpNodePoolSpec" where
  "baseNodePoolSpec name =
     \<lparr>kn_Labels = None, kn_Taints = None, kn_StartupTaints = Some defaultStartupTaints, kn_Requirements = None,
      kn_ExpireAfter = \<lparr>knd_Duration = None, knd_Raw = None\<rparr>, kn_TerminationGracePeriod = None,
      kn_NodeClassGroup = EC2NodeClassAPIGroup, kn_NodeClassKind = ''EC2NodeClass'', kn_NodeClassName = name,
      kn_Disruption = \<lparr>kd_Budgets = None, kd_ConsolidateAfter = \<lparr>knd_Duration = None, knd_Raw = None\<rparr>,
        kd_ConsolidationPolicy = ''''\<rparr>,
      kn_Limits = None, kn_Weight = None, kn_Replicas = None\<rparr>"

definition nodePoolSpec :: "string \<Rightarrow> NodePoolSpec option \<Rightarrow> KarpNodePoolSpec" where
  "nodePoolSpec name pool = (case pool of
      None \<Rightarrow> baseNodePoolSpec name
    | Some np \<Rightarrow>
       (let spec = (baseNodePoolSpec name)
              \<lparr>kn_Disruption := \<lparr>kd_Budgets = toKarpenterBudgets (di_Budgets (np_Disruption np)),
                  kd_ConsolidateAfter = toKarpenterNillableDuration (di_ConsolidateAfter (np_Disruption np)),
                  kd_ConsolidationPolicy = di_ConsolidationPolicy (np_Disruption np)\<rparr>\<rparr>;
            spec = (if np_Limits np \<noteq> None then spec\<lparr>kn_Limits := np_Limits np\<rparr> else spec);
            spec = (if np_Weight np \<noteq> None then spec\<lparr>kn_Weight := np_Weight np\<rparr> else spec);
            spec = (if np_Replicas np \<noteq> None then spec\<lparr>kn_Replicas := np_Replicas np\<rparr> else spec);
            template = nct_Spec (np_Template np);
            spec = spec\<lparr>kn_Labels := nct_Labels (np_Template np), kn_Taints := nts_Taints template,
              kn_StartupTaints := nts_StartupTaints template,
              kn_Requirements := toKarpenterRequirements (nts_Requirements template),
              kn_ExpireAfter := toKarpenterNillableDuration (nts_ExpireAfter template)\<rparr> in
        if nts_TerminationGracePeriod template \<noteq> None
        then spec\<lparr>kn_TerminationGracePeriod := nts_TerminationGracePeriod template\<rparr> else spec))"

section \<open>User data\<close>

definition S3ObjectPrefix :: string where
  "S3ObjectPrefix = ''karpenter-machine-pool''"

definition userDataSource :: "string \<Rightarrow> string \<Rightarrow> string" where
  "userDataSource s3bucketName name = ''s3://'' @ s3bucketName @ ''/'' @ S3ObjectPrefix @ ''/'' @ name"

definition userDataJSON :: "string \<Rightarrow> string \<Rightarrow> json" where
  "userDataJSON s3bucketName name = JObj [
     (''ignition'', JObj [
        (''config'', JObj [
           (''merge'', JArr [JObj [
              (''source'', JStr (userDataSource s3bucketName name)),
              (''verification'', JObj [])]]),
           (''replace'', JObj [(''verification'', JObj [])])]),
        (''proxy'', JObj []),
        (''security'', JObj [(''tls'', JObj [])]),
        (''timeouts'', JObj []),
        (''version'', JStr ''3.4.0'')]),
     (''kernelArguments'', JObj []),
     (''passwd'', JObj []),
     (''storage'', JObj []),
     (''systemd'', JObj [])]"

definition generateUserData :: "string \<Rightarrow> string \<Rightarrow> string" where
  "generateUserData s3bucketName name = jsonMarshal (userDataJSON s3bucketName name)"

text \<open>The key under which the user data of a pool is stored.\<close>

definition userDataKey :: "string \<Rightarrow> string" where
  "userDataKey name = pathJoin [S3ObjectPrefix, name]"

section \<open>Version skew\<close>

definition IsSkewAllowed :: "lib \<Rightarrow> string \<Rightarrow> string \<Rightarrow> go_error + bool" where
  "IsSkewAllowed L controlPlaneVersion workerVersion =
     (case l_ParseTolerant L controlPlaneVersion of
        Inl e \<Rightarrow> Inl (Wrapped (''failed to parse control plane k8s version '' @ quote controlPlaneVersion) e)
      | Inr cp \<Rightarrow>
         (case l_ParseTolerant L workerVersion of
            Inl e \<Rightarrow> Inl (Wrapped (''failed to parse worker desired k8s version '' @ quote workerVersion) e)
          | Inr worker \<Rightarrow> Inr (l_GE L cp worker)))"

section \<open>Conditions\<close>

definition NodePoolCreatedCondition :: string where
  "NodePoolCreatedCondition = ''NodePoolCreated''"

definition EC2NodeClassCreatedCondition :: string where
  "EC2NodeClassCreatedCondition = ''EC2NodeClassCreated''"

definition BootstrapDataReadyCondition :: string where
  "BootstrapDataReadyCondition = ''BootstrapDataReady''"

definition VersionSkewPolicySatisfiedCondition :: string where
  "VersionSkewPolicySatisfiedCondition = ''VersionSkewPolicySatisfied''"

definition ReadyCondition :: string where
  "ReadyCondition = ''Ready''"

text \<open>A write to the pool the reconciliation holds.\<close>

definition modKMP :: "(KarpenterMachinePool \<Rightarrow> KarpenterMachinePool) \<Rightarrow> ('w, 'c, unit) go" where
  "modKMP f = modM (\<lambda>s. s\<lparr>m_KMP := f (m_KMP s)\<rparr>)"

definition markTrueBecause :: "('w, 'c) env \<Rightarrow> string \<Rightarrow> string \<Rightarrow> ('w, 'c, unit) go" where
  "markTrueBecause E condition reason = modKMP (kmp_Conditions_update (\<lambda>cs.
     l_CondSet (e_lib E) cs condition \<lparr>cd_Status = ''True'', cd_Reason = reason, cd_Severity = '''', cd_Message = ''''\<rparr>))"

definition markFalseBecause :: "('w, 'c) env \<Rightarrow> string \<Rightarrow> string \<Rightarrow> string \<Rightarrow> ('w, 'c, unit) go" where
  "markFalseBecause E condition reason message = modKMP (kmp_Conditions_update (\<lambda>cs.
     l_MarkFalse (e_lib E) cs condition reason ''Error'' message))"

definition MarkNodePoolCreated :: "('w, 'c) env \<Rightarrow> ('w, 'c, unit) go" where
  "MarkNodePoolCreated E = markTrueBecause E NodePoolCreatedCondition ''NodePoolCreated''"

definition MarkNodePoolNotCreated :: "('w, 'c) env \<Rightarrow> string \<Rightarrow> string \<Rightarrow> ('w, 'c, unit) go" where
  "MarkNodePoolNotCreated E reason message = markFalseBecause E NodePoolCreatedCondition reason message"

definition MarkEC2NodeClassCreated :: "('w, 'c) env \<Rightarrow> ('w, 'c, unit) go" where
  "MarkEC2NodeClassCreated E = markTrueBecause E EC2NodeClassCreatedCondition ''EC2NodeClassCreated''"

definition MarkEC2NodeClassNotCreated :: "('w, 'c) env \<Rightarrow> string \<Rightarrow> string \<Rightarrow> ('w, 'c, unit) go" where
  "MarkEC2NodeClassNotCreated E reason message = markFalseBecause E EC2NodeClassCreatedCondition reason message"

definition MarkBootstrapDataReady :: "('w, 'c) env \<Rightarrow> ('w, 'c, unit) go" where
  "MarkBootstrapDataReady E = markTrueBecause E BootstrapDataReadyCondition ''Ready''"

definition MarkBootstrapDataNotReady :: "('w, 'c) env \<Rightarrow> string \<Rightarrow> string \<Rightarrow> ('w, 'c, unit) go" where
  "MarkBootstrapDataNotReady E reason message = markFalseBecause E BootstrapDataReadyCondition reason message"

definition MarkVersionSkewPolicySatisfied :: "('w, 'c) env \<Rightarrow> ('w, 'c, unit) go" where
  "MarkVersionSkewPolicySatisfied E = markTrueBecause E VersionSkewPolicySatisfiedCondition ''VersionSkewValid''"

definition MarkVersionSkewInvalid :: "('w, 'c) env \<Rightarrow> string \<Rightarrow> string \<Rightarrow> ('w, 'c, unit) go" where
  "MarkVersionSkewInvalid E reason message = markFalseBecause E VersionSkewPolicySatisfiedCondition reason message"

definition MarkKarpenterMachinePoolReady :: "('w, 'c) env \<Rightarrow> ('w, 'c, unit) go" where
  "MarkKarpenterMachinePoolReady E = markTrueBecause E ReadyCondition ''Ready''"

definition MarkKarpenterMachinePoolNotReady :: "('w, 'c) env \<Rightarrow> string \<Rightarrow> string \<Rightarrow> ('w, 'c, unit) go" where
  "MarkKarpenterMachinePoolNotReady E reason message = markFalseBecause E ReadyCondition reason message"

lemma emits_modKMP [emits_rules]: "emits P (modKMP f)"
  unfolding modKMP_def by (rule emits_modM) simp

lemmas mark_defs = MarkNodePoolCreated_def MarkNodePoolNotCreated_def MarkEC2NodeClassCreated_def
  MarkEC2NodeClassNotCreated_def MarkBootstrapDataReady_def MarkBootstrapDataNotReady_def
  MarkVersionSkewPolicySatisfied_def MarkVersionSkewInvalid_def MarkKarpenterMachinePoolReady_def
  MarkKarpenterMachinePoolNotReady_def markTrueBecause_def markFalseBecause_def

lemma emits_marks [emits_rules]:
  "emits P (MarkNodePoolCreated E)" "emits P (MarkNodePoolNotCreated E r m)"
  "emits P (MarkEC2NodeClassCreated E)" "emits P (MarkEC2NodeClassNotCreated E r m)"
  "emits P (MarkBootstrapDataReady E)" "emits P (MarkBootstrapDataNotReady E r m)"
  "emits P (MarkVersionSkewPolicySatisfied E)" "emits P (MarkVersionSkewInvalid E r m)"
  "emits P (MarkKarpenterMachinePoolReady E)" "emits P (MarkKarpenterMachinePoolNotReady E r m)"
  unfolding mark_defs by (rule emits_rules)+

section \<open>Nothing is lost\<close>

text \<open>Reading a Karpenter \<^verbatim>\<open>NodePool\<close> back.\<close>

definition fromKarpenterDuration :: "KarpNillableDuration \<Rightarrow> NillableDuration" where
  "fromKarpenterDuration d = \<lparr>nd_Duration = knd_Duration d, nd_Raw = knd_Raw d\<rparr>"

definition fromKarpenterBudget :: "KarpBudget \<Rightarrow> Budget" where
  "fromKarpenterBudget b = \<lparr>bu_Reasons = nilmap (kb_Reasons b), bu_Nodes = kb_Nodes b,
     bu_Schedule = kb_Schedule b, bu_Duration = kb_Duration b\<rparr>"

definition fromKarpenterRequirement :: "KarpRequirement \<Rightarrow> NodeSelectorRequirementWithMinValues" where
  "fromKarpenterRequirement r = \<lparr>nr_Key = kr_Key r, nr_Operator = kr_Operator r, nr_Values = kr_Values r,
     nr_MinValues = kr_MinValues r\<rparr>"

definition fromKarpenterNodePool :: "gomap option \<Rightarrow> KarpNodePoolSpec \<Rightarrow> NodePoolSpec" where
  "fromKarpenterNodePool annotations k =
     \<lparr>np_Template = \<lparr>nct_Labels = kn_Labels k, nct_Annotations = annotations,
        nct_Spec = \<lparr>nts_Taints = kn_Taints k, nts_StartupTaints = kn_StartupTaints k,
          nts_Requirements = map fromKarpenterRequirement (nilmap (kn_Requirements k)),
          nts_TerminationGracePeriod = kn_TerminationGracePeriod k,
          nts_ExpireAfter = fromKarpenterDuration (kn_ExpireAfter k)\<rparr>\<rparr>,
      np_Disruption = \<lparr>di_ConsolidateAfter = fromKarpenterDuration (kd_ConsolidateAfter (kn_Disruption k)),
        di_ConsolidationPolicy = kd_ConsolidationPolicy (kn_Disruption k),
        di_Budgets = map fromKarpenterBudget (nilmap (kd_Budgets (kn_Disruption k)))\<rparr>,
      np_Limits = kn_Limits k, np_Weight = kn_Weight k, np_Replicas = kn_Replicas k\<rparr>"

lemma duration_roundtrip [simp]: "fromKarpenterDuration (toKarpenterNillableDuration d) = d"
  by (simp add: fromKarpenterDuration_def toKarpenterNillableDuration_def)

lemma budgets_roundtrip [simp]: "map fromKarpenterBudget (nilmap (toKarpenterBudgets bs)) = bs"
  by (auto simp: toKarpenterBudgets_def fromKarpenterBudget_def Let_def o_def intro!: map_idI)

lemma requirements_roundtrip [simp]: "map fromKarpenterRequirement (nilmap (toKarpenterRequirements rs)) = rs"
  by (auto simp: toKarpenterRequirements_def fromKarpenterRequirement_def o_def intro!: map_idI)

lemma terms_roundtrip [simp]:
  "nilmap (toKarpenterAMISelectorTerms as) = as" "nilmap (toKarpenterSubnetSelectorTerms ss) = ss"
  "nilmap (toKarpenterSecurityGroupSelectorTerms gs) = gs"
  by (auto simp: toKarpenterAMISelectorTerms_def toKarpenterSubnetSelectorTerms_def
      toKarpenterSecurityGroupSelectorTerms_def intro!: map_idI)

lemma options_roundtrip [simp]:
  "toKarpenterBlockDevice d = d" "toKarpenterMetadataOptions m = m" "toKarpenterInstanceStorePolicy p = p"
  by (simp_all add: toKarpenterBlockDevice_def toKarpenterMetadataOptions_def toKarpenterInstanceStorePolicy_def
      split: option.split)

lemma mappings_roundtrip [simp]: "nilmap (toKarpenterBlockDeviceMappings ms) = ms"
  by (auto simp: toKarpenterBlockDeviceMappings_def intro!: map_idI split: option.split)

text \<open>The conditional writes of \<^verbatim>\<open>createOrUpdateNodePool\<close> give the fields of the resource.\<close>

lemma nodePoolSpec_fields:
  "nodePoolSpec name (Some np) =
     \<lparr>kn_Labels = nct_Labels (np_Template np), kn_Taints = nts_Taints (nct_Spec (np_Template np)),
      kn_StartupTaints = nts_StartupTaints (nct_Spec (np_Template np)),
      kn_Requirements = toKarpenterRequirements (nts_Requirements (nct_Spec (np_Template np))),
      kn_ExpireAfter = toKarpenterNillableDuration (nts_ExpireAfter (nct_Spec (np_Template np))),
      kn_TerminationGracePeriod = nts_TerminationGracePeriod (nct_Spec (np_Template np)),
      kn_NodeClassGroup = EC2NodeClassAPIGroup, kn_NodeClassKind = ''EC2NodeClass'', kn_NodeClassName = name,
      kn_Disruption = \<lparr>kd_Budgets = toKarpenterBudgets (di_Budgets (np_Disruption np)),
        kd_ConsolidateAfter = toKarpenterNillableDuration (di_ConsolidateAfter (np_Disruption np)),
        kd_ConsolidationPolicy = di_ConsolidationPolicy (np_Disruption np)\<rparr>,
      kn_Limits = np_Limits np, kn_Weight = np_Weight np, kn_Replicas = np_Replicas np\<rparr>"
  by (cases "np_Limits np"; cases "np_Weight np"; cases "np_Replicas np";
      cases "nts_TerminationGracePeriod (nct_Spec (np_Template np))")
    (simp_all add: nodePoolSpec_def baseNodePoolSpec_def Let_def)


text \<open>The annotations of the template are not converted, and neither are the fields of the \<^verbatim>\<open>ec2NodeClass\<close>
  below: pools that differ only there get the same resources.\<close>

lemma template_annotations_dropped:
  "nodePoolSpec name (Some (np\<lparr>np_Template := (np_Template np)\<lparr>nct_Annotations := a\<rparr>\<rparr>)) = nodePoolSpec name (Some np)"
  by (simp add: nodePoolSpec_fields)

lemma node_class_fields_dropped:
  "ec2NodeClassSpec (nc\<lparr>ec_CapacityReservationSelectorTerms := cr, ec_AssociatePublicIPAddress := ip, ec_UserData := ud,
      ec_Role := role, ec_Kubelet := kubelet, ec_DetailedMonitoring := dm, ec_Context := ctx\<rparr>) tags family userData =
   ec2NodeClassSpec nc tags family userData"
  by (simp add: ec2NodeClassSpec_def)

section \<open>Tags\<close>

text \<open>Merging maps gives every key of any of them, and the later map decides; in particular the tags of a
  pool's node class override the additional tags of its cluster.\<close>

lemma merged_tags_precedence:
  assumes "distinct (map fst a)" "distinct (map fst b)"
  shows "map_of (mergeMaps [a, b]) = map_of a ++ map_of b \<and>
    (ec_Tags nc = Some b \<longrightarrow> map_of (ke_Tags (ec2NodeClassSpec nc (Some a) family userData)) = map_of a ++ map_of b) \<and>
    distinct (map fst (mergeMaps [a, b]))"
proof -
  have "map_of (mergeMaps [a, b]) = map_of a ++ map_of b"
    using assms by (simp add: mergeMaps_def map_of_gcopy)
  moreover have "distinct (map fst (mergeMaps [a, b]))"
    by (simp add: mergeMaps_def distinct_gcopy)
  ultimately show ?thesis by (simp add: ec2NodeClassSpec_def)
qed

lemma merged_tags_precedence_example:
  "map_of (mergeMaps [[(''team'', ''x'')], [(''team'', ''y'')]]) ''team'' = Some ''y''"
  using merged_tags_precedence [of "[(''team'', ''x'')]" "[(''team'', ''y'')]"] by simp

section \<open>The user data names the object that is uploaded\<close>

text \<open>A name that is one element of a path, as the names of Kubernetes objects are.\<close>

definition pathElement :: "string \<Rightarrow> bool" where
  "pathElement s \<longleftrightarrow> s \<noteq> '''' \<and> s \<noteq> ''.'' \<and> s \<noteq> ''..'' \<and> CHR ''/'' \<notin> set s"

lemma splitOn_one: "c \<notin> set s \<Longrightarrow> splitOn c s = [s]"
  by (induction s) auto

lemma splitOn_sep: "c \<notin> set s \<Longrightarrow> splitOn c (s @ c # t) = s # splitOn c t"
  by (induction s) (auto simp: splitOn_not_Nil split: list.split)

lemma userDataKey_element:
  assumes "pathElement name"
  shows "userDataKey name = S3ObjectPrefix @ ''/'' @ name"
proof -
  have p: "pathElement S3ObjectPrefix"
    by (simp add: pathElement_def S3ObjectPrefix_def)
  have split: "splitOn CHR ''/'' (S3ObjectPrefix @ CHR ''/'' # name) = [S3ObjectPrefix, name]"
    using p assms by (simp add: splitOn_sep splitOn_one pathElement_def)
  have "\<not> hasPrefix (S3ObjectPrefix @ CHR ''/'' # name) ''/''"
    by (simp add: S3ObjectPrefix_def hasPrefix_def)
  then show ?thesis
    using p assms split
    by (simp add: userDataKey_def pathJoin_def pathClean_def pathStep_def pathElement_def Let_def)
qed

lemma sublist_trans [trans]: "sublist x y \<Longrightarrow> sublist y z \<Longrightarrow> sublist x z"
  by (rule sublist_order.order_trans)

lemma sublist_middle: "sublist x y \<Longrightarrow> sublist x (a @ y @ b)"
  by (meson sublist_appendI sublist_trans)

lemma sublist_joinWith: "x \<in> set xs \<Longrightarrow> sublist x (joinWith sep xs)"
proof (induction sep xs rule: joinWith.induct)
  case (3 sep x' y ys)
  then show ?case
    using sublist_middle [of x "joinWith sep (y # ys)" "x' @ sep" "[]"] sublist_append_rightI [of x' "sep @ joinWith sep (y # ys)"]
    by auto
qed auto

lemma sublist_JArr: "j \<in> set js \<Longrightarrow> sublist (jsonMarshal j) (jsonMarshal (JArr js))"
  unfolding jsonMarshal.simps by (intro sublist_middle sublist_joinWith) simp

lemma sublist_JObj:
  assumes "(k, j) \<in> set kvs"
  shows "sublist (jsonMarshal j) (jsonMarshal (JObj kvs))"
proof -
  have "jsonString k @ '':'' @ jsonMarshal j \<in> set (map (\<lambda>(k, v). jsonString k @ '':'' @ v)
      (sort_key fst (map (\<lambda>(k, v). (k, jsonMarshal v)) kvs)))"
    using assms by force
  then have "sublist (jsonString k @ '':'' @ jsonMarshal j) (jsonMarshal (JObj kvs))"
    unfolding jsonMarshal.simps by (intro sublist_middle sublist_joinWith)
  moreover have "sublist (jsonMarshal j) (jsonString k @ '':'' @ jsonMarshal j)"
    using sublist_append_leftI [of "jsonMarshal j" "jsonString k @ '':''"] by simp
  ultimately show ?thesis by (rule sublist_trans [rotated])
qed

text \<open>The user data that the nodes of a pool get is a JSON text that has, as a quoted string, the address
  of the very object in the bucket under which the pool's bootstrap data is uploaded and later deleted.\<close>

lemma user_data_names_object:
  assumes "pathElement name"
  shows "sublist (jsonString (''s3://'' @ bucket @ ''/'' @ userDataKey name)) (generateUserData bucket name)"
proof -
  let ?source = "JStr (userDataSource bucket name)"
  let ?item = "JObj [(''source'', ?source), (''verification'', JObj [])]"
  let ?config = "JObj [(''merge'', JArr [?item]), (''replace'', JObj [(''verification'', JObj [])])]"
  let ?ignition = "JObj [(''config'', ?config), (''proxy'', JObj []), (''security'', JObj [(''tls'', JObj [])]),
      (''timeouts'', JObj []), (''version'', JStr ''3.4.0'')]"
  have "sublist (jsonMarshal ?source) (jsonMarshal ?item)"
    by (rule sublist_JObj [of "''source''"]) simp
  also have "sublist (jsonMarshal ?item) (jsonMarshal (JArr [?item]))"
    by (rule sublist_JArr) simp
  also have "sublist (jsonMarshal (JArr [?item])) (jsonMarshal ?config)"
    by (rule sublist_JObj [of "''merge''"]) simp
  also have "sublist (jsonMarshal ?config) (jsonMarshal ?ignition)"
    by (rule sublist_JObj [of "''config''"]) simp
  also have "sublist (jsonMarshal ?ignition) (generateUserData bucket name)"
    unfolding generateUserData_def userDataJSON_def by (rule sublist_JObj [of "''ignition''"]) simp
  finally show ?thesis
    using userDataKey_element [OF assms] by (simp add: userDataSource_def)
qed

lemma user_data_names_object_example:
  "sublist (jsonString ''s3://bucket/karpenter-machine-pool/pool'') (generateUserData ''bucket'' ''pool'')"
  using user_data_names_object [of "''pool''" "''bucket''"] userDataKey_element [of "''pool''"]
  by (simp add: pathElement_def S3ObjectPrefix_def)

end
