(* ===== verification/Karpenter_Controller.thy ===== *)
theory Karpenter_Controller
  imports Karpenter_Conversions AWS_Clients EC2_Client
begin

text \<open>
  \<^verbatim>\<open>controllers/karpentermachinepool_controller.go\<close>: the reconciliation of a
  \<^verbatim>\<open>KarpenterMachinePool\<close>. The pool is held in the cell \<open>m_KMP\<close>; the patch helper sends what
  differs between the pool as it was read and as it is when \<^verbatim>\<open>Patch\<close> is called, as one request, and
  leaves the held object as it is. A request to the workload cluster is made with the client that the
  connection to the cluster gave; \<^verbatim>\<open>controllerutil.CreateOrUpdate\<close> is one request, with the labels
  for a new object and the spec it shall have.
\<close>

definition KarpenterFinalizer :: string where
  "KarpenterFinalizer = ''capa-operator.finalizers.giantswarm.io/karpenter-controller''"

definition BootstrapDataHashAnnotation :: string where
  "BootstrapDataHashAnnotation = ''giantswarm.io/userdata-hash''"

definition holdKMP :: "KarpenterMachinePool \<Rightarrow> ('w, 'c, unit) go" where
  "holdKMP kmp = modM (\<lambda>s. s\<lparr>m_KMP := kmp\<rparr>)"

definition holdMachinePool :: "MachinePool \<Rightarrow> ('w, 'c, unit) go" where
  "holdMachinePool mp = modM (\<lambda>s. s\<lparr>m_MachinePool := mp\<rparr>)"

definition patchKMP :: "('w, 'c) env \<Rightarrow> KarpenterMachinePool \<Rightarrow> ('w, 'c, unit) go" where
  "patchKMP E before =
     bindM (getM m_KMP) (\<lambda>kmp.
     call (k_done (e_kube E)) (K8sReq (K8sPatchKarpenterMachinePool before kmp)))"

text \<open>The marking of a failure: the condition, and \<^verbatim>\<open>status.ready\<close>.\<close>

definition kmpNotReady :: "('w, 'c) env \<Rightarrow> string \<Rightarrow> ('w, 'c, unit) go" where
  "kmpNotReady E message =
     bindM (MarkKarpenterMachinePoolNotReady E ''NotReady'' message) (\<lambda>_.
     modKMP (kmp_Ready_update (\<lambda>_. False)))"

definition orNotReady ::
  "('w, 'c) env \<Rightarrow> string \<Rightarrow> (go_error \<Rightarrow> go_error) \<Rightarrow> ('w, 'c, 'a) go \<Rightarrow> ('w, 'c, 'a) go" where
  "orNotReady E message wrap m =
     bindM (tryM m) (\<lambda>res.
     case res of
       Inl e \<Rightarrow> bindM (kmpNotReady E (message @ '': '' @ errText e)) (\<lambda>_. errM (wrap e))
     | Inr x \<Rightarrow> retM x)"

section \<open>The workload cluster\<close>

definition connect :: "('w, 'c) env \<Rightarrow> CapiCluster \<Rightarrow> ('w, 'c, unit) go" where
  "connect E cluster = call (k_done (e_kube E)) (WCReq (WCConnect (om_Namespace cluster) (om_Name cluster)))"

definition createOrUpdateEC2NodeClass ::
  "('w, 'c) env \<Rightarrow> gomap option \<Rightarrow> string option \<Rightarrow> string option \<Rightarrow> ('w, 'c, unit) go" where
  "createOrUpdateEC2NodeClass E additionalTags amiFamily userData =
     bindM (getM m_KMP) (\<lambda>kmp.
     case kmp_EC2NodeClass kmp of
       None \<Rightarrow> panicM
     | Some nc \<Rightarrow>
       wrapM (Wrapped ''failed to create or update EC2NodeClass'')
         (call (k_done (e_kube E)) (WCReq (WCApplyEC2NodeClass (om_Name kmp) managedByLabels
           (ec2NodeClassSpec nc additionalTags amiFamily userData)))))"

definition createOrUpdateNodePool :: "('w, 'c) env \<Rightarrow> ('w, 'c, unit) go" where
  "createOrUpdateNodePool E =
     bindM (getM m_KMP) (\<lambda>kmp.
     wrapM (Wrapped ''failed to create or update NodePool'')
       (call (k_done (e_kube E)) (WCReq (WCApplyNodePool (om_Name kmp) managedByLabels
         (nodePoolSpec (om_Name kmp) (kmp_NodePool kmp))))))"

definition createOrUpdateKarpenterResources ::
  "('w, 'c) env \<Rightarrow> CapiCluster \<Rightarrow> gomap option \<Rightarrow> string option \<Rightarrow> string option \<Rightarrow> ('w, 'c, unit) go" where
  "createOrUpdateKarpenterResources E cluster additionalTags amiFamily userData =
     bindM (wrapM (Wrapped ''failed to get workload cluster client'') (connect E cluster)) (\<lambda>_.
     bindM (tryM (createOrUpdateEC2NodeClass E additionalTags amiFamily userData)) (\<lambda>res.
     case res of
       Inl e \<Rightarrow> bindM (MarkEC2NodeClassNotCreated E ''EC2NodeClassCreationFailed'' (errText e)) (\<lambda>_.
         errM (Wrapped ''failed to create or update EC2NodeClass'' e))
     | Inr _ \<Rightarrow>
       bindM (MarkEC2NodeClassCreated E) (\<lambda>_.
       bindM (tryM (createOrUpdateNodePool E)) (\<lambda>res.
       case res of
         Inl e \<Rightarrow> bindM (MarkNodePoolNotCreated E ''NodePoolCreationFailed'' (errText e)) (\<lambda>_.
           errM (Wrapped ''failed to create or update NodePool'' e))
       | Inr _ \<Rightarrow> MarkNodePoolCreated E))))"

text \<open>A deletion that tolerates that the object or its kind does not exist.\<close>

definition wcDelete :: "('w, 'c) env \<Rightarrow> string \<Rightarrow> string \<Rightarrow> ('w, 'c, unit) go" where
  "wcDelete E kind name =
     bindM (tryM (call (k_done (e_kube E)) (WCReq (WCDelete kind name)))) (\<lambda>res.
     case res of
       Inl e \<Rightarrow> if \<not> isNotFound e \<and> \<not> isNoMatch e then errM (Wrapped (''failed to delete '' @ kind) e) else retM ()
     | Inr _ \<Rightarrow> retM ())"

definition deleteKarpenterResources :: "('w, 'c) env \<Rightarrow> CapiCluster \<Rightarrow> ('w, 'c, unit) go" where
  "deleteKarpenterResources E cluster =
     bindM (wrapM (Wrapped ''failed to get workload cluster client'') (connect E cluster)) (\<lambda>_.
     bindM (getM m_KMP) (\<lambda>kmp.
     bindM (wcDelete E ''NodePool'' (om_Name kmp)) (\<lambda>_.
     wcDelete E ''EC2NodeClass'' (om_Name kmp))))"

definition getWorkloadClusterNodeClaims :: "('w, 'c) env \<Rightarrow> CapiCluster \<Rightarrow> string \<Rightarrow> ('w, 'c, json list) go" where
  "getWorkloadClusterNodeClaims E cluster nodePoolName =
     bindM (connect E cluster) (\<lambda>_.
     call (k_NodeClaims (e_kube E)) (WCReq (WCListNodeClaims nodePoolName)))"

fun providerIDs :: "lib \<Rightarrow> json list \<Rightarrow> string list" where
  "providerIDs L [] = []"
| "providerIDs L (nc # items) = (case l_NestedString L nc [''status'', ''providerID''] of
      Inl e \<Rightarrow> providerIDs L items
    | Inr None \<Rightarrow> providerIDs L items
    | Inr (Some providerID) \<Rightarrow>
        if providerID \<noteq> '''' then providerID # providerIDs L items else providerIDs L items)"

text \<open>The conversion \<^verbatim>\<open>int32(n)\<close>.\<close>

definition toInt32 :: "int \<Rightarrow> int" where
  "toInt32 n = signed_take_bit 31 n"

definition computeProviderIDListFromNodeClaimsInWorkloadCluster ::
  "('w, 'c) env \<Rightarrow> CapiCluster \<Rightarrow> string \<Rightarrow> ('w, 'c, string list \<times> int) go" where
  "computeProviderIDListFromNodeClaimsInWorkloadCluster E cluster nodePoolName =
     bindM (getWorkloadClusterNodeClaims E cluster nodePoolName) (\<lambda>items.
     retM (providerIDs (e_lib E) items, toInt32 (int (length items))))"

definition saveKarpenterInstancesToStatus :: "('w, 'c) env \<Rightarrow> CapiCluster \<Rightarrow> ('w, 'c, unit) go" where
  "saveKarpenterInstancesToStatus E cluster =
     bindM (getM m_KMP) (\<lambda>kmp.
     bindM (computeProviderIDListFromNodeClaimsInWorkloadCluster E cluster (om_Name kmp)) (\<lambda>(ids, n).
     bindM (modKMP (\<lambda>k. k\<lparr>kmp_Replicas := n, kmp_ProviderIDList := ids\<rparr>)) (\<lambda>_.
     bindM (getM m_MachinePool) (\<lambda>mp.
     if mp_Replicas mp = None \<or> mp_Replicas mp \<noteq> Some n then
       bindM (holdMachinePool (mp\<lparr>mp_Replicas := Some n\<rparr>)) (\<lambda>_.
       bindM (call (k_MachinePool (e_kube E)) (K8sReq (K8sPatchMachinePool mp (mp\<lparr>mp_Replicas := Some n\<rparr>)))) (\<lambda>mp'.
       holdMachinePool mp'))
     else retM ()))))"

section \<open>Bootstrap data\<close>

definition reconcileMachinePoolBootstrapUserData ::
  "('w, 'c) env \<Rightarrow> Clients \<Rightarrow> string \<Rightarrow> RoleIdentity \<Rightarrow> string \<Rightarrow> string \<Rightarrow> ('w, 'c, unit) go" where
  "reconcileMachinePoolBootstrapUserData E clients dataSecretName roleIdentity region s3BucketName =
     bindM (getM m_KMP) (\<lambda>kmp.
     bindM (tryM (call (k_Secret (e_kube E)) (K8sReq (K8sGet ''Secret'' (om_Namespace kmp) dataSecretName)))) (\<lambda>res.
     case res of
       Inl e \<Rightarrow>
         bindM (if isNotFound e
             then MarkBootstrapDataNotReady E ''BootstrapDataSecretNotFound''
               (''Bootstrap secret '' @ dataSecretName @ '' not found'')
             else MarkBootstrapDataNotReady E ''BootstrapDataUploadFailed''
               (''Failed to get bootstrap secret '' @ dataSecretName @ '': '' @ errText e)) (\<lambda>_.
         errM (Wrapped ''failed to get bootstrap secret in MachinePool.spec.template.spec.bootstrap.dataSecretName'' e))
     | Inr secret \<Rightarrow>
       if \<not> ghas secret ''value'' then
         bindM (MarkBootstrapDataNotReady E ''BootstrapDataSecretInvalid'' ''Bootstrap secret value key is missing'') (\<lambda>_.
         errM (ErrorString ''error retrieving bootstrap data: secret value key is missing''))
       else
        (let bootstrapSecretValue = gget secret ''value'';
             hash = sha256hex bootstrapSecretValue;
             annotations = om_Annotations kmp in
         if \<not> ghas annotations BootstrapDataHashAnnotation \<or> gget annotations BootstrapDataHashAnnotation \<noteq> hash then
           bindM (NewS3Client E clients region (ri_RoleArn roleIdentity)) (\<lambda>s3Client.
           bindM (S3_Put E s3Client s3BucketName (userDataKey (om_Name kmp)) bootstrapSecretValue) (\<lambda>_.
           modKMP (om_Annotations_update (AList.update BootstrapDataHashAnnotation hash))))
         else retM ())))"

section \<open>Deletion\<close>

definition KMP_deletionGate ::
  "('w, 'c) env \<Rightarrow> CapiCluster \<Rightarrow> creds \<Rightarrow> ('w, 'c, string list) go" where
  "KMP_deletionGate E cluster ec2Client =
     bindM (tryM (deleteKarpenterResources E cluster)) (\<lambda>res.
     bindM (case res of
         Inl e \<Rightarrow> if \<not> om_Deleting cluster
           then errM (Wrapped ''failed to delete Karpenter resources in workload cluster'' e) else retM ()
       | Inr _ \<Rightarrow> retM ()) (\<lambda>_.
     bindM (getM m_KMP) (\<lambda>kmp.
     wrapM (Wrapped ''failed to list EC2 instances'') (GetNonTerminatedInstancesByTags E ec2Client
       [(''karpenter.sh/nodepool'', om_Name kmp), (''giantswarm.io/cluster'', om_Name cluster)]))))"

definition KMP_deleteUserData ::
  "('w, 'c) env \<Rightarrow> Clients \<Rightarrow> RoleIdentity \<Rightarrow> string \<Rightarrow> string \<Rightarrow> ('w, 'c, unit) go" where
  "KMP_deleteUserData E clients roleIdentity region s3BucketName =
     (if s3BucketName \<noteq> '''' then
       bindM (wrapM (Wrapped ''failed to create S3 client'') (NewS3Client E clients region (ri_RoleArn roleIdentity))) (\<lambda>s3Client.
       bindM (getM m_KMP) (\<lambda>kmp.
       wrapM (Wrapped ''failed to delete userdata from S3'') (S3_Delete E s3Client s3BucketName (userDataKey (om_Name kmp)))))
      else retM ())"

text \<open>Instances are left: they are terminated with the cluster, or Karpenter terminates them.\<close>

definition KMP_waitForInstances :: "('w, 'c) env \<Rightarrow> CapiCluster \<Rightarrow> creds \<Rightarrow> string list \<Rightarrow> ('w, 'c, Result) go" where
  "KMP_waitForInstances E cluster ec2Client instanceIDs =
     bindM (if om_Deleting cluster
       then wrapM (Wrapped ''failed to terminate EC2 instances'') (TerminateInstances E ec2Client instanceIDs)
       else retM ()) (\<lambda>_.
     retM (requeueAfter 30))"

text \<open>Nothing is left.\<close>

definition KMP_release ::
  "('w, 'c) env \<Rightarrow> Clients \<Rightarrow> RoleIdentity \<Rightarrow> string \<Rightarrow> string \<Rightarrow> ('w, 'c, Result) go" where
  "KMP_release E clients roleIdentity region s3BucketName =
     bindM (KMP_deleteUserData E clients roleIdentity region s3BucketName) (\<lambda>_.
     bindM (modKMP (om_Finalizers_update (\<lambda>fs. l_RemoveFinalizer (e_lib E) fs KarpenterFinalizer))) (\<lambda>_.
     retM noRequeue))"

definition KMP_reconcileDelete ::
  "('w, 'c) env \<Rightarrow> Clients \<Rightarrow> CapiCluster \<Rightarrow> RoleIdentity \<Rightarrow> string \<Rightarrow> string \<Rightarrow> ('w, 'c, Result) go" where
  "KMP_reconcileDelete E clients cluster roleIdentity region s3BucketName =
     bindM (wrapM (Wrapped ''failed to create EC2 client'') (NewEC2Client E clients region (ri_RoleArn roleIdentity))) (\<lambda>ec2Client.
     bindM (KMP_deletionGate E cluster ec2Client) (\<lambda>instanceIDs.
     if length instanceIDs > 0 then KMP_waitForInstances E cluster ec2Client instanceIDs
     else KMP_release E clients roleIdentity region s3BucketName))"

section \<open>Version skew\<close>

definition getControlPlaneVersion :: "('w, 'c) env \<Rightarrow> CapiCluster \<Rightarrow> ('w, 'c, string) go" where
  "getControlPlaneVersion E cluster =
     (case cc_ControlPlaneRef cluster of
        None \<Rightarrow> errM (ErrorString ''cluster has no control plane reference'')
      | Some ref \<Rightarrow>
        bindM (wrapM (Wrapped (''failed to resolve API version of control plane '' @ cpr_Kind ref))
          (call (k_RESTMapping (e_kube E)) (K8sReq (K8sRESTMapping (cpr_Group ref) (cpr_Kind ref))))) (\<lambda>version.
        bindM (wrapM (Wrapped (''failed to get control plane '' @ cpr_Kind ref))
          (call (k_Unstructured (e_kube E)) (K8sReq (K8sGet (cpr_Kind ref) (om_Namespace cluster) (cpr_Name ref))))) (\<lambda>controlPlane.
        case l_NestedString (e_lib E) controlPlane [''status'', ''version''] of
          Inl e \<Rightarrow> errM (Wrapped ''failed to get current k8s version from control plane'' e)
        | Inr None \<Rightarrow> errM (ErrorString ''version not found in control plane spec'')
        | Inr (Some v) \<Rightarrow> retM v)))"

definition IsVersionSkewAllowed ::
  "('w, 'c) env \<Rightarrow> CapiCluster \<Rightarrow> MachinePool \<Rightarrow> ('w, 'c, bool \<times> string \<times> string) go" where
  "IsVersionSkewAllowed E cluster machinePool =
     bindM (wrapM (Wrapped ''failed to get current Control Plane k8s version'') (getControlPlaneVersion E cluster)) (\<lambda>controlPlaneVersion.
     bindM (wrapM (Wrapped ''failed to validate version skew'')
       (liftE (IsSkewAllowed (e_lib E) controlPlaneVersion (mp_Version machinePool)))) (\<lambda>allowed.
     retM (allowed, controlPlaneVersion, mp_Version machinePool)))"

definition KMP_skewBlocked :: "('w, 'c) env \<Rightarrow> string \<Rightarrow> string \<Rightarrow> ('w, 'c, Result) go" where
  "KMP_skewBlocked E controlPlaneCurrentVersion nodePoolDesiredVersion =
     (let message = ''Version skew policy violation: control plane version '' @ controlPlaneCurrentVersion @
            '' is older than node pool version '' @ nodePoolDesiredVersion in
      bindM (MarkVersionSkewInvalid E ''VersionSkewBlocked'' message) (\<lambda>_.
      bindM (MarkEC2NodeClassNotCreated E ''VersionSkewBlocked'' message) (\<lambda>_.
      bindM (MarkNodePoolNotCreated E ''VersionSkewBlocked'' message) (\<lambda>_.
      retM (requeueAfter 60)))))"

section \<open>The two kinds of cluster\<close>

text \<open>What the reconciliation reads of the object describing the cluster.\<close>

record kmp_ctx =
  kx_additionalTags :: "gomap option"
  kx_identityRefName :: string
  kx_region :: string
  kx_s3BucketName :: string
  kx_amiFamily :: "string option"
  kx_userData :: "string option"

definition KMP_eksContext ::
  "('w, 'c) env \<Rightarrow> CapiCluster \<Rightarrow> ('w, 'c, Result + kmp_ctx) go" where
  "KMP_eksContext E cluster =
     (case cc_ControlPlaneRef cluster of None \<Rightarrow> panicM | Some ref \<Rightarrow>
     bindM (orNotReady E ''Failed to get AWSManagedControlPlane''
         (Wrapped ''failed to get AWSManagedControlPlane referenced in Cluster.spec.controlPlaneRef'')
         (GetAWSManagedControlPlane E (om_Namespace cluster) (cpr_Name ref))) (\<lambda>cp.
     if l_IsPaused (e_lib E) cluster (om_Annotations cp) then retM (Inl noRequeue)
     else case mcp_IdentityRef cp of
       None \<Rightarrow> panicM
     | Some identity \<Rightarrow>
       bindM (getM m_KMP) (\<lambda>kmp.
       case kmp_EC2NodeClass kmp of
         None \<Rightarrow> panicM
       | Some nc \<Rightarrow>
         retM (Inr \<lparr>kx_additionalTags = mcp_AdditionalTags cp, kx_identityRefName = identity,
           kx_region = mcp_Region cp, kx_s3BucketName = '''',
           kx_amiFamily = (case ec_AMIFamily nc of None \<Rightarrow> Some (l_AMIFamilyAL2023 (e_lib E)) | Some f \<Rightarrow> Some f),
           kx_userData = None\<rparr>))))"

definition KMP_capaContext ::
  "('w, 'c) env \<Rightarrow> CapiCluster \<Rightarrow> MachinePool \<Rightarrow> ('w, 'c, Result + kmp_ctx) go" where
  "KMP_capaContext E cluster machinePool =
     bindM (orNotReady E ''Failed to get AWSCluster''
         (Wrapped ''failed to get AWSCluster referenced in Cluster.spec.infrastructureRef'')
         (GetAWSCluster E (om_Namespace cluster) (cc_InfrastructureName cluster))) (\<lambda>awsCluster.
     if l_IsPaused (e_lib E) cluster (om_Annotations awsCluster) then retM (Inl noRequeue)
     else case ac_S3Bucket awsCluster of
       None \<Rightarrow>
         bindM (kmpNotReady E ''S3 bucket is required but not configured in AWSCluster.spec.s3Bucket'') (\<lambda>_.
         errM (ErrorString ''a cluster wide object storage configured at `AWSCluster.spec.s3Bucket` is required''))
     | Some s3BucketName \<Rightarrow>
       if mp_DataSecretName machinePool = None then
         bindM (MarkBootstrapDataNotReady E ''BootstrapDataSecretMissingReference''
           ''Bootstrap data secret reference is not yet available in MachinePool'') (\<lambda>_.
         bindM (kmpNotReady E ''Bootstrap data secret reference is not yet available in MachinePool'') (\<lambda>_.
         retM (Inl (requeueAfter 10))))
       else case ac_IdentityRef awsCluster of
         None \<Rightarrow> panicM
       | Some identity \<Rightarrow>
         bindM (getM m_KMP) (\<lambda>kmp.
         retM (Inr \<lparr>kx_additionalTags = ac_AdditionalTags awsCluster, kx_identityRefName = identity,
           kx_region = ac_Region awsCluster, kx_s3BucketName = s3BucketName,
           kx_amiFamily = Some (l_AMIFamilyCustom (e_lib E)),
           kx_userData = Some (generateUserData s3BucketName (om_Name kmp))\<rparr>)))"

section \<open>Reconciliation\<close>

text \<open>From the finalizer to the end: the pool is wanted and its version allowed.\<close>

definition KMP_reconcileNormal ::
  "('w, 'c) env \<Rightarrow> Clients \<Rightarrow> KarpenterMachinePool \<Rightarrow> CapiCluster \<Rightarrow> MachinePool \<Rightarrow> kmp_ctx \<Rightarrow> RoleIdentity \<Rightarrow> ('w, 'c, Result) go" where
  "KMP_reconcileNormal E clients before cluster machinePool ctx roleIdentity =
     bindM (MarkVersionSkewPolicySatisfied E) (\<lambda>_.
     bindM (modKMP (om_Finalizers_update (\<lambda>fs. fst (l_AddFinalizer (e_lib E) fs KarpenterFinalizer)))) (\<lambda>_.
     bindM (wrapM (Wrapped ''failed to patch KarpenterMachinePool'') (patchKMP E before)) (\<lambda>_.
     bindM (orNotReady E ''Failed to create or update Karpenter resources'' (\<lambda>e. e)
       (createOrUpdateKarpenterResources E cluster (kx_additionalTags ctx) (kx_amiFamily ctx) (kx_userData ctx))) (\<lambda>_.
     bindM (if IsEKS cluster then retM ()
       else case mp_DataSecretName machinePool of
         None \<Rightarrow> panicM
       | Some dataSecretName \<Rightarrow>
         bindM (tryM (reconcileMachinePoolBootstrapUserData E clients dataSecretName roleIdentity
           (kx_region ctx) (kx_s3BucketName ctx))) (\<lambda>res.
         case res of
           Inl e \<Rightarrow>
             bindM (MarkBootstrapDataNotReady E ''BootstrapDataUploadFailed''
               (''Failed to reconcile bootstrap data: '' @ errText e)) (\<lambda>_.
             bindM (kmpNotReady E (''Failed to reconcile bootstrap data: '' @ errText e)) (\<lambda>_.
             errM e))
         | Inr _ \<Rightarrow> retM ())) (\<lambda>_.
     bindM (MarkBootstrapDataReady E) (\<lambda>_.
     bindM (orNotReady E ''Failed to save Karpenter instances to status'' (\<lambda>e. e)
       (saveKarpenterInstancesToStatus E cluster)) (\<lambda>_.
     bindM (MarkKarpenterMachinePoolReady E) (\<lambda>_.
     bindM (modKMP (kmp_Ready_update (\<lambda>_. True))) (\<lambda>_.
     retM noRequeue)))))))))"

text \<open>Deletion, a version that is not allowed yet, or the normal case.\<close>

definition KMP_decide ::
  "('w, 'c) env \<Rightarrow> Clients \<Rightarrow> KarpenterMachinePool \<Rightarrow> MachinePool \<Rightarrow> CapiCluster \<Rightarrow> kmp_ctx \<Rightarrow> RoleIdentity \<Rightarrow> ('w, 'c, Result) go" where
  "KMP_decide E clients before machinePool cluster ctx roleIdentity =
     bindM (getM m_KMP) (\<lambda>kmp.
     if om_Deleting kmp
     then KMP_reconcileDelete E clients cluster roleIdentity (kx_region ctx) (kx_s3BucketName ctx)
     else
       bindM (IsVersionSkewAllowed E cluster machinePool) (\<lambda>(allowed, controlPlaneCurrentVersion, nodePoolDesiredVersion).
       if \<not> allowed then KMP_skewBlocked E controlPlaneCurrentVersion nodePoolDesiredVersion
       else KMP_reconcileNormal E clients before cluster machinePool ctx roleIdentity))"

definition KMP_roleIdentity :: "('w, 'c) env \<Rightarrow> kmp_ctx \<Rightarrow> ('w, 'c, RoleIdentity) go" where
  "KMP_roleIdentity E ctx =
     orNotReady E ''Failed to get AWSClusterRoleIdentity''
       (Wrapped ''failed to get AWSClusterRoleIdentity referenced in AWSCluster'')
       (call (k_RoleIdentity (e_kube E)) (K8sReq (K8sGet ''AWSClusterRoleIdentity'' '''' (kx_identityRefName ctx))))"

definition KMP_reconcileCluster ::
  "('w, 'c) env \<Rightarrow> Clients \<Rightarrow> KarpenterMachinePool \<Rightarrow> MachinePool \<Rightarrow> CapiCluster \<Rightarrow> ('w, 'c, Result) go" where
  "KMP_reconcileCluster E clients before machinePool cluster =
     bindM (getM m_KMP) (\<lambda>kmp.
     if l_IsPaused (e_lib E) cluster (om_Annotations kmp) then retM noRequeue
     else
       bindM (if IsEKS cluster then KMP_eksContext E cluster else KMP_capaContext E cluster machinePool) (\<lambda>early.
       case early of
         Inl result \<Rightarrow> retM result
       | Inr ctx \<Rightarrow> bindM (KMP_roleIdentity E ctx) (KMP_decide E clients before machinePool cluster ctx)))"

definition KMP_owner :: "('w, 'c) env \<Rightarrow> KarpenterMachinePool \<Rightarrow> ('w, 'c, MachinePool option) go" where
  "KMP_owner E kmp =
     orNotReady E ''Failed to get MachinePool owning the KarpenterMachinePool''
       (Wrapped ''failed to get MachinePool owning the KarpenterMachinePool'')
       (call (k_OwnerMachinePool (e_kube E)) (K8sReq (K8sOwnerMachinePool (om_Namespace kmp) (om_Name kmp))))"

definition KMP_clusterOf :: "('w, 'c) env \<Rightarrow> MachinePool \<Rightarrow> ('w, 'c, CapiCluster) go" where
  "KMP_clusterOf E machinePool =
     bindM (holdMachinePool machinePool) (\<lambda>_.
     orNotReady E ''Failed to get Cluster owning the MachinePool''
       (Wrapped ''failed to get Cluster owning the MachinePool that owns the KarpenterMachinePool'')
       (call (k_Cluster (e_kube E)) (K8sReq (K8sClusterOfMetadata (om_Namespace machinePool) (om_Name machinePool)))))"

definition KMP_body :: "('w, 'c) env \<Rightarrow> Clients \<Rightarrow> KarpenterMachinePool \<Rightarrow> ('w, 'c, Result) go" where
  "KMP_body E clients before =
     bindM (KMP_owner E before) (\<lambda>owner.
     case owner of
       None \<Rightarrow> retM noRequeue
     | Some machinePool \<Rightarrow>
       bindM (KMP_clusterOf E machinePool) (KMP_reconcileCluster E clients before machinePool))"

definition KMP_Reconcile :: "('w, 'c) env \<Rightarrow> Clients \<Rightarrow> string \<Rightarrow> string \<Rightarrow> ('w, 'c, Result) go" where
  "KMP_Reconcile E clients ns name =
     bindM (tryM (call (k_KMP (e_kube E)) (K8sReq (K8sGet ''KarpenterMachinePool'' ns name)))) (\<lambda>got.
     case got of
       Inl e \<Rightarrow> ignoreNotFound e
     | Inr kmp \<Rightarrow>
       bindM (holdKMP kmp) (\<lambda>_.
       bindM (wrapM (Wrapped ''failed to init patch helper'') (liftE (l_NewPatchHelper (e_lib E) kmp))) (\<lambda>_.
       deferM (KMP_body E clients kmp) (patchKMP E kmp))))"

section \<open>What the parts of a reconciliation keep\<close>

text \<open>
  \<open>poolKept\<close>: the pool held is still the same one, and it has not lost its finalizer; the
  trace has only grown. All parts of a reconciliation keep that, but one.
\<close>

definition poolKept :: "('w, 'c) sys \<Rightarrow> ('w, 'c) sys \<Rightarrow> bool" where
  "poolKept s t \<longleftrightarrow> om_Name (m_KMP t) = om_Name (m_KMP s) \<and> om_Deleting (m_KMP t) = om_Deleting (m_KMP s) \<and>
     (KarpenterFinalizer \<in> set (om_Finalizers (m_KMP s)) \<longrightarrow> KarpenterFinalizer \<in> set (om_Finalizers (m_KMP t))) \<and>
     prefix (trace s) (trace t)"

text \<open>\<open>unreadyKept\<close>: a pool that was not ready is still not ready.\<close>

definition unreadyKept :: "('w, 'c) sys \<Rightarrow> ('w, 'c) sys \<Rightarrow> bool" where
  "unreadyKept s t \<longleftrightarrow> \<not> kmp_Ready (m_KMP s) \<longrightarrow> \<not> kmp_Ready (m_KMP t)"

text \<open>\<open>poolSame\<close>: code that does not have the pool cannot change it.\<close>

definition poolSame :: "('w, 'c) sys \<Rightarrow> ('w, 'c) sys \<Rightarrow> bool" where
  "poolSame s t \<longleftrightarrow> m_KMP t = m_KMP s \<and> prefix (trace s) (trace t)"

text \<open>If a sequence breaks a relation that its first part keeps, the second part was reached and breaks it.\<close>

context run_relation
begin

lemma escape:
  assumes "within R m" "\<not> R s (snd (bindM m f s))"
  obtains x u where "m s = (Ok x, u)" "R s u" "\<not> R u (snd (f x u))" "snd (bindM m f s) = snd (f x u)"
proof -
  obtain r t where run: "bindM m f s = (r, t)" by (cases "bindM m f s")
  then show thesis
  proof (cases rule: bindM_cases)
    case (Ok x u)
    with assms run trans that show thesis by (metis withinD snd_conv)
  qed (use assms run withinD in fastforce)+
qed

end

interpretation poolKept: run_relation poolKept
  by unfold_locales (auto simp: poolKept_def)

interpretation unreadyKept: run_relation unreadyKept
  by unfold_locales (auto simp: unreadyKept_def)

interpretation poolSame: run_relation poolSame
  by unfold_locales (auto simp: poolSame_def)

named_theorems pool_rules \<open>rules for the relations above\<close>

lemmas [pool_rules] = poolKept.rules unreadyKept.rules poolSame.rules within_if within_case_option within_case_sum
  within_case_list within_case_prod within_Let within_tryM within_wrapM

lemma poolSame_kept: "within poolSame m \<Longrightarrow> within poolKept m" "within poolSame m \<Longrightarrow> within unreadyKept m"
  by (erule within_mono; simp add: poolSame_def poolKept_def unreadyKept_def)+

lemma poolSame_call [pool_rules]: "within poolSame (call ans r)"
  by (rule withinI) (auto simp: poolSame_def call_def split: prod.split sum.split)

lemmas kept_call [pool_rules] = poolSame_call [THEN poolSame_kept(1)] poolSame_call [THEN poolSame_kept(2)]

lemma poolSame_clients [pool_rules]:
  "within poolSame (NewEC2Client E c region arn)" "within poolSame (NewS3Client E c region arn)"
proof -
  have load: "within poolSame (LoadDefaultConfig E co)" for co
    by (rule withinI) (auto simp: poolSame_def LoadDefaultConfig_def split: prod.split sum.split)
  have store: "within poolSame (configCacheStore k cf)" for k cf
    by (rule withinI) (simp add: poolSame_def configCacheStore_def)
  show "within poolSame (NewEC2Client E c region arn)" "within poolSame (NewS3Client E c region arn)"
    unfolding NewEC2Client_def newEC2Client_def NewS3Client_def newS3Client_def configFromRegion_def configCacheLoad_def
    by (intro pool_rules load store)+
qed

lemma poolSame_instancePages: "within poolSame (instancePages E a filters page fuel ids)"
proof (induction fuel arbitrary: page ids)
  case 0
  show ?case unfolding instancePages.simps by (intro pool_rules)
next
  case (Suc fuel)
  show ?case unfolding instancePages.simps by (intro pool_rules Suc)
qed

lemma poolSame_aws [pool_rules]:
  "within poolSame (GetNonTerminatedInstancesByTags E a tags)" "within poolSame (TerminateInstances E a ids)"
  "within poolSame (S3_Put E a b k d)" "within poolSame (S3_Delete E a b k)"
  unfolding GetNonTerminatedInstancesByTags_def TerminateInstances_def S3_Put_def S3_Delete_def
  by (intro pool_rules poolSame_instancePages)+

lemma poolSame_hold [pool_rules]: "within poolSame (holdMachinePool mp)"
  by (simp add: within_def holdMachinePool_def poolSame_def)

lemma poolSame_k8s [pool_rules]:
  "within poolSame (GetAWSCluster E ns n)" "within poolSame (GetAWSManagedControlPlane E ns n)"
  "within poolSame (connect E cluster)" "within poolSame (patchKMP E b)"
  "within poolSame (getWorkloadClusterNodeClaims E cluster n)" "within poolSame (wcDelete E kind n)"
  "within poolSame (deleteKarpenterResources E cluster)" "within poolSame (getControlPlaneVersion E cluster)"
  "within poolSame (createOrUpdateEC2NodeClass E at af ud)" "within poolSame (createOrUpdateNodePool E)"
  unfolding GetAWSCluster_def GetAWSManagedControlPlane_def connect_def patchKMP_def
    getWorkloadClusterNodeClaims_def wcDelete_def deleteKarpenterResources_def getControlPlaneVersion_def
    createOrUpdateEC2NodeClass_def createOrUpdateNodePool_def
  by (intro pool_rules)+

lemma poolSame_more [pool_rules]:
  "within poolSame (computeProviderIDListFromNodeClaimsInWorkloadCluster E cluster n)"
  "within poolSame (IsVersionSkewAllowed E cluster mp)" "within poolSame (KMP_deletionGate E cluster ec2)"
  "within poolSame (KMP_deleteUserData E clients identity region bucket)"
  unfolding computeProviderIDListFromNodeClaimsInWorkloadCluster_def IsVersionSkewAllowed_def
    KMP_deletionGate_def KMP_deleteUserData_def
  by (intro pool_rules)+

lemmas poolSame_parts = poolSame_clients poolSame_aws poolSame_hold poolSame_k8s poolSame_more

lemmas kept_parts [pool_rules] = poolSame_parts [THEN poolSame_kept(1)] poolSame_parts [THEN poolSame_kept(2)]

lemma kept_modKMP:
  "(\<And>k. om_Name (f k) = om_Name k \<and> om_Deleting (f k) = om_Deleting k \<and>
     (KarpenterFinalizer \<in> set (om_Finalizers k) \<longrightarrow> KarpenterFinalizer \<in> set (om_Finalizers (f k)))) \<Longrightarrow>
   within poolKept (modKMP f)"
  "(\<And>k. \<not> kmp_Ready k \<longrightarrow> \<not> kmp_Ready (f k)) \<Longrightarrow> within unreadyKept (modKMP f)"
  by (auto simp: within_def modKMP_def poolKept_def unreadyKept_def)

lemma poolKept_marks [pool_rules]:
  "within poolKept (MarkNodePoolCreated E)" "within poolKept (MarkNodePoolNotCreated E r m)"
  "within poolKept (MarkEC2NodeClassCreated E)" "within poolKept (MarkEC2NodeClassNotCreated E r m)"
  "within poolKept (MarkBootstrapDataReady E)" "within poolKept (MarkBootstrapDataNotReady E r m)"
  "within poolKept (MarkVersionSkewPolicySatisfied E)" "within poolKept (MarkVersionSkewInvalid E r m)"
  "within poolKept (MarkKarpenterMachinePoolReady E)" "within poolKept (MarkKarpenterMachinePoolNotReady E r m)"
  unfolding mark_defs by (rule kept_modKMP, simp)+

lemma unreadyKept_marks [pool_rules]:
  "within unreadyKept (MarkNodePoolCreated E)" "within unreadyKept (MarkNodePoolNotCreated E r m)"
  "within unreadyKept (MarkEC2NodeClassCreated E)" "within unreadyKept (MarkEC2NodeClassNotCreated E r m)"
  "within unreadyKept (MarkBootstrapDataReady E)" "within unreadyKept (MarkBootstrapDataNotReady E r m)"
  "within unreadyKept (MarkVersionSkewPolicySatisfied E)" "within unreadyKept (MarkVersionSkewInvalid E r m)"
  "within unreadyKept (MarkKarpenterMachinePoolReady E)" "within unreadyKept (MarkKarpenterMachinePoolNotReady E r m)"
  unfolding mark_defs by (rule kept_modKMP, simp)+

lemma kept_kmpNotReady [pool_rules]:
  "within poolKept (kmpNotReady E msg)" "within unreadyKept (kmpNotReady E msg)"
  unfolding kmpNotReady_def by (intro pool_rules kept_modKMP; simp)+

lemma kept_orNotReady [pool_rules]:
  "within poolKept m \<Longrightarrow> within poolKept (orNotReady E msg w m)"
  "within unreadyKept m \<Longrightarrow> within unreadyKept (orNotReady E msg w m)"
  unfolding orNotReady_def by (intro pool_rules; assumption)+

lemma kept_writers [pool_rules]:
  "within poolKept (createOrUpdateKarpenterResources E cluster at af ud)"
  "within unreadyKept (createOrUpdateKarpenterResources E cluster at af ud)"
  "within poolKept (saveKarpenterInstancesToStatus E cluster)"
  "within unreadyKept (saveKarpenterInstancesToStatus E cluster)"
  "within poolKept (reconcileMachinePoolBootstrapUserData E clients n identity region bucket)"
  "within unreadyKept (reconcileMachinePoolBootstrapUserData E clients n identity region bucket)"
  unfolding createOrUpdateKarpenterResources_def saveKarpenterInstancesToStatus_def
    reconcileMachinePoolBootstrapUserData_def
  by (intro pool_rules kept_modKMP; simp)+

lemma kept_contexts [pool_rules]:
  "within poolKept (KMP_eksContext E cluster)" "within unreadyKept (KMP_eksContext E cluster)"
  "within poolKept (KMP_capaContext E cluster mp)" "within unreadyKept (KMP_capaContext E cluster mp)"
  "within poolKept (KMP_skewBlocked E v w)" "within unreadyKept (KMP_skewBlocked E v w)"
  unfolding KMP_eksContext_def KMP_capaContext_def KMP_skewBlocked_def by (intro pool_rules)+

lemma poolKept_normal [pool_rules]:
  assumes "finalizer_laws (e_lib E)"
  shows "within poolKept (KMP_reconcileNormal E clients before cluster mp ctx identity)"
  unfolding KMP_reconcileNormal_def
  by (intro pool_rules kept_modKMP; use assms in \<open>simp add: finalizer_laws_def\<close>)

lemma unreadyKept_delete [pool_rules]:
  "within unreadyKept (KMP_reconcileDelete E clients cluster identity region bucket)"
  unfolding KMP_reconcileDelete_def KMP_waitForInstances_def KMP_release_def by (intro pool_rules kept_modKMP; simp)

section \<open>Requests sent\<close>

text \<open>Reads of the management cluster; requests to the workload cluster, and those that make resources there.\<close>

definition lookEvent :: "event \<Rightarrow> bool" where
  "lookEvent e = (case ev_req e of
      K8sReq x \<Rightarrow> (case x of K8sGet _ _ _ \<Rightarrow> True | K8sOwnerMachinePool _ _ \<Rightarrow> True
        | K8sClusterOfMetadata _ _ \<Rightarrow> True | K8sRESTMapping _ _ \<Rightarrow> True | _ \<Rightarrow> False)
    | _ \<Rightarrow> False)"

definition applyEvent :: "event \<Rightarrow> bool" where
  "applyEvent e = (case ev_req e of
      WCReq x \<Rightarrow> (case x of WCApplyEC2NodeClass _ _ _ \<Rightarrow> True | WCApplyNodePool _ _ _ \<Rightarrow> True | _ \<Rightarrow> False)
    | _ \<Rightarrow> False)"

definition wcEvent :: "event \<Rightarrow> bool" where
  "wcEvent e \<longleftrightarrow> (\<exists>x. ev_req e = WCReq x)"

definition terminateEvent :: "event \<Rightarrow> bool" where
  "terminateEvent e \<longleftrightarrow> (\<exists>c ids. ev_req e = AWSReq c (EC2Op (EC2_TerminateInstances ids)))"

lemmas event_defs = lookEvent_def applyEvent_def wcEvent_def terminateEvent_def removesFinalizer_def byClient_def

lemma emits_kmpNotReady [emits_rules]: "emits P (kmpNotReady E msg)"
  unfolding kmpNotReady_def by (intro emits_rules)

lemma emits_orNotReady [emits_rules]: "emits P m \<Longrightarrow> emits P (orNotReady E msg w m)"
  unfolding orNotReady_def by (intro emits_rules)

lemma emits_holdPool [emits_rules]: "emits P (holdKMP k)" "emits P (holdMachinePool mp)"
  unfolding holdKMP_def holdMachinePool_def by (rule emits_modM, simp)+

lemma emits_look [emits_rules]:
  "emits lookEvent (GetAWSCluster E ns n)" "emits lookEvent (GetAWSManagedControlPlane E ns n)"
  "emits lookEvent (getControlPlaneVersion E cluster)"
  unfolding GetAWSCluster_def GetAWSManagedControlPlane_def getControlPlaneVersion_def
  by (intro emits_rules emits_call; simp add: lookEvent_def)+

lemma emits_contexts [emits_rules]:
  "emits lookEvent (KMP_eksContext E cluster)" "emits lookEvent (KMP_capaContext E cluster mp)"
  "emits lookEvent (IsVersionSkewAllowed E cluster mp)" "emits lookEvent (KMP_skewBlocked E v w)"
  unfolding KMP_eksContext_def KMP_capaContext_def IsVersionSkewAllowed_def KMP_skewBlocked_def
  by (intro emits_rules)+

lemma emits_connect [emits_rules]: "emits (\<lambda>e. wcEvent e \<and> \<not> applyEvent e) (connect E cluster)"
  unfolding connect_def by (rule emits_call) (simp add: event_defs)

lemma emits_wc [emits_rules]:
  "emits (\<lambda>e. wcEvent e \<and> \<not> applyEvent e) (deleteKarpenterResources E cluster)"
  "emits (\<lambda>e. wcEvent e \<and> \<not> applyEvent e) (computeProviderIDListFromNodeClaimsInWorkloadCluster E cluster n)"
  unfolding deleteKarpenterResources_def wcDelete_def computeProviderIDListFromNodeClaimsInWorkloadCluster_def
    getWorkloadClusterNodeClaims_def
  by (intro emits_rules emits_call; simp add: event_defs)+

lemma emits_resources [emits_rules]:
  "emits wcEvent (createOrUpdateKarpenterResources E cluster at af ud)"
  unfolding createOrUpdateKarpenterResources_def createOrUpdateEC2NodeClass_def createOrUpdateNodePool_def
  by (intro emits_rules emits_call emits_mono [OF emits_connect]; simp add: wcEvent_def)

text \<open>The other parts send what a predicate allows that holds for their kinds of request.\<close>

lemma emits_deletionGate:
  assumes "\<And>e. wcEvent e \<Longrightarrow> \<not> applyEvent e \<Longrightarrow> P e" "\<And>e. byClient ec2 (\<lambda>x. \<not> aws_mutates x) e \<Longrightarrow> P e"
  shows "emits P (KMP_deletionGate E cluster ec2)"
  unfolding KMP_deletionGate_def
  by (intro emits_rules; rule emits_mono [OF emits_wc(1)] emits_mono [OF emits_instances(1)]; simp add: assms)

lemma emits_deleteUserData:
  assumes "\<And>c b k err. P (Event (AWSReq c (S3Op (S3_DeleteObject b k))) err)"
  shows "emits P (KMP_deleteUserData E clients identity region bucket)"
  unfolding KMP_deleteUserData_def S3_Delete_def
  by (intro emits_rules emits_call s3Clients.new_quiet assms)

lemma emits_bootstrap:
  assumes "\<And>e. lookEvent e \<Longrightarrow> P e" "\<And>c b k d err. P (Event (AWSReq c (S3Op (S3_PutObject b k d))) err)"
  shows "emits P (reconcileMachinePoolBootstrapUserData E clients n identity region bucket)"
  unfolding reconcileMachinePoolBootstrapUserData_def S3_Put_def
  by (intro emits_rules emits_call s3Clients.new_quiet assms) (simp add: lookEvent_def)

lemma emits_save:
  assumes "\<And>e. wcEvent e \<Longrightarrow> \<not> applyEvent e \<Longrightarrow> P e" "\<And>a b err. P (Event (K8sReq (K8sPatchMachinePool a b)) err)"
  shows "emits P (saveKarpenterInstancesToStatus E cluster)"
  unfolding saveKarpenterInstancesToStatus_def
  by (intro emits_rules emits_call assms emits_mono [OF emits_wc(2)]) (simp_all add: assms)

section \<open>The finalizer is removed when nothing is left\<close>

text \<open>
  From the state \<open>s\<close> to the state \<open>t\<close>, with the credentials given: the Karpenter resources were deleted as far as
  possible, the instances of the pool and its cluster were listed with nothing found and then, if there is a bucket, the
  user data of the pool was deleted from it, unless the bucket itself was gone; nothing was sent after that.
\<close>

definition instancesGone ::
  "('w, 'c) env \<Rightarrow> Clients \<Rightarrow> string \<Rightarrow> CapiCluster \<Rightarrow> RoleIdentity \<Rightarrow> string \<Rightarrow> string \<Rightarrow> ('w, 'c) sys \<Rightarrow> ('w, 'c) sys \<Rightarrow> bool" where
  "instancesGone E clients pool cluster identity region bucket s t \<longleftrightarrow> (\<exists>ec2 s1 res u v.
     NewEC2Client E clients region (ri_RoleArn identity) s = (Ok ec2, s1) \<and>
     tryM (deleteKarpenterResources E cluster) s1 = (Ok res, u) \<and>
     GetNonTerminatedInstancesByTags E ec2
       [(''karpenter.sh/nodepool'', pool), (''giantswarm.io/cluster'', om_Name cluster)] u = (Ok [], v) \<and>
     (if bucket = '''' then trace t = trace v
      else \<exists>s3 err. fst (NewS3Client E clients region (ri_RoleArn identity) v) = Ok s3 \<and>
        trace t = trace v @ [Event (AWSReq s3 (S3Op (S3_DeleteObject bucket (userDataKey pool)))) err] \<and>
        (case err of None \<Rightarrow> True | Some x \<Rightarrow> smithyCode x = Some ''NoSuchBucket'')))"

text \<open>The same for a pool, with the owner, the cluster, the bucket, the region and the role that the API server gives for it:
  the bucket is the one of the AWSCluster, and an EKS cluster has none.\<close>

definition clusterDrained ::
  "('w, 'c) env \<Rightarrow> Clients \<Rightarrow> string \<Rightarrow> MachinePool \<Rightarrow> CapiCluster \<Rightarrow> ('w, 'c) sys \<Rightarrow> ('w, 'c) sys \<Rightarrow> bool" where
  "clusterDrained E clients pool mp cluster s t \<longleftrightarrow> (\<exists>ctx identity u v.
     (if IsEKS cluster then KMP_eksContext E cluster else KMP_capaContext E cluster mp) s = (Ok (Inr ctx), u) \<and>
     (if IsEKS cluster then kx_s3BucketName ctx = ''''
      else \<exists>aws. GetAWSCluster E (om_Namespace cluster) (cc_InfrastructureName cluster) s = (Ok aws, u) \<and>
        ac_S3Bucket aws = Some (kx_s3BucketName ctx) \<and> ac_Region aws = kx_region ctx) \<and>
     KMP_roleIdentity E ctx u = (Ok identity, v) \<and>
     instancesGone E clients pool cluster identity (kx_region ctx) (kx_s3BucketName ctx) v t)"

definition drained :: "('w, 'c) env \<Rightarrow> Clients \<Rightarrow> KarpenterMachinePool \<Rightarrow> ('w, 'c) sys \<Rightarrow> ('w, 'c) sys \<Rightarrow> bool" where
  "drained E clients kmp s t \<longleftrightarrow> (\<exists>mp cluster u v.
     KMP_owner E kmp s = (Ok (Some mp), u) \<and> KMP_clusterOf E mp u = (Ok cluster, v) \<and>
     clusterDrained E clients (om_Name kmp) mp cluster v t)"

lemma wrapM_Ok: "wrapM f m s = (Ok x, t) \<Longrightarrow> m s = (Ok x, t)"
  by (auto simp: wrapM_def split: prod.splits outcome.splits)

lemma poolSameD: "within poolSame m \<Longrightarrow> m s = (r, t) \<Longrightarrow> m_KMP t = m_KMP s \<and> prefix (trace s) (trace t)"
  using withinD [of poolSame m s r t] by (simp add: poolSame_def)

lemma deletionGate_Ok:
  assumes "KMP_deletionGate E cluster ec2 s = (Ok ids, v)"
  shows "\<exists>res u. tryM (deleteKarpenterResources E cluster) s = (Ok res, u) \<and> GetNonTerminatedInstancesByTags E ec2
     [(''karpenter.sh/nodepool'', om_Name (m_KMP s)), (''giantswarm.io/cluster'', om_Name cluster)] u = (Ok ids, v) \<and>
     prefix (trace s) (trace u)"
proof -
  let ?m = "\<lambda>res. case res of Inl e \<Rightarrow> if \<not> om_Deleting cluster
      then errM (Wrapped ''failed to delete Karpenter resources in workload cluster'' e) else retM ()
    | Inr _ \<Rightarrow> retM ()"
  have wc: "within poolSame (tryM (deleteKarpenterResources E cluster))"
    by (intro pool_rules)
  from assms obtain res s1 where 1: "tryM (deleteKarpenterResources E cluster) s = (Ok res, s1)"
      and "bindM (?m res) (\<lambda>_. bindM (getM m_KMP) (\<lambda>kmp. wrapM (Wrapped ''failed to list EC2 instances'')
        (GetNonTerminatedInstancesByTags E ec2 [(''karpenter.sh/nodepool'', om_Name kmp),
          (''giantswarm.io/cluster'', om_Name cluster)]))) s1 = (Ok ids, v)"
    unfolding KMP_deletionGate_def by (rule bindM_OkE)
  then obtain x u where 2: "?m res s1 = (Ok x, u)"
      and 3: "GetNonTerminatedInstancesByTags E ec2 [(''karpenter.sh/nodepool'', om_Name (m_KMP u)),
          (''giantswarm.io/cluster'', om_Name cluster)] u = (Ok ids, v)"
    by (auto elim!: bindM_OkE dest!: wrapM_Ok)
  have "u = s1" using 2 by (auto split: sum.splits if_splits)
  with poolSameD [OF wc 1] 1 3 show ?thesis by auto
qed

lemma deleteUserData_Ok:
  fixes v :: "('w, 'c) sys"
  assumes "KMP_deleteUserData E clients identity region bucket v = (Ok (), w)"
  shows "if bucket = '''' then w = v
    else \<exists>s3 err. fst (NewS3Client E clients region (ri_RoleArn identity) v) = Ok s3 \<and>
      trace w = trace v @ [Event (AWSReq s3 (S3Op (S3_DeleteObject bucket (userDataKey (om_Name (m_KMP v)))))) err] \<and>
      (case err of None \<Rightarrow> True | Some x \<Rightarrow> smithyCode x = Some ''NoSuchBucket'')"
proof (cases "bucket = ''''")
  case False
  with assms obtain s3 u where s3: "NewS3Client E clients region (ri_RoleArn identity) v = (Ok s3, u)"
    and del: "S3_Delete E s3 bucket (userDataKey (om_Name (m_KMP u))) u = (Ok (), w)"
    unfolding KMP_deleteUserData_def by (auto elim!: bindM_OkE dest!: wrapM_Ok)
  have u: "m_KMP u = m_KMP v" using poolSameD [OF poolSame_clients(2) s3] by simp
  have "trace u = trace v" using withinD [OF s3Clients.new_quiet [where P = "\<lambda>_. False"] s3] by (auto simp: appends_def list_all_iff)
  with False s3 del u show ?thesis
    by (auto simp: S3_Delete_def bindM_def tryM_def call_def split: prod.splits sum.splits if_splits)
qed (use assms in \<open>simp add: KMP_deleteUserData_def\<close>)

lemma release_drained:
  assumes "\<not> poolKept v (snd (KMP_release E clients identity region bucket v))"
  obtains w where "KMP_deleteUserData E clients identity region bucket v = (Ok (), w)"
    "trace (snd (KMP_release E clients identity region bucket v)) = trace w"
proof -
  have userData: "within poolKept (KMP_deleteUserData E clients identity region bucket)"
    by (intro pool_rules)
  show thesis
    using assms unfolding KMP_release_def
    by - (erule poolKept.escape [OF userData], rule that, auto simp: KMP_release_def modKMP_def bindM_run)
qed

lemma poolKept_wait [pool_rules]: "within poolKept (KMP_waitForInstances E cluster ec2 ids)"
  unfolding KMP_waitForInstances_def by (intro pool_rules)

lemma poolSame_wait: "within poolSame (KMP_waitForInstances E cluster ec2 ids)"
  unfolding KMP_waitForInstances_def by (intro pool_rules)

lemma wait_requeues: "fst (KMP_waitForInstances E cluster ec2 ids s) \<noteq> Ok noRequeue"
  by (auto simp: KMP_waitForInstances_def bindM_def noRequeue_def requeueAfter_def split: prod.split outcome.split)

lemma reconcileDelete_drained:
  assumes "\<not> poolKept s (snd (KMP_reconcileDelete E clients cluster identity region bucket s))"
  shows "instancesGone E clients (om_Name (m_KMP s)) cluster identity region bucket s
    (snd (KMP_reconcileDelete E clients cluster identity region bucket s))"
proof -
  let ?t = "snd (KMP_reconcileDelete E clients cluster identity region bucket s)"
  let ?new = "wrapM (Wrapped ''failed to create EC2 client'') (NewEC2Client E clients region (ri_RoleArn identity))"
  let ?rest = "\<lambda>ec2 ids. if length ids > 0 then KMP_waitForInstances E cluster ec2 ids
     else KMP_release E clients identity region bucket"
  have client: "within poolKept ?new" and gate: "within poolKept (KMP_deletionGate E cluster ec2)" for ec2
    by (intro pool_rules)+
  obtain ec2 s1 where 1: "?new s = (Ok ec2, s1)" "poolKept s s1" "?t = snd (bindM (KMP_deletionGate E cluster ec2) (?rest ec2) s1)"
      "\<not> poolKept s1 (snd (bindM (KMP_deletionGate E cluster ec2) (?rest ec2) s1))"
    using assms unfolding KMP_reconcileDelete_def by - (erule poolKept.escape [OF client], blast)
  obtain ids v where 2: "KMP_deletionGate E cluster ec2 s1 = (Ok ids, v)" "poolKept s1 v" "?t = snd (?rest ec2 ids v)"
      "\<not> poolKept v (snd (?rest ec2 ids v))"
    using 1(3,4) by - (erule poolKept.escape [OF gate], simp only: simp_thms)
  then have none: "ids = []"
    using poolKept_wait [of E cluster ec2 ids] by (auto simp: within_def split: if_splits)
  with 2(4) have "\<not> poolKept v (snd (KMP_release E clients identity region bucket v))" by simp
  then obtain w where w: "KMP_deleteUserData E clients identity region bucket v = (Ok (), w)"
      "trace (snd (KMP_release E clients identity region bucket v)) = trace w"
    by (rule release_drained)
  have name: "om_Name (m_KMP s1) = om_Name (m_KMP s)" "om_Name (m_KMP v) = om_Name (m_KMP s)"
    using 1(2) 2(2) by (simp_all add: poolKept_def)
  have t: "trace ?t = trace w" using 2(3) none w(2) by simp
  from deletionGate_Ok [OF 2(1)] obtain res u where u: "tryM (deleteKarpenterResources E cluster) s1 = (Ok res, u)"
    "GetNonTerminatedInstancesByTags E ec2 [(''karpenter.sh/nodepool'', om_Name (m_KMP s)), (''giantswarm.io/cluster'', om_Name cluster)] u = (Ok [], v)"
    unfolding name none by blast
  have "if bucket = '''' then trace ?t = trace v
      else \<exists>s3 err. fst (NewS3Client E clients region (ri_RoleArn identity) v) = Ok s3 \<and>
        trace ?t = trace v @ [Event (AWSReq s3 (S3Op (S3_DeleteObject bucket (userDataKey (om_Name (m_KMP s)))))) err] \<and>
        (case err of None \<Rightarrow> True | Some x \<Rightarrow> smithyCode x = Some ''NoSuchBucket'')"
    using deleteUserData_Ok [OF w(1)] unfolding t name by (simp split: if_splits)
  with wrapM_Ok [OF 1(1)] u show ?thesis
    unfolding instancesGone_def by blast
qed

lemma kept_lookups [pool_rules]:
  "within poolKept (KMP_owner E kmp)" "within unreadyKept (KMP_owner E kmp)"
  "within poolKept (KMP_clusterOf E mp)" "within unreadyKept (KMP_clusterOf E mp)"
  "within poolKept (KMP_roleIdentity E ctx)" "within unreadyKept (KMP_roleIdentity E ctx)"
  unfolding KMP_owner_def KMP_clusterOf_def KMP_roleIdentity_def by (intro pool_rules)+

text \<open>Only the deletion of a pool that is being deleted can break what the other parts keep.\<close>

lemma decide_drained:
  assumes "finalizer_laws (e_lib E)" "\<not> poolKept s (snd (KMP_decide E clients before mp cluster ctx ri s))"
  shows "om_Deleting (m_KMP s) \<and> instancesGone E clients (om_Name (m_KMP s)) cluster ri (kx_region ctx) (kx_s3BucketName ctx) s
    (snd (KMP_decide E clients before mp cluster ctx ri s))"
proof (cases "om_Deleting (m_KMP s)")
  case True
  with assms(2) reconcileDelete_drained show ?thesis by (simp add: KMP_decide_def)
next
  case False
  have "within poolKept (bindM (IsVersionSkewAllowed E cluster mp)
      (\<lambda>(allowed, controlPlaneCurrentVersion, nodePoolDesiredVersion).
       if \<not> allowed then KMP_skewBlocked E controlPlaneCurrentVersion nodePoolDesiredVersion
       else KMP_reconcileNormal E clients before cluster mp ctx ri))"
    by (intro pool_rules assms(1))
  with assms(2) False show ?thesis by (simp add: KMP_decide_def within_def)
qed

text \<open>The bucket and the region of a context.\<close>

lemma orNotReady_Ok: "orNotReady E msg f m s = (Ok x, t) \<Longrightarrow> m s = (Ok x, t)"
  by (auto simp: orNotReady_def bindM_def tryM_def split: prod.splits outcome.splits)

lemma eksContext_bucket: "KMP_eksContext E cluster s = (Ok (Inr ctx), u) \<Longrightarrow> kx_s3BucketName ctx = ''''"
  by (auto simp: KMP_eksContext_def split: option.splits if_splits elim!: bindM_OkE)

lemma capaContext_bucket:
  assumes "KMP_capaContext E cluster mp s = (Ok (Inr ctx), u)"
  shows "\<exists>aws. GetAWSCluster E (om_Namespace cluster) (cc_InfrastructureName cluster) s = (Ok aws, u) \<and>
    ac_S3Bucket aws = Some (kx_s3BucketName ctx) \<and> ac_Region aws = kx_region ctx"
  using assms unfolding KMP_capaContext_def
  by (auto split: option.splits if_splits elim!: bindM_OkE dest!: orNotReady_Ok)

lemma reconcileCluster_drained:
  assumes "finalizer_laws (e_lib E)"
    and "\<not> poolKept s (snd (KMP_reconcileCluster E clients before mp cluster s))"
  shows "om_Deleting (m_KMP s) \<and>
    clusterDrained E clients (om_Name (m_KMP s)) mp cluster s (snd (KMP_reconcileCluster E clients before mp cluster s))"
proof -
  let ?m = "if IsEKS cluster then KMP_eksContext E cluster else KMP_capaContext E cluster mp"
  let ?f = "\<lambda>early. case early of Inl result \<Rightarrow> retM result
    | Inr ctx \<Rightarrow> bindM (KMP_roleIdentity E ctx) (KMP_decide E clients before mp cluster ctx)"
  have m: "within poolKept ?m"
    by (intro pool_rules)
  have run: "snd (KMP_reconcileCluster E clients before mp cluster s) = snd (bindM ?m ?f s)"
    using assms(2) by (auto simp: KMP_reconcileCluster_def poolKept.refl split: if_splits)
  obtain x u where x: "?m s = (Ok x, u)" "poolKept s u" "\<not> poolKept u (snd (?f x u))" "snd (bindM ?m ?f s) = snd (?f x u)"
    using assms(2) unfolding run by (rule poolKept.escape [OF m])
  then obtain ctx where ctx: "x = Inr ctx" by (cases x) (auto simp: poolKept.refl)
  have decide: "\<not> poolKept u (snd (bindM (KMP_roleIdentity E ctx) (KMP_decide E clients before mp cluster ctx) u))"
    using x(3) ctx by simp
  obtain identity v where v: "KMP_roleIdentity E ctx u = (Ok identity, v)" "poolKept u v"
      "\<not> poolKept v (snd (KMP_decide E clients before mp cluster ctx identity v))"
      "snd (bindM (KMP_roleIdentity E ctx) (KMP_decide E clients before mp cluster ctx) u) = snd (KMP_decide E clients before mp cluster ctx identity v)"
    using decide by (rule poolKept.escape [OF kept_lookups(5)])
  have same: "om_Name (m_KMP v) = om_Name (m_KMP s)" "om_Deleting (m_KMP v) = om_Deleting (m_KMP s)"
    using x(2) v(2) by (simp_all add: poolKept_def)
  have bucket: "if IsEKS cluster then kx_s3BucketName ctx = []
      else \<exists>aws. GetAWSCluster E (om_Namespace cluster) (cc_InfrastructureName cluster) s = (Ok aws, u) \<and>
        ac_S3Bucket aws = Some (kx_s3BucketName ctx) \<and> ac_Region aws = kx_region ctx"
    using x(1) unfolding ctx by (cases "IsEKS cluster") (simp_all add: eksContext_bucket capaContext_bucket)
  have t: "snd (bindM ?m ?f s) = snd (KMP_decide E clients before mp cluster ctx identity v)" using x(4) v(4) ctx by simp
  show ?thesis
    using decide_drained [OF assms(1) v(3)] x(1) bucket v(1) unfolding run t same ctx clusterDrained_def by blast
qed

lemma body_drained:
  assumes "finalizer_laws (e_lib E)" "\<not> poolKept s (snd (KMP_body E clients kmp s))" "om_Name (m_KMP s) = om_Name kmp"
  shows "om_Deleting (m_KMP s) \<and> drained E clients kmp s (snd (KMP_body E clients kmp s))"
proof -
  let ?f = "\<lambda>x. case x of None \<Rightarrow> retM noRequeue
    | Some mp \<Rightarrow> bindM (KMP_clusterOf E mp) (KMP_reconcileCluster E clients kmp mp)"
  obtain x u where x: "KMP_owner E kmp s = (Ok x, u)" "poolKept s u" "\<not> poolKept u (snd (?f x u))"
      "snd (KMP_body E clients kmp s) = snd (?f x u)"
    using assms(2) unfolding KMP_body_def by (rule poolKept.escape [OF kept_lookups(1)])
  then obtain mp where mp: "x = Some mp" by (cases x) (auto simp: poolKept.refl)
  have rest: "\<not> poolKept u (snd (bindM (KMP_clusterOf E mp) (KMP_reconcileCluster E clients kmp mp) u))" using x(3) mp by simp
  obtain cluster v where v: "KMP_clusterOf E mp u = (Ok cluster, v)" "poolKept u v"
      "\<not> poolKept v (snd (KMP_reconcileCluster E clients kmp mp cluster v))"
      "snd (bindM (KMP_clusterOf E mp) (KMP_reconcileCluster E clients kmp mp) u) = snd (KMP_reconcileCluster E clients kmp mp cluster v)"
    using rest by (rule poolKept.escape [OF kept_lookups(3)])
  have "om_Name (m_KMP v) = om_Name kmp" "om_Deleting (m_KMP v) = om_Deleting (m_KMP s)"
    using x(2) v(2) assms(3) by (simp_all add: poolKept_def)
  with reconcileCluster_drained [OF assms(1) v(3)] x(1,4) mp v(1,4) show ?thesis
    unfolding drained_def by auto
qed

lemma emits_patched:
  fixes E :: "('w, 'c) env"
  assumes "\<And>k err. P (Event (K8sReq (K8sPatchKarpenterMachinePool before (f k))) err)" "emits P rest"
  shows "emits P (bindM (modKMP f) (\<lambda>_. bindM (wrapM w (patchKMP E before)) (\<lambda>_. rest)))"
proof (rule withinI)
  fix s :: "('w, 'c) sys"
  let ?s = "s\<lparr>m_KMP := f (m_KMP s)\<rparr>"
  let ?call = "call (k_done (e_kube E)) (K8sReq (K8sPatchKarpenterMachinePool before (f (m_KMP s))))"
  have "emits P (bindM (wrapM w ?call) (\<lambda>_. rest))"
    by (intro emits_rules emits_call assms)
  then have "appends P ?s (snd (bindM (wrapM w ?call) (\<lambda>_. rest) ?s))"
    by (simp add: within_def)
  moreover have "bindM (wrapM w (patchKMP E before)) (\<lambda>_. rest) ?s = bindM (wrapM w ?call) (\<lambda>_. rest) ?s"
    by (simp add: bindM_def wrapM_def patchKMP_def)
  ultimately show "appends P s (snd (bindM (modKMP f) (\<lambda>_. bindM (wrapM w (patchKMP E before)) (\<lambda>_. rest)) s))"
    by (simp add: modKMP_def appends_def)
qed

text \<open>No request of the body removes the finalizer: the only patch of the pool comes after it was added.\<close>

abbreviation keepsFinalizer :: "event \<Rightarrow> bool" where
  "keepsFinalizer e \<equiv> \<not> removesFinalizer KarpenterFinalizer e"

lemma other_keepsFinalizer:
  "lookEvent e \<Longrightarrow> keepsFinalizer e" "wcEvent e \<Longrightarrow> keepsFinalizer e" "byClient c X e \<Longrightarrow> keepsFinalizer e"
  by (auto simp: event_defs split: request.splits k8s_op.splits)

lemmas emits_other = emits_contexts [THEN emits_mono, OF other_keepsFinalizer(1)]

lemma emits_keepsFinalizer [emits_rules]:
  "emits keepsFinalizer (KMP_owner E kmp)" "emits keepsFinalizer (KMP_clusterOf E mp)"
  "emits keepsFinalizer (KMP_roleIdentity E ctx)"
  unfolding KMP_owner_def KMP_clusterOf_def KMP_roleIdentity_def
  by (intro emits_rules emits_call; simp add: removesFinalizer_def)+

lemma reconcileDelete_keepsFinalizer [emits_rules]:
  "emits keepsFinalizer (KMP_reconcileDelete E clients cluster identity region bucket)"
  unfolding KMP_reconcileDelete_def KMP_waitForInstances_def KMP_release_def
  by (intro emits_rules ec2Clients.new_quiet emits_deletionGate emits_deleteUserData
      emits_mono [OF emits_instances(2)]) (auto simp: removesFinalizer_def dest: other_keepsFinalizer)

lemma reconcileNormal_keepsFinalizer:
  assumes "finalizer_laws (e_lib E)"
  shows "emits keepsFinalizer (KMP_reconcileNormal E clients before cluster mp ctx identity)"
  unfolding KMP_reconcileNormal_def
  by (rule emits_rules, rule emits_marks, rule emits_patched,
      use assms in \<open>simp add: removesFinalizer_def finalizer_laws_def\<close>,
      intro emits_rules emits_bootstrap emits_save emits_mono [OF emits_resources])
    (auto simp: removesFinalizer_def dest: other_keepsFinalizer)

lemma body_keepsFinalizer:
  assumes "finalizer_laws (e_lib E)"
  shows "emits keepsFinalizer (KMP_body E clients before)"
  unfolding KMP_body_def KMP_reconcileCluster_def KMP_decide_def
  by (intro emits_rules emits_other reconcileNormal_keepsFinalizer [OF assms])

lemma patchKMP_trace: "\<exists>err. trace (snd (patchKMP E before t)) =
    trace t @ [Event (K8sReq (K8sPatchKarpenterMachinePool before (m_KMP t))) err]"
  by (auto simp: patchKMP_def call_def split: prod.split sum.split)

text \<open>A reconciliation reads the pool, and either ends there or runs the body and the deferred patch.\<close>

lemma KMP_Reconcile_cases:
  obtains (ends) err where "sent (KMP_Reconcile E clients ns name) s =
      [Event (K8sReq (K8sGet ''KarpenterMachinePool'' ns name)) err]"
    | (runs) kmp w u t err where "u = (logged (K8sReq (K8sGet ''KarpenterMachinePool'' ns name)) None w s)\<lparr>m_KMP := kmp\<rparr>"
      "t = snd (KMP_body E clients kmp u)" "fst (KMP_Reconcile E clients ns name s) = fst (KMP_body E clients kmp u)"
      "trace (snd (KMP_Reconcile E clients ns name s)) =
        trace t @ [Event (K8sReq (K8sPatchKarpenterMachinePool kmp (m_KMP t))) err]"
      "k_KMP (e_kube E) (K8sReq (K8sGet ''KarpenterMachinePool'' ns name)) (world s) = (Inr kmp, w)"
proof -
  let ?q = "K8sReq (K8sGet ''KarpenterMachinePool'' ns name)"
  obtain a w where ans: "k_KMP (e_kube E) ?q (world s) = (a, w)" by (cases "k_KMP (e_kube E) ?q (world s)")
  show thesis
  proof (cases a)
    case (Inl err)
    with ans show thesis
      by (intro ends [of "Some err"]) (simp add: KMP_Reconcile_def sent_def bindM_def tryM_def call_def ignoreNotFound_def)
  next
    case kmp: (Inr kmp)
    let ?u = "(logged ?q None w s)\<lparr>m_KMP := kmp\<rparr>"
    show thesis
    proof (cases "l_NewPatchHelper (e_lib E) kmp")
      case (Inl err)
      with ans kmp show thesis
        by (intro ends [of None]) (simp add: KMP_Reconcile_def sent_def bindM_def tryM_def call_def holdKMP_def wrapM_def)
    next
      case (Inr x)
      obtain err where err: "trace (snd (patchKMP E kmp (snd (KMP_body E clients kmp ?u)))) = trace (snd (KMP_body E clients kmp ?u)) @
          [Event (K8sReq (K8sPatchKarpenterMachinePool kmp (m_KMP (snd (KMP_body E clients kmp ?u))))) err]"
        using patchKMP_trace by blast
      have "KMP_Reconcile E clients ns name s = (fst (KMP_body E clients kmp ?u), snd (patchKMP E kmp (snd (KMP_body E clients kmp ?u))))"
        using ans kmp Inr by (simp add: KMP_Reconcile_def bindM_def tryM_def call_def holdKMP_def wrapM_def deferM_def split: prod.split)
      with err ans kmp show thesis by (intro runs [OF refl refl]) simp_all
    qed
  qed
qed

text \<open>C7: the finalizer of a KarpenterMachinePool is removed only by the last patch of a reconciliation of a pool that
  is being deleted, and only when nothing of the pool is left: in this reconciliation, with the cluster that owns the pool
  and its role and region, the non-terminated EC2 instances with the tags of the pool and the cluster were listed and
  there were none; and then, unless the cluster is an EKS cluster or the bucket in its AWSCluster has no name, the pool's user data was
  deleted from the bucket of that AWSCluster (or the bucket was gone), right before this patch.\<close>

theorem karpenter_finalizer_gated:
  assumes laws: "finalizer_laws (e_lib E)"
    and e: "e \<in> set (sent (KMP_Reconcile E clients ns name) s)" "removesFinalizer KarpenterFinalizer e"
  shows "\<exists>kmp w t err. k_KMP (e_kube E) (K8sReq (K8sGet ''KarpenterMachinePool'' ns name)) (world s) = (Inr kmp, w) \<and>
     om_Deleting kmp \<and>
     drained E clients kmp ((logged (K8sReq (K8sGet ''KarpenterMachinePool'' ns name)) None w s)\<lparr>m_KMP := kmp\<rparr>) t \<and>
     e = Event (K8sReq (K8sPatchKarpenterMachinePool kmp (m_KMP t))) err \<and>
     trace (snd (KMP_Reconcile E clients ns name s)) = trace t @ [e]"
proof (cases rule: KMP_Reconcile_cases [of E clients ns name s])
  case (ends err)
  with e show ?thesis by (simp add: removesFinalizer_def)
next
  case (runs kmp w u t err)
  let ?patch = "Event (K8sReq (K8sPatchKarpenterMachinePool kmp (m_KMP t))) err"
  obtain es where es: "trace t = trace u @ es" "list_all keepsFinalizer es"
    using body_keepsFinalizer [OF laws, of clients kmp] runs(2) by (auto simp: within_def appends_def)
  have "sent (KMP_Reconcile E clients ns name) s = Event (K8sReq (K8sGet ''KarpenterMachinePool'' ns name)) None # es @ [?patch]"
    using runs(1,4) es(1) by (simp add: sent_def)
  with e es(2) have patch: "e = ?patch"
    by (auto simp: list_all_iff removesFinalizer_def [of _ "Event (K8sReq (K8sGet _ _ _)) _"])
  with e(2) runs(1) have "\<not> poolKept u t"
    by (simp add: removesFinalizer_def poolKept_def)
  with body_drained [OF laws, of u clients kmp] runs(1,2) have "om_Deleting kmp" "drained E clients kmp u t"
    by simp_all
  with patch runs(1,4,5) show ?thesis by blast
qed

section \<open>Instances are terminated only with their cluster\<close>

lemma quiet_terminate:
  "emits (\<lambda>e. \<not> terminateEvent e) (KMP_deletionGate E cluster ec2)"
  "emits (\<lambda>e. \<not> terminateEvent e) (KMP_release E clients identity region bucket)"
  "emits (\<lambda>e. \<not> terminateEvent e) (wrapM w (NewEC2Client E clients region arn))"
  unfolding KMP_release_def
  by (intro emits_rules emits_deletionGate emits_deleteUserData ec2Clients.new_quiet; auto simp: event_defs)+

lemma emits_wait: "emits (byClient ec2 (\<lambda>x. True)) (KMP_waitForInstances E cluster ec2 ids)"
  unfolding KMP_waitForInstances_def by (intro emits_rules)

text \<open>C11: the operator terminates instances of a pool only when the cluster itself is being deleted, and then
  exactly the non-terminated instances it has listed for the pool and the cluster; the pool keeps its finalizer,
  and is looked at again.\<close>

theorem karpenter_terminates_only_with_cluster:
  assumes "e \<in> set (sent (KMP_reconcileDelete E clients cluster identity region bucket) s)"
    and "ev_req e = AWSReq c (EC2Op (EC2_TerminateInstances ids))"
  shows "om_Deleting cluster \<and>
    (\<exists>u v. GetNonTerminatedInstancesByTags E c [(''karpenter.sh/nodepool'', om_Name (m_KMP s)),
        (''giantswarm.io/cluster'', om_Name cluster)] u = (Ok ids, v)) \<and>
    om_Finalizers (m_KMP (snd (KMP_reconcileDelete E clients cluster identity region bucket s))) = om_Finalizers (m_KMP s) \<and>
    fst (KMP_reconcileDelete E clients cluster identity region bucket s) \<noteq> Ok noRequeue"
proof -
  let ?run = "KMP_reconcileDelete E clients cluster identity region bucket s"
  let ?client = "wrapM (Wrapped ''failed to create EC2 client'') (NewEC2Client E clients region (ri_RoleArn identity))"
  let ?rest = "\<lambda>ec2 ids. if length ids > 0 then KMP_waitForInstances E cluster ec2 ids
     else KMP_release E clients identity region bucket"
  have kill: "terminateEvent e"
    using assms(2) by (auto simp: terminateEvent_def)
  have rest: "emits (\<lambda>_. True) (?rest ec2 ids)" for ec2 ids
    by (intro emits_rules emits_any [OF emits_wait] emits_any [OF quiet_terminate(2)])
  have later: "emits (\<lambda>_. True) (bindM (KMP_deletionGate E cluster ec2) (?rest ec2))" for ec2
    by (intro emits_rules emits_any [OF quiet_terminate(1)] rest)
  obtain ec2 s1 where 1: "?client s = (Ok ec2, s1)" "e \<in> set (sent (bindM (KMP_deletionGate E cluster ec2) (?rest ec2)) s1)"
    using sent_by_second [OF quiet_terminate(3) later assms(1) [unfolded KMP_reconcileDelete_def] kill] by blast
  obtain ids' v where 2: "KMP_deletionGate E cluster ec2 s1 = (Ok ids', v)" "e \<in> set (sent (?rest ec2 ids') v)"
    using sent_by_second [OF quiet_terminate(1) rest 1(2) kill] by blast
  have "e \<notin> set (sent (KMP_release E clients identity region bucket) v)"
    using emits_sent [OF quiet_terminate(2), of E clients identity region bucket v] kill by (auto simp: list_all_iff)
  with 2(2) have wait: "ids' \<noteq> []" "e \<in> set (sent (KMP_waitForInstances E cluster ec2 ids') v)"
    by (auto split: if_splits)
  have run: "?run = KMP_waitForInstances E cluster ec2 ids' v"
    using 1(1) 2(1) wait(1) by (simp add: KMP_reconcileDelete_def bindM_run)
  have deleting: "om_Deleting cluster"
    using wait(2) by (rule contrapos_pp) (simp add: KMP_waitForInstances_def sent_def)
  then have "e \<in> set (sent (call (a_done (e_aws E)) (ec2req ec2 (EC2_TerminateInstances ids'))) v)"
    using wait by (auto simp: KMP_waitForInstances_def TerminateInstances_def sent_def bindM_def wrapM_def
        split: prod.splits outcome.splits)
  then have "c = ec2" "ids = ids'"
    using assms(2) by (auto dest: sent_call)
  moreover have "m_KMP s1 = m_KMP s" "m_KMP v = m_KMP s1" "m_KMP (snd ?run) = m_KMP v"
    using poolSameD [OF within_wrapM [OF poolSame_clients(1)] 1(1)] poolSameD [OF poolSame_more(3) 2(1)]
      poolSameD [OF poolSame_wait, of E cluster ec2 ids' v] run by (simp_all add: prod_eq_iff)
  ultimately show ?thesis
    using deleting deletionGate_Ok [OF 2(1)] wait_requeues [of E cluster ec2 ids' v] run by auto
qed

end
