(* ===== verification/Crossplane_Config.thy ===== *)
theory Crossplane_Config
  imports Controllers_Common Go_Data Scenario
begin

text \<open>
  \<^verbatim>\<open>controllers/crossplane_config.go\<close>: the controller that keeps, for each cluster, a config map with
  the values Crossplane compositions need and a \<^verbatim>\<open>ProviderConfig\<close>. The cluster is held in the cell
  \<open>m_Cluster\<close>. \<^verbatim>\<open>url.Parse\<close> with \<^verbatim>\<open>Hostname\<close>, the YAML encoder and the process environment are
  parameters; the encoder gets the JSON value that the struct tags of the source describe.
\<close>

definition Crossplane_Finalizer :: string where
  "Crossplane_Finalizer = ''crossplane-config-operator.finalizers.giantswarm.io/config-map-controller''"

record CrossplaneReconciler =
  xr_BaseDomain :: string
  xr_ManagementClusterName :: string

text \<open>The security groups of a cluster, each a pointer to a struct with the id.\<close>

record SecurityGroups =
  xs_ControlPlane :: "string option"
  xs_Node :: "string option"

record ClusterInfo =
  ci_Name :: string
  ci_Namespace :: string
  ci_Region :: string
  ci_AWSPartition :: string
  ci_VpcID :: string
  ci_RoleArn :: ARN
  ci_OIDCDomain :: string
  ci_OIDCDomains :: "string list"
  ci_SecurityGroups :: "SecurityGroups option"

section \<open>What is derived from a cluster\<close>

definition getPartition :: "string \<Rightarrow> string" where
  "getPartition region = (if hasPrefix region ''cn-'' then ''aws-cn'' else ''aws'')"

definition getEKSId :: "lib \<Rightarrow> string \<Rightarrow> go_error + string" where
  "getEKSId L urlString = (case l_urlHostname L urlString of
      Inl e \<Rightarrow> Inl e
    | Inr hostname \<Rightarrow>
       (if hostname = '''' then Inl (ErrorString ''EKS control plane endpoint URL not yet available'')
        else case splitOn CHR ''.'' hostname of
          part # parts \<Rightarrow> Inr part
        | [] \<Rightarrow> Inl (ErrorString ''unable to extract ID from URL'')))"

definition eksOIDCDomain :: "string \<Rightarrow> string \<Rightarrow> string" where
  "eksOIDCDomain region eksId =
     (let dnsSuffix = (if region = ''cn-north-1'' \<or> region = ''cn-northwest-1'' then ''amazonaws.com.cn'' else ''amazonaws.com'') in
      ''oidc.eks.'' @ region @ ''.'' @ dnsSuffix @ ''/id/'' @ eksId)"

fun irsaLoop :: "string list \<Rightarrow> string list \<Rightarrow> string list" where
  "irsaLoop irsaTrustDomains [] = irsaTrustDomains"
| "irsaLoop irsaTrustDomains (value # values) =
     (let value = trimSpace value in
      if value \<noteq> '''' \<and> value \<notin> set irsaTrustDomains then irsaLoop (irsaTrustDomains @ [value]) values
      else irsaLoop irsaTrustDomains values)"

definition getIRSATrustDomains :: "gomap \<Rightarrow> string \<Rightarrow> string list" where
  "getIRSATrustDomains annotations fallbackComputedDomain =
     (let s = gget annotations ''aws.giantswarm.io/irsa-trust-domains'' in
      if s \<noteq> '''' then
       (let irsaTrustDomains = irsaLoop [] (splitOn CHR '','' s) in
        if length irsaTrustDomains > 0 then irsaTrustDomains else [fallbackComputedDomain])
      else [fallbackComputedDomain])"

definition clusterSecurityGroups :: "lib \<Rightarrow> gomap \<Rightarrow> SecurityGroups" where
  "clusterSecurityGroups L groups =
     \<lparr>xs_ControlPlane = map_of groups (l_SecurityGroupControlPlane L), xs_Node = map_of groups (l_SecurityGroupNode L)\<rparr>"

definition getRoleArn :: "('w, 'c) env \<Rightarrow> string \<Rightarrow> string \<Rightarrow> ('w, 'c, ARN) go" where
  "getRoleArn E idRef namespace =
     bindM (call (k_RoleIdentity (e_kube E)) (K8sReq (K8sGet ''AWSClusterRoleIdentity'' namespace idRef))) (\<lambda>identity.
     liftE (l_arnParse (e_lib E) (ri_RoleArn identity)))"

definition eksClusterInfo :: "('w, 'c) env \<Rightarrow> string \<Rightarrow> string \<Rightarrow> ('w, 'c, ClusterInfo) go" where
  "eksClusterInfo E ns name =
     bindM (GetAWSManagedControlPlane E ns name) (\<lambda>cp.
     case mcp_IdentityRef cp of
       None \<Rightarrow> panicM
     | Some identityRef \<Rightarrow>
       bindM (getRoleArn E identityRef (om_Namespace cp)) (\<lambda>roleArn.
       bindM (liftE (getEKSId (e_lib E) (mcp_ControlPlaneHost cp))) (\<lambda>eksId.
       let domain = eksOIDCDomain (mcp_Region cp) eksId in
       retM \<lparr>ci_Name = om_Name cp, ci_Namespace = om_Namespace cp, ci_Region = mcp_Region cp,
         ci_AWSPartition = getPartition (mcp_Region cp), ci_VpcID = mcp_VPC_ID cp, ci_RoleArn = roleArn,
         ci_OIDCDomain = domain, ci_OIDCDomains = [domain], ci_SecurityGroups = None\<rparr>)))"

definition capaClusterInfo :: "('w, 'c) env \<Rightarrow> CrossplaneReconciler \<Rightarrow> string \<Rightarrow> string \<Rightarrow> ('w, 'c, ClusterInfo) go" where
  "capaClusterInfo E r ns name =
     bindM (GetAWSCluster E ns name) (\<lambda>awsCluster.
     case ac_IdentityRef awsCluster of
       None \<Rightarrow> panicM
     | Some identityRef \<Rightarrow>
       bindM (getRoleArn E identityRef (om_Namespace awsCluster)) (\<lambda>roleArn.
       let computedIRSADomain = ''irsa.'' @ om_Name awsCluster @ ''.'' @ xr_BaseDomain r;
           irsaTrustDomains = getIRSATrustDomains (om_Annotations awsCluster) computedIRSADomain in
       case irsaTrustDomains of
         [] \<Rightarrow> panicM
       | domain # _ \<Rightarrow>
         retM \<lparr>ci_Name = om_Name awsCluster, ci_Namespace = om_Namespace awsCluster, ci_Region = ac_Region awsCluster,
           ci_AWSPartition = getPartition (ac_Region awsCluster), ci_VpcID = ac_VPC_ID awsCluster, ci_RoleArn = roleArn,
           ci_OIDCDomain = domain, ci_OIDCDomains = irsaTrustDomains,
           ci_SecurityGroups = Some (clusterSecurityGroups (e_lib E) (ac_SecurityGroups awsCluster))\<rparr>))"

section \<open>The config map\<close>

record crossplaneConfigValues =
  cv_AccountID :: string
  cv_VpcID :: string
  cv_SecurityGroups :: "SecurityGroups option"
  cv_AWSPartition :: string
  cv_BaseDomain :: string
  cv_ClusterName :: string
  cv_Region :: string
  cv_OIDCDomain :: string
  cv_OIDCDomains :: "string list"

text \<open>The JSON of a value, with \<^verbatim>\<open>omitempty\<close> where the struct tags have it.\<close>

definition securityGroupJSON :: "string \<Rightarrow> string option \<Rightarrow> (string \<times> json) list" where
  "securityGroupJSON key sg = (case sg of None \<Rightarrow> [] | Some i \<Rightarrow> [(key, JObj [(''id'', JStr i)])])"

definition configValuesJSON :: "crossplaneConfigValues \<Rightarrow> json" where
  "configValuesJSON v = JObj [
     (''accountID'', JStr (cv_AccountID v)),
     (''awsCluster'', JObj (
        (if cv_VpcID v = '''' then [] else [(''vpcId'', JStr (cv_VpcID v))]) @
        (case cv_SecurityGroups v of None \<Rightarrow> []
         | Some g \<Rightarrow> [(''securityGroups'', JObj (securityGroupJSON ''controlPlane'' (xs_ControlPlane g) @
             securityGroupJSON ''node'' (xs_Node g)))]))),
     (''awsPartition'', JStr (cv_AWSPartition v)),
     (''baseDomain'', JStr (cv_BaseDomain v)),
     (''clusterName'', JStr (cv_ClusterName v)),
     (''region'', JStr (cv_Region v)),
     (''oidcDomain'', JStr (cv_OIDCDomain v)),
     (''oidcDomains'', JArr (map JStr (cv_OIDCDomains v)))]"

definition getConfigMapValues :: "('w, 'c) env \<Rightarrow> ClusterInfo \<Rightarrow> string \<Rightarrow> string \<Rightarrow> ('w, 'c, string) go" where
  "getConfigMapValues E info accountID baseDomain =
     (case ci_OIDCDomains info of
        [] \<Rightarrow> panicM
      | domain # _ \<Rightarrow>
        liftE (l_yamlMarshal (e_lib E) (configValuesJSON
          \<lparr>cv_AccountID = accountID, cv_VpcID = ci_VpcID info, cv_SecurityGroups = ci_SecurityGroups info,
           cv_AWSPartition = ci_AWSPartition info, cv_BaseDomain = ci_Name info @ ''.'' @ baseDomain,
           cv_ClusterName = ci_Name info, cv_Region = ci_Region info, cv_OIDCDomain = domain,
           cv_OIDCDomains = ci_OIDCDomains info\<rparr>)))"

definition configMapName :: "string \<Rightarrow> string" where
  "configMapName name = name @ ''-crossplane-config''"

definition createConfigMap :: "('w, 'c) env \<Rightarrow> ClusterInfo \<Rightarrow> string \<Rightarrow> string \<Rightarrow> ('w, 'c, unit) go" where
  "createConfigMap E info accountID baseDomain =
     bindM (getConfigMapValues E info accountID baseDomain) (\<lambda>configMapValues.
     call (k_done (e_kube E)) (K8sReq (K8sCreateConfigMap
       \<lparr>cm_Name = configMapName (ci_Name info), cm_Namespace = ci_Namespace info,
        cm_Labels = [(''app.kubernetes.io/managed-by'', ''aws-resolver-rules-operator'')],
        cm_Data = Some [(''values'', configMapValues)]\<rparr>)))"

text \<open>Writing into a nil map panics.\<close>

definition updateConfigMap :: "('w, 'c) env \<Rightarrow> ClusterInfo \<Rightarrow> ConfigMap \<Rightarrow> string \<Rightarrow> string \<Rightarrow> ('w, 'c, unit) go" where
  "updateConfigMap E info config accountID baseDomain =
     bindM (getConfigMapValues E info accountID baseDomain) (\<lambda>configMapValues.
     case cm_Data config of
       None \<Rightarrow> panicM
     | Some data \<Rightarrow>
       call (k_done (e_kube E)) (K8sReq (K8sPatchConfigMap config
         (config\<lparr>cm_Data := Some (AList.update ''values'' configMapValues data)\<rparr>))))"

definition emptyConfigMap :: ConfigMap where
  "emptyConfigMap = \<lparr>cm_Name = '''', cm_Namespace = '''', cm_Labels = [], cm_Data = None\<rparr>"

text \<open>An error other than not found is not looked at; the object is then as it was before the read.\<close>

definition reconcileConfigMap :: "('w, 'c) env \<Rightarrow> ClusterInfo \<Rightarrow> string \<Rightarrow> string \<Rightarrow> ('w, 'c, unit) go" where
  "reconcileConfigMap E info accountID baseDomain =
     bindM (tryM (call (k_ConfigMap (e_kube E))
       (K8sReq (K8sGet ''ConfigMap'' (ci_Namespace info) (configMapName (ci_Name info)))))) (\<lambda>res.
     case res of
       Inl e \<Rightarrow> if isNotFound e then createConfigMap E info accountID baseDomain
         else updateConfigMap E info emptyConfigMap accountID baseDomain
     | Inr config \<Rightarrow> updateConfigMap E info config accountID baseDomain)"

section \<open>The provider config\<close>

definition getProviderConfig :: "string \<Rightarrow> string \<Rightarrow> ProviderConfig" where
  "getProviderConfig name namespace = \<lparr>pc_Name = name, pc_Namespace = namespace, pc_Spec = None\<rparr>"

definition providerRoleARN :: "ClusterInfo \<Rightarrow> string \<Rightarrow> string" where
  "providerRoleARN info providerRole =
     ''arn:'' @ getPartition (ci_Region info) @ '':iam::'' @ arn_AccountID (ci_RoleArn info) @ '':role/'' @ providerRole"

definition getProviderConfigSpec :: "('w, 'c) env \<Rightarrow> CrossplaneReconciler \<Rightarrow> ClusterInfo \<Rightarrow> json" where
  "getProviderConfigSpec E r info =
     (let useStaticAWSCredentials = (e_getenv E ''USE_CROSSPLANE_STATIC_AWS_CREDENTIALS'' = ''true'') in
      if useStaticAWSCredentials then
        JObj [(''assumeRoleChain'', JArr [JObj [(''roleARN'',
                JStr (providerRoleARN info (''giantswarm-'' @ xr_ManagementClusterName r @ ''-crossplane'')))]]),
              (''credentials'', JObj [
                 (''secretRef'', JObj [(''key'', JStr ''credentials''), (''name'', JStr ''crossplane-aws-credentials''),
                    (''namespace'', JStr ''crossplane'')]),
                 (''source'', JStr ''Secret'')])]
      else
        JObj [(''credentials'', JObj [
                 (''source'', JStr ''WebIdentity''),
                 (''webIdentity'', JObj [(''roleARN'',
                    JStr (providerRoleARN info (''giantswarm-'' @ xr_ManagementClusterName r @ ''-capa-controller'')))])])])"

definition createProviderConfig ::
  "('w, 'c) env \<Rightarrow> CrossplaneReconciler \<Rightarrow> ProviderConfig \<Rightarrow> ClusterInfo \<Rightarrow> ('w, 'c, unit) go" where
  "createProviderConfig E r providerConfig info =
     bindM (tryM (call (k_done (e_kube E)) (K8sReq (K8sCreateProviderConfig
       (providerConfig\<lparr>pc_Spec := Some (getProviderConfigSpec E r info)\<rparr>))))) (\<lambda>res.
     case res of
       Inl e \<Rightarrow> if isAlreadyExists e then retM () else errM e
     | Inr _ \<Rightarrow> retM ())"

definition updateProviderConfig ::
  "('w, 'c) env \<Rightarrow> CrossplaneReconciler \<Rightarrow> ProviderConfig \<Rightarrow> ClusterInfo \<Rightarrow> ('w, 'c, unit) go" where
  "updateProviderConfig E r providerConfig info =
     call (k_done (e_kube E)) (K8sReq (K8sPatchProviderConfig providerConfig
       (providerConfig\<lparr>pc_Spec := Some (getProviderConfigSpec E r info)\<rparr>)))"

definition reconcileProviderConfig :: "('w, 'c) env \<Rightarrow> CrossplaneReconciler \<Rightarrow> ClusterInfo \<Rightarrow> ('w, 'c, unit) go" where
  "reconcileProviderConfig E r info =
     bindM (tryM (call (k_ProviderConfig (e_kube E)) (K8sReq (K8sGet ''ProviderConfig'' (ci_Namespace info) (ci_Name info))))) (\<lambda>res.
     case res of
       Inl e \<Rightarrow>
         if isNoMatch e then retM ()
         else if isNotFound e then createProviderConfig E r (getProviderConfig (ci_Name info) (ci_Namespace info)) info
         else errM e
     | Inr providerConfig \<Rightarrow> updateProviderConfig E r providerConfig info)"

section \<open>Reconciliation\<close>

definition Crossplane_AddFinalizer :: "('w, 'c) env \<Rightarrow> ('w, 'c, unit) go" where
  "Crossplane_AddFinalizer E =
     patchCluster E (om_Finalizers_update (\<lambda>fs. fst (l_AddFinalizer (e_lib E) fs Crossplane_Finalizer)))
       (\<lambda>old new. K8sPatchCluster old new True)"

text \<open>The finalizer is removed from the \<^verbatim>\<open>AWSCluster\<close> of the same name too, which had it in earlier releases.\<close>

definition Crossplane_RemoveFinalizer :: "('w, 'c) env \<Rightarrow> CapiCluster \<Rightarrow> ('w, 'c, unit) go" where
  "Crossplane_RemoveFinalizer E cluster =
     bindM (tryM (GetAWSCluster E (om_Namespace cluster) (om_Name cluster))) (\<lambda>got.
     bindM (case got of
         Inl e \<Rightarrow> if isNotFound e then retM () else errM e
       | Inr awsCluster \<Rightarrow>
         bindM (holdAWSCluster awsCluster) (\<lambda>_.
         patchAWSCluster E (om_Finalizers_update (\<lambda>fs. l_RemoveFinalizer (e_lib E) fs Crossplane_Finalizer))
           (\<lambda>old new. K8sPatchAWSCluster old new True))) (\<lambda>_.
     patchCluster E (om_Finalizers_update (\<lambda>fs. l_RemoveFinalizer (e_lib E) fs Crossplane_Finalizer))
       (\<lambda>old new. K8sPatchCluster old new True)))"

definition Crossplane_provide :: "('w, 'c) env \<Rightarrow> CrossplaneReconciler \<Rightarrow> ClusterInfo \<Rightarrow> ('w, 'c, Result) go" where
  "Crossplane_provide E r info =
     bindM (reconcileConfigMap E info (arn_AccountID (ci_RoleArn info)) (xr_BaseDomain r)) (\<lambda>_.
     bindM (reconcileProviderConfig E r info) (\<lambda>_.
     retM noRequeue))"

definition Crossplane_reconcileNormal :: "('w, 'c) env \<Rightarrow> CrossplaneReconciler \<Rightarrow> ClusterInfo \<Rightarrow> ('w, 'c, Result) go" where
  "Crossplane_reconcileNormal E r info =
     bindM (tryM (GetCluster E (ci_Namespace info) (ci_Name info))) (\<lambda>got.
     case got of
       Inl e \<Rightarrow> ignoreNotFound e
     | Inr capiCluster \<Rightarrow>
       bindM (holdCluster capiCluster) (\<lambda>_.
       bindM (Crossplane_AddFinalizer E) (\<lambda>_.
       Crossplane_provide E r info)))"

text \<open>A deletion that tolerates some errors.\<close>

definition k8sDelete :: "('w, 'c) env \<Rightarrow> (go_error \<Rightarrow> bool) \<Rightarrow> string \<Rightarrow> string \<Rightarrow> string \<Rightarrow> ('w, 'c, unit) go" where
  "k8sDelete E tolerated kind ns name =
     bindM (tryM (call (k_done (e_kube E)) (K8sReq (K8sDelete kind ns name)))) (\<lambda>res.
     case res of
       Inl e \<Rightarrow> if \<not> tolerated e then errM e else retM ()
     | Inr _ \<Rightarrow> retM ())"

definition Crossplane_cleanup :: "('w, 'c) env \<Rightarrow> CapiCluster \<Rightarrow> ('w, 'c, unit) go" where
  "Crossplane_cleanup E cluster =
     bindM (k8sDelete E isNotFound ''ConfigMap'' (om_Namespace cluster) (configMapName (om_Name cluster))) (\<lambda>_.
     k8sDelete E (\<lambda>e. isNotFound e \<or> isNoMatch e) ''ProviderConfig'' (om_Namespace cluster) (om_Name cluster))"

definition Crossplane_reconcileDelete :: "('w, 'c) env \<Rightarrow> CapiCluster \<Rightarrow> ('w, 'c, Result) go" where
  "Crossplane_reconcileDelete E cluster =
     bindM (Crossplane_cleanup E cluster) (\<lambda>_.
     bindM (Crossplane_RemoveFinalizer E cluster) (\<lambda>_.
     retM noRequeue))"

definition Crossplane_Reconcile :: "('w, 'c) env \<Rightarrow> CrossplaneReconciler \<Rightarrow> string \<Rightarrow> string \<Rightarrow> ('w, 'c, Result) go" where
  "Crossplane_Reconcile E r ns name =
     bindM (tryM (GetCluster E ns name)) (\<lambda>got.
     case got of
       Inl e \<Rightarrow> ignoreNotFound e
     | Inr cluster \<Rightarrow>
       bindM (holdCluster cluster) (\<lambda>_.
       if om_Deleting cluster then Crossplane_reconcileDelete E cluster
       else
         bindM (tryM (if IsEKS cluster then eksClusterInfo E ns name else capaClusterInfo E r ns name)) (\<lambda>info.
         case info of
           Inl e \<Rightarrow> ignoreNotFound e
         | Inr clusterInfo \<Rightarrow> Crossplane_reconcileNormal E r clusterInfo)))"

section \<open>Trust domains\<close>

lemma irsaLoop_distinct:
  "distinct acc \<Longrightarrow> '''' \<notin> set acc \<Longrightarrow> distinct (irsaLoop acc vs) \<and>
   set (irsaLoop acc vs) = set acc \<union> (trimSpace ` set vs - {''''})"
proof (induction acc vs rule: irsaLoop.induct)
  case (1 acc)
  then show ?case by simp
next
  case (2 acc v vs)
  show ?case
  proof (cases "trimSpace v \<noteq> '''' \<and> trimSpace v \<notin> set acc")
    case True
    with 2(1) [OF refl True] 2(3,4) show ?thesis by (auto simp: Let_def)
  next
    case False
    with 2(2) [OF refl False] 2(3,4) show ?thesis by (auto simp: Let_def)
  qed
qed

lemma cutLeft_Nil: "cutLeft ws [] = []"
proof -
  have "find (\<lambda>w. w \<noteq> [] \<and> prefix w []) ws = None"
    by (auto simp: find_None_iff)
  then show ?thesis by (subst cutLeft.simps) simp
qed

text \<open>The trust domains of a cluster are never empty - so that the first one always exists - and never
  repeated. They are the non-empty values of the annotation, with the white space around them removed; only if there
  is none, the computed domain is used.\<close>

lemma irsa_trust_domains:
  fixes annotations fallback
  defines "values \<equiv> trimSpace ` set (splitOn CHR '','' (gget annotations ''aws.giantswarm.io/irsa-trust-domains'')) - {''''}"
  shows "getIRSATrustDomains annotations fallback \<noteq> [] \<and>
    distinct (getIRSATrustDomains annotations fallback) \<and>
    set (getIRSATrustDomains annotations fallback) = (if values = {} then {fallback} else values)"
proof -
  let ?s = "gget annotations ''aws.giantswarm.io/irsa-trust-domains''"
  let ?loop = "irsaLoop [] (splitOn CHR '','' ?s)"
  have loop: "distinct ?loop" "set ?loop = values"
    using irsaLoop_distinct [of "[]" "splitOn CHR '','' ?s"] by (simp_all add: values_def)
  have "values = {}" if "?s = ''''"
    using that by (simp add: values_def trimSpace_def cutLeft_Nil)
  with loop show ?thesis
    by (auto simp: getIRSATrustDomains_def Let_def)
qed

section \<open>Requests sent\<close>

definition crossplaneWrite :: "event \<Rightarrow> bool" where
  "crossplaneWrite e = (case ev_req e of
      K8sReq x \<Rightarrow> (case x of K8sCreateConfigMap _ \<Rightarrow> True | K8sPatchConfigMap _ _ \<Rightarrow> True
        | K8sCreateProviderConfig _ \<Rightarrow> True | K8sPatchProviderConfig _ _ \<Rightarrow> True | _ \<Rightarrow> False)
    | _ \<Rightarrow> False)"

lemma emits_provide:
  assumes "\<And>e. k8sEvent e \<Longrightarrow> P e"
  shows "emits P (Crossplane_provide E r info)"
  unfolding Crossplane_provide_def reconcileConfigMap_def reconcileProviderConfig_def createConfigMap_def updateConfigMap_def
    createProviderConfig_def updateProviderConfig_def getConfigMapValues_def
  by (intro emits_rules emits_call assms; simp add: k8sEvent_def)

lemma emits_cleanup: "emits (\<lambda>e. \<not> removesFinalizer f e) (Crossplane_cleanup E cluster)"
  unfolding Crossplane_cleanup_def k8sDelete_def by (intro emits_rules emits_call; simp add: removesFinalizer_def)

lemma emits_release: "emits (\<lambda>_. True) (bindM (Crossplane_RemoveFinalizer E cluster) (\<lambda>_. retM noRequeue))"
  unfolding Crossplane_RemoveFinalizer_def
  by (intro emits_rules emits_any [OF emits_patch(1)] emits_any [OF emits_patch(3)] emits_any [OF emits_read(1)])

lemma emits_hold_finalizer:
  "emits (\<lambda>e. \<not> crossplaneWrite e) (holdCluster c)" "emits (\<lambda>e. \<not> crossplaneWrite e) (Crossplane_AddFinalizer E)"
  "emits (\<lambda>e. \<not> crossplaneWrite e) (GetCluster E ns name)"
  unfolding Crossplane_AddFinalizer_def patchCluster_def GetCluster_def
  by (intro emits_rules emits_call; simp add: crossplaneWrite_def)+

text \<open>What a deletion that succeeded has done.\<close>

lemma k8sDelete_Ok:
  assumes "k8sDelete E tolerated kind ns name s = (Ok (), t)"
  shows "\<exists>err. trace t = trace s @ [Event (K8sReq (K8sDelete kind ns name)) err] \<and> (\<forall>e. err = Some e \<longrightarrow> tolerated e)"
  using assms by (auto simp: k8sDelete_def bindM_def tryM_def call_def split: prod.splits sum.splits if_splits)

text \<open>C35: the Crossplane controller writes the config map and the provider config only after its finalizer was
  added to the cluster, and removes the finalizer - from the Cluster and the AWSCluster - only after both were deleted:
  the requests before were the two deletions, each successful or refused because there was nothing to delete.\<close>

theorem crossplane_finalizer_protocol:
  "(e \<in> set (sent (Crossplane_reconcileNormal E r info) s) \<and> crossplaneWrite e \<longrightarrow>
      (\<exists>u t. Crossplane_AddFinalizer E u = (Ok (), t) \<and> e \<in> set (sent (Crossplane_provide E r info) t))) \<and>
   (e \<in> set (sent (Crossplane_reconcileDelete E cluster) s) \<and> removesFinalizer Crossplane_Finalizer e \<longrightarrow>
      (\<exists>err err' es. sent (Crossplane_reconcileDelete E cluster) s =
         [Event (K8sReq (K8sDelete ''ConfigMap'' (om_Namespace cluster) (configMapName (om_Name cluster)))) err,
          Event (K8sReq (K8sDelete ''ProviderConfig'' (om_Namespace cluster) (om_Name cluster))) err'] @ es \<and>
         e \<in> set es \<and> (\<forall>x. err = Some x \<longrightarrow> isNotFound x) \<and> (\<forall>x. err' = Some x \<longrightarrow> isNotFound x \<or> isNoMatch x)))"
proof (intro conjI impI)
  let ?later = "\<lambda>c. bindM (holdCluster c) (\<lambda>_. bindM (Crossplane_AddFinalizer E) (\<lambda>_. Crossplane_provide E r info))"
  let ?rest = "\<lambda>got. case got of Inl e \<Rightarrow> ignoreNotFound e | Inr c \<Rightarrow> ?later c"
  assume e: "e \<in> set (sent (Crossplane_reconcileNormal E r info) s) \<and> crossplaneWrite e"
  have any: "emits (\<lambda>_. True) (Crossplane_provide E r info)" "emits (\<lambda>_. True) (Crossplane_AddFinalizer E)"
      "emits (\<lambda>_. True) (?later c)" "emits (\<lambda>_. True) (?rest got)" for c got
    by (intro emits_rules emits_provide emits_any [OF emits_hold_finalizer(2)] TrueI)+
  obtain got u where 1: "e \<in> set (sent (?rest got) u)"
    using sent_by_second [where F = crossplaneWrite and m = "tryM (GetCluster E (ci_Namespace info) (ci_Name info))" and f = ?rest,
        OF within_tryM [OF emits_hold_finalizer(3)] any(4)] e
    unfolding Crossplane_reconcileNormal_def by blast
  have "e \<notin> set (sent (ignoreNotFound x) u)" for x :: go_error
    using emits_sent [OF emits_ignoreNotFound, of "\<lambda>_. False" x u] by (auto simp: list_all_iff)
  with 1 obtain c where "e \<in> set (sent (?later c) u)" by (cases got) auto
  then have "e \<in> set (sent (bindM (Crossplane_AddFinalizer E) (\<lambda>_. Crossplane_provide E r info)) (u\<lparr>m_Cluster := c\<rparr>))"
    by (simp add: holdCluster_def sent_def)
  with sent_by_second [where F = crossplaneWrite and m = "Crossplane_AddFinalizer E" and f = "\<lambda>_. Crossplane_provide E r info",
      OF emits_hold_finalizer(2) any(1)] e
  show "\<exists>u t. Crossplane_AddFinalizer E u = (Ok (), t) \<and> e \<in> set (sent (Crossplane_provide E r info) t)" by fastforce
next
  let ?del = "Crossplane_reconcileDelete E cluster"
  let ?finish = "bindM (Crossplane_RemoveFinalizer E cluster) (\<lambda>_. retM noRequeue)"
  assume e: "e \<in> set (sent ?del s) \<and> removesFinalizer Crossplane_Finalizer e"
  obtain t where t: "Crossplane_cleanup E cluster s = (Ok (), t)" "e \<in> set (sent ?finish t)"
      "sent ?del s = sent (Crossplane_cleanup E cluster) s @ sent ?finish t"
    using sent_by_second [where F = "removesFinalizer Crossplane_Finalizer" and m = "Crossplane_cleanup E cluster" and f = "\<lambda>_. ?finish",
        OF emits_cleanup emits_release] e
    unfolding Crossplane_reconcileDelete_def by auto
  then obtain u where u: "k8sDelete E isNotFound ''ConfigMap'' (om_Namespace cluster) (configMapName (om_Name cluster)) s = (Ok (), u)"
      "k8sDelete E (\<lambda>e. isNotFound e \<or> isNoMatch e) ''ProviderConfig'' (om_Namespace cluster) (om_Name cluster) u = (Ok (), t)"
    unfolding Crossplane_cleanup_def by (auto elim!: bindM_OkE)
  from k8sDelete_Ok [OF u(1)] k8sDelete_Ok [OF u(2)] t
  show "\<exists>err err' es. sent ?del s =
         [Event (K8sReq (K8sDelete ''ConfigMap'' (om_Namespace cluster) (configMapName (om_Name cluster)))) err,
          Event (K8sReq (K8sDelete ''ProviderConfig'' (om_Namespace cluster) (om_Name cluster))) err'] @ es \<and>
         e \<in> set es \<and> (\<forall>x. err = Some x \<longrightarrow> isNotFound x) \<and> (\<forall>x. err' = Some x \<longrightarrow> isNotFound x \<or> isNoMatch x)"
    by (auto simp: sent_def [of "Crossplane_cleanup E cluster"])
qed

text \<open>C36: the config map of a cluster is created if it is not there, with the rendered values and nothing else, and
  otherwise patched so that exactly its values change. If it could not be read for another reason, or has no data,
  the controller panics.\<close>

theorem config_map_written:
  fixes E :: "('w, 'c) env" and info accountID baseDomain
  defines "q \<equiv> K8sReq (K8sGet ''ConfigMap'' (ci_Namespace info) (configMapName (ci_Name info)))"
  assumes "k_ConfigMap (e_kube E) q (world s) = (a, w)"
    and "\<And>t :: ('w, 'c) sys. getConfigMapValues E info accountID baseDomain t = (Ok v, t)"
    and "reconcileConfigMap E info accountID baseDomain s = (r, t)"
  shows "case a of
      Inl e \<Rightarrow>
        if isNotFound e then \<exists>err. trace t = trace s @ [Event q (Some e), Event (K8sReq (K8sCreateConfigMap
          \<lparr>cm_Name = configMapName (ci_Name info), cm_Namespace = ci_Namespace info,
           cm_Labels = [(''app.kubernetes.io/managed-by'', ''aws-resolver-rules-operator'')],
           cm_Data = Some [(''values'', v)]\<rparr>)) err]
        else r = Halt GoPanic
    | Inr config \<Rightarrow> (case cm_Data config of
        None \<Rightarrow> r = Halt GoPanic
      | Some data \<Rightarrow> \<exists>err data'. map_of data' = (map_of data)(''values'' \<mapsto> v) \<and>
          trace t = trace s @ [Event q None, Event (K8sReq (K8sPatchConfigMap config (config\<lparr>cm_Data := Some data'\<rparr>))) err])"
proof (cases a)
  case (Inl e)
  show ?thesis
  proof (cases "isNotFound e")
    case True
    let ?c = "K8sReq (K8sCreateConfigMap \<lparr>cm_Name = configMapName (ci_Name info), cm_Namespace = ci_Namespace info,
        cm_Labels = [(''app.kubernetes.io/managed-by'', ''aws-resolver-rules-operator'')], cm_Data = Some [(''values'', v)]\<rparr>)"
    have "reconcileConfigMap E info accountID baseDomain s = call (k_done (e_kube E)) ?c (logged q (Some e) w s)"
      using assms(2,3) Inl True
      by (simp add: reconcileConfigMap_def q_def bindM_run tryM_run call_run createConfigMap_def)
    with assms(4) Inl True show ?thesis
      by (auto simp: call_def split: prod.splits sum.splits)
  next
    case False
    have "reconcileConfigMap E info accountID baseDomain s = (Halt GoPanic, logged q (Some e) w s)"
      using assms(2,3) Inl False
      by (simp add: reconcileConfigMap_def q_def bindM_run tryM_run call_run updateConfigMap_def emptyConfigMap_def)
    with assms(4) Inl False show ?thesis by simp
  qed
next
  case (Inr config)
  show ?thesis
  proof (cases "cm_Data config")
    case None
    have "reconcileConfigMap E info accountID baseDomain s = (Halt GoPanic, logged q None w s)"
      using assms(2,3) Inr None
      by (simp add: reconcileConfigMap_def q_def bindM_run tryM_run call_run updateConfigMap_def)
    with assms(4) Inr None show ?thesis by simp
  next
    case (Some d)
    let ?d = "AList.update ''values'' v d"
    have "reconcileConfigMap E info accountID baseDomain s =
        call (k_done (e_kube E)) (K8sReq (K8sPatchConfigMap config (config\<lparr>cm_Data := Some ?d\<rparr>))) (logged q None w s)"
      using assms(2,3) Inr Some
      by (simp add: reconcileConfigMap_def q_def bindM_run tryM_run call_run updateConfigMap_def)
    then have "\<exists>err. trace t = trace s @ [Event q None, Event (K8sReq (K8sPatchConfigMap config (config\<lparr>cm_Data := Some ?d\<rparr>))) err]"
      using assms(4) by (auto simp: call_def split: prod.splits sum.splits)
    moreover have "map_of ?d = (map_of d)(''values'' \<mapsto> v)"
      by (rule update_conv')
    ultimately show ?thesis using Inr Some by auto
  qed
qed

section \<open>Examples\<close>

definition demoInfo :: ClusterInfo where
  "demoInfo = \<lparr>ci_Name = ''wc'', ci_Namespace = ''org'', ci_Region = ''eu-west-1'', ci_AWSPartition = ''aws'',
     ci_VpcID = ''vpc-1'', ci_RoleArn = \<lparr>arn_AccountID = ''1234'', arn_Resource = ''role/gs''\<rparr>,
     ci_OIDCDomain = ''irsa.wc.example.com'', ci_OIDCDomains = [''irsa.wc.example.com''], ci_SecurityGroups = None\<rparr>"

definition unreadable :: "(unit, (string \<times> cval) list) env" where
  "unreadable = demoEnv\<lparr>e_kube := demoKube\<lparr>k_ConfigMap := errAns (TransportError ''timeout'')\<rparr>\<rparr>"

theorem config_map_written_witness:
  "fst (reconcileConfigMap unreadable demoInfo ''1234'' ''example.com'' demoSys) = Halt GoPanic"
  using config_map_written [where E = unreadable and info = demoInfo and accountID = "''1234''" and baseDomain = "''example.com''"
      and s = demoSys and a = "Inl (TransportError ''timeout'')" and w = "()" and v = "''values''", OF _ _ prod.collapse [symmetric]]
  by (simp add: unreadable_def demoKube_def getConfigMapValues_def demoInfo_def demoLib_def hasReason_def)

definition deletedCluster :: CapiCluster where
  "deletedCluster = demoCluster\<lparr>om_Finalizers := [Crossplane_Finalizer], om_Deleting := True\<rparr>"

abbreviation crossplaneDeletion :: "(unit, (string \<times> cval) list, Result) go" where
  "crossplaneDeletion \<equiv> Crossplane_reconcileDelete demoEnv deletedCluster"

theorem crossplane_finalizer_protocol_witness:
  "\<exists>err err' es. sent crossplaneDeletion (demoSys\<lparr>m_Cluster := deletedCluster\<rparr>) =
     [Event (K8sReq (K8sDelete ''ConfigMap'' (om_Namespace deletedCluster) (configMapName (om_Name deletedCluster)))) err,
      Event (K8sReq (K8sDelete ''ProviderConfig'' (om_Namespace deletedCluster) (om_Name deletedCluster))) err'] @ es \<and>
     list_ex (removesFinalizer Crossplane_Finalizer) es"
proof -
  have "list_ex (removesFinalizer Crossplane_Finalizer) (sent crossplaneDeletion (demoSys\<lparr>m_Cluster := deletedCluster\<rparr>))"
    by code_simp
  then obtain e where "e \<in> set (sent crossplaneDeletion (demoSys\<lparr>m_Cluster := deletedCluster\<rparr>))"
      "removesFinalizer Crossplane_Finalizer e"
    unfolding list_ex_iff by blast
  with crossplane_finalizer_protocol [THEN conjunct2, THEN mp, OF conjI, OF this] show ?thesis
    unfolding list_ex_iff by blast
qed

end
