(* ===== verification/Operator.thy ===== *)
theory Operator
  imports Dns_Controller Network_Controllers Resolver_Rules Karpenter_Controller Crossplane_Config
begin

text \<open>
  \<^verbatim>\<open>main.go\<close>: the wiring of the reconcilers into one program, and the program as a state machine.

  The manager of controller-runtime is a parameter: whether it can be made, and whether it accepts
  a controller, a health check. The program up to \<^verbatim>\<open>mgr.Start\<close> is \<open>operator_main\<close>; its result are the
  controllers that run from then on. Flags that are only passed on to the manager (addresses, leader
  election, the sync period) are left out. A run of the program is a sequence of reconciliations of
  any controller for any object, between which everything outside the program may change, and of
  restarts, after which the caches of the process are empty.
\<close>

section \<open>Reconcilers and controllers\<close>

datatype reconciler =
    ResolverRulesReconciler Resolver
  | UnpauseReconciler
  | DnsReconcilerOf DnsReconciler
  | EKSDnsReconciler DnsReconciler
  | RouteReconciler NetworkReconciler
  | ManagementClusterNetworkReconciler NetworkReconciler
  | TransitGatewayAttachmentReconciler NetworkReconciler
  | PrefixListEntryReconciler NetworkReconciler
  | ShareReconciler NetworkReconciler
  | KarpenterMachinePoolReconciler Clients
  | CrossplaneClusterConfigReconciler CrossplaneReconciler

text \<open>Which updates of an object start a reconciliation.\<close>

datatype eventFilter = AllEvents | AWSClusterChanged | ControlPlaneChanged | ResourceNotPaused

record controller =
  ct_Named :: string
  ct_For :: string
  ct_Filter :: eventFilter
  ct_Reconciler :: reconciler

text \<open>One registration per reconciler.\<close>

definition ResolverRules_SetupWithManager :: "Resolver \<Rightarrow> controller" where
  "ResolverRules_SetupWithManager r =
     \<lparr>ct_Named = ''resolverrules'', ct_For = ''AWSCluster'', ct_Filter = AWSClusterChanged, ct_Reconciler = ResolverRulesReconciler r\<rparr>"

definition Unpause_SetupWithManager :: "controller" where
  "Unpause_SetupWithManager =
     \<lparr>ct_Named = ''unpause'', ct_For = ''AWSCluster'', ct_Filter = AllEvents, ct_Reconciler = UnpauseReconciler\<rparr>"

definition Dns_SetupWithManager :: "DnsReconciler \<Rightarrow> controller" where
  "Dns_SetupWithManager r =
     \<lparr>ct_Named = ''dnszone'', ct_For = ''AWSCluster'', ct_Filter = AWSClusterChanged, ct_Reconciler = DnsReconcilerOf r\<rparr>"

definition EKSDns_SetupWithManager :: "DnsReconciler \<Rightarrow> controller" where
  "EKSDns_SetupWithManager r =
     \<lparr>ct_Named = ''eks_dnszone'', ct_For = ''AWSManagedControlPlane'', ct_Filter = ControlPlaneChanged, ct_Reconciler = EKSDnsReconciler r\<rparr>"

definition Route_SetupWithManager :: "NetworkReconciler \<Rightarrow> controller" where
  "Route_SetupWithManager r =
     \<lparr>ct_Named = ''routerules'', ct_For = ''AWSCluster'', ct_Filter = AWSClusterChanged, ct_Reconciler = RouteReconciler r\<rparr>"

definition MC_SetupWithManager :: "NetworkReconciler \<Rightarrow> controller" where
  "MC_SetupWithManager r =
     \<lparr>ct_Named = ''mc-transit-gateway'', ct_For = ''AWSCluster'', ct_Filter = AWSClusterChanged, ct_Reconciler = ManagementClusterNetworkReconciler r\<rparr>"

definition Attachment_SetupWithManager :: "NetworkReconciler \<Rightarrow> controller" where
  "Attachment_SetupWithManager r =
     \<lparr>ct_Named = ''transit-gateway-attachment'', ct_For = ''AWSCluster'', ct_Filter = AWSClusterChanged, ct_Reconciler = TransitGatewayAttachmentReconciler r\<rparr>"

definition Entry_SetupWithManager :: "NetworkReconciler \<Rightarrow> controller" where
  "Entry_SetupWithManager r =
     \<lparr>ct_Named = ''prefix-list-entry'', ct_For = ''AWSCluster'', ct_Filter = AWSClusterChanged, ct_Reconciler = PrefixListEntryReconciler r\<rparr>"

definition Share_SetupWithManager :: "NetworkReconciler \<Rightarrow> controller" where
  "Share_SetupWithManager r =
     \<lparr>ct_Named = ''share-reconciler'', ct_For = ''AWSCluster'', ct_Filter = AWSClusterChanged, ct_Reconciler = ShareReconciler r\<rparr>"

definition KMP_SetupWithManager :: "Clients \<Rightarrow> controller" where
  "KMP_SetupWithManager r =
     \<lparr>ct_Named = ''karpentermachinepool'', ct_For = ''KarpenterMachinePool'', ct_Filter = ResourceNotPaused, ct_Reconciler = KarpenterMachinePoolReconciler r\<rparr>"

definition Crossplane_SetupWithManager :: "CrossplaneReconciler \<Rightarrow> controller" where
  "Crossplane_SetupWithManager r =
     \<lparr>ct_Named = ''crossplane-cluster-config'', ct_For = ''Cluster'', ct_Filter = ResourceNotPaused, ct_Reconciler = CrossplaneClusterConfigReconciler r\<rparr>"

fun SetupWithManager :: "reconciler \<Rightarrow> controller" where
  "SetupWithManager (ResolverRulesReconciler r) = ResolverRules_SetupWithManager r"
| "SetupWithManager UnpauseReconciler = Unpause_SetupWithManager"
| "SetupWithManager (DnsReconcilerOf r) = Dns_SetupWithManager r"
| "SetupWithManager (EKSDnsReconciler r) = EKSDns_SetupWithManager r"
| "SetupWithManager (RouteReconciler r) = Route_SetupWithManager r"
| "SetupWithManager (ManagementClusterNetworkReconciler r) = MC_SetupWithManager r"
| "SetupWithManager (TransitGatewayAttachmentReconciler r) = Attachment_SetupWithManager r"
| "SetupWithManager (PrefixListEntryReconciler r) = Entry_SetupWithManager r"
| "SetupWithManager (ShareReconciler r) = Share_SetupWithManager r"
| "SetupWithManager (KarpenterMachinePoolReconciler r) = KMP_SetupWithManager r"
| "SetupWithManager (CrossplaneClusterConfigReconciler r) = Crossplane_SetupWithManager r"

lemmas setup_defs = ResolverRules_SetupWithManager_def Unpause_SetupWithManager_def Dns_SetupWithManager_def EKSDns_SetupWithManager_def Route_SetupWithManager_def MC_SetupWithManager_def Attachment_SetupWithManager_def Entry_SetupWithManager_def Share_SetupWithManager_def KMP_SetupWithManager_def Crossplane_SetupWithManager_def

lemma SetupWithManager_sel [simp]: "ct_Reconciler (SetupWithManager r) = r"
  by (cases r) (simp_all add: setup_defs)

section \<open>Constructors\<close>

text \<open>The clients of Kubernetes, which all reconcilers are given, are the environment of the model. A
  \<^verbatim>\<open>NamespacedName\<close> is a pair of the namespace and the name.\<close>

definition NewResolverRulesReconciler :: "Resolver \<Rightarrow> reconciler" where
  "NewResolverRulesReconciler r = ResolverRulesReconciler r"

definition NewUnpauseReconciler :: reconciler where
  "NewUnpauseReconciler = UnpauseReconciler"

definition NewEKSDnsReconciler :: "Zoner \<Rightarrow> string \<Rightarrow> string \<Rightarrow> reconciler" where
  "NewEKSDnsReconciler dns managementClusterName managementClusterNamespace = EKSDnsReconciler
     \<lparr>dns_dnsZone = dns, dns_managementClusterName = managementClusterName,
      dns_managementClusterNamespace = managementClusterNamespace\<rparr>"

definition NewRouteReconciler :: "string \<times> string \<Rightarrow> Clients \<Rightarrow> reconciler" where
  "NewRouteReconciler managementCluster clients = RouteReconciler
     \<lparr>nr_managementClusterNamespace = fst managementCluster, nr_managementClusterName = snd managementCluster, nr_clients = clients\<rparr>"

definition NewManagementClusterTransitGateway :: "string \<times> string \<Rightarrow> Clients \<Rightarrow> reconciler" where
  "NewManagementClusterTransitGateway managementCluster awsClients = ManagementClusterNetworkReconciler
     \<lparr>nr_managementClusterNamespace = fst managementCluster, nr_managementClusterName = snd managementCluster, nr_clients = awsClients\<rparr>"

definition NewTransitGatewayAttachmentReconciler :: "string \<times> string \<Rightarrow> Clients \<Rightarrow> reconciler" where
  "NewTransitGatewayAttachmentReconciler managementCluster clients = TransitGatewayAttachmentReconciler
     \<lparr>nr_managementClusterNamespace = fst managementCluster, nr_managementClusterName = snd managementCluster, nr_clients = clients\<rparr>"

definition NewPrefixListEntryReconciler :: "string \<times> string \<Rightarrow> Clients \<Rightarrow> reconciler" where
  "NewPrefixListEntryReconciler managementCluster clients = PrefixListEntryReconciler
     \<lparr>nr_managementClusterNamespace = fst managementCluster, nr_managementClusterName = snd managementCluster, nr_clients = clients\<rparr>"

definition NewShareReconciler :: "string \<times> string \<Rightarrow> Clients \<Rightarrow> reconciler" where
  "NewShareReconciler managementCluster awsClients = ShareReconciler
     \<lparr>nr_managementClusterNamespace = fst managementCluster, nr_managementClusterName = snd managementCluster, nr_clients = awsClients\<rparr>"

definition NewKarpenterMachinepoolReconciler :: "Clients \<Rightarrow> reconciler" where
  "NewKarpenterMachinepoolReconciler awsClients = KarpenterMachinePoolReconciler awsClients"

section \<open>\<^verbatim>\<open>main\<close>\<close>

record flags =
  fl_disableResolverControllers :: bool
  fl_dnsServerAWSAccountId :: string
  fl_dnsServerIAMRoleArn :: string
  fl_dnsServerIAMRoleExternalId :: string
  fl_dnsServerRegion :: string
  fl_dnsServerVpcId :: string
  fl_managementClusterName :: string
  fl_managementClusterNamespace :: string
  fl_workloadClusterBaseDomain :: string

record reconcilerConfig =
  rc_dnsServerAWSAccountId :: string
  rc_dnsServerIAMRoleArn :: string
  rc_dnsServerIAMRoleExternalId :: string
  rc_dnsServerRegion :: string
  rc_dnsServerVpcId :: string
  rc_managementClusterName :: string
  rc_managementClusterNamespace :: string
  rc_workloadClusterBaseDomain :: string
  rc_awsClients :: Clients

record managerAPI =
  mg_New :: "go_error option"
  mg_Complete :: "controller list \<Rightarrow> controller \<Rightarrow> go_error option"
  mg_AddCheck :: "string \<Rightarrow> go_error option"

text \<open>\<^verbatim>\<open>if err != nil { setupLog.Error(...); os.Exit(1) }\<close>\<close>

definition orExit :: "go_error option \<Rightarrow> ('w, 'c, 'a) go \<Rightarrow> ('w, 'c, 'a) go" where
  "orExit err m = (case err of Some _ \<Rightarrow> exitM | None \<Rightarrow> m)"

definition setupController :: "managerAPI \<Rightarrow> controller list \<Rightarrow> reconciler \<Rightarrow> ('w, 'c, controller list) go" where
  "setupController M mgr r = orExit (mg_Complete M mgr (SetupWithManager r)) (retM (mgr @ [SetupWithManager r]))"

definition wireResolverRulesReconciler ::
  "('w, 'c) env \<Rightarrow> managerAPI \<Rightarrow> reconcilerConfig \<Rightarrow> controller list \<Rightarrow> ('w, 'c, controller list) go" where
  "wireResolverRulesReconciler E M cfg mgr =
     (let dnsserver = NewDNSServer (rc_dnsServerAWSAccountId cfg) (rc_dnsServerIAMRoleExternalId cfg)
            (rc_dnsServerRegion cfg) (rc_dnsServerIAMRoleArn cfg) (rc_dnsServerVpcId cfg);
          awsResolver = NewResolver (rc_awsClients cfg) dnsserver (rc_workloadClusterBaseDomain cfg) in
      bindM (NewDnsZone E (rc_awsClients cfg) (rc_workloadClusterBaseDomain cfg)) (\<lambda>dns.
      bindM (setupController M mgr (NewResolverRulesReconciler awsResolver)) (\<lambda>mgr.
      bindM (setupController M mgr NewUnpauseReconciler) (\<lambda>mgr.
      bindM (setupController M mgr (DnsReconcilerOf
        (NewDnsReconciler dns (rc_managementClusterName cfg) (rc_managementClusterNamespace cfg)))) (\<lambda>mgr.
      setupController M mgr (NewEKSDnsReconciler dns (rc_managementClusterName cfg) (rc_managementClusterNamespace cfg)))))))"

definition wireNetworkTopologyReconcilers ::
  "managerAPI \<Rightarrow> reconcilerConfig \<Rightarrow> controller list \<Rightarrow> ('w, 'c, controller list) go" where
  "wireNetworkTopologyReconcilers M cfg mgr =
     (let managementCluster = (rc_managementClusterNamespace cfg, rc_managementClusterName cfg) in
     bindM (setupController M mgr (NewRouteReconciler managementCluster (rc_awsClients cfg))) (\<lambda>mgr.
     bindM (setupController M mgr (NewManagementClusterTransitGateway managementCluster (rc_awsClients cfg))) (\<lambda>mgr.
     bindM (setupController M mgr (NewTransitGatewayAttachmentReconciler managementCluster (rc_awsClients cfg))) (\<lambda>mgr.
     bindM (setupController M mgr (NewPrefixListEntryReconciler managementCluster (rc_awsClients cfg))) (\<lambda>mgr.
     setupController M mgr (NewShareReconciler managementCluster (rc_awsClients cfg)))))))"

definition reconcilerConfigOf :: "('w, 'c) env \<Rightarrow> flags \<Rightarrow> reconcilerConfig" where
  "reconcilerConfigOf E fl =
     \<lparr>rc_dnsServerAWSAccountId = fl_dnsServerAWSAccountId fl, rc_dnsServerIAMRoleArn = fl_dnsServerIAMRoleArn fl,
      rc_dnsServerIAMRoleExternalId = fl_dnsServerIAMRoleExternalId fl, rc_dnsServerRegion = fl_dnsServerRegion fl,
      rc_dnsServerVpcId = fl_dnsServerVpcId fl, rc_managementClusterName = fl_managementClusterName fl,
      rc_managementClusterNamespace = fl_managementClusterNamespace fl,
      rc_workloadClusterBaseDomain = fl_workloadClusterBaseDomain fl,
      rc_awsClients = NewClients (e_getenv E ''AWS_ENDPOINT'')\<rparr>"

definition operator_main :: "('w, 'c) env \<Rightarrow> managerAPI \<Rightarrow> flags \<Rightarrow> ('w, 'c, controller list) go" where
  "operator_main E M fl =
     orExit (mg_New M)
      (let cfg = reconcilerConfigOf E fl in
       bindM (if \<not> fl_disableResolverControllers fl then wireResolverRulesReconciler E M cfg [] else retM []) (\<lambda>mgr.
       bindM (wireNetworkTopologyReconcilers M cfg mgr) (\<lambda>mgr.
       bindM (setupController M mgr (NewKarpenterMachinepoolReconciler (rc_awsClients cfg))) (\<lambda>mgr.
       bindM (setupController M mgr (CrossplaneClusterConfigReconciler
          \<lparr>xr_BaseDomain = fl_workloadClusterBaseDomain fl, xr_ManagementClusterName = fl_managementClusterName fl\<rparr>)) (\<lambda>mgr.
       orExit (mg_AddCheck M ''healthz'')
         (orExit (mg_AddCheck M ''readyz'')
           (retM mgr)))))))"

section \<open>The running program\<close>

fun reconcile :: "('w, 'c) env \<Rightarrow> reconciler \<Rightarrow> string \<Rightarrow> string \<Rightarrow> ('w, 'c, Result) go" where
  "reconcile E (ResolverRulesReconciler r) = Rules_Reconcile E r"
| "reconcile E UnpauseReconciler = Unpause_Reconcile E"
| "reconcile E (DnsReconcilerOf r) = Dns_Reconcile E r"
| "reconcile E (EKSDnsReconciler r) = EKSDns_Reconcile E r"
| "reconcile E (RouteReconciler r) = Route_Reconcile E r"
| "reconcile E (ManagementClusterNetworkReconciler r) = MC_Reconcile E r"
| "reconcile E (TransitGatewayAttachmentReconciler r) = Attachment_Reconcile E r"
| "reconcile E (PrefixListEntryReconciler r) = Entry_Reconcile E r"
| "reconcile E (ShareReconciler r) = Share_Reconcile E r"
| "reconcile E (KarpenterMachinePoolReconciler c) = KMP_Reconcile E c"
| "reconcile E (CrossplaneClusterConfigReconciler r) = Crossplane_Reconcile E r"

text \<open>A new process: the configuration cache is empty; what it allocates is not what an earlier one did.\<close>

definition newProcess :: "('w, 'c) sys \<Rightarrow> ('w, 'c) sys" where
  "newProcess s = s\<lparr>configCache := []\<rparr>"

inductive running ::
  "('w, 'c) env \<Rightarrow> managerAPI \<Rightarrow> flags \<Rightarrow> ('w, 'c) sys \<Rightarrow> controller list \<Rightarrow> ('w, 'c) sys \<Rightarrow> bool"
  for E M fl init where
  boot: "operator_main E M fl (newProcess init) = (Ok cs, s) \<Longrightarrow> running E M fl init cs s"
| reconciled: "running E M fl init cs s \<Longrightarrow> c \<in> set cs \<Longrightarrow> reconcile E (ct_Reconciler c) ns name s = (res, t) \<Longrightarrow>
    running E M fl init cs t"
| outside: "running E M fl init cs s \<Longrightarrow> running E M fl init cs (s\<lparr>world := w\<rparr>)"
| restarted: "running E M fl init cs s \<Longrightarrow> operator_main E M fl (newProcess s) = (Ok cs', t) \<Longrightarrow>
    running E M fl init cs' t"

section \<open>Which controllers run\<close>

lemma orExit_Ok: "orExit err m s = (Ok x, t) \<longleftrightarrow> err = None \<and> m s = (Ok x, t)"
  by (simp add: orExit_def split: option.split)

lemma setupController_Ok:
  "setupController M mgr r s = (Ok mgr', t) \<longleftrightarrow>
     mg_Complete M mgr (SetupWithManager r) = None \<and> mgr' = mgr @ [SetupWithManager r] \<and> t = s"
  by (auto simp: setupController_def orExit_Ok)

definition networkReconciler :: "reconcilerConfig \<Rightarrow> NetworkReconciler" where
  "networkReconciler cfg =
     \<lparr>nr_managementClusterNamespace = rc_managementClusterNamespace cfg,
      nr_managementClusterName = rc_managementClusterName cfg, nr_clients = rc_awsClients cfg\<rparr>"

lemmas constructor_defs = NewResolverRulesReconciler_def NewUnpauseReconciler_def NewEKSDnsReconciler_def NewRouteReconciler_def
  NewManagementClusterTransitGateway_def NewTransitGatewayAttachmentReconciler_def NewPrefixListEntryReconciler_def
  NewShareReconciler_def NewKarpenterMachinepoolReconciler_def

text \<open>The reconcilers of the network topology, of Karpenter and of Crossplane; those of DNS and resolver rules.\<close>

definition alwaysWired :: "('w, 'c) env \<Rightarrow> flags \<Rightarrow> reconciler list" where
  "alwaysWired E fl = (let n = networkReconciler (reconcilerConfigOf E fl) in
     [RouteReconciler n, ManagementClusterNetworkReconciler n, TransitGatewayAttachmentReconciler n,
      PrefixListEntryReconciler n, ShareReconciler n, KarpenterMachinePoolReconciler (NewClients (e_getenv E ''AWS_ENDPOINT'')),
      CrossplaneClusterConfigReconciler
        \<lparr>xr_BaseDomain = fl_workloadClusterBaseDomain fl, xr_ManagementClusterName = fl_managementClusterName fl\<rparr>])"

definition resolverWired :: "('w, 'c) env \<Rightarrow> flags \<Rightarrow> Zoner \<Rightarrow> reconciler list" where
  "resolverWired E fl dns =
     (let r = NewDnsReconciler dns (fl_managementClusterName fl) (fl_managementClusterNamespace fl) in
     [ResolverRulesReconciler (NewResolver (NewClients (e_getenv E ''AWS_ENDPOINT''))
        (NewDNSServer (fl_dnsServerAWSAccountId fl) (fl_dnsServerIAMRoleExternalId fl) (fl_dnsServerRegion fl)
          (fl_dnsServerIAMRoleArn fl) (fl_dnsServerVpcId fl)) (fl_workloadClusterBaseDomain fl)),
      UnpauseReconciler, DnsReconcilerOf r, EKSDnsReconciler r])"

lemma wireNetwork_Ok:
  assumes "wireNetworkTopologyReconcilers M cfg mgr s = (Ok mgr', t)"
  shows "mgr' = mgr @ map SetupWithManager [RouteReconciler (networkReconciler cfg),
      ManagementClusterNetworkReconciler (networkReconciler cfg), TransitGatewayAttachmentReconciler (networkReconciler cfg),
      PrefixListEntryReconciler (networkReconciler cfg), ShareReconciler (networkReconciler cfg)] \<and> t = s"
  using assms unfolding wireNetworkTopologyReconcilers_def constructor_defs Let_def fst_conv snd_conv networkReconciler_def
  by (elim bindM_OkE) (auto simp: setupController_Ok)

lemma wireResolver_Ok:
  assumes "wireResolverRulesReconciler E M (reconcilerConfigOf E fl) [] s = (Ok mgr', t)"
  shows "\<exists>dns. NewDnsZone E (NewClients (e_getenv E ''AWS_ENDPOINT'')) (fl_workloadClusterBaseDomain fl) s = (Ok dns, t) \<and>
    mgr' = map SetupWithManager (resolverWired E fl dns)"
  using assms unfolding wireResolverRulesReconciler_def Let_def constructor_defs NewDnsReconciler_def
  by (elim bindM_OkE) (auto simp: setupController_Ok resolverWired_def reconcilerConfigOf_def NewDnsReconciler_def Let_def)

text \<open>What a successful start leaves: the controllers in their order, and the state with the zoner's cache.\<close>

lemma operator_main_Ok:
  assumes "operator_main E M fl s = (Ok cs, t)"
  shows "(if fl_disableResolverControllers fl then cs = map SetupWithManager (alwaysWired E fl) \<and> t = s
    else \<exists>dns. NewDnsZone E (NewClients (e_getenv E ''AWS_ENDPOINT'')) (fl_workloadClusterBaseDomain fl) s = (Ok dns, t) \<and>
      cs = map SetupWithManager (resolverWired E fl dns @ alwaysWired E fl))"
proof -
  let ?cfg = "reconcilerConfigOf E fl"
  obtain mgr u v mgr' where first: "(if \<not> fl_disableResolverControllers fl
      then wireResolverRulesReconciler E M ?cfg [] else retM []) s = (Ok mgr, u)"
    and net: "wireNetworkTopologyReconcilers M ?cfg mgr u = (Ok mgr', v)" and "v = t"
    and cs: "cs = mgr' @ map SetupWithManager [KarpenterMachinePoolReconciler (rc_awsClients ?cfg), CrossplaneClusterConfigReconciler
          \<lparr>xr_BaseDomain = fl_workloadClusterBaseDomain fl, xr_ManagementClusterName = fl_managementClusterName fl\<rparr>]"
    using assms unfolding operator_main_def orExit_Ok Let_def NewKarpenterMachinepoolReconciler_def
    by (elim conjE bindM_OkE) (auto simp: setupController_Ok orExit_Ok)
  have "cs = mgr @ map SetupWithManager (alwaysWired E fl)" "u = t"
    using wireNetwork_Ok [OF net] cs \<open>v = t\<close> by (simp_all add: alwaysWired_def reconcilerConfigOf_def Let_def)
  with first wireResolver_Ok show ?thesis by (fastforce split: if_splits)
qed

text \<open>\<open>startsOrExits m\<close>: a run of \<open>m\<close> returns a value or exits; there is no other error and no panic.\<close>

definition startsOrExits :: "('w, 'c, 'a) go \<Rightarrow> bool" where
  "startsOrExits m \<longleftrightarrow> (\<forall>s. (\<exists>x. fst (m s) = Ok x) \<or> fst (m s) = Halt GoExit)"

lemma startsOrExits_basic:
  "startsOrExits (retM x)" "startsOrExits m \<Longrightarrow> startsOrExits (orExit err m)" "startsOrExits (setupController M mgr r)"
  "startsOrExits (NewDnsZone E c d)"
  by (simp_all add: startsOrExits_def orExit_def setupController_def NewDnsZone_def bindM_def cacheNew_def split: option.split)

lemma startsOrExits_bindM:
  assumes "startsOrExits m" "\<And>x. startsOrExits (f x)"
  shows "startsOrExits (bindM m f)"
  unfolding startsOrExits_def
proof
  fix s
  obtain r t where run: "bindM m f s = (r, t)" by (cases "bindM m f s")
  then have "(\<exists>x. r = Ok x) \<or> r = Halt GoExit"
    by (cases rule: bindM_cases) (use assms in \<open>unfold startsOrExits_def, metis fst_conv outcome.distinct outcome.inject\<close>)+
  with run show "(\<exists>x. fst (bindM m f s) = Ok x) \<or> fst (bindM m f s) = Halt GoExit" by simp
qed

lemma startsOrExits_main: "startsOrExits (operator_main E M fl)"
  unfolding operator_main_def wireResolverRulesReconciler_def wireNetworkTopologyReconcilers_def Let_def
  by (auto intro!: startsOrExits_basic startsOrExits_bindM)

text \<open>C38: the controllers the program runs. When it starts, all reconcilers that the flags enable run, each once and
  under a name of its own, so that the manager accepts them; the two DNS controllers share one zoner, and all of them
  make their AWS clients for the endpoint of the environment. A manager that cannot be made, a controller or a check that
  is not accepted ends the program.\<close>

theorem operator_wiring:
  shows "(operator_main E M fl s = (Ok cs, t) \<longrightarrow>
      distinct (map ct_Named cs) \<and>
      (\<exists>dns. map ct_Reconciler cs = (if fl_disableResolverControllers fl then [] else resolverWired E fl dns) @ alwaysWired E fl \<and>
        z_awsClients dns = NewClients (e_getenv E ''AWS_ENDPOINT'') \<and> z_workloadClusterBaseDomain dns = fl_workloadClusterBaseDomain fl)) \<and>
    ((\<exists>cs. fst (operator_main E M fl s) = Ok cs) \<or> fst (operator_main E M fl s) = Halt GoExit)"
proof (intro conjI impI)
  let ?c = "NewClients (e_getenv E ''AWS_ENDPOINT'')" and ?bd = "fl_workloadClusterBaseDomain fl"
  assume run: "operator_main E M fl s = (Ok cs, t)"
  have named: "distinct (map ct_Named (map SetupWithManager (resolverWired E fl dns @ alwaysWired E fl)))"
    "distinct (map ct_Named (map SetupWithManager (alwaysWired E fl)))" for dns
    by (simp_all add: resolverWired_def alwaysWired_def setup_defs Let_def)
  with operator_main_Ok [OF run] show "distinct (map ct_Named cs)" by (auto split: if_splits)
  show "\<exists>dns. map ct_Reconciler cs = (if fl_disableResolverControllers fl then [] else resolverWired E fl dns) @ alwaysWired E fl \<and>
      z_awsClients dns = ?c \<and> z_workloadClusterBaseDomain dns = ?bd"
  proof (cases "fl_disableResolverControllers fl")
    case True
    with operator_main_Ok [OF run] show ?thesis
      by (intro exI [of _ "\<lparr>z_awsClients = ?c, z_awsClientCache = 0, z_workloadClusterBaseDomain = ?bd\<rparr>"]) (simp add: comp_def)
  next
    case False
    with operator_main_Ok [OF run] obtain dns where "NewDnsZone E ?c ?bd s = (Ok dns, t)"
      "cs = map SetupWithManager (resolverWired E fl dns @ alwaysWired E fl)" by auto
    with False show ?thesis
      by (intro exI [of _ dns]) (auto simp: NewDnsZone_def comp_def elim!: bindM_OkE)
  qed
next
  show "(\<exists>cs. fst (operator_main E M fl s) = Ok cs) \<or> fst (operator_main E M fl s) = Halt GoExit"
    using startsOrExits_main [of E M fl] unfolding startsOrExits_def by blast
qed

section \<open>Example\<close>

definition acceptingManager :: managerAPI where
  "acceptingManager = \<lparr>mg_New = None,
     mg_Complete = (\<lambda>cs c. if ct_Named c \<in> set (map ct_Named cs) then Some (ErrorString ''controller name is not unique'') else None),
     mg_AddCheck = (\<lambda>_. None)\<rparr>"

definition demoFlags :: flags where
  "demoFlags = \<lparr>fl_disableResolverControllers = False, fl_dnsServerAWSAccountId = ''3'',
     fl_dnsServerIAMRoleArn = ''arn:aws:iam::3:role/dns'', fl_dnsServerIAMRoleExternalId = ''x'', fl_dnsServerRegion = ''eu-west-1'',
     fl_dnsServerVpcId = ''vpc-dns'', fl_managementClusterName = ''mc'', fl_managementClusterNamespace = ''org'',
     fl_workloadClusterBaseDomain = ''gaws.io''\<rparr>"

definition demoMain :: "controller list outcome \<times> (unit, (string \<times> cval) list) sys" where
  "demoMain = operator_main zoneEnv acceptingManager demoFlags demoSys"

definition demoControllers :: "controller list" where
  "demoControllers = (case fst demoMain of Ok cs \<Rightarrow> cs | _ \<Rightarrow> [])"

lemma demoMain_Ok: "demoMain = (Ok demoControllers, snd demoMain)"
proof -
  have "(case fst demoMain of Ok cs \<Rightarrow> True | _ \<Rightarrow> False)" by code_simp
  then show ?thesis
    unfolding demoControllers_def by (cases "fst demoMain") (simp_all add: prod_eq_iff)
qed

theorem operator_wiring_witness:
  "distinct (map ct_Named demoControllers) \<and> length demoControllers = 11"
proof -
  have "length demoControllers = 11" by code_simp
  with operator_wiring [of zoneEnv acceptingManager demoFlags demoSys demoControllers "snd demoMain"] demoMain_Ok
  show ?thesis by (simp add: demoMain_def)
qed

end
