(* ===== verification/Operator_Roles.thy ===== *)
theory Operator_Roles
  imports Operator
begin

text \<open>
  The credentials of the whole program. Whatever the program does over any number of reconciliations,
  restarts and changes outside, each request to AWS is made with a role that an
  \<^verbatim>\<open>AWSClusterRoleIdentity\<close> of the management cluster names, with the role of the DNS server that the flags
  name, or with the program's own credentials. The invariant is that the caches of the process, from
  which clients and their configurations are taken, hold for each key what was made for that key.
\<close>

section \<open>The process and what its parts keep\<close>

text \<open>The roles that may be assumed, and those that may be assumed from one of them.\<close>

record rolePolicy =
  rp_roles :: "string set"
  rp_chained :: "string set"

definition credsIn :: "rolePolicy \<Rightarrow> creds \<Rightarrow> bool" where
  "credsIn A cr \<longleftrightarrow> c_role cr \<in> rp_roles A \<and> (c_chainedRole cr = '''' \<or> c_chainedRole cr \<in> rp_chained A)"

definition roleEvent :: "rolePolicy \<Rightarrow> event \<Rightarrow> bool" where
  "roleEvent A e \<longleftrightarrow> (\<forall>cr x. ev_req e = AWSReq cr x \<longrightarrow> credsIn A cr)"

lemma roleEvent_simps [simp]:
  "roleEvent A (Event (AWSReq cr x) e) = credsIn A cr" "roleEvent A (Event (K8sReq y) e)" "roleEvent A (Event (WCReq z) e)"
  by (simp_all add: roleEvent_def)

text \<open>The zoner is there only when the DNS controllers run.\<close>

definition opInv :: "('w, 'c) env \<Rightarrow> Clients \<Rightarrow> Zoner option \<Rightarrow> ('w, 'c) sys \<Rightarrow> bool" where
  "opInv E c od s \<longleftrightarrow> configCache_inv c s \<and> \<not> validRole (ac_Region (m_AWSCluster s)) \<and>
     (\<forall>d. od = Some d \<longrightarrow> z_awsClients d = c \<and> zoner_inv E d s)"

text \<open>A step that leaves the process and the \<^verbatim>\<open>AWSCluster\<close> alone.\<close>

definition procKept :: "('w, 'c) sys \<Rightarrow> ('w, 'c) sys \<Rightarrow> bool" where
  "procKept s t \<longleftrightarrow> configCache t = configCache s \<and> caches t = caches s \<and> nextRef t = nextRef s \<and>
     m_AWSCluster t = m_AWSCluster s"

interpretation procKept: run_relation procKept
  by unfold_locales (auto simp: procKept_def)

named_theorems kept_rules \<open>rules for procKept\<close>

lemmas [kept_rules] = procKept.rules within_if within_case_option within_case_sum within_case_list within_case_prod
  within_Let within_tryM within_wrapM

lemma kept_call [kept_rules]: "within procKept (call ans r)"
  by (rule withinI) (auto simp: procKept_def call_def split: prod.split sum.split)

lemma opInv_procKept: "opInv E c od s \<Longrightarrow> procKept s t \<Longrightarrow> opInv E c od t"
  by (auto simp: opInv_def procKept_def configCache_inv_def zoner_inv_def)

text \<open>\<open>conf E c od A m Q\<close>: \<open>m\<close> keeps the invariant and sends requests to AWS only as \<open>A\<close> allows.\<close>

abbreviation conf :: "('w, 'c) env \<Rightarrow> Clients \<Rightarrow> Zoner option \<Rightarrow> rolePolicy \<Rightarrow> ('w, 'c, 'a) go \<Rightarrow> ('a \<Rightarrow> bool) \<Rightarrow> bool" where
  "conf E c od A m Q \<equiv> safe (opInv E c od) (roleEvent A) m Q"

lemma conf_kept: "within procKept m \<Longrightarrow> emits (roleEvent A) m \<Longrightarrow> conf E c od A m (\<lambda>_. True)"
  by (rule safe_within [OF within_conj [where R = procKept and R' = "appends (roleEvent A)"]]) (auto intro: opInv_procKept)

lemma conf_client:
  "within procKept m \<Longrightarrow> emits (byClient cr X) m \<Longrightarrow> credsIn A cr \<Longrightarrow> conf E c od A m (\<lambda>_. True)"
  by (erule conf_kept, erule emits_mono) (auto simp: byClient_def roleEvent_def)

lemma conf_call:
  assumes "\<And>e. roleEvent A (Event q e)" "\<And>w x w'. ans q w = (Inr x, w') \<Longrightarrow> Q x"
  shows "conf E c od A (call ans q) Q"
  unfolding safe_def
proof (intro allI impI conjI)
  fix s assume "opInv E c od s"
  then show "opInv E c od (snd (call ans q s))"
    using kept_call by (auto simp: within_def intro: opInv_procKept)
  show "appends (roleEvent A) s (snd (call ans q s))" by (rule call_appends) (rule assms(1))
  show "Q x" if "fst (call ans q s) = Ok x" for x
    using that assms(2) by (auto simp: call_def split: prod.splits sum.splits)
qed

lemma conf_state: "(\<And>s. procKept s (f s) \<and> trace (f s) = trace s) \<Longrightarrow> conf E c od A (modM f) (\<lambda>_. True)"
  by (rule conf_kept) (simp_all add: within_def appends_same)

section \<open>More rules\<close>

lemma safe_wrapM: "safe I P m Q \<Longrightarrow> safe I P (wrapM f m) Q"
  unfolding safe_def wrapM_state by (auto simp: wrapM_def split: prod.splits outcome.splits)

lemma safe_deferM: "safe I P m Q \<Longrightarrow> safe I P d Q' \<Longrightarrow> safe I P (deferM m d) Q"
  unfolding safe_def deferM_def by (auto split: prod.splits intro: appends.trans) (metis appends.trans fst_conv snd_conv)+

lemma safe_case_prod:
  "(\<And>a b. x = (a, b) \<Longrightarrow> safe I P (f a b) Q) \<Longrightarrow> safe I P (case x of (a, b) \<Rightarrow> f a b) Q"
  by (cases x) simp

lemma safe_try: "safe I P m Q \<Longrightarrow> safe I P (tryM m) (\<lambda>_. True)"
  by (rule safe_conseq [OF safe_tryM]) simp_all

lemma safe_try_case:
  assumes "safe I P m Q" "\<And>e. safe I P (f e) Q'" "\<And>x. Q x \<Longrightarrow> safe I P (g x) Q'"
  shows "safe I P (bindM (tryM m) (\<lambda>r. case r of Inl e \<Rightarrow> f e | Inr x \<Rightarrow> g x)) Q'"
  by (rule safe_bindM [OF safe_tryM [OF assms(1)]]) (auto split: sum.splits intro: assms)

lemma safe_any: "safe I P m Q \<Longrightarrow> safe I P m (\<lambda>_. True)"
  by (erule safe_conseq) simp

lemma safe_forM_skip:
  "(\<And>x. x \<in> set xs \<Longrightarrow> safe I P (f x) (\<lambda>_. True)) \<Longrightarrow> safe I P (forM_skip xs f) (\<lambda>_. True)"
proof (induction xs)
  case Nil
  then show ?case by (simp add: safe_def appends.refl)
next
  case (Cons x xs)
  have "safe I P (tryM (f x)) (\<lambda>_. True)" by (rule safe_try, rule Cons.prems) simp
  then show ?case by (simp add: safe_bindM [where Q = "\<lambda>_. True"] Cons)
qed

lemma conf_getM: "(\<And>s. opInv E c od s \<Longrightarrow> Q (f s)) \<Longrightarrow> conf E c od A (getM f) Q"
  by (simp add: safe_def appends.refl)

lemma conf_liftE: "(\<And>y. x = Inr y \<Longrightarrow> Q y) \<Longrightarrow> conf E c od A (liftE x) Q"
  by (cases x) (simp_all add: safe_retM safe_errM)

lemmas conf_rules = safe_retM safe_errM safe_panicM safe_wrapM safe_deferM safe_try_case safe_if safe_case_option safe_Let
  safe_case_prod

section \<open>The AWS clients leave the process alone\<close>

lemma kept_getters [kept_rules]:
  "within procKept (nowNano E)" "within procKept (validateCIDR cidr)" "within procKept (GetARNResourceID E arn)"
  unfolding nowNano_def validateCIDR_def GetARNResourceID_def by (intro kept_rules)+

lemma kept_findEntry [kept_rules]: "within procKept (findEntry entry es)"
  by (induction entry es rule: findEntry.induct) (simp_all add: within_def procKept.refl)

lemma kept_codes [kept_rules]:
  "within procKept m \<Longrightarrow> within procKept (ignoreCode code m)" "within procKept m \<Longrightarrow> within procKept (replaceCode code e m)"
  "within procKept m \<Longrightarrow> within procKept (ignoreException x m)"
  unfolding ignoreCode_def replaceCode_def ignoreException_def by (intro kept_rules; assumption)+

lemma kept_instancePages: "within procKept (instancePages E a filters page fuel ids)"
proof (induction fuel arbitrary: page ids)
  case 0
  show ?case unfolding instancePages.simps by (intro kept_rules)
next
  case (Suc fuel)
  show ?case unfolding instancePages.simps by (intro kept_rules Suc)
qed

lemma kept_ec2 [kept_rules]:
  "within procKept (CreateSecurityGroupForResolverEndpoints E a vpc n tags)"
  "within procKept (DeleteSecurityGroupForResolverEndpoints E a vpc n)"
  "within procKept (GetNonTerminatedInstancesByTags E a ts)" "within procKept (TerminateInstances E a ids)"
  "within procKept (S3_Put E a b p d)" "within procKept (S3_Delete E a b p)"
  unfolding CreateSecurityGroupForResolverEndpoints_def DeleteSecurityGroupForResolverEndpoints_def
    createSecurityGroup_def authorizeSecurityGroupIngress_def getSecurityGroupByName_def
    GetNonTerminatedInstancesByTags_def TerminateInstances_def S3_Put_def S3_Delete_def
  by (intro kept_rules kept_instancePages)+

lemma kept_lookup [kept_rules]:
  "within procKept (getByName E t name)" "within procKept (getByID E t i)" "within procKept (entryExists E t i entry)"
  "within procKept (TransitGateways_get E t name)" "within procKept (getAttachment E t gw vpc)"
  "within procKept (getRouteTables E t subnets)" "within procKept (getResourceShare E t name)"
  "within procKept (getCurrentVersion E t i)"
  unfolding getCurrentVersion_def getByName_def getByID_def PrefixLists_get_def entryExists_def TransitGateways_get_def
    getAttachment_def getRouteTables_def getResourceShare_def
  by (intro kept_rules)+

lemma kept_network [kept_rules]:
  "within procKept (PrefixLists_Apply E t name tags)" "within procKept (PrefixLists_Delete E t name)"
  "within procKept (ApplyEntry E t entry)" "within procKept (DeleteEntry E t entry)"
  "within procKept (TransitGateways_Apply E t name tags)" "within procKept (TransitGateways_Delete E t name)"
  "within procKept (ApplyAttachment E t attachment)" "within procKept (Detach E t attachment)"
  "within procKept (AddRoutes E t rule subnets)" "within procKept (RemoveRoutes E t rule subnets)"
  "within procKept (ApplyResourceShare E t share)" "within procKept (DeleteResourceShare E t name)"
  unfolding PrefixLists_Apply_def PrefixLists_create_def PrefixLists_Delete_def ApplyEntry_def createEntry_def DeleteEntry_def
    deleteEntry_def TransitGateways_Apply_def TransitGateways_create_def TransitGateways_Delete_def
    TransitGateways_delete_def ApplyAttachment_def attach_def Detach_def AddRoutes_def createRoute_def
    RemoveRoutes_def deleteRoute_def ApplyResourceShare_def DeleteResourceShare_def
  by (intro kept_rules)+

lemma kept_pageLoop: "(\<And>token. within procKept (fetch token)) \<Longrightarrow> within procKept (pageLoop fetch fuel token acc)"
proof (induction fuel arbitrary: token acc)
  case 0
  show ?case unfolding pageLoop.simps by (intro kept_rules)
next
  case (Suc fuel)
  show ?case unfolding pageLoop.simps by (intro kept_rules Suc)
qed

lemma kept_find [kept_rules]:
  "within procKept (FindResolverRulesByAWSAccountId E a account)"
  "within procKept (FindResolverRuleIdsAssociatedWithVPCId E a vpc)"
  "within procKept (GetResolverRuleByName E a n ty)" "within procKept (getResolverEndpoint E a n)"
  unfolding FindResolverRulesByAWSAccountId_def FindResolverRuleIdsAssociatedWithVPCId_def
    listRulesPage_def listAssociationsPage_def GetResolverRuleByName_def getResolverEndpoint_def
  by (intro kept_rules kept_pageLoop)+

lemma kept_resolver [kept_rules]:
  "within procKept (CreateResolverRule E a cluster sg domain rule)" "within procKept (DeleteResolverRule E a cluster ruleId)"
  "within procKept (AssociateResolverRule E a n vpc ruleId)" "within procKept (DisassociateResolverRule E a vpc ruleId)"
  unfolding CreateResolverRule_def newResolverRule_def createResolverEndpoint_def newResolverEndpoint_def createResolverRule_def
    DeleteResolverRule_def deleteResolverRule_def deleteResolverEndpoint_def AssociateResolverRule_def DisassociateResolverRule_def
  by (intro kept_rules)+

lemmas conf_aws = conf_client [OF kept_ec2(1) emits_securityGroup(1)] conf_client [OF kept_ec2(2) emits_securityGroup(2)]
  conf_client [OF kept_ec2(3) emits_instances(1)] conf_client [OF kept_ec2(4) emits_instances(2)]
  conf_client [OF kept_ec2(5) emits_s3(1)] conf_client [OF kept_ec2(6) emits_s3(2)]
  conf_client [OF kept_network(1) emits_network(1)] conf_client [OF kept_network(2) emits_network(2)]
  conf_client [OF kept_network(3) emits_network(3)] conf_client [OF kept_network(4) emits_network(4)]
  conf_client [OF kept_network(5) emits_network(5)] conf_client [OF kept_network(6) emits_network(6)]
  conf_client [OF kept_network(7) emits_network(7)] conf_client [OF kept_network(8) emits_network(8)]
  conf_client [OF kept_network(9) emits_network(9)] conf_client [OF kept_network(10) emits_network(10)]
  conf_client [OF kept_network(11) emits_network(11)] conf_client [OF kept_network(12) emits_network(12)]
  conf_client [OF kept_find(1) emits_find(1)] conf_client [OF kept_find(2) emits_find(2)]
  conf_client [OF kept_find(3) emits_find(3)] conf_client [OF kept_resolver(1) emits_resolver(1)]
  conf_client [OF kept_resolver(2) emits_resolver(2)] conf_client [OF kept_resolver(3) emits_resolver(3)]
  conf_client [OF kept_resolver(4) emits_resolver(4)]

section \<open>What the outside is relied on for\<close>

definition goodRegion :: "string \<Rightarrow> bool" where
  "goodRegion region \<longleftrightarrow> validRegion region \<and> CHR ''/'' \<notin> set region"

text \<open>
  \<open>rolesOf E R\<close>: the role ARNs of the identities in the management cluster are in \<open>R\<close>, and are ARNs; the
  regions of the clusters are names of regions.
\<close>

definition rolesOf :: "('w, 'c) env \<Rightarrow> string set \<Rightarrow> bool" where
  "rolesOf E R \<longleftrightarrow>
     (\<forall>q w i w'. k_RoleIdentity (e_kube E) q w = (Inr i, w') \<longrightarrow> ri_RoleArn i \<in> R) \<and> (\<forall>a\<in>R. validRole a) \<and>
     (\<forall>q w c w'. k_AWSCluster (e_kube E) q w = (Inr c, w') \<longrightarrow> goodRegion (ac_Region c)) \<and>
     (\<forall>q w c w'. k_ControlPlane (e_kube E) q w = (Inr c, w') \<longrightarrow> goodRegion (mcp_Region c))"

definition roleWorld :: "('w, 'c) env \<Rightarrow> string set \<Rightarrow> rolePolicy \<Rightarrow> bool" where
  "roleWorld E R A \<longleftrightarrow> loader_laws E \<and> gocache_laws (e_cache E) \<and> rolesOf E R \<and> R \<subseteq> rp_roles A \<and> [] \<in> rp_roles A"

lemma goodRegion_not_role: "goodRegion region \<Longrightarrow> \<not> validRole region"
  by (simp add: goodRegion_def validRegion_def validRole_def)

section \<open>Clients\<close>

lemma opInv_config:
  "opInv E c od s \<Longrightarrow> configCache_inv c t \<Longrightarrow> caches t = caches s \<Longrightarrow> nextRef t = nextRef s \<Longrightarrow>
   m_AWSCluster t = m_AWSCluster s \<Longrightarrow> opInv E c od t"
  by (auto simp: opInv_def intro: zoner_inv_frame)

lemma conf_load: "conf E c od A (configCacheLoad k) (\<lambda>hit. \<forall>cf. hit = Some cf \<longrightarrow> configEntry_ok c k cf)"
  unfolding configCacheLoad_def by (rule conf_getM) (auto simp: opInv_def configCache_inv_def)

lemma conf_store: "configEntry_ok c k cf \<Longrightarrow> conf E c od A (configCacheStore k cf) (\<lambda>_. True)"
  unfolding safe_def configCacheStore_def modM_run fst_conv snd_conv
proof (intro allI impI conjI)
  fix s assume inv: "opInv E c od s" and cf: "configEntry_ok c k cf"
  show "opInv E c od (s\<lparr>configCache := AList.update k cf (configCache s)\<rparr>)"
    by (rule opInv_config [OF inv]) (use inv cf in \<open>simp_all add: opInv_def configCache_inv_store\<close>)
qed (simp_all add: appends_same)

definition loaded :: "config_opts \<Rightarrow> aws_config \<Rightarrow> bool" where
  "loaded co cf \<longleftrightarrow> (\<forall>r. co_Region co = Some r \<and> r \<noteq> '''' \<longrightarrow> cf_Region cf = r) \<and>
     (\<forall>e. co_Endpoint co = Some e \<longrightarrow> cf_Endpoint cf = e) \<and>
     (co_Role co = None \<longrightarrow> cf_Creds cf = '''') \<and> (\<forall>a. co_Role co = Some a \<longrightarrow> cf_Creds cf = a)"

lemma conf_loader: "loader_laws E \<Longrightarrow> conf E c od A (LoadDefaultConfig E co) (loaded co)"
  unfolding safe_def
proof (intro allI impI conjI)
  fix s x assume laws: "loader_laws E" and inv: "opInv E c od s"
  show "appends (roleEvent A) s (snd (LoadDefaultConfig E co s))"
    by (simp add: LoadDefaultConfig_def appends_same split: prod.split sum.split)
  have "procKept s (snd (LoadDefaultConfig E co s))"
    by (simp add: LoadDefaultConfig_def procKept_def split: prod.split sum.split)
  with inv show "opInv E c od (snd (LoadDefaultConfig E co s))" by (rule opInv_procKept)
  assume "fst (LoadDefaultConfig E co s) = Ok x"
  then obtain w where "e_loadConfig E co (world s) = (Inr x, w)"
    by (auto simp: LoadDefaultConfig_def split: prod.splits sum.splits)
  with laws show "loaded co x" unfolding loader_laws_def loaded_def by blast
qed

lemma conf_cachedConfig:
  assumes "conf E c od A ld (configEntry_ok c k)"
  shows "conf E c od A (bindM (configCacheLoad k) (\<lambda>hit. case hit of
      Some cf \<Rightarrow> retM cf
    | None \<Rightarrow> bindM ld (\<lambda>cf. bindM (configCacheStore k cf) (\<lambda>_. retM cf)))) (configEntry_ok c k)"
  by (rule safe_bindM [OF conf_load])
    (auto split: option.splits intro!: safe_retM safe_bindM [OF assms] safe_bindM [OF conf_store])

lemma conf_config:
  assumes "loader_laws E"
  shows "conf E c od A (config E c) (configEntry_ok c defaultSessionKey)"
  unfolding config_def
  by (rule conf_cachedConfig, rule safe_conseq [OF conf_loader [OF assms]])
    (auto simp: loaded_def configEntry_ok_def not_validRole_default validRegion_def)

lemma conf_configForRole:
  assumes "loader_laws E" "validRole role"
  shows "conf E c od A (configForRole E c role) (configEntry_ok c role)"
proof -
  let ?ld = "bindM (config E c) (\<lambda>d. retM (d\<lparr>cf_Creds := role\<rparr>))"
  have "conf E c od A ?ld (configEntry_ok c role)"
    by (rule safe_bindM [OF conf_config [OF assms(1)]], rule safe_retM) (use assms(2) in \<open>simp add: configEntry_ok_def\<close>)
  from conf_cachedConfig [OF this] show ?thesis
    by (simp add: configForRole_def bindM_assoc Let_def cong: option.case_cong)
qed

lemma conf_configFromRegion:
  assumes "loader_laws E" "\<not> validRole region"
  shows "conf E c od A (configFromRegion E c region) (configEntry_ok c region)"
  unfolding configFromRegion_def
  by (rule conf_cachedConfig, rule safe_conseq [OF conf_loader [OF assms(1)]])
    (use assms(2) in \<open>auto simp: loaded_def configEntry_ok_def validRegion_def\<close>)

lemma conf_regionClients:
  assumes "loader_laws E" "\<not> validRole region" "role \<in> rp_roles A"
  shows "conf E c od A (NewEC2Client E c region role) (credsIn A)"
    "conf E c od A (NewRAMClient E c region role) (credsIn A)"
    "conf E c od A (NewS3Client E c region role) (credsIn A)"
    "conf E c od A (NewResolverClient E c region role) (credsIn A)"
  unfolding NewEC2Client_def newEC2Client_def NewRAMClient_def newRAMClient_def NewS3Client_def newS3Client_def
    NewResolverClient_def
  by (rule safe_bindM [OF conf_configFromRegion [OF assms(1,2)]], rule safe_retM, simp add: credsIn_def assms(3))+

lemma conf_roleClients:
  assumes "loader_laws E" "validRole role" "role \<in> rp_roles A"
  shows "conf E c od A (NewTransitGatewayClient E c region role) (credsIn A)"
    "conf E c od A (NewPrefixListClient E c region role) (credsIn A)"
    "conf E c od A (NewRouteTableClient E c region role) (credsIn A)"
  unfolding NewTransitGatewayClient_def NewPrefixListClient_def NewRouteTableClient_def
  by (rule safe_bindM [OF conf_configForRole [OF assms(1,2)]], rule safe_retM,
      simp add: credsIn_def configEntry_ok_def assms(2,3))+

lemma conf_externalClient:
  assumes "loader_laws E" "role \<in> rp_roles A" "role' \<in> rp_chained A"
  shows "conf E c od A (NewResolverClientWithExternalId E c' region role role' x) (credsIn A)"
  unfolding NewResolverClientWithExternalId_def
  by (rule safe_bindM [OF conf_loader [OF assms(1)]], rule safe_retM) (simp add: credsIn_def loaded_def assms)

end
