(* ===== verification/Operator_Requests.thy ===== *)
theory Operator_Requests
  imports Operator_Roles
begin

text \<open>
  Each reconciler keeps the invariant of \<open>Operator_Roles\<close> and makes its AWS requests with roles that the
  management cluster names; so does the running program.
\<close>

section \<open>Kubernetes\<close>

text \<open>A step that leaves the process and the \<^verbatim>\<open>AWSCluster\<close> alone and sends nothing to AWS.\<close>

definition k8sKept :: "('w, 'c) sys \<Rightarrow> ('w, 'c) sys \<Rightarrow> bool" where
  "k8sKept s t \<longleftrightarrow> procKept s t \<and> appends (\<lambda>e. \<not> isAWS (ev_req e)) s t"

interpretation k8sKept: run_relation k8sKept
  by unfold_locales (auto simp: k8sKept_def intro: procKept.refl procKept.trans appends.refl appends.trans)

named_theorems k8s_rules \<open>rules for k8sKept\<close>

lemmas [k8s_rules] = k8sKept.rules within_if within_case_option within_case_sum within_case_list within_case_prod
  within_Let within_tryM within_wrapM

lemma k8s_call [k8s_rules]: "within k8sKept (call ans (K8sReq x))" "within k8sKept (call ans (WCReq y))"
  by (rule withinI, simp add: k8sKept_def call_appends, rule kept_call [unfolded within_def, rule_format])+

lemma conf_k8s: "within k8sKept m \<Longrightarrow> conf E c od A m (\<lambda>_. True)"
  by (erule safe_within) (auto simp: k8sKept_def roleEvent_def intro: opInv_procKept elim!: appends_mono)

lemma k8s_modM: "(\<And>s. procKept s (f s) \<and> trace (f s) = trace s) \<Longrightarrow> within k8sKept (modM f)"
  by (simp add: within_def k8sKept_def appends_same)

lemma k8s_cells [k8s_rules]:
  "within k8sKept (holdControlPlane cp)" "within k8sKept (holdCluster cl)" "within k8sKept (holdKMP kmp)"
  "within k8sKept (holdMachinePool mp)" "within k8sKept (modKMP f)"
  unfolding holdControlPlane_def holdCluster_def holdKMP_def holdMachinePool_def modKMP_def
  by (rule k8s_modM, simp add: procKept_def)+

lemma k8s_patches [k8s_rules]: "within k8sKept (patchControlPlane E f q)" "within k8sKept (patchCluster E g q')"
  "within k8sKept (patchKMP E kmp)" "within k8sKept (ignoreNotFound e)"
  unfolding patchControlPlane_def patchCluster_def patchKMP_def ignoreNotFound_def by (intro k8s_rules)+

lemma k8s_objects [k8s_rules]:
  "within k8sKept (GetAWSCluster E ns n)" "within k8sKept (GetAWSManagedControlPlane E ns n)"
  "within k8sKept (GetCluster E ns n)" "within k8sKept (ClusterClient_GetIdentity E i)"
  "within k8sKept (AWSClusterClient_GetIdentity E ac)" "within k8sKept (AddAWSManagedControlPlaneFinalizer E f)"
  "within k8sKept (RemoveAWSManagedControlPlaneFinalizer E f)"
  unfolding GetAWSCluster_def GetAWSManagedControlPlane_def GetCluster_def ClusterClient_GetIdentity_def
    AWSClusterClient_GetIdentity_def AddAWSManagedControlPlaneFinalizer_def RemoveAWSManagedControlPlaneFinalizer_def
  by (intro k8s_rules)+

section \<open>What is read\<close>


lemma roleWorld_answers:
  assumes "roleWorld E R A"
  shows "k_RoleIdentity (e_kube E) q w = (Inr i, w') \<Longrightarrow> ri_RoleArn i \<in> R"
    "k_AWSCluster (e_kube E) q w = (Inr a, w') \<Longrightarrow> goodRegion (ac_Region a)"
    "k_ControlPlane (e_kube E) q w = (Inr cp, w') \<Longrightarrow> goodRegion (mcp_Region cp)"
  using assms unfolding roleWorld_def rolesOf_def by blast+

lemma conf_reads:
  assumes "roleWorld E R A"
  shows "conf E c od A (GetAWSCluster E ns n) (\<lambda>a. goodRegion (ac_Region a))"
    "conf E c od A (GetAWSManagedControlPlane E ns n) (\<lambda>a. goodRegion (mcp_Region a))"
    "conf E c od A (ClusterClient_GetIdentity E ref) (\<lambda>i. \<forall>x. i = Some x \<longrightarrow> ri_RoleArn x \<in> R)"
    "conf E c od A (AWSClusterClient_GetIdentity E ac) (\<lambda>i. \<forall>x. i = Some x \<longrightarrow> ri_RoleArn x \<in> R)"
    "conf E c od A (call (k_RoleIdentity (e_kube E)) (K8sReq q)) (\<lambda>i. ri_RoleArn i \<in> R)"
proof -
  show id: "conf E c od A (call (k_RoleIdentity (e_kube E)) (K8sReq q)) (\<lambda>i. ri_RoleArn i \<in> R)" for q
    by (rule conf_call) (simp_all add: roleWorld_answers [OF assms])
  show "conf E c od A (GetAWSCluster E ns n) (\<lambda>a. goodRegion (ac_Region a))"
    "conf E c od A (GetAWSManagedControlPlane E ns n) (\<lambda>a. goodRegion (mcp_Region a))"
    unfolding GetAWSCluster_def GetAWSManagedControlPlane_def
    by (rule conf_call, simp, erule roleWorld_answers [OF assms])+
  show "conf E c od A (ClusterClient_GetIdentity E ref) (\<lambda>i. \<forall>x. i = Some x \<longrightarrow> ri_RoleArn x \<in> R)"
    "conf E c od A (AWSClusterClient_GetIdentity E ac) (\<lambda>i. \<forall>x. i = Some x \<longrightarrow> ri_RoleArn x \<in> R)"
    unfolding ClusterClient_GetIdentity_def AWSClusterClient_GetIdentity_def
    by (auto intro!: safe_case_option safe_retM safe_bindM [OF id])
qed

section \<open>The \<^verbatim>\<open>AWSCluster\<close> that is worked on\<close>

text \<open>The region of the held cluster changes only with what the API server answers.\<close>

lemma opInv_cell:
  "opInv E c od s \<Longrightarrow> \<not> validRole (ac_Region a) \<Longrightarrow> opInv E c od (s\<lparr>m_AWSCluster := a\<rparr>)"
  by (auto simp: opInv_def configCache_inv_def zoner_inv_def)

lemma conf_cell: "conf E c od A (getM m_AWSCluster) (\<lambda>a. \<not> validRole (ac_Region a))"
  by (rule conf_getM) (simp add: opInv_def)

lemma conf_hold: "\<not> validRole (ac_Region a) \<Longrightarrow> conf E c od A (holdAWSCluster a) (\<lambda>_. True)"
  by (simp add: safe_def holdAWSCluster_def opInv_cell appends_same)

lemma conf_change:
  assumes "\<And>s. f s = s\<lparr>m_AWSCluster := m_AWSCluster (f s)\<rparr> \<and> ac_Region (m_AWSCluster (f s)) = ac_Region (m_AWSCluster s)"
  shows "conf E c od A (modM f) (\<lambda>_. True)"
  unfolding safe_def modM_run
proof (intro allI impI conjI)
  fix s assume inv: "opInv E c od s"
  obtain a where a: "f s = s\<lparr>m_AWSCluster := a\<rparr>" "ac_Region a = ac_Region (m_AWSCluster s)" using assms [of s] by metis
  with inv have "\<not> validRole (ac_Region a)" by (simp add: opInv_def)
  with inv a show "opInv E c od (snd (Ok (), f s))" "appends (roleEvent A) s (snd (Ok (), f s))"
    by (simp_all add: opInv_cell appends_same)
qed simp

lemma conf_answer:
  assumes "roleWorld E R A"
  shows "conf E c od A (bindM (call (k_AWSCluster (e_kube E)) (K8sReq q)) holdAWSCluster) (\<lambda>_. True)"
proof (rule safe_bindM [OF _ conf_hold])
  show "conf E c od A (call (k_AWSCluster (e_kube E)) (K8sReq q)) (\<lambda>a. \<not> validRole (ac_Region a))"
    by (rule conf_call) (auto dest: roleWorld_answers [OF assms] goodRegion_not_role)
qed

lemma conf_patch:
  assumes "roleWorld E R A" "\<And>a. ac_Region (f a) = ac_Region a"
  shows "conf E c od A (patchAWSCluster E f q) (\<lambda>_. True)"
  unfolding patchAWSCluster_def
  by (rule safe_bindM [OF conf_cell], rule safe_bindM [OF conf_hold], simp add: assms(2), rule conf_answer [OF assms(1)])

lemma conf_cluster_ops:
  assumes "roleWorld E R A"
  shows "conf E c od A (AddFinalizer E f) (\<lambda>_. True)" "conf E c od A (RemoveFinalizer E f) (\<lambda>_. True)"
    "conf E c od A (AddAWSClusterFinalizer E f) (\<lambda>_. True)" "conf E c od A (RemoveAWSClusterFinalizer E f) (\<lambda>_. True)"
    "conf E c od A (AWSClusterClient_MarkConditionTrue E f) (\<lambda>_. True)"
    "conf E c od A (UpdateStatus E) (\<lambda>_. True)" "conf E c od A (PatchCluster E base) (\<lambda>_. True)"
    "conf E c od A (Unpause E) (\<lambda>_. True)"
  unfolding AddFinalizer_def RemoveFinalizer_def AddAWSClusterFinalizer_def RemoveAWSClusterFinalizer_def
    AWSClusterClient_MarkConditionTrue_def UpdateStatus_def PatchCluster_def Unpause_def
  by (rule conf_patch [OF assms] safe_bindM [OF conf_cell] conf_answer [OF assms] safe_if conf_hold
      safe_bindM [OF conf_k8s] k8s_rules | simp)+

lemma safe_then: "safe I P m (\<lambda>_. True) \<Longrightarrow> (\<And>x. safe I P (f x) Q) \<Longrightarrow> safe I P (bindM m f) Q"
  by (rule safe_bindM)

lemma conf_cell_changes:
  "conf E c od A (MarkReady E cond) (\<lambda>_. True)" "conf E c od A (setAnnotations f) (\<lambda>_. True)"
  "conf E c od A (markInProgress E) (\<lambda>_. True)" "conf E c od A getAttachmentTags (\<lambda>_. True)"
  unfolding MarkReady_def setAnnotations_def markInProgress_def getAttachmentTags_def
  by (auto intro!: conf_change safe_bindM [OF conf_cell] safe_then [OF conf_hold] safe_retM conf_k8s [OF k8sKept.Pair]
      split: option.split)


section \<open>The network controllers\<close>

lemma conf_roleOf:
  "(\<And>x. i = Some x \<Longrightarrow> ri_RoleArn x \<in> R) \<Longrightarrow> conf E c od A (roleOf i) (\<lambda>role. role \<in> R)"
  unfolding roleOf_def by (auto intro!: safe_case_option safe_panicM safe_retM)

lemma conf_withAWSCluster:
  assumes "roleWorld E R A" "\<And>a. goodRegion (ac_Region a) \<Longrightarrow> conf E c od A (f a) (\<lambda>_. True)"
  shows "conf E c od A (withAWSCluster E ns n f) (\<lambda>_. True)"
  unfolding withAWSCluster_def
  by (rule safe_try_case [OF conf_reads(1) [OF assms(1)]], rule conf_k8s, rule k8s_rules)
    (auto intro!: safe_then [OF conf_hold] assms(2) dest: goodRegion_not_role)

lemma conf_ignore: "conf E c od A (ignoreNotFound e) (\<lambda>_. True)" "conf E c od A (requeueRetryable e) (\<lambda>_. True)"
  unfolding requeueRetryable_def by (auto intro!: conf_k8s k8s_rules)

text \<open>The rules with which a reconciliation is taken apart; clients are used only as \<open>A\<close> allows.\<close>

lemmas conf_steps = safe_retM safe_errM safe_panicM safe_deferM safe_if safe_case_option safe_Let safe_case_prod
  conf_ignore conf_cell_changes safe_then [OF conf_cell_changes(1)] safe_then [OF conf_cell_changes(2)] safe_then [OF conf_cell_changes(3)]
  safe_then [OF conf_cell_changes(4)] safe_bindM [OF conf_cell]

lemma conf_tryThen:
  assumes "safe I P m (\<lambda>_. True)" "\<And>e. safe I P (f e) Q'" "\<And>x. safe I P (g x) Q'"
  shows "safe I P (bindM (tryM m) (\<lambda>r. case r of Inl e \<Rightarrow> f e | Inr x \<Rightarrow> g x)) Q'"
  by (rule safe_try_case [OF assms(1)]) (simp_all add: assms)

lemma conf_MC_parts:
  assumes W: "roleWorld E R A" and cr: "credsIn A tg" "credsIn A pl"
  shows "conf E c od A (MC_reconcileNormal E tg pl) (\<lambda>_. True)" "conf E c od A (MC_reconcileDelete E tg pl) (\<lambda>_. True)"
proof -
  note ops = conf_cluster_ops [OF W] and aws = conf_aws [OF cr(1)] conf_aws [OF cr(2)]
  show "conf E c od A (MC_reconcileNormal E tg pl) (\<lambda>_. True)" "conf E c od A (MC_reconcileDelete E tg pl) (\<lambda>_. True)"
    unfolding MC_reconcileNormal_def MC_reconcileDelete_def applyTransitGateway_def applyPrefixList_def
    by (rule conf_steps ops aws conf_tryThen safe_then | simp)+
qed


lemma conf_network_parts:
  assumes W: "roleWorld E R A" and cr: "credsIn A cl"
  shows "conf E c od A (Attachment_reconcileNormal E cl arn) (\<lambda>_. True)" "conf E c od A (Attachment_reconcileDelete E cl arn) (\<lambda>_. True)"
    "conf E c od A (Entry_reconcileNormal E cl arn) (\<lambda>_. True)" "conf E c od A (Entry_reconcileDelete E cl arn) (\<lambda>_. True)"
    "conf E c od A (Route_reconcileNormal E cl rule subnets) (\<lambda>_. True)"
    "conf E c od A (Route_reconcileDelete E cl rule subnets) (\<lambda>_. True)"
    "conf E c od A (shareTransitGateway E mc acc cl) (\<lambda>_. True)" "conf E c od A (sharePrefixList E mc acc cl) (\<lambda>_. True)"
  unfolding Attachment_reconcileNormal_def Attachment_reconcileDelete_def Entry_reconcileNormal_def Entry_reconcileDelete_def
    Route_reconcileNormal_def Route_reconcileDelete_def shareTransitGateway_def sharePrefixList_def
  by (rule conf_steps conf_cluster_ops [OF W] conf_aws [OF cr] conf_tryThen safe_then [OF conf_liftE] safe_then | simp)+

text \<open>What is done with the role of an identity.\<close>

lemma conf_identity:
  assumes "roleWorld E R A" and f: "\<And>role. role \<in> R \<Longrightarrow> conf E c od A (f role) Q"
  shows "conf E c od A (bindM (AWSClusterClient_GetIdentity E ac) (\<lambda>i. bindM (roleOf i) f)) Q"
  by (rule safe_bindM [OF conf_reads(4) [OF assms(1)]], rule safe_bindM [OF conf_roleOf f]) blast+

lemma roleWorld_laws:
  assumes "roleWorld E R A"
  shows "loader_laws E" "gocache_laws (e_cache E)" "role \<in> R \<Longrightarrow> role \<in> rp_roles A" "role \<in> R \<Longrightarrow> validRole role"
  using assms by (auto simp: roleWorld_def rolesOf_def)

lemma conf_roleClient:
  assumes "roleWorld E R A" "role \<in> R"
  shows "conf E c od A (NewTransitGatewayClient E c region role) (credsIn A)"
    "conf E c od A (NewPrefixListClient E c region role) (credsIn A)"
    "conf E c od A (NewRouteTableClient E c region role) (credsIn A)"
  using assms by (auto intro!: conf_roleClients dest: roleWorld_laws)

lemma conf_regionClient:
  assumes "roleWorld E R A" "role \<in> R" "\<not> validRole region"
  shows "conf E c od A (NewEC2Client E c region role) (credsIn A)" "conf E c od A (NewRAMClient E c region role) (credsIn A)"
    "conf E c od A (NewS3Client E c region role) (credsIn A)" "conf E c od A (NewResolverClient E c region role) (credsIn A)"
  using assms by (auto intro!: conf_regionClients dest: roleWorld_laws)

lemma conf_GetManagementCluster:
  "roleWorld E R A \<Longrightarrow> conf E c od A (GetManagementCluster E r) (\<lambda>a. goodRegion (ac_Region a))"
  unfolding GetManagementCluster_def by (rule conf_reads)

lemma conf_MC: "roleWorld E R A \<Longrightarrow> nr_clients r = c \<Longrightarrow> conf E c od A (MC_Reconcile E r ns n) (\<lambda>_. True)"
  unfolding MC_Reconcile_def
  by (rule conf_withAWSCluster conf_steps conf_identity conf_cluster_ops conf_MC_parts
      safe_bindM [OF conf_roleClient(1)] safe_bindM [OF conf_roleClient(2)] | assumption | simp)+

lemma conf_Attachment: "roleWorld E R A \<Longrightarrow> nr_clients r = c \<Longrightarrow> conf E c od A (Attachment_Reconcile E r ns n) (\<lambda>_. True)"
  unfolding Attachment_Reconcile_def
  by (rule conf_withAWSCluster safe_bindM [OF conf_GetManagementCluster] conf_steps conf_identity conf_cluster_ops conf_network_parts
      safe_bindM [OF conf_roleClient(1)] | assumption | simp)+

lemma conf_Entry: "roleWorld E R A \<Longrightarrow> nr_clients r = c \<Longrightarrow> conf E c od A (Entry_Reconcile E r ns n) (\<lambda>_. True)"
  unfolding Entry_Reconcile_def
  by (rule conf_withAWSCluster safe_bindM [OF conf_GetManagementCluster] conf_steps conf_identity conf_cluster_ops conf_network_parts
      safe_bindM [OF conf_roleClient(2)] | assumption | simp)+

lemma conf_GetARNResourceID: "conf E c od A (GetARNResourceID E arn) (\<lambda>_. True)"
  unfolding GetARNResourceID_def by (rule conf_k8s) (intro k8s_rules)

lemma conf_Route:
  assumes W: "roleWorld E R A" and r: "nr_clients r = c"
  shows "conf E c od A (Route_Reconcile E r ns n) (\<lambda>_. True)"
proof -
  have rules: "conf E c od A (Route_reconcileRules E r a mc i) (\<lambda>_. True)" if "ri_RoleArn i \<in> R" for a mc i
    unfolding Route_reconcileRules_def r
    by (rule conf_steps safe_then [OF conf_GetARNResourceID] safe_bindM [OF conf_roleClient(3)] conf_network_parts W that
        | assumption | simp)+
  show ?thesis
    unfolding Route_Reconcile_def
    by (auto intro!: conf_withAWSCluster [OF W] safe_then [OF safe_any [OF conf_GetManagementCluster [OF W]]] safe_bindM [OF conf_reads(3) [OF W]]
        conf_steps rules split: routeMode.split)
qed

lemma conf_Share:
  assumes W: "roleWorld E R A" and r: "nr_clients r = c"
  shows "conf E c od A (Share_Reconcile E r ns n) (\<lambda>_. True)"
proof -
  have client: "conf E c od A (getRamClientFromCluster E r a) (credsIn A)" if "goodRegion (ac_Region a)" for a
    unfolding getRamClientFromCluster_def r
    by (rule conf_identity [OF W], rule conf_regionClient [OF W]) (simp_all add: goodRegion_not_role that)
  have ram: "conf E c od A (getRamClient E r) (credsIn A)"
    unfolding getRamClient_def by (rule safe_bindM [OF conf_GetManagementCluster [OF W] client])
  have account: "conf E c od A (getAccountId E a) (\<lambda>_. True)" for a
    unfolding getAccountId_def roleOf_def by (rule conf_k8s) (intro k8s_rules)
  have "conf E c od A (Share_reconcileNormal E r) (\<lambda>_. True)"
    unfolding Share_reconcileNormal_def
    by (rule conf_steps safe_then [OF account] safe_bindM [OF conf_GetManagementCluster [OF W]] safe_bindM [OF client]
        conf_network_parts [OF W] safe_then | assumption | simp)+
  moreover have "conf E c od A (Share_reconcileDelete E r) (\<lambda>_. True)"
    unfolding Share_reconcileDelete_def
    by (rule conf_steps safe_bindM [OF ram] safe_then conf_aws conf_cluster_ops [OF W] | assumption | simp)+
  ultimately show ?thesis
    unfolding Share_Reconcile_def by (auto intro!: conf_withAWSCluster [OF W] conf_steps)
qed


section \<open>Resolver rules, unpausing\<close>

lemma buildCluster_sel [simp]:
  "cl_IAMRoleARN (buildClusterFromAWSCluster L ac i mc dl) = ri_RoleArn i"
  "cl_Region (buildClusterFromAWSCluster L ac i mc dl) = ac_Region ac"
  "cl_IAMRoleARN (buildClusterFromAWSManagedControlPlane L cp i mc dl) = ri_RoleArn i"
  "cl_Region (buildClusterFromAWSManagedControlPlane L cp i mc dl) = mcp_Region cp"
  by (simp_all add: buildClusterFromAWSCluster_def buildClusterFromAWSManagedControlPlane_def Let_def)

definition rulesCluster :: "string set \<Rightarrow> Cluster \<Rightarrow> bool" where
  "rulesCluster R cluster \<longleftrightarrow> cl_IAMRoleARN cluster \<in> R \<and> \<not> validRole (cl_Region cluster)"

lemma conf_clusterClients:
  assumes "roleWorld E R A" "rulesCluster R cluster"
  shows "conf E c od A (NewEC2Client E c (cl_Region cluster) (cl_IAMRoleARN cluster)) (credsIn A)"
    "conf E c od A (NewRAMClient E c (cl_Region cluster) (cl_IAMRoleARN cluster)) (credsIn A)"
    "conf E c od A (NewResolverClient E c (cl_Region cluster) (cl_IAMRoleARN cluster)) (credsIn A)"
  using assms by (auto simp: rulesCluster_def intro!: conf_regionClient)

lemma conf_dnsServer:
  assumes "roleWorld E R A" "rulesCluster R cluster" "ds_IAMRoleToAssume (rs_dnsServer r) \<in> rp_chained A"
  shows "conf E c od A (dnsServerResolverClient E r cluster) (credsIn A)"
  unfolding dnsServerResolverClient_def
  by (rule conf_externalClient) (use assms in \<open>auto simp: rulesCluster_def dest: roleWorld_laws\<close>)

lemma conf_rules_parts:
  assumes W: "roleWorld E R A" and r: "rs_awsClients r = c" "ds_IAMRoleToAssume (rs_dnsServer r) \<in> rp_chained A" and cl: "rulesCluster R cluster"
  shows "conf E c od A (CreateRule E r cluster) (\<lambda>_. True)"
    "conf E c od A (AssociateResolverRulesInAccountWithClusterVPC E r cluster account) (\<lambda>_. True)"
    "conf E c od A (Rules_cleanup E r cluster owned) (\<lambda>_. True)"
proof -
  note clients = conf_clusterClients [OF W cl] conf_dnsServer [OF W cl r(2)]
  note steps = conf_steps clients [THEN safe_bindM] conf_tryThen safe_then safe_forM safe_forM_skip conf_aws safe_then [OF conf_liftE]
  show "conf E c od A (CreateRule E r cluster) (\<lambda>_. True)"
    unfolding CreateRule_def createRule_def associateRule_def r(1) by (rule steps | assumption | simp)+
  show "conf E c od A (AssociateResolverRulesInAccountWithClusterVPC E r cluster account) (\<lambda>_. True)"
    unfolding AssociateResolverRulesInAccountWithClusterVPC_def associateOne_def r(1)
    by (rule steps safe_try | assumption | simp)+
  show "conf E c od A (Rules_cleanup E r cluster owned) (\<lambda>_. True)"
    unfolding Rules_cleanup_def DeleteRule_def deleteShareAndGroup_def DisassociateResolverRulesInAccountWithClusterVPC_def r(1)
    by (rule steps | assumption | simp)+
qed

lemma conf_Rules:
  assumes W: "roleWorld E R A" and r: "rs_awsClients r = c" "ds_IAMRoleToAssume (rs_dnsServer r) \<in> rp_chained A"
  shows "conf E c od A (Rules_Reconcile E r ns n) (\<lambda>_. True)"
proof -
  note parts = conf_rules_parts [OF W r] and ops = conf_cluster_ops [OF W]
  have normal: "conf E c od A (Rules_reconcileNormal E r i) (\<lambda>_. True)" if "ri_RoleArn i \<in> R" for i
    unfolding Rules_reconcileNormal_def
    by (rule conf_steps ops safe_then parts | simp add: rulesCluster_def that)+
  have delete: "conf E c od A (Rules_reconcileDelete E r i) (\<lambda>_. True)" if "ri_RoleArn i \<in> R" for i
    unfolding Rules_reconcileDelete_def Rules_removeFinalizer_def
    by (rule conf_steps conf_tryThen ops safe_then parts | simp add: rulesCluster_def that)+
  show ?thesis
    unfolding Rules_Reconcile_def
    by (auto simp: Let_def intro!: safe_try_case [OF conf_reads(1) [OF W]] safe_then [OF conf_hold] safe_bindM [OF conf_reads(4) [OF W]]
        conf_steps normal delete dest: goodRegion_not_role)
qed

lemma conf_Unpause:
  assumes W: "roleWorld E R A"
  shows "conf E c od A (Unpause_Reconcile E ns n) (\<lambda>_. True)"
  unfolding Unpause_Reconcile_def Unpause_reconcileNormal_def
  by (auto simp: Let_def intro!: safe_try_case [OF conf_reads(1) [OF W]] safe_then [OF conf_hold] conf_steps
      safe_then [OF conf_cluster_ops(8) [OF W]] safe_then [OF conf_k8s [OF k8s_cells(2)]] safe_then [OF conf_k8s [OF k8s_objects(3)]]
      dest: goodRegion_not_role)

section \<open>Karpenter, Crossplane\<close>

lemma k8s_marks [k8s_rules]:
  "within k8sKept (markTrueBecause E cond reason)" "within k8sKept (markFalseBecause E cond reason msg)"
  "within k8sKept (kmpNotReady E msg)" "within k8sKept m \<Longrightarrow> within k8sKept (orNotReady E msg w m)"
  unfolding markTrueBecause_def markFalseBecause_def orNotReady_def kmpNotReady_def MarkKarpenterMachinePoolNotReady_def
  by (intro k8s_rules; assumption)+

lemmas mark_defs = MarkNodePoolCreated_def MarkNodePoolNotCreated_def MarkEC2NodeClassCreated_def MarkEC2NodeClassNotCreated_def
  MarkBootstrapDataReady_def MarkBootstrapDataNotReady_def MarkVersionSkewPolicySatisfied_def MarkVersionSkewInvalid_def
  MarkKarpenterMachinePoolReady_def MarkKarpenterMachinePoolNotReady_def

lemma k8s_karpenter [k8s_rules]:
  "within k8sKept (createOrUpdateKarpenterResources E cluster tags ami user)" "within k8sKept (deleteKarpenterResources E cluster)"
  "within k8sKept (saveKarpenterInstancesToStatus E cluster)" "within k8sKept (IsVersionSkewAllowed E cluster mp)"
  "within k8sKept (KMP_skewBlocked E v w)" "within k8sKept (KMP_owner E kmp)" "within k8sKept (KMP_clusterOf E mp)"
  unfolding createOrUpdateKarpenterResources_def createOrUpdateEC2NodeClass_def createOrUpdateNodePool_def
    deleteKarpenterResources_def wcDelete_def connect_def saveKarpenterInstancesToStatus_def
    computeProviderIDListFromNodeClaimsInWorkloadCluster_def getWorkloadClusterNodeClaims_def IsVersionSkewAllowed_def
    getControlPlaneVersion_def KMP_skewBlocked_def KMP_owner_def KMP_clusterOf_def mark_defs
  by (intro k8s_rules)+

lemma conf_orNotReady: "conf E c od A m Q \<Longrightarrow> conf E c od A (orNotReady E msg wrap m) Q"
  unfolding orNotReady_def
  by (erule safe_try_case) (rule safe_then [OF conf_k8s [OF k8s_marks(3)]] safe_errM safe_retM | assumption)+

lemmas conf_leaves = k8s_call [THEN conf_k8s] k8s_cells [THEN conf_k8s] k8s_patches [THEN conf_k8s] k8s_marks(1-3) [THEN conf_k8s]
  k8s_karpenter [THEN conf_k8s] k8s_objects [THEN conf_k8s] k8sKept.getM [THEN conf_k8s] k8sKept.liftE [THEN conf_k8s]

text \<open>The region of a context is that of a cluster or control plane that was read.\<close>

lemma conf_contexts:
  assumes W: "roleWorld E R A"
  shows "conf E c od A (KMP_eksContext E cluster) (\<lambda>x. \<forall>ctx. x = Inr ctx \<longrightarrow> goodRegion (kx_region ctx))"
    "conf E c od A (KMP_capaContext E cluster mp) (\<lambda>x. \<forall>ctx. x = Inr ctx \<longrightarrow> goodRegion (kx_region ctx))"
proof -
  show "conf E c od A (KMP_eksContext E cluster) (\<lambda>x. \<forall>ctx. x = Inr ctx \<longrightarrow> goodRegion (kx_region ctx))"
    unfolding KMP_eksContext_def
    by (rule safe_panicM safe_retM safe_if safe_case_option safe_bindM [OF conf_orNotReady [OF conf_reads(2) [OF W]]]
        safe_then [OF conf_k8s [OF k8sKept.getM]] | simp)+
  show "conf E c od A (KMP_capaContext E cluster mp) (\<lambda>x. \<forall>ctx. x = Inr ctx \<longrightarrow> goodRegion (kx_region ctx))"
    unfolding KMP_capaContext_def mark_defs
    by (rule safe_panicM safe_retM safe_errM safe_if safe_case_option safe_bindM [OF conf_orNotReady [OF conf_reads(1) [OF W]]] safe_then [OF conf_k8s [OF k8sKept.getM]]
        safe_then [OF conf_k8s [OF k8s_marks(2)]] safe_then [OF conf_k8s [OF k8s_marks(3)]] | simp)+
qed

lemma conf_userData:
  assumes W: "roleWorld E R A" and i: "ri_RoleArn i \<in> R" "\<not> validRole region"
  shows "conf E c od A (reconcileMachinePoolBootstrapUserData E c secret i region bucket) (\<lambda>_. True)"
    "conf E c od A (KMP_reconcileDelete E c cluster i region bucket) (\<lambda>_. True)"
proof -
  note clients = conf_regionClient [OF W i]
  show "conf E c od A (reconcileMachinePoolBootstrapUserData E c secret i region bucket) (\<lambda>_. True)"
    unfolding reconcileMachinePoolBootstrapUserData_def Let_def mark_defs
    by (rule safe_bindM [OF clients(3)] safe_then [OF conf_aws(5)] conf_tryThen safe_if safe_errM safe_retM conf_leaves safe_then TrueI
        | assumption)+
  show "conf E c od A (KMP_reconcileDelete E c cluster i region bucket) (\<lambda>_. True)"
    unfolding KMP_reconcileDelete_def KMP_deletionGate_def KMP_waitForInstances_def KMP_release_def KMP_deleteUserData_def
    by (rule safe_wrapM safe_bindM [OF safe_wrapM [OF clients(1)]] safe_bindM [OF safe_wrapM [OF clients(3)]] conf_aws
        safe_if safe_errM safe_retM conf_leaves safe_then safe_try safe_case_sum TrueI | assumption)+
qed


lemma conf_KMP:
  assumes W: "roleWorld E R A"
  shows "conf E c od A (KMP_Reconcile E c ns n) (\<lambda>_. True)"
proof -
  have normal: "conf E c od A (KMP_reconcileNormal E c kmp cluster mp ctx i) (\<lambda>_. True)"
    if "ri_RoleArn i \<in> R" "goodRegion (kx_region ctx)" for kmp cluster mp ctx i
    unfolding KMP_reconcileNormal_def mark_defs
    by (rule conf_userData(1) [OF W that(1) goodRegion_not_role [OF that(2)]] conf_tryThen safe_if safe_case_option safe_errM safe_panicM
        safe_retM conf_leaves conf_orNotReady safe_wrapM TrueI safe_then)+
  have decide: "conf E c od A (KMP_decide E c kmp mp cluster ctx i) (\<lambda>_. True)"
    if "ri_RoleArn i \<in> R" "goodRegion (kx_region ctx)" for kmp cluster mp ctx i
    unfolding KMP_decide_def
    by (rule normal [OF that] conf_userData(2) [OF W that(1) goodRegion_not_role [OF that(2)]] safe_if safe_case_prod
        conf_leaves safe_then)+
  have body: "conf E c od A (KMP_body E c kmp) (\<lambda>_. True)" for kmp
    unfolding KMP_body_def KMP_reconcileCluster_def KMP_roleIdentity_def
    by (auto intro!: safe_then [OF conf_k8s [OF k8s_karpenter(6)]] safe_then [OF conf_k8s [OF k8s_karpenter(7)]]
        safe_then [OF conf_k8s [OF k8sKept.getM]] safe_if safe_retM safe_bindM [OF conf_contexts(1) [OF W]] safe_bindM [OF conf_contexts(2) [OF W]]
        safe_bindM [OF conf_orNotReady [OF conf_reads(5) [OF W]]] decide split: option.split sum.split)
  show ?thesis
    unfolding KMP_Reconcile_def
    by (rule body safe_deferM conf_tryThen conf_leaves safe_wrapM safe_then)+
qed

lemma k8s_crossplane [k8s_rules]:
  "within k8sKept (Crossplane_provide E r info)" "within k8sKept (Crossplane_cleanup E cluster)"
  "within k8sKept (Crossplane_AddFinalizer E)" "within k8sKept (eksClusterInfo E ns n)" "within k8sKept (capaClusterInfo E r ns n)"
  unfolding Crossplane_provide_def reconcileConfigMap_def createConfigMap_def updateConfigMap_def getConfigMapValues_def
    reconcileProviderConfig_def createProviderConfig_def updateProviderConfig_def Crossplane_cleanup_def k8sDelete_def
    Crossplane_AddFinalizer_def eksClusterInfo_def capaClusterInfo_def getRoleArn_def
  by (intro k8s_rules)+

lemma conf_Crossplane:
  assumes W: "roleWorld E R A"
  shows "conf E c od A (Crossplane_Reconcile E r ns n) (\<lambda>_. True)"
proof -
  have remove: "conf E c od A (Crossplane_RemoveFinalizer E cluster) (\<lambda>_. True)" for cluster
    unfolding Crossplane_RemoveFinalizer_def
    by (rule safe_bindM [OF safe_tryM [OF conf_reads(1) [OF W]]])
      (auto intro!: safe_then conf_hold conf_leaves conf_patch [OF W] safe_if safe_errM safe_retM
        split: sum.splits dest: goodRegion_not_role)
  show ?thesis
    unfolding Crossplane_Reconcile_def Crossplane_reconcileDelete_def Crossplane_reconcileNormal_def
    by (rule remove conf_tryThen safe_if safe_retM TrueI conf_leaves k8s_crossplane [THEN conf_k8s] safe_then)+
qed


section \<open>DNS\<close>

text \<open>A zoner's operations leave the held \<^verbatim>\<open>AWSCluster\<close> alone.\<close>

definition cellKept :: "('w, 'c) sys \<Rightarrow> ('w, 'c) sys \<Rightarrow> bool" where
  "cellKept s t \<longleftrightarrow> m_AWSCluster t = m_AWSCluster s"

interpretation cellKept: run_relation cellKept
  by unfold_locales (auto simp: cellKept_def)

lemma conf_zoner:
  assumes "safe (zoner_inv E d) (roleEvent A) m Q" "within cellKept m" "z_awsClients d = c"
  shows "conf E c (Some d) A m Q"
  unfolding safe_def
proof (intro allI impI)
  fix s assume inv: "opInv E c (Some d) s"
  let ?t = "snd (m s)"
  have "zoner_inv E d s" using inv by (simp add: opInv_def)
  with assms(1) have run: "appends (roleEvent A) s ?t \<and> zoner_inv E d ?t \<and> (\<forall>x. fst (m s) = Ok x \<longrightarrow> Q x)"
    unfolding safe_def by blast
  moreover have "m_AWSCluster ?t = m_AWSCluster s" using assms(2) by (simp add: within_def cellKept_def)
  ultimately show "appends (roleEvent A) s ?t \<and> opInv E c (Some d) ?t \<and> (\<forall>x. fst (m s) = Ok x \<longrightarrow> Q x)"
    using inv assms(3) by (auto simp: opInv_def zoner_inv_def)
qed

lemma cell_r53: "within (r53step r) m \<Longrightarrow> within cellKept m"
  by (erule within_mono) (auto simp: r53step_def onlyCaches_def cellKept_def)

lemma cell_client: "within cellKept (getCachedOrNewRoute53Client E d region arn)"
proof -
  have cache: "within cellKept (cacheGet E i k)" "within cellKept (cacheSet E i k v)" "within cellKept (cacheNew E)" for i k v
    by (auto simp: within_def cellKept_def cache_run cacheNew_def)
  have config: "within cellKept (configFromRegion E c region)" for c
    by (auto simp: within_def cellKept_def configFromRegion_def configCacheLoad_def configCacheStore_def LoadDefaultConfig_def
        bindM_def split: option.splits prod.splits sum.splits)
  show ?thesis
    unfolding getCachedOrNewRoute53Client_def NewRoute53Client_def newRoute53Client_def NewRoute53_def
    by (intro cellKept.rules within_if within_case_option cache config; simp add: cellKept.rules split: cval.split)
qed

lemmas cell_rules = cellKept.rules within_if within_case_sum within_tryM cell_client zoner_steps [THEN cell_r53]

lemma cell_zoner: "within cellKept (Zoner_CreateHostedZone E d cluster)" "within cellKept (Zoner_DeleteHostedZone E d cluster)"
  unfolding Zoner_CreateHostedZone_def Zoner_DeleteHostedZone_def reconcileDnsRecords_def by (intro cell_rules)+

text \<open>A client for a role that is an ARN, or for the program's own credentials.\<close>

lemma safe_zoneClient:
  assumes "roleWorld E R A" "goodRegion region" "arn = '''' \<or> validRole arn"
  shows "safe (zoner_inv E d) P (getCachedOrNewRoute53Client E d region arn) (clientFor d region arn)"
proof (cases "arn = ''''")
  case True
  with assms(2) show ?thesis
    unfolding getCachedOrNewRoute53Client_def
    by (simp add: safe_NewRoute53Client [OF roleWorld_laws(1) [OF assms(1)]] goodRegion_def)
next
  case False
  with assms show ?thesis
    by (auto simp: goodTarget_def goodRegion_def dest: roleWorld_laws intro!: safe_getCachedOrNewRoute53Client)
qed

definition dnsCluster :: "string set \<Rightarrow> Cluster \<Rightarrow> bool" where
  "dnsCluster R cluster \<longleftrightarrow> goodRegion (cl_Region cluster) \<and> cl_IAMRoleARN cluster \<in> R \<and>
     (getDelegationRoleARN cluster = '''' \<or> getDelegationRoleARN cluster \<in> R)"

lemma requestAs_role: "requestAs (roleCreds c region arn) e \<Longrightarrow> arn \<in> rp_roles A \<Longrightarrow> roleEvent A e"
  by (auto simp: requestAs_def roleEvent_def credsIn_def roleCreds_def)

lemma conf_zoner_ops:
  assumes W: "roleWorld E R A" and cl: "dnsCluster R cluster" and c: "z_awsClients d = c"
  shows "conf E c (Some d) A (Zoner_CreateHostedZone E d cluster) (\<lambda>_. True)"
    "conf E c (Some d) A (Zoner_DeleteHostedZone E d cluster) (\<lambda>_. True)"
proof -
  have A: "cl_IAMRoleARN cluster \<in> rp_roles A" "getDelegationRoleARN cluster \<in> rp_roles A" and good: "goodRegion (cl_Region cluster)"
    and arn: "cl_IAMRoleARN cluster = '''' \<or> validRole (cl_IAMRoleARN cluster)"
    "getDelegationRoleARN cluster = '''' \<or> validRole (getDelegationRoleARN cluster)"
    using cl W by (auto simp: dnsCluster_def roleWorld_def rolesOf_def)
  note client = safe_zoneClient [OF W good arn(1)] safe_zoneClient [OF W good arn(2)]
  have own: "safe (zoner_inv E d) (roleEvent A) m (\<lambda>_. True)"
    if "clientFor d (cl_Region cluster) (cl_IAMRoleARN cluster) r" "within (r53step r) m" for r m
    by (rule safe_zone [OF that(2,1)]) (erule requestAs_role [OF _ A(1)])
  have other: "safe (zoner_inv E d) (roleEvent A) m (\<lambda>_. True)"
    if "clientFor d (cl_Region cluster) (getDelegationRoleARN cluster) r" "within (r53step r) m" for r m
    by (rule safe_zone [OF that(2,1)]) (erule requestAs_role [OF _ A(2)])
  note rules = safe_bindM [OF client(1)] safe_bindM [OF client(2)] safe_if safe_retM safe_errM TrueI
  have "safe (zoner_inv E d) (roleEvent A) (Zoner_CreateHostedZone E d cluster) (\<lambda>_. True)"
    unfolding Zoner_CreateHostedZone_def reconcileDnsRecords_def
    by (rule rules safe_forM own [OF _ zoner_steps(1)] own [OF _ zoner_steps(3)] own [OF _ zoner_steps(8)] own [OF _ zoner_steps(9)]
        own [OF _ zoner_steps(10)] other [OF _ zoner_steps(2)] other [OF _ zoner_steps(4)] safe_then | assumption)+
  then show "conf E c (Some d) A (Zoner_CreateHostedZone E d cluster) (\<lambda>_. True)"
    by (rule conf_zoner [OF _ cell_zoner(1) c])
  have "safe (zoner_inv E d) (roleEvent A) (Zoner_DeleteHostedZone E d cluster) (\<lambda>_. True)"
    unfolding Zoner_DeleteHostedZone_def
    by (rule rules conf_tryThen own [OF _ zoner_steps(2)] own [OF _ zoner_steps(3)] own [OF _ zoner_steps(6)] own [OF _ zoner_steps(7)]
        other [OF _ zoner_steps(2)] other [OF _ zoner_steps(5)] safe_then | assumption)+
  then show "conf E c (Some d) A (Zoner_DeleteHostedZone E d cluster) (\<lambda>_. True)"
    by (rule conf_zoner [OF _ cell_zoner(2) c])
qed

lemma conf_delegationIdentity:
  "roleWorld E R A \<Longrightarrow> conf E c od A (getDelegationIdentity E a) (\<lambda>i. \<forall>x. i = Some x \<longrightarrow> ri_RoleArn x \<in> R)"
  unfolding getDelegationIdentity_def by (auto intro!: safe_if safe_retM conf_reads)

lemma dnsCluster_build:
  assumes "ri_RoleArn i \<in> R" "\<And>x. mc = Some x \<Longrightarrow> ri_RoleArn x \<in> R" "\<And>x. dl = Some x \<Longrightarrow> ri_RoleArn x \<in> R"
  shows "goodRegion (ac_Region ac) \<Longrightarrow> dnsCluster R (buildClusterFromAWSCluster L ac i mc dl)"
    "goodRegion (mcp_Region cp) \<Longrightarrow> dnsCluster R (buildClusterFromAWSManagedControlPlane L cp i mc dl)"
  using assms by (auto simp: dnsCluster_def getDelegationRoleARN_def buildClusterFromAWSCluster_def
      buildClusterFromAWSManagedControlPlane_def Let_def split: option.split)

lemma conf_Dns:
  assumes W: "roleWorld E R A" and c: "z_awsClients (dns_dnsZone r) = c"
  shows "conf E c (Some (dns_dnsZone r)) A (Dns_Reconcile E r ns n) (\<lambda>_. True)"
    "conf E c (Some (dns_dnsZone r)) A (EKSDns_Reconcile E r ns n) (\<lambda>_. True)"
proof -
  note zone = conf_zoner_ops [OF W _ c] and ops = conf_cluster_ops [OF W]
  have parts: "conf E c (Some (dns_dnsZone r)) A (Dns_reconcileNormal E r cluster) (\<lambda>_. True)"
    "conf E c (Some (dns_dnsZone r)) A (Dns_reconcileDelete E r cluster) (\<lambda>_. True)"
    "conf E c (Some (dns_dnsZone r)) A (EKSDns_reconcileNormal E r cluster) (\<lambda>_. True)"
    "conf E c (Some (dns_dnsZone r)) A (EKSDns_reconcileDelete E r cluster) (\<lambda>_. True)" if "dnsCluster R cluster" for cluster
    unfolding Dns_reconcileNormal_def Dns_reconcileDelete_def EKSDns_reconcileNormal_def EKSDns_reconcileDelete_def
    by (rule zone [OF that] ops safe_if safe_retM TrueI conf_leaves safe_then)+
  note reads = conf_reads [OF W] and get = safe_then [OF conf_k8s [OF k8s_objects(3)]]
  show "conf E c (Some (dns_dnsZone r)) A (Dns_Reconcile E r ns n) (\<lambda>_. True)"
    unfolding Dns_Reconcile_def Let_def
    by (auto intro!: safe_bindM [OF reads(1)] safe_bindM [OF reads(3)] safe_try_case [OF reads(1)] conf_ignore safe_then [OF conf_hold] get
        safe_if safe_retM safe_case_option safe_bindM [OF conf_delegationIdentity [OF W]] parts dnsCluster_build dest: goodRegion_not_role)
  show "conf E c (Some (dns_dnsZone r)) A (EKSDns_Reconcile E r ns n) (\<lambda>_. True)"
    unfolding EKSDns_Reconcile_def Let_def
    by (auto intro!: safe_bindM [OF reads(1)] safe_bindM [OF reads(3)] safe_try_case [OF reads(2)] conf_ignore
        safe_then [OF conf_k8s [OF k8s_cells(1)]] get safe_if safe_retM safe_case_option safe_bindM [OF conf_delegationIdentity [OF W]]
        parts dnsCluster_build)
qed


section \<open>The running program\<close>

text \<open>The roles of the program: those of identities and its own, and from them that of the DNS server.\<close>

definition operatorPolicy :: "flags \<Rightarrow> string set \<Rightarrow> rolePolicy" where
  "operatorPolicy fl R = \<lparr>rp_roles = insert '''' R, rp_chained = {fl_dnsServerIAMRoleArn fl}\<rparr>"

definition operatorClients :: "('w, 'c) env \<Rightarrow> Clients" where
  "operatorClients E = NewClients (e_getenv E ''AWS_ENDPOINT'')"

lemma conf_alwaysWired:
  assumes W: "roleWorld E R A" and r: "r \<in> set (alwaysWired E fl)"
  shows "conf E (operatorClients E) od A (reconcile E r ns n) (\<lambda>_. True)"
  using r by (auto simp: alwaysWired_def Let_def networkReconciler_def reconcilerConfigOf_def operatorClients_def
      intro!: conf_Route [OF W] conf_MC [OF W] conf_Attachment [OF W] conf_Entry [OF W] conf_Share [OF W] conf_KMP [OF W] conf_Crossplane [OF W])

lemma conf_resolverWired:
  assumes W: "roleWorld E R A" and "fl_dnsServerIAMRoleArn fl \<in> rp_chained A" "z_awsClients dns = operatorClients E"
    and r: "r \<in> set (resolverWired E fl dns)"
  shows "conf E (operatorClients E) (Some dns) A (reconcile E r ns n) (\<lambda>_. True)"
proof -
  have "conf E (operatorClients E) (Some dns) A (Dns_Reconcile E (NewDnsReconciler dns a b) ns n) (\<lambda>_. True)"
    "conf E (operatorClients E) (Some dns) A (EKSDns_Reconcile E (NewDnsReconciler dns a b) ns n) (\<lambda>_. True)" for a b
    using conf_Dns [OF W, of "NewDnsReconciler dns a b"] assms(3) by (simp_all add: NewDnsReconciler_def)
  with assms show ?thesis
    by (auto simp: resolverWired_def Let_def NewResolver_def NewDNSServer_def operatorClients_def
        intro!: conf_Rules [OF W] conf_Unpause [OF W])
qed

text \<open>The invariant of a running program: its process is consistent, its controllers are those that were wired, with
  the zoner whose cache the process holds, and the requests so far were allowed.\<close>

definition runInv :: "('w, 'c) env \<Rightarrow> flags \<Rightarrow> rolePolicy \<Rightarrow> controller list \<Rightarrow> ('w, 'c) sys \<Rightarrow> bool" where
  "runInv E fl A cs s \<longleftrightarrow> list_all (roleEvent A) (trace s) \<and>
     (\<exists>od. opInv E (operatorClients E) od s \<and>
        ct_Reconciler ` set cs \<subseteq> set (alwaysWired E fl) \<union> (case od of None \<Rightarrow> {} | Some dns \<Rightarrow> set (resolverWired E fl dns)))"

lemma opInv_NewDnsZone:
  assumes "gocache_laws (e_cache E)" "NewDnsZone E c bd s = (Ok dns, t)" "opInv E c None s"
  shows "opInv E c (Some dns) t \<and> trace t = trace s"
proof -
  from assms(2) have "t = (setCache (nextRef s) (gc_new (e_cache E)) s)\<lparr>nextRef := Suc (nextRef s)\<rparr>"
    "z_awsClientCache dns = nextRef s" "z_awsClients dns = c"
    by (auto simp: NewDnsZone_def bindM_def cacheNew_def)
  then show ?thesis
    using assms(1,3) by (auto simp: opInv_def zoner_inv_def configCache_inv_def gocache_laws_def)
qed

lemma runInv_start:
  assumes W: "roleWorld E R A" and run: "operator_main E M fl (newProcess s) = (Ok cs, t)"
    and "list_all (roleEvent A) (trace s)" "\<not> validRole (ac_Region (m_AWSCluster s))"
  shows "runInv E fl A cs t"
proof -
  have new: "opInv E (operatorClients E) None (newProcess s)" "trace (newProcess s) = trace s"
    using assms(4) by (auto simp: opInv_def newProcess_def configCache_inv_def)
  show ?thesis
  proof (cases "fl_disableResolverControllers fl")
    case True
    with operator_main_Ok [OF run] new assms(3) show ?thesis
      by (auto simp: runInv_def intro!: exI [of _ None])
  next
    case False
    with operator_main_Ok [OF run] obtain dns
      where dns: "NewDnsZone E (operatorClients E) (fl_workloadClusterBaseDomain fl) (newProcess s) = (Ok dns, t)"
        and cs: "cs = map SetupWithManager (resolverWired E fl dns @ alwaysWired E fl)"
      by (auto simp: operatorClients_def)
    from opInv_NewDnsZone [OF roleWorld_laws(2) [OF W] dns new(1)] new(2) assms(3) cs show ?thesis
      by (auto simp: runInv_def intro!: exI [of _ "Some dns"])
  qed
qed

lemma runInv_reconcile:
  assumes W: "roleWorld E R A" "fl_dnsServerIAMRoleArn fl \<in> rp_chained A"
    and inv: "runInv E fl A cs s" "c \<in> set cs" and run: "reconcile E (ct_Reconciler c) ns n s = (res, t)"
  shows "runInv E fl A cs t"
proof -
  obtain od where od: "opInv E (operatorClients E) od s"
    "ct_Reconciler ` set cs \<subseteq> set (alwaysWired E fl) \<union> (case od of None \<Rightarrow> {} | Some dns \<Rightarrow> set (resolverWired E fl dns))"
    and tr: "list_all (roleEvent A) (trace s)"
    using inv(1) by (auto simp: runInv_def)
  have "conf E (operatorClients E) od A (reconcile E (ct_Reconciler c) ns n) (\<lambda>_. True)"
  proof (cases "ct_Reconciler c \<in> set (alwaysWired E fl)")
    case True
    then show ?thesis by (rule conf_alwaysWired [OF W(1)])
  next
    case False
    then obtain dns where dns: "od = Some dns" "ct_Reconciler c \<in> set (resolverWired E fl dns)"
      using od(2) inv(2) by (cases od) auto
    with od(1) have "z_awsClients dns = operatorClients E" by (simp add: opInv_def)
    from conf_resolverWired [OF W this dns(2)] dns(1) show ?thesis by simp
  qed
  then have "appends (roleEvent A) s t \<and> opInv E (operatorClients E) od t"
    using od(1) run unfolding safe_def by (metis snd_conv)
  with od(2) tr show ?thesis by (auto simp: runInv_def appends_def)
qed

lemma runInv_running:
  assumes W: "roleWorld E R A" "fl_dnsServerIAMRoleArn fl \<in> rp_chained A"
    and init: "list_all (roleEvent A) (trace init)" "\<not> validRole (ac_Region (m_AWSCluster init))"
    and run: "running E M fl init cs s"
  shows "runInv E fl A cs s"
  using run
proof induction
  case (boot cs s)
  from runInv_start [OF W(1) boot init] show ?case .
next
  case (reconciled cs s c ns name res t)
  from runInv_reconcile [OF W reconciled(4,2,3)] show ?case .
next
  case (outside cs s w)
  then show ?case by (auto simp: runInv_def opInv_def configCache_inv_def zoner_inv_def)
next
  case (restarted cs s cs' t)
  then show ?case by (intro runInv_start [OF W(1) restarted(2)]) (auto simp: runInv_def opInv_def)
qed

end
