(* ===== verification/Karpenter_Properties.thy ===== *)
theory Karpenter_Properties
  imports Karpenter_Controller
begin

text \<open>
  Further properties of the Karpenter controller: what it means that a pool is ready, what is
  checked before resources are made in the workload cluster, when the bootstrap data is uploaded,
  and how the replicas are counted.
\<close>

section \<open>Ready\<close>

text \<open>Code that never returns a value, and code that handles an error by failing.\<close>

definition fails :: "('s, 'a) io \<Rightarrow> bool" where
  "fails m \<longleftrightarrow> (\<forall>s x. fst (m s) \<noteq> Ok x)"

lemma fails_errM [simp]: "fails (errM e)"
  by (simp add: fails_def)

lemma fails_bindM: "(\<And>x. fails (f x)) \<Longrightarrow> fails (bindM m f)"
  by (auto simp: fails_def bindM_def split: prod.split outcome.split)

lemma strict_handled:
  assumes m: "strict m" and h: "\<And>e. fails (h e)" "\<And>e. emits (\<lambda>_. True) (h e)" and g: "\<And>x. strict (g x)"
  shows "strict (bindM (tryM m) (\<lambda>r. case r of Inl e \<Rightarrow> h e | Inr x \<Rightarrow> g x))"
  unfolding strict_def
proof (intro conjI allI impI)
  let ?f = "\<lambda>r. case r of Inl e \<Rightarrow> h e | Inr x \<Rightarrow> g x"
  show emits: "emits (\<lambda>_. True) (bindM (tryM m) ?f)"
    by (intro emits_rules strict_emits m g h)
  fix s y assume "fst (bindM (tryM m) ?f s) = Ok y"
  then obtain t where "bindM (tryM m) ?f s = (Ok y, t)" by (metis prod.collapse)
  then obtain r u where u: "tryM m s = (Ok r, u)" "?f r u = (Ok y, t)" by (rule bindM_OkE)
  have "fst (h e u) \<noteq> Ok y" for e
    using h(1) by (simp add: fails_def)
  with u(2) obtain x where "r = Inr x" by (cases r) (auto, metis fst_conv)
  with u have x: "r = Inr x" "m s = (Ok x, u)" "g x u = (Ok y, t)"
    by (auto simp: tryM_def split: prod.splits outcome.splits)
  have "bindM (tryM m) ?f s = bindM m g s"
    using x by (simp add: bindM_def tryM_def)
  moreover have "strict (bindM m g)"
    by (intro strict_rules m g)
  ultimately show "list_all (\<lambda>e. ev_err e = None) (sent (bindM (tryM m) ?f) s)"
    using \<open>fst (bindM (tryM m) ?f s) = Ok y\<close> by (simp add: strict_def sent_def)
qed

lemma strict_wrapM [strict_rules]: "strict m \<Longrightarrow> strict (wrapM f m)"
  unfolding strict_def
  by (auto simp: sent_wrapM intro: within_wrapM) (metis prod.collapse wrapM_Ok fst_conv)

lemma strict_orNotReady [strict_rules]: "strict m \<Longrightarrow> strict (orNotReady E msg w m)"
  unfolding orNotReady_def by (rule strict_handled) (auto intro!: fails_bindM emits_rules strict_rules)

lemma strict_state [strict_rules]: "strict (modKMP f)" "strict (holdMachinePool mp)"
  "strict (NewS3Client E clients region arn)" "strict (kmpNotReady E msg)"
  by (rule strict_quiet, intro emits_rules s3Clients.new_quiet)+

lemma strict_marks [strict_rules]:
  "strict (MarkNodePoolCreated E)" "strict (MarkEC2NodeClassCreated E)" "strict (MarkBootstrapDataReady E)"
  "strict (MarkVersionSkewPolicySatisfied E)" "strict (MarkKarpenterMachinePoolReady E)"
  "strict (MarkNodePoolNotCreated E r m)" "strict (MarkEC2NodeClassNotCreated E r m)"
  "strict (MarkBootstrapDataNotReady E r m)" "strict (MarkVersionSkewInvalid E r m)"
  by (rule strict_quiet, rule emits_marks)+

lemma strict_prod [strict_rules]: "(\<And>a b. strict (f a b)) \<Longrightarrow> strict (case p of (a, b) \<Rightarrow> f a b)"
  by (cases p) simp

lemma strict_sum [strict_rules]:
  "(\<And>y. strict (f y)) \<Longrightarrow> (\<And>y. strict (g y)) \<Longrightarrow> strict (case x of Inl y \<Rightarrow> f y | Inr y \<Rightarrow> g y)"
  by (cases x) simp_all

lemma strict_resources [strict_rules]: "strict (createOrUpdateKarpenterResources E cluster at af ud)"
  unfolding createOrUpdateKarpenterResources_def createOrUpdateEC2NodeClass_def createOrUpdateNodePool_def connect_def
  by (intro strict_rules strict_handled fails_bindM fails_errM emits_rules)

lemma strict_bootstrap [strict_rules]: "strict (reconcileMachinePoolBootstrapUserData E clients n identity region bucket)"
  unfolding reconcileMachinePoolBootstrapUserData_def S3_Put_def
  by (intro strict_rules strict_handled fails_bindM fails_errM emits_rules)

lemma strict_save [strict_rules]: "strict (saveKarpenterInstancesToStatus E cluster)"
  unfolding saveKarpenterInstancesToStatus_def computeProviderIDListFromNodeClaimsInWorkloadCluster_def
    getWorkloadClusterNodeClaims_def connect_def
  by (intro strict_rules)

lemma strict_normal: "strict (KMP_reconcileNormal E clients before cluster mp ctx identity)"
  unfolding KMP_reconcileNormal_def patchKMP_def
  by (intro strict_rules strict_handled fails_bindM fails_errM emits_rules)

lemma strict_looks [strict_rules]:
  "strict (KMP_owner E kmp)" "strict (KMP_clusterOf E mp)" "strict (KMP_roleIdentity E ctx)"
  "strict (KMP_eksContext E cluster)" "strict (KMP_capaContext E cluster mp)" "strict (IsVersionSkewAllowed E cluster mp)"
  unfolding KMP_owner_def KMP_clusterOf_def KMP_roleIdentity_def KMP_eksContext_def KMP_capaContext_def
    IsVersionSkewAllowed_def getControlPlaneVersion_def GetAWSCluster_def GetAWSManagedControlPlane_def
  by (intro strict_rules)+

text \<open>
  \<open>readyIfDone m\<close>: when a run of \<open>m\<close> turns a pool ready that was not, then it has succeeded, and so has
  every request it sent. The rules follow the text of the program.
\<close>

definition readyIfDone :: "('w, 'c, Result) go \<Rightarrow> bool" where
  "readyIfDone m \<longleftrightarrow> (\<forall>s. \<not> unreadyKept s (snd (m s)) \<longrightarrow>
     fst (m s) = Ok noRequeue \<and> appends (\<lambda>e. ev_err e = None) s (snd (m s)))"

lemma readyIfDone_kept: "within unreadyKept m \<Longrightarrow> readyIfDone m"
  by (simp add: readyIfDone_def within_def)

lemma readyIfDone_retM: "readyIfDone (retM r)"
  by (rule readyIfDone_kept) (intro pool_rules)

lemma readyIfDone_panicM: "readyIfDone panicM"
  by (rule readyIfDone_kept) (intro pool_rules)

lemma readyIfDone_bindM:
  assumes m: "strict m" "within unreadyKept m" and f: "\<And>x. readyIfDone (f x)"
  shows "readyIfDone (bindM m f)"
  unfolding readyIfDone_def
proof (intro allI impI)
  fix s assume "\<not> unreadyKept s (snd (bindM m f s))"
  then obtain x u where u: "m s = (Ok x, u)" "\<not> unreadyKept u (snd (f x u))"
    by - (erule unreadyKept.escape [OF m(2)], blast)
  have "list_all (\<lambda>e. ev_err e = None) (sent m s)"
    using m(1) u(1) by (simp add: strict_def)
  then have "appends (\<lambda>e. ev_err e = None) s u"
    using withinD [OF strict_emits [OF m(1)] u(1)] u(1) by (auto simp: sent_def appends_def)
  moreover have "fst (f x u) = Ok noRequeue \<and> appends (\<lambda>e. ev_err e = None) u (snd (f x u))"
    using f [of x] u(2) by (auto simp: readyIfDone_def)
  ultimately show "fst (bindM m f s) = Ok noRequeue \<and> appends (\<lambda>e. ev_err e = None) s (snd (bindM m f s))"
    using u(1) appends.trans by (auto simp: bindM_run)
qed

lemma readyIfDone_last: "readyIfDone (bindM (modKMP f) (\<lambda>_. retM noRequeue))"
  by (simp add: readyIfDone_def modKMP_def appends_same)

lemma readyIfDone_cases:
  "readyIfDone m \<Longrightarrow> readyIfDone n \<Longrightarrow> readyIfDone (if b then m else n)"
  "readyIfDone m \<Longrightarrow> (\<And>y. readyIfDone (f y)) \<Longrightarrow> readyIfDone (case x of None \<Rightarrow> m | Some y \<Rightarrow> f y)"
  "(\<And>y. readyIfDone (f' y)) \<Longrightarrow> (\<And>z. readyIfDone (g z)) \<Longrightarrow> readyIfDone (case v of Inl y \<Rightarrow> f' y | Inr z \<Rightarrow> g z)"
  "(\<And>a b. readyIfDone (h a b)) \<Longrightarrow> readyIfDone (case p of (a, b) \<Rightarrow> h a b)"
  by (simp_all split: option.split sum.split prod.split)

lemma readyIfDone_normal: "readyIfDone (KMP_reconcileNormal E clients before cluster mp ctx identity)"
  unfolding KMP_reconcileNormal_def patchKMP_def
  by (intro readyIfDone_last readyIfDone_bindM strict_rules strict_handled fails_bindM fails_errM emits_rules
      pool_rules kept_modKMP) simp_all

lemma readyIfDone_body: "readyIfDone (KMP_body E clients before)"
  unfolding KMP_body_def KMP_reconcileCluster_def KMP_decide_def
  by (intro readyIfDone_retM readyIfDone_kept [OF unreadyKept_delete] readyIfDone_kept [OF kept_contexts(6)]
      readyIfDone_normal readyIfDone_cases readyIfDone_bindM strict_rules pool_rules)

text \<open>C17: a reconciliation turns a pool ready only when it succeeded: its result is success without a requeue,
  and no request it sent - to AWS, to the management cluster or to the workload cluster - had failed.\<close>

theorem karpenter_ready_means_done:
  assumes "\<not> kmp_Ready (m_KMP s)" "kmp_Ready (m_KMP (snd (KMP_body E clients before s)))"
  shows "fst (KMP_body E clients before s) = Ok noRequeue \<and>
    list_all (\<lambda>e. ev_err e = None) (sent (KMP_body E clients before) s)"
  using readyIfDone_body [of E clients before] assms
  by (fastforce simp: readyIfDone_def unreadyKept_def appends_def sent_def)

section \<open>What is checked before resources are made\<close>

definition finalizerPatched :: "event \<Rightarrow> bool" where
  "finalizerPatched e = (ev_err e = None \<and> (case ev_req e of
      K8sReq (K8sPatchKarpenterMachinePool old new) \<Rightarrow> KarpenterFinalizer \<in> set (om_Finalizers new)
    | _ \<Rightarrow> False))"

text \<open>\<open>guarded S m\<close>: \<open>m\<close> makes resources in the workload cluster only if \<open>S\<close>, and after the pool was patched
  to have the finalizer.\<close>

definition guarded :: "bool \<Rightarrow> ('w, 'c, 'a) go \<Rightarrow> bool" where
  "guarded S m \<longleftrightarrow> emits (\<lambda>_. True) m \<and> (\<forall>s e. e \<in> set (sent m s) \<and> applyEvent e \<longrightarrow>
     S \<and> (\<exists>xs ys. sent m s = xs @ ys \<and> list_ex finalizerPatched xs \<and> e \<in> set ys))"

lemma guarded_quiet: "emits (\<lambda>e. \<not> applyEvent e) m \<Longrightarrow> guarded S m"
  unfolding guarded_def using emits_sent [of "\<lambda>e. \<not> applyEvent e" m] by (auto simp: list_all_iff intro: emits_any)

lemma guarded_bindM:
  assumes m: "emits (\<lambda>e. \<not> applyEvent e) m" and f: "\<And>x. emits (\<lambda>_. True) (f x)"
    and g: "\<And>s x u. m s = (Ok x, u) \<Longrightarrow> guarded S (f x)"
  shows "guarded S (bindM m f)"
  unfolding guarded_def
proof (intro conjI allI impI)
  show "emits (\<lambda>_. True) (bindM m f)"
    by (intro emits_rules emits_any [OF m] f)
  fix s e assume e: "e \<in> set (sent (bindM m f) s) \<and> applyEvent e"
  then obtain x u where u: "m s = (Ok x, u)" "e \<in> set (sent (f x) u)" "sent (bindM m f) s = sent m s @ sent (f x) u"
    using sent_by_second [where F = applyEvent and m = m and f = f, OF m f] by blast
  with e g [OF u(1)] obtain xs ys where S: S "sent (f x) u = xs @ ys" "list_ex finalizerPatched xs" "e \<in> set ys"
    unfolding guarded_def by blast
  show S by (fact S(1))
  show "\<exists>xs ys. sent (bindM m f) s = xs @ ys \<and> list_ex finalizerPatched xs \<and> e \<in> set ys"
    using S(2-) u(3) by (intro exI [of _ "sent m s @ xs"] exI [of _ ys]) simp
qed

lemma guarded_if: "guarded S m \<Longrightarrow> guarded S n \<Longrightarrow> guarded S (if b then m else n)"
  by simp

lemma look_not_apply: "lookEvent e \<Longrightarrow> \<not> applyEvent e"
  by (auto simp: event_defs split: request.splits)

lemmas quiet_contexts [emits_rules] = emits_contexts [THEN emits_mono, OF look_not_apply]

lemma quiet_roleIdentity [emits_rules]: "emits (\<lambda>e. \<not> applyEvent e) (KMP_roleIdentity E ctx)"
  unfolding KMP_roleIdentity_def by (intro emits_rules emits_call) (simp add: applyEvent_def)

lemma delete_quiet_apply [emits_rules]:
  "emits (\<lambda>e. \<not> applyEvent e) (KMP_reconcileDelete E clients cluster identity region bucket)"
  unfolding KMP_reconcileDelete_def KMP_release_def
  by (intro emits_rules ec2Clients.new_quiet emits_deletionGate emits_deleteUserData emits_mono [OF emits_wait])
    (auto simp: event_defs)

lemma patched_first:
  fixes rest :: "('w, 'c, 'a) go"
  assumes rest: "emits (\<lambda>_. True) rest" and L: "finalizer_laws L"
  shows "guarded True (bindM (modKMP (om_Finalizers_update (\<lambda>fs. fst (l_AddFinalizer L fs KarpenterFinalizer))))
    (\<lambda>_. bindM (wrapM w (patchKMP E before)) (\<lambda>_. rest)))" (is "guarded True ?m")
  unfolding guarded_def
proof (intro conjI allI impI)
  show any: "emits (\<lambda>_. True) ?m"
    by (intro emits_patched rest) simp
  fix s :: "('w, 'c) sys" and e
  assume e: "e \<in> set (sent ?m s) \<and> applyEvent e"
  let ?k = "om_Finalizers_update (\<lambda>fs. fst (l_AddFinalizer L fs KarpenterFinalizer)) (m_KMP s)"
  let ?q = "K8sReq (K8sPatchKarpenterMachinePool before ?k)"
  let ?s = "s\<lparr>m_KMP := ?k\<rparr>"
  have patched: "finalizerPatched (Event ?q None)"
    using L by (simp add: finalizerPatched_def finalizer_laws_def)
  have m: "?m s = bindM (wrapM w (call (k_done (e_kube E)) ?q)) (\<lambda>_. rest) ?s"
    by (simp add: modKMP_def patchKMP_def bindM_def wrapM_def)
  obtain a v where ans: "k_done (e_kube E) ?q (world s) = (a, v)" by (cases "k_done (e_kube E) ?q (world s)")
  show "\<exists>xs ys. sent ?m s = xs @ ys \<and> list_ex finalizerPatched xs \<and> e \<in> set ys"
  proof (cases a)
    case (Inl err)
    then have "sent ?m s = [Event ?q (Some err)]"
      using m ans by (simp add: sent_def bindM_def wrapM_def call_def)
    with e show ?thesis by (auto simp: applyEvent_def)
  next
    case (Inr x)
    let ?t = "logged ?q None v ?s"
    have "?m s = rest ?t"
      using m ans Inr by (simp add: bindM_def wrapM_def call_def)
    moreover obtain es where "trace (snd (rest ?t)) = trace ?t @ es"
      using rest unfolding within_def appends_def by blast
    ultimately have "sent ?m s = [Event ?q None] @ es"
      by (simp add: sent_def)
    with e patched show ?thesis
      by (intro exI [of _ "[Event ?q None]"] exI [of _ es]) (auto simp: applyEvent_def)
  qed
qed simp

lemma guarded_normal:
  assumes "finalizer_laws (e_lib E)"
  shows "guarded True (KMP_reconcileNormal E clients before cluster mp ctx identity)"
  unfolding KMP_reconcileNormal_def
  by (rule guarded_bindM, intro emits_rules, rule emits_patched,
      rule TrueI, intro emits_rules emits_bootstrap emits_save emits_any [OF emits_resources] TrueI,
      rule patched_first [OF _ assms], intro emits_rules emits_bootstrap emits_save emits_any [OF emits_resources] TrueI)

lemma guarded_weaken: "guarded True m \<Longrightarrow> S \<Longrightarrow> guarded S m"
  by (simp add: guarded_def)

lemma skewAllowed_Ok:
  assumes "IsVersionSkewAllowed E cluster mp s = (Ok (allowed, cpv, v), t)"
  shows "(\<exists>u. getControlPlaneVersion E cluster s = (Ok cpv, u)) \<and> IsSkewAllowed (e_lib E) cpv (mp_Version mp) = Inr allowed"
  using assms unfolding IsVersionSkewAllowed_def
  by (auto elim!: bindM_OkE dest!: wrapM_Ok simp: liftE_def split: sum.splits)

lemma emits_normal: "emits (\<lambda>_. True) (KMP_reconcileNormal E clients before cluster mp ctx identity)"
  using strict_normal by (rule strict_emits)

lemma guarded_decide:
  fixes E :: "('w, 'c) env"
  assumes "finalizer_laws (e_lib E)"
  shows "guarded (\<exists>(u :: ('w, 'c) sys) v cpv. getControlPlaneVersion E cluster u = (Ok cpv, v) \<and>
      IsSkewAllowed (e_lib E) cpv (mp_Version mp) = Inr True) (KMP_decide E clients before mp cluster ctx identity)"
    (is "guarded ?S _")
proof -
  let ?f = "\<lambda>(allowed, cpv, v). if \<not> allowed then KMP_skewBlocked E cpv v
         else KMP_reconcileNormal E clients before cluster mp ctx identity"
  have any: "emits (\<lambda>_. True) (?f x)" for x
    by (intro emits_rules emits_any [OF quiet_contexts(4)] emits_normal)
  have "guarded ?S (?f x)" if "IsVersionSkewAllowed E cluster mp s = (Ok x, u)" for s x u
  proof (cases x)
    case (fields allowed cpv v)
    with that have "?S" if allowed
      using skewAllowed_Ok [of E cluster mp s allowed cpv v u] \<open>allowed\<close> by auto
    then have "guarded ?S (KMP_reconcileNormal E clients before cluster mp ctx identity)" if allowed
      by (intro guarded_weaken [OF guarded_normal [OF assms]]) (use that in blast)
    moreover have "guarded ?S (KMP_skewBlocked E cpv v)"
      by (intro guarded_quiet quiet_contexts)
    ultimately show ?thesis
      by (simp only: fields prod.case not_not if_True if_False split: if_split) blast
  qed
  then have skew: "guarded ?S (bindM (IsVersionSkewAllowed E cluster mp) ?f)"
    by (intro guarded_bindM quiet_contexts any)
  show ?thesis
    unfolding KMP_decide_def
    by (intro guarded_bindM [where m = "getM m_KMP"] guarded_if guarded_quiet [OF delete_quiet_apply] skew
        emits_rules emits_any [OF delete_quiet_apply] emits_any [OF quiet_contexts(3)] any)
qed

text \<open>C10: Karpenter's resources are made or changed in the workload cluster only if the control plane's
  current Kubernetes version was read and is not older than the version wanted for the pool, and only after
  the pool was successfully patched to have the finalizer.\<close>

theorem karpenter_resources_guarded:
  fixes E :: "('w, 'c) env"
  assumes "finalizer_laws (e_lib E)"
    and "e \<in> set (sent (KMP_reconcileCluster E clients before mp cluster) s)" "applyEvent e"
  shows "(\<exists>(u :: ('w, 'c) sys) v cpv. getControlPlaneVersion E cluster u = (Ok cpv, v) \<and>
      IsSkewAllowed (e_lib E) cpv (mp_Version mp) = Inr True) \<and>
    (\<exists>xs ys. sent (KMP_reconcileCluster E clients before mp cluster) s = xs @ ys \<and>
      list_ex finalizerPatched xs \<and> e \<in> set ys)"
proof -
  let ?S = "\<exists>(u :: ('w, 'c) sys) v cpv. getControlPlaneVersion E cluster u = (Ok cpv, v) \<and>
      IsSkewAllowed (e_lib E) cpv (mp_Version mp) = Inr True"
  have decide: "guarded ?S (KMP_decide E clients before mp cluster ctx identity)" for ctx identity
    using assms(1) by (rule guarded_decide)
  then have any: "emits (\<lambda>_. True) (KMP_decide E clients before mp cluster ctx identity)" for ctx identity
    by (simp add: guarded_def)
  have later: "guarded ?S (case early of Inl r \<Rightarrow> retM r
      | Inr ctx \<Rightarrow> bindM (KMP_roleIdentity E ctx) (KMP_decide E clients before mp cluster ctx))" for early
    by (cases early) (auto intro!: guarded_bindM guarded_quiet [OF appends.retM] emits_rules any decide)
  have "guarded ?S (KMP_reconcileCluster E clients before mp cluster)"
    unfolding KMP_reconcileCluster_def
    by (intro guarded_bindM guarded_if guarded_quiet [OF appends.retM] emits_rules later
        emits_any [OF quiet_contexts(1)] emits_any [OF quiet_contexts(2)] emits_any [OF quiet_roleIdentity] any)
  with assms(2,3) show ?thesis unfolding guarded_def by blast
qed

section \<open>Bootstrap data\<close>

definition uploadUserData ::
  "('w, 'c) env \<Rightarrow> Clients \<Rightarrow> RoleIdentity \<Rightarrow> string \<Rightarrow> string \<Rightarrow> string \<Rightarrow> string \<Rightarrow> ('w, 'c, unit) go" where
  "uploadUserData E clients identity region bucket name data =
     bindM (NewS3Client E clients region (ri_RoleArn identity)) (\<lambda>c.
     bindM (S3_Put E c bucket (userDataKey name) data) (\<lambda>_.
     modKMP (om_Annotations_update (AList.update BootstrapDataHashAnnotation (sha256hex data)))))"

lemma bootstrap_run:
  assumes "k_Secret (e_kube E) (K8sReq (K8sGet ''Secret'' (om_Namespace (m_KMP s)) n)) (world s) = (Inr secret, w)"
    and "map_of secret ''value'' = Some data"
  shows "reconcileMachinePoolBootstrapUserData E clients n identity region bucket s =
    (if map_of (om_Annotations (m_KMP s)) BootstrapDataHashAnnotation = Some (sha256hex data) then retM ()
     else uploadUserData E clients identity region bucket (om_Name (m_KMP s)) data)
    (logged (K8sReq (K8sGet ''Secret'' (om_Namespace (m_KMP s)) n)) None w s)"
  using assms
  by (auto simp: reconcileMachinePoolBootstrapUserData_def bindM_run tryM_run call_run uploadUserData_def
      ghas_def gget_def Let_def split: option.splits)

lemma upload_cases:
  assumes "uploadUserData E clients identity region bucket name data s = (r, t)"
  shows "if r = Ok () then map_of (om_Annotations (m_KMP t)) BootstrapDataHashAnnotation = Some (sha256hex data)
    else om_Annotations (m_KMP t) = om_Annotations (m_KMP s)"
  using assms unfolding uploadUserData_def
proof (cases rule: bindM_cases)
  case (Ok c u)
  have u: "m_KMP u = m_KMP s"
    using poolSameD [OF poolSame_clients(2) Ok(1)] by simp
  from Ok(2) show ?thesis
  proof (cases rule: bindM_cases)
    case (Ok x v)
    then show ?thesis by (auto simp: modKMP_def update_conv')
  qed (use u poolSameD [OF poolSame_aws(3)] in fastforce)+
qed (use poolSameD [OF poolSame_clients(2)] in fastforce)+

lemma upload_run:
  fixes s :: "('w, 'c) sys"
  assumes "uploadUserData E clients identity region bucket name data s = (r, t)"
  shows "case fst (NewS3Client E clients region (ri_RoleArn identity) s) of
      Ok c \<Rightarrow> \<exists>err. trace t = trace s @ [Event (AWSReq c (S3Op (S3_PutObject bucket (userDataKey name) data))) err] \<and> (r = Ok () \<longleftrightarrow> err = None)
    | _ \<Rightarrow> trace t = trace s \<and> r \<noteq> Ok ()"
proof -
  obtain x u where x: "NewS3Client E clients region (ri_RoleArn identity) s = (x, u)" by (cases "NewS3Client E clients region (ri_RoleArn identity) s")
  from withinD [OF s3Clients.new_quiet [where P = "\<lambda>_. False"] x] have u: "trace u = trace s" by (auto simp: appends_def list_all_iff)
  show ?thesis
  proof (cases x)
    case (Ok c)
    obtain a v where "a_done (e_aws E) (AWSReq c (S3Op (S3_PutObject bucket (userDataKey name) data))) (world u) = (a, v)"
      by (cases "a_done (e_aws E) (AWSReq c (S3Op (S3_PutObject bucket (userDataKey name) data))) (world u)")
    with Ok x u assms show ?thesis
      by (cases a) (auto simp: uploadUserData_def S3_Put_def bindM_def call_def modKMP_def)
  qed (use x u assms in \<open>auto simp: uploadUserData_def bindM_def\<close>)
qed

text \<open>C18: the bootstrap data of a pool is uploaded exactly when its hash differs from the one noted on the pool. With
  the same hash, nothing is sent but the read of the secret. With another hash or none, the one request after this read is
  the upload of the secret's data under the key of the pool, with a client for the region and role given, and the operation
  succeeds exactly when the upload does; without such a client it fails and uploads nothing. The hash is noted when the
  operation succeeded, and only then, so that a failed upload is tried again.\<close>

theorem bootstrap_uploaded_when_changed:
  fixes E :: "('w, 'c) env" and s :: "('w, 'c) sys" and clients n identity region bucket
  defines "run \<equiv> reconcileMachinePoolBootstrapUserData E clients n identity region bucket"
    and "noted \<equiv> \<lambda>t :: ('w, 'c) sys. map_of (om_Annotations (m_KMP t)) BootstrapDataHashAnnotation"
    and "get \<equiv> K8sReq (K8sGet ''Secret'' (om_Namespace (m_KMP s)) n)"
  assumes "k_Secret (e_kube E) get (world s) = (Inr secret, w)"
    and "map_of secret ''value'' = Some data" and "run s = (r, t)"
  shows "(noted s = Some (sha256hex data) \<longrightarrow> r = Ok () \<and> sent run s = [Event get None]) \<and>
    (noted s \<noteq> Some (sha256hex data) \<longrightarrow>
      (case fst (NewS3Client E clients region (ri_RoleArn identity) (logged get None w s)) of
         Ok c \<Rightarrow> \<exists>err. sent run s = [Event get None,
             Event (AWSReq c (S3Op (S3_PutObject bucket (userDataKey (om_Name (m_KMP s))) data))) err] \<and> (r = Ok () \<longleftrightarrow> err = None)
       | _ \<Rightarrow> sent run s = [Event get None] \<and> r \<noteq> Ok ())) \<and>
    (r = Ok () \<longrightarrow> noted t = Some (sha256hex data)) \<and>
    (r \<noteq> Ok () \<longrightarrow> noted t = noted s)"
proof -
  let ?s = "logged get None w s"
  let ?up = "uploadUserData E clients identity region bucket (om_Name (m_KMP s)) data"
  have run: "run s = (if noted s = Some (sha256hex data) then retM () else ?up) ?s"
    unfolding run_def noted_def get_def by (rule bootstrap_run [OF assms(4) [unfolded get_def] assms(5)])
  show ?thesis
  proof (cases "noted s = Some (sha256hex data)")
    case True
    then have "run s = (Ok (), ?s)" using run by simp
    then have "r = Ok ()" "t = ?s" "sent run s = [Event get None]"
      using assms(6) by (simp_all add: sent_def)
    with True show ?thesis by (auto simp: noted_def)
  next
    case False
    then have up: "?up ?s = (r, t)" using run assms(6) by simp
    have "sent run s = drop (length (trace s)) (trace t)" using assms(6) by (simp add: sent_def)
    with upload_run [OF up] have "case fst (NewS3Client E clients region (ri_RoleArn identity) ?s) of
         Ok c \<Rightarrow> \<exists>err. sent run s = [Event get None,
             Event (AWSReq c (S3Op (S3_PutObject bucket (userDataKey (om_Name (m_KMP s))) data))) err] \<and> (r = Ok () \<longleftrightarrow> err = None)
       | _ \<Rightarrow> sent run s = [Event get None] \<and> r \<noteq> Ok ()"
      by (auto split: outcome.splits)
    with False upload_cases [OF up] show ?thesis by (auto simp: noted_def split: if_splits)
  qed
qed

section \<open>Replicas\<close>

lemma toInt32_exact: "- (2 ^ 31) \<le> n \<Longrightarrow> n < 2 ^ 31 \<Longrightarrow> toInt32 n = n"
  by (simp add: toInt32_def signed_take_bit_int_eq_self)

lemma toInt32_bounds: "- (2 ^ 31) \<le> toInt32 n" "toInt32 n < 2 ^ 31"
  using signed_take_bit_int_greater_eq_minus_exp [of 31 n] signed_take_bit_int_less_exp [of 31 n]
  by (simp_all add: toInt32_def)

lemma set_providerIDs:
  "set (providerIDs L items) = {p. p \<noteq> '''' \<and> (\<exists>nc \<in> set items. l_NestedString L nc [''status'', ''providerID''] = Inr (Some p))}"
  by (induction items) (auto split: sum.splits option.splits)

lemma length_providerIDs: "length (providerIDs L items) \<le> length items"
  by (induction items) (auto split: sum.splits option.splits)

text \<open>C33: the status of a pool counts the node claims of the workload cluster and lists the provider ids that
  they have; the count is a 32-bit number, exact for fewer than \<open>2 ^ 31\<close> claims. Exactly when the replicas of the machine
  pool differ from that count, the machine pool is patched so that they are the count and nothing else changes; no other
  request is sent but the connection to the workload cluster and the listing of its claims.\<close>

theorem karpenter_replicas_counted:
  fixes E :: "('w, 'c) env"
  assumes "k_done (e_kube E) (WCReq (WCConnect (om_Namespace cluster) (om_Name cluster))) (world s) = (Inr (), w)"
    and "k_NodeClaims (e_kube E) (WCReq (WCListNodeClaims (om_Name (m_KMP s)))) w = (Inr items, w')"
    and "saveKarpenterInstancesToStatus E cluster s = (r, t)"
  shows "kmp_Replicas (m_KMP t) = toInt32 (int (length items)) \<and>
    kmp_Replicas (m_KMP t) \<in> {- (2 ^ 31)..<2 ^ 31} \<and>
    (length items < 2 ^ 31 \<longrightarrow> kmp_Replicas (m_KMP t) = int (length items)) \<and>
    set (kmp_ProviderIDList (m_KMP t)) = {p. p \<noteq> '''' \<and>
      (\<exists>nc \<in> set items. l_NestedString (e_lib E) nc [''status'', ''providerID''] = Inr (Some p))} \<and>
    length (kmp_ProviderIDList (m_KMP t)) \<le> length items \<and>
    map ev_req (sent (saveKarpenterInstancesToStatus E cluster) s) =
      [WCReq (WCConnect (om_Namespace cluster) (om_Name cluster)), WCReq (WCListNodeClaims (om_Name (m_KMP s)))] @
      (if mp_Replicas (m_MachinePool s) = Some (kmp_Replicas (m_KMP t)) then []
       else [K8sReq (K8sPatchMachinePool (m_MachinePool s)
         ((m_MachinePool s)\<lparr>mp_Replicas := Some (kmp_Replicas (m_KMP t))\<rparr>))])"
proof -
  let ?n = "toInt32 (int (length items))" and ?ids = "providerIDs (e_lib E) items"
  let ?mp = "m_MachinePool s"
  let ?q = "K8sReq (K8sPatchMachinePool ?mp (?mp\<lparr>mp_Replicas := Some ?n\<rparr>))"
  let ?s = "logged (WCReq (WCListNodeClaims (om_Name (m_KMP s)))) None w'
     (logged (WCReq (WCConnect (om_Namespace cluster) (om_Name cluster))) None w s)"
  let ?u = "?s\<lparr>m_KMP := (m_KMP s)\<lparr>kmp_Replicas := ?n, kmp_ProviderIDList := ?ids\<rparr>\<rparr>"
  have run: "saveKarpenterInstancesToStatus E cluster s =
     (if mp_Replicas ?mp \<noteq> Some ?n
      then bindM (call (k_MachinePool (e_kube E)) ?q) holdMachinePool (?u\<lparr>m_MachinePool := ?mp\<lparr>mp_Replicas := Some ?n\<rparr>\<rparr>)
      else (Ok (), ?u))"
    using assms(1,2)
    by (auto simp: saveKarpenterInstancesToStatus_def computeProviderIDListFromNodeClaimsInWorkloadCluster_def
        getWorkloadClusterNodeClaims_def connect_def bindM_run call_run modKMP_def holdMachinePool_def)
  obtain a v where ans: "k_MachinePool (e_kube E) ?q w' = (a, v)" by (cases "k_MachinePool (e_kube E) ?q w'")
  have kmp: "m_KMP t = (m_KMP s)\<lparr>kmp_Replicas := ?n, kmp_ProviderIDList := ?ids\<rparr>"
    using run ans assms(3)
    by (cases a) (auto simp: bindM_def call_def holdMachinePool_def split: if_splits)
  moreover have "map ev_req (sent (saveKarpenterInstancesToStatus E cluster) s) =
      [WCReq (WCConnect (om_Namespace cluster) (om_Name cluster)), WCReq (WCListNodeClaims (om_Name (m_KMP s)))] @
      (if mp_Replicas ?mp = Some ?n then [] else [?q])"
    using run ans assms(3)
    by (cases a) (auto simp: sent_def bindM_def call_def holdMachinePool_def split: if_splits)
  ultimately show ?thesis
    using toInt32_bounds [of "int (length items)"] length_providerIDs [of "e_lib E" items]
    by (simp add: set_providerIDs toInt32_exact)
qed

end
