(* ===== verification/Karpenter_Examples.thy ===== *)
theory Karpenter_Examples
  imports Karpenter_Properties Scenario
begin

text \<open>
  Concrete runs of the Karpenter controller, at which its properties are applied.
\<close>

definition kmpKube :: "CapiCluster \<Rightarrow> KarpenterMachinePool \<Rightarrow> 'w kube" where
  "kmpKube cluster kmp = demoKube\<lparr>k_Cluster := okAns cluster, k_KMP := okAns kmp,
     k_AWSCluster := okAns (demoAWSCluster\<lparr>ac_S3Bucket := Some ''bucket''\<rparr>)\<rparr>"

definition kmpEnv :: "CapiCluster \<Rightarrow> KarpenterMachinePool \<Rightarrow> EC2Instance list \<Rightarrow> (unit, (string \<times> cval) list) env" where
  "kmpEnv cluster kmp is = demoEnv\<lparr>e_kube := kmpKube cluster kmp,
     e_aws := demoAWS\<lparr>a_instances := okAns ([is], False)\<rparr>\<rparr>"

definition deletedKMP :: KarpenterMachinePool where
  "deletedKMP = demoKMP\<lparr>om_Finalizers := [KarpenterFinalizer], om_Deleting := True\<rparr>"

definition eksCluster :: CapiCluster where
  "eksCluster = demoCluster\<lparr>cc_ControlPlaneRef :=
     Some \<lparr>cpr_Group = ''controlplane.cluster.x-k8s.io'', cpr_Kind = ''AWSManagedControlPlane'', cpr_Name = ''wc''\<rparr>\<rparr>"

lemma kmpEnv_lib [simp]: "e_lib (kmpEnv cluster kmp is) = demoLib"
  by (simp add: kmpEnv_def demoEnv_def)

abbreviation releasingRun :: "(unit, (string \<times> cval) list, Result) go" where
  "releasingRun \<equiv> KMP_Reconcile (kmpEnv demoCluster deletedKMP []) (NewClients '''') ''org'' ''pool''"

theorem karpenter_finalizer_gated_witness:
  "\<not> IsEKS demoCluster \<and>
   (\<exists>e \<in> set (sent releasingRun demoSys). \<exists>kmp w t err.
     om_Deleting kmp \<and> drained (kmpEnv demoCluster deletedKMP []) (NewClients '''') kmp
       ((logged (K8sReq (K8sGet ''KarpenterMachinePool'' ''org'' ''pool'')) None w demoSys)\<lparr>m_KMP := kmp\<rparr>) t \<and>
     e = Event (K8sReq (K8sPatchKarpenterMachinePool kmp (m_KMP t))) err \<and> trace (snd (releasingRun demoSys)) = trace t @ [e])"
proof -
  have eks: "\<not> IsEKS demoCluster"
    by code_simp
  have "list_ex (removesFinalizer KarpenterFinalizer) (sent releasingRun demoSys)"
    using eks
    by (simp add: KMP_Reconcile_def KMP_body_def KMP_owner_def KMP_clusterOf_def KMP_reconcileCluster_def KMP_capaContext_def
        KMP_roleIdentity_def KMP_decide_def KMP_reconcileDelete_def KMP_deletionGate_def KMP_release_def KMP_deleteUserData_def
        orNotReady_def deleteKarpenterResources_def connect_def wcDelete_def patchKMP_def holdKMP_def holdMachinePool_def modKMP_def
        GetAWSCluster_def GetNonTerminatedInstancesByTags_def NewEC2Client_def newEC2Client_def NewS3Client_def newS3Client_def
        S3_Delete_def configFromRegion_def configCacheLoad_def configCacheStore_def LoadDefaultConfig_def
        kmpEnv_def kmpKube_def deletedKMP_def demo_defs demoKMP_def demoMachinePool_def removesFinalizer_def pageInstances_def
        ghas_def bindM_def call_def tryM_def wrapM_def deferM_def liftE_def sent_def logged_def instancePages.simps numeral_eq_Suc)
  then obtain e where e: "e \<in> set (sent releasingRun demoSys)" "removesFinalizer KarpenterFinalizer e"
    unfolding list_ex_iff by blast
  have "finalizer_laws (e_lib (kmpEnv demoCluster deletedKMP []))"
    by (simp add: demoLib_finalizers)
  from karpenter_finalizer_gated [OF this e] e(1) eks show ?thesis by blast
qed

definition dyingCluster :: CapiCluster where
  "dyingCluster = demoCluster\<lparr>om_Deleting := True\<rparr>"

definition oneInstance :: "EC2Instance list" where
  "oneInstance = [\<lparr>in_InstanceId = Some ''i-1'', in_State = Some ''running''\<rparr>]"

abbreviation terminatingRun :: "(unit, (string \<times> cval) list, Result) go" where
  "terminatingRun \<equiv> KMP_reconcileDelete (kmpEnv dyingCluster deletedKMP oneInstance) (NewClients '''') dyingCluster
     \<lparr>ri_RoleArn = ''arn:aws:iam::1234:role/gs''\<rparr> ''eu-west-1'' ''bucket''"

theorem karpenter_terminates_only_with_cluster_witness:
  "list_ex (\<lambda>e. ev_req e = AWSReq demoCreds (EC2Op (EC2_TerminateInstances [''i-1'']))) (sent terminatingRun demoSys) \<and>
   om_Deleting dyingCluster \<and>
   (\<exists>u v. GetNonTerminatedInstancesByTags (kmpEnv dyingCluster deletedKMP oneInstance) demoCreds
     [(''karpenter.sh/nodepool'', om_Name (m_KMP demoSys)), (''giantswarm.io/cluster'', om_Name dyingCluster)] u = (Ok [''i-1''], v))"
proof -
  have ex: "list_ex (\<lambda>e. ev_req e = AWSReq demoCreds (EC2Op (EC2_TerminateInstances [''i-1'']))) (sent terminatingRun demoSys)"
    by code_simp
  then obtain e where "e \<in> set (sent terminatingRun demoSys)"
      "ev_req e = AWSReq demoCreds (EC2Op (EC2_TerminateInstances [''i-1'']))"
    unfolding list_ex_iff by blast
  from ex karpenter_terminates_only_with_cluster [OF this] show ?thesis by blast
qed

abbreviation eksRun :: "(unit, (string \<times> cval) list, Result) go" where
  "eksRun \<equiv> KMP_body (kmpEnv eksCluster demoKMP []) (NewClients '''') demoKMP"

theorem karpenter_ready_means_done_witness:
  "\<not> kmp_Ready (m_KMP demoSys) \<and> kmp_Ready (m_KMP (snd (eksRun demoSys))) \<and>
   fst (eksRun demoSys) = Ok noRequeue \<and> list_all (\<lambda>e. ev_err e = None) (sent eksRun demoSys)"
proof -
  have "\<not> kmp_Ready (m_KMP demoSys)" "kmp_Ready (m_KMP (snd (eksRun demoSys)))"
    by code_simp+
  with karpenter_ready_means_done [OF this] show ?thesis by blast
qed

abbreviation eksResources :: "(unit, (string \<times> cval) list, Result) go" where
  "eksResources \<equiv> KMP_reconcileCluster (kmpEnv eksCluster demoKMP []) (NewClients '''') demoKMP demoMachinePool eksCluster"

theorem karpenter_resources_guarded_witness:
  "\<exists>xs ys. sent eksResources demoSys = xs @ ys \<and> list_ex finalizerPatched xs \<and> list_ex applyEvent ys"
proof -
  have "list_ex applyEvent (sent eksResources demoSys)"
    by code_simp
  then obtain e where "e \<in> set (sent eksResources demoSys)" "applyEvent e"
    unfolding list_ex_iff by blast
  with karpenter_resources_guarded [OF _ this] show ?thesis
    unfolding kmpEnv_lib list_ex_iff using demoLib_finalizers by blast
qed

definition notedSys :: "(unit, (string \<times> cval) list) sys" where
  "notedSys = demoSys\<lparr>m_KMP := demoKMP\<lparr>om_Annotations := [(BootstrapDataHashAnnotation, sha256hex ''data'')]\<rparr>\<rparr>"

theorem bootstrap_uploaded_when_changed_witness:
  "sent (reconcileMachinePoolBootstrapUserData demoEnv (NewClients '''') ''secret'' \<lparr>ri_RoleArn = ''arn:a''\<rparr> ''eu-west-1'' ''bucket'') notedSys =
     [Event (K8sReq (K8sGet ''Secret'' (om_Namespace demoKMP) ''secret'')) None] \<and>
   (\<exists>c err. last (sent (reconcileMachinePoolBootstrapUserData demoEnv (NewClients '''') ''secret'' \<lparr>ri_RoleArn = ''arn:a''\<rparr>
      ''eu-west-1'' ''bucket'') (demoSys :: (unit, (string \<times> cval) list) sys)) =
      Event (AWSReq c (S3Op (S3_PutObject ''bucket'' (userDataKey (om_Name demoKMP)) ''data''))) err)"
proof
  note applied = bootstrap_uploaded_when_changed [where E = demoEnv and n = "''secret''" and w = "()"
      and secret = "[(''value'', ''data'')]" and data = "''data''" and clients = "NewClients ''''"
      and identity = "\<lparr>ri_RoleArn = ''arn:a''\<rparr>" and region = "''eu-west-1''" and bucket = "''bucket''",
      OF _ _ prod.collapse [symmetric]]
  show "sent (reconcileMachinePoolBootstrapUserData demoEnv (NewClients '''') ''secret'' \<lparr>ri_RoleArn = ''arn:a''\<rparr> ''eu-west-1'' ''bucket'') notedSys =
     [Event (K8sReq (K8sGet ''Secret'' (om_Namespace demoKMP) ''secret'')) None]"
    using applied [of notedSys] by (simp add: notedSys_def demoKube_def demoSys_def)
  let ?client = "NewS3Client demoEnv (NewClients '''') ''eu-west-1'' ''arn:a''
    (logged (K8sReq (K8sGet ''Secret'' (om_Namespace demoKMP) ''secret'')) None () (demoSys :: (unit, (string \<times> cval) list) sys))"
  have "(case fst ?client of Ok c \<Rightarrow> True | _ \<Rightarrow> False)" by code_simp
  moreover have "m_KMP (demoSys :: (unit, (string \<times> cval) list) sys) = demoKMP" by (simp add: demoSys_def)
  moreover have "map_of (om_Annotations demoKMP) BootstrapDataHashAnnotation \<noteq> Some (sha256hex ''data'')"
    by (simp add: demoKMP_def)
  ultimately show "\<exists>c err. last (sent (reconcileMachinePoolBootstrapUserData demoEnv (NewClients '''') ''secret'' \<lparr>ri_RoleArn = ''arn:a''\<rparr>
      ''eu-west-1'' ''bucket'') (demoSys :: (unit, (string \<times> cval) list) sys)) =
      Event (AWSReq c (S3Op (S3_PutObject ''bucket'' (userDataKey (om_Name demoKMP)) ''data''))) err"
    using applied [of demoSys] by (auto simp: demoKube_def split: outcome.splits)
qed

definition claimsEnv :: "(unit, (string \<times> cval) list) env" where
  "claimsEnv = demoEnv\<lparr>e_kube := demoKube\<lparr>k_NodeClaims :=
     okAns [JObj [(''status'', JObj [(''providerID'', JStr ''aws:///eu-west-1a/i-1'')])], JObj []]\<rparr>\<rparr>"

theorem karpenter_replicas_counted_witness:
  "kmp_Replicas (m_KMP (snd (saveKarpenterInstancesToStatus claimsEnv demoCluster demoSys))) = 2 \<and>
   last (map ev_req (sent (saveKarpenterInstancesToStatus claimsEnv demoCluster) demoSys)) =
     K8sReq (K8sPatchMachinePool demoMachinePool (demoMachinePool\<lparr>mp_Replicas := Some 2\<rparr>))"
  using karpenter_replicas_counted [where E = claimsEnv and s = demoSys and cluster = demoCluster and w = "()" and w' = "()"
      and items = "[JObj [(''status'', JObj [(''providerID'', JStr ''aws:///eu-west-1a/i-1'')])], JObj []]",
      OF _ _ prod.collapse [symmetric]]
  by (simp add: claimsEnv_def demoKube_def demoSys_def demoMachinePool_def toInt32_def)

end
