(* ===== verification/Karpenter_Liveness.thy ===== *)
theory Karpenter_Liveness
  imports Karpenter_Controller
begin

text \<open>
  The deletion of a Karpenter machine pool whose cluster is deleted comes to an end: the instances are
  terminated and the reconciliation is repeated; once they are gone the pool is released. A history is a
  sequence of the states in which the deletion is reconciled. AWS and the workload cluster may fail for any
  time. What is relied on is fairness: from some time on AWS answers, an instance that was terminated
  goes at some time, and only finitely many instances come.
\<close>

section \<open>The cloud\<close>

definition poolTags :: "string \<Rightarrow> string \<Rightarrow> gomap" where
  "poolTags pool cluster = [(''karpenter.sh/nodepool'', pool), (''giantswarm.io/cluster'', cluster)]"

text \<open>
  \<open>alive w\<close> are the instances of the pool that are not terminated, and \<open>up w\<close> says that AWS is available for a
  whole reconciliation that starts in \<open>w\<close>: its requests succeed, no instance of the pool comes meanwhile,
  and a listing gives, in pages that fit the fuel, the instances there are. The workload cluster answers anything.
\<close>

definition reliable :: "('w, 'c) env \<Rightarrow> gomap \<Rightarrow> ('w \<Rightarrow> string set) \<Rightarrow> ('w \<Rightarrow> bool) \<Rightarrow> bool" where
  "reliable E tags alive up \<longleftrightarrow> (\<forall>w. up w \<longrightarrow>
     (\<forall>co. \<exists>cf w'. e_loadConfig E co w = (Inr cf, w') \<and> up w' \<and> alive w' \<subseteq> alive w) \<and>
     (\<forall>q x w'. k_done (e_kube E) q w = (x, w') \<longrightarrow> up w' \<and> alive w' \<subseteq> alive w) \<and>
     (\<forall>a. \<exists>pages. pages \<noteq> [] \<and> length pages \<le> e_fuel E \<and> set (concat (map pageInstances pages)) = alive w \<and>
        (\<forall>i<length pages. a_instances (e_aws E) (ec2req a (EC2_DescribeInstances (map (\<lambda>(k, v). (''tag:'' @ k, v)) tags) i)) w =
          (Inr (pages ! i, Suc i < length pages), w))) \<and>
     (\<forall>a ids. \<exists>w'. a_done (e_aws E) (ec2req a (EC2_TerminateInstances ids)) w = (Inr (), w') \<and> up w' \<and> alive w' \<subseteq> alive w) \<and>
     (\<forall>a b k. \<exists>w'. a_done (e_aws E) (AWSReq a (S3Op (S3_DeleteObject b k))) w = (Inr (), w') \<and> up w' \<and> alive w' \<subseteq> alive w))"

text \<open>While AWS is available it stays so, no instance comes, and the pool is left as it is.\<close>

definition calm :: "('w \<Rightarrow> string set) \<Rightarrow> ('w \<Rightarrow> bool) \<Rightarrow> ('w, 'c) sys \<Rightarrow> ('w, 'c) sys \<Rightarrow> bool" where
  "calm alive up s t \<longleftrightarrow> (up (world s) \<longrightarrow> up (world t) \<and> alive (world t) \<subseteq> alive (world s)) \<and> m_KMP t = m_KMP s"

interpretation calm: run_relation "calm alive up" for alive up
  by unfold_locales (auto simp: calm_def)

lemma calm_KMP: "calm alive up s t \<Longrightarrow> m_KMP t = m_KMP s"
  by (simp add: calm_def)

lemma cloud_laws:
  assumes cloud: "reliable E tags alive up" and "up w"
  shows loads: "\<exists>cf w'. e_loadConfig E co w = (Inr cf, w') \<and> up w' \<and> alive w' \<subseteq> alive w"
    and kube: "k_done (e_kube E) q w = (x, w') \<Longrightarrow> up w' \<and> alive w' \<subseteq> alive w"
    and lists: "\<exists>pages. pages \<noteq> [] \<and> length pages \<le> e_fuel E \<and> set (concat (map pageInstances pages)) = alive w \<and>
        (\<forall>i<length pages. a_instances (e_aws E) (ec2req a (EC2_DescribeInstances (map (\<lambda>(k, v). (''tag:'' @ k, v)) tags) i)) w =
          (Inr (pages ! i, Suc i < length pages), w))"
    and terminates: "\<exists>w'. a_done (e_aws E) (ec2req a (EC2_TerminateInstances ids)) w = (Inr (), w') \<and> up w' \<and> alive w' \<subseteq> alive w"
    and deletes: "\<exists>w'. a_done (e_aws E) (AWSReq a (S3Op (S3_DeleteObject b k))) w = (Inr (), w') \<and> up w' \<and> alive w' \<subseteq> alive w"
proof -
  note laws = cloud [unfolded reliable_def, THEN spec, THEN mp, OF \<open>up w\<close>]
  show "\<exists>cf w'. e_loadConfig E co w = (Inr cf, w') \<and> up w' \<and> alive w' \<subseteq> alive w"
    by (rule conjunct1 [OF laws, rule_format])
  note laws = laws [THEN conjunct2]
  show "k_done (e_kube E) q w = (x, w') \<Longrightarrow> up w' \<and> alive w' \<subseteq> alive w"
    by (rule conjunct1 [OF laws, rule_format])
  note laws = laws [THEN conjunct2]
  show "\<exists>pages. pages \<noteq> [] \<and> length pages \<le> e_fuel E \<and> set (concat (map pageInstances pages)) = alive w \<and>
        (\<forall>i<length pages. a_instances (e_aws E) (ec2req a (EC2_DescribeInstances (map (\<lambda>(k, v). (''tag:'' @ k, v)) tags) i)) w =
          (Inr (pages ! i, Suc i < length pages), w))"
    by (rule conjunct1 [OF laws, THEN spec])
  note laws = laws [THEN conjunct2]
  show "\<exists>w'. a_done (e_aws E) (ec2req a (EC2_TerminateInstances ids)) w = (Inr (), w') \<and> up w' \<and> alive w' \<subseteq> alive w"
    by (rule conjunct1 [OF laws, rule_format])
  show "\<exists>w'. a_done (e_aws E) (AWSReq a (S3Op (S3_DeleteObject b k))) w = (Inr (), w') \<and> up w' \<and> alive w' \<subseteq> alive w"
    by (rule conjunct2 [OF laws, rule_format])
qed

section \<open>The parts of a deletion return while AWS is available\<close>

lemma client_returns:
  assumes "reliable E tags alive up" "up (world s)"
  shows "\<exists>a t. configFromRegion E c region s = (Ok a, t) \<and> calm alive up s t"
proof (cases "map_of (configCache s) region")
  case (Some cf)
  then show ?thesis by (simp add: configFromRegion_def configCacheLoad_def bindM_def calm.refl)
next
  case None
  obtain cf w' where "e_loadConfig E \<lparr>co_Region = Some region, co_Endpoint = Some (cl_endpoint c), co_Role = None\<rparr> (world s) = (Inr cf, w')"
    "up w' \<and> alive w' \<subseteq> alive (world s)"
    using loads [OF assms] by blast
  with None show ?thesis
    by (simp add: configFromRegion_def configCacheLoad_def configCacheStore_def LoadDefaultConfig_def bindM_def calm_def)
qed

lemma clients_return:
  assumes "reliable E tags alive up" "up (world s)"
  shows "\<exists>a t. NewEC2Client E c region role s = (Ok a, t) \<and> calm alive up s t"
    "\<exists>a t. NewS3Client E c region role s = (Ok a, t) \<and> calm alive up s t"
  using client_returns [OF assms, of c region]
  unfolding NewEC2Client_def newEC2Client_def NewS3Client_def newS3Client_def by (auto simp: bindM_def)

text \<open>A run that ends with a value or an error.\<close>

definition ends :: "('w, 'c, 'a) go \<Rightarrow> bool" where
  "ends m \<longleftrightarrow> (\<forall>s h. fst (m s) \<noteq> Halt h)"

lemma ends_bindM: "ends m \<Longrightarrow> (\<And>x. ends (f x)) \<Longrightarrow> ends (bindM m f)"
  unfolding ends_def by (auto simp: bindM_def split: prod.splits outcome.splits) (metis fst_conv)+

lemma ends_basic: "ends (retM x)" "ends (errM e)" "ends (getM g)" "ends (call ans q)" "ends m \<Longrightarrow> ends (tryM m)" "ends m \<Longrightarrow> ends (wrapM w m)"
  unfolding ends_def by (auto simp: call_def tryM_def wrapM_def split: prod.splits sum.splits outcome.splits) (metis fst_conv)+

lemma ends_deleteKarpenterResources: "ends (deleteKarpenterResources E cluster)"
  unfolding deleteKarpenterResources_def wcDelete_def connect_def
  by (auto intro!: ends_bindM ends_basic split: sum.split)

lemma ends_tryM: "ends m \<Longrightarrow> \<exists>x t. tryM m s = (Ok x, t)"
  unfolding ends_def tryM_def by (cases "m s"; cases "fst (m s)") (auto, metis fst_conv)

lemma calm_call:
  "reliable E tags alive up \<Longrightarrow> within (calm alive up) (call (k_done (e_kube E)) q)"
  by (rule withinI) (auto simp: call_def calm_def dest: kube split: prod.splits sum.splits)

lemma calm_deleteKarpenterResources:
  assumes "reliable E tags alive up"
  shows "within (calm alive up) (deleteKarpenterResources E cluster)"
  unfolding deleteKarpenterResources_def wcDelete_def connect_def
  by (intro calm.rules calm_call [OF assms] within_wrapM within_tryM within_case_sum within_if)

lemma instancePages_at:
  assumes pages: "\<forall>i<length pages. a_instances (e_aws E) (ec2req a (EC2_DescribeInstances filters i)) w =
      (Inr (pages ! i, Suc i < length pages), w)"
    and "page < length pages" "length pages - page \<le> fuel" "world s = w"
  shows "\<exists>t. instancePages E a filters page fuel ids s = (Ok (ids @ concat (map pageInstances (drop page pages))), t) \<and>
    world t = w \<and> m_KMP t = m_KMP s"
  using assms(2-4)
proof (induction fuel arbitrary: page ids s)
  case 0
  then show ?case by simp
next
  case (Suc fuel)
  have w: "a_instances (e_aws E) (ec2req a (EC2_DescribeInstances filters page)) (world s) = (Inr (pages ! page, Suc page < length pages), w)"
    using pages Suc.prems(1,3) by simp
  have drop: "drop page pages = pages ! page # drop (Suc page) pages"
    using Suc.prems(1) by (simp add: Cons_nth_drop_Suc)
  show ?case
  proof (cases "Suc page < length pages")
    case True
    from Suc.IH [of "Suc page" "logged (ec2req a (EC2_DescribeInstances filters page)) None w s" "ids @ pageInstances (pages ! page)"]
    show ?thesis using True w drop Suc.prems by (simp add: bindM_def call_def)
  next
    case False
    with w drop show ?thesis by (simp add: bindM_def call_def)
  qed
qed

lemma listing_returns:
  assumes cloud: "reliable E tags alive up" and "tags \<noteq> []" "up (world s)"
  shows "\<exists>ids t. GetNonTerminatedInstancesByTags E a tags s = (Ok ids, t) \<and> set ids = alive (world s) \<and> calm alive up s t"
proof -
  let ?filters = "map (\<lambda>(k, v). (''tag:'' @ k, v)) tags"
  obtain pages where pages: "pages \<noteq> []" "length pages \<le> e_fuel E" "set (concat (map pageInstances pages)) = alive (world s)"
    "\<forall>i<length pages. a_instances (e_aws E) (ec2req a (EC2_DescribeInstances ?filters i)) (world s) = (Inr (pages ! i, Suc i < length pages), world s)"
    using lists [OF cloud assms(3)] by blast
  have "0 < length pages" using pages(1) by simp
  from instancePages_at [OF pages(4) this, of "e_fuel E" s "[]"] pages(2,3) assms(2) show ?thesis
    by (auto simp: GetNonTerminatedInstancesByTags_def calm_def)
qed

lemma gate_returns:
  assumes cloud: "reliable E (poolTags (om_Name (m_KMP s)) (om_Name cluster)) alive up"
    and "om_Deleting cluster" "up (world s)"
  shows "\<exists>ids t. KMP_deletionGate E cluster a s = (Ok ids, t) \<and> set ids \<subseteq> alive (world s) \<and> calm alive up s t"
proof -
  obtain res u where u: "tryM (deleteKarpenterResources E cluster) s = (Ok res, u)"
    using ends_tryM [OF ends_deleteKarpenterResources] by blast
  have calm: "calm alive up s u"
    by (rule withinD [OF within_tryM [OF calm_deleteKarpenterResources [OF cloud]] u])
  then have up: "up (world u)" "alive (world u) \<subseteq> alive (world s)" using assms(3) by (auto simp: calm_def)
  have "poolTags (om_Name (m_KMP s)) (om_Name cluster) \<noteq> []" by (simp add: poolTags_def)
  from listing_returns [OF cloud this up(1), of a] obtain ids t where
    "GetNonTerminatedInstancesByTags E a (poolTags (om_Name (m_KMP s)) (om_Name cluster)) u = (Ok ids, t)"
    "set ids = alive (world u)" "calm alive up u t" by blast
  moreover have "KMP_deletionGate E cluster a s = wrapM (Wrapped ''failed to list EC2 instances'')
      (GetNonTerminatedInstancesByTags E a (poolTags (om_Name (m_KMP s)) (om_Name cluster))) u"
    using u assms(2) calm_KMP [OF calm] by (cases res) (simp_all add: KMP_deletionGate_def bindM_def poolTags_def)
  ultimately show ?thesis using calm.trans [OF calm] up(2) by (simp add: wrapM_def)
qed

lemma wait_returns:
  assumes cloud: "reliable E tags alive up" and "om_Deleting cluster" "ids \<noteq> []" "up (world s)"
  shows "\<exists>t. KMP_waitForInstances E cluster a ids s = (Ok (requeueAfter 30), t) \<and>
    Event (ec2req a (EC2_TerminateInstances ids)) None \<in> set (trace t) \<and> calm alive up s t"
proof -
  obtain w' where "a_done (e_aws E) (ec2req a (EC2_TerminateInstances ids)) (world s) = (Inr (), w')" "up w'" "alive w' \<subseteq> alive (world s)"
    using terminates [OF cloud assms(4)] by blast
  with assms(2,3) show ?thesis
    by (simp add: KMP_waitForInstances_def TerminateInstances_def bindM_def wrapM_def call_def calm_def)
qed

lemma userData_returns:
  assumes cloud: "reliable E tags alive up" and "up (world s)"
  shows "\<exists>t. KMP_deleteUserData E c i region bucket s = (Ok (), t) \<and> calm alive up s t"
proof (cases "bucket = ''''")
  case True
  then show ?thesis by (simp add: KMP_deleteUserData_def calm.refl)
next
  case False
  obtain a t where new: "NewS3Client E c region (ri_RoleArn i) s = (Ok a, t)" "calm alive up s t"
    using clients_return(2) [OF assms] by blast
  then have "up (world t)" using assms(2) by (simp add: calm_def)
  then obtain w' where "a_done (e_aws E) (AWSReq a (S3Op (S3_DeleteObject bucket (userDataKey (om_Name (m_KMP t)))))) (world t) = (Inr (), w')"
    "up w'" "alive w' \<subseteq> alive (world t)"
    using deletes [OF cloud] by blast
  with new False assms(2) show ?thesis
    by (auto simp: KMP_deleteUserData_def S3_Delete_def bindM_def wrapM_def tryM_def call_def calm_def)
qed

section \<open>One reconciliation\<close>

text \<open>While AWS is available, a reconciliation releases the pool, or it terminates all the instances that it saw, of which
  there is one, and asks to be repeated.\<close>

lemma reconcileDelete_round:
  assumes cloud: "reliable E (poolTags (om_Name (m_KMP s)) (om_Name cluster)) alive up"
    and "om_Deleting cluster" "up (world s)"
  shows "\<exists>r t. KMP_reconcileDelete E c cluster i region bucket s = (Ok r, t) \<and> up (world t) \<and> alive (world t) \<subseteq> alive (world s) \<and>
    (r = noRequeue \<or> (\<exists>a ids. r = requeueAfter 30 \<and> ids \<noteq> [] \<and> set ids \<subseteq> alive (world s) \<and>
      Event (ec2req a (EC2_TerminateInstances ids)) None \<in> set (trace t)))"
proof -
  obtain a u where new: "NewEC2Client E c region (ri_RoleArn i) s = (Ok a, u)" "calm alive up s u"
    using clients_return(1) [OF cloud assms(3)] by blast
  have "reliable E (poolTags (om_Name (m_KMP u)) (om_Name cluster)) alive up" "up (world u)"
    using cloud new(2) assms(3) by (simp_all add: calm_def)
  from gate_returns [OF this(1) assms(2) this(2), of a] obtain ids v
    where gate: "KMP_deletionGate E cluster a u = (Ok ids, v)" "set ids \<subseteq> alive (world u)" "calm alive up u v" by blast
  have v: "calm alive up s v" by (rule calm.trans [OF new(2) gate(3)])
  then have up: "up (world v)" using assms(3) by (simp add: calm_def)
  have ids: "set ids \<subseteq> alive (world s)" using gate(2) new(2) assms(3) by (auto simp: calm_def)
  have run: "KMP_reconcileDelete E c cluster i region bucket s =
      (if length ids > 0 then KMP_waitForInstances E cluster a ids else KMP_release E c i region bucket) v"
    using new(1) gate(1) by (simp add: KMP_reconcileDelete_def bindM_def wrapM_def)
  show ?thesis
  proof (cases "ids = []")
    case True
    obtain t where "KMP_deleteUserData E c i region bucket v = (Ok (), t)" "calm alive up v t"
      using userData_returns [OF cloud up] by blast
    with True run calm.trans [OF v] assms(3) show ?thesis by (auto simp: KMP_release_def bindM_def modKMP_def calm_def)
  next
    case False
    from wait_returns [OF cloud assms(2) False up, of a] obtain t where
      t: "KMP_waitForInstances E cluster a ids v = (Ok (requeueAfter 30), t)"
        "Event (ec2req a (EC2_TerminateInstances ids)) None \<in> set (trace t)" "calm alive up v t" by blast
    then have "up (world t)" "alive (world t) \<subseteq> alive (world s)"
      using calm.trans [OF v t(3)] assms(3) by (simp_all add: calm_def)
    with t(1,2) ids run False show ?thesis by (intro exI [of _ "requeueAfter 30"] exI [of _ t]) auto
  qed
qed

text \<open>A reconciliation that does not ask to be repeated has removed the finalizer.\<close>

lemma reconcileDelete_result:
  assumes "KMP_reconcileDelete E c cluster i region bucket s = (Ok r, t)"
  shows "r = requeueAfter 30 \<or>
    r = noRequeue \<and> om_Finalizers (m_KMP t) = l_RemoveFinalizer (e_lib E) (om_Finalizers (m_KMP s)) KarpenterFinalizer"
proof -
  obtain a u where new: "wrapM (Wrapped ''failed to create EC2 client'') (NewEC2Client E c region (ri_RoleArn i)) s = (Ok a, u)"
    and rest: "bindM (KMP_deletionGate E cluster a) (\<lambda>ids. if length ids > 0 then KMP_waitForInstances E cluster a ids
      else KMP_release E c i region bucket) u = (Ok r, t)"
    using assms unfolding KMP_reconcileDelete_def by (rule bindM_OkE)
  obtain ids v where gate: "KMP_deletionGate E cluster a u = (Ok ids, v)"
    and last: "(if length ids > 0 then KMP_waitForInstances E cluster a ids else KMP_release E c i region bucket) v = (Ok r, t)"
    using rest by (rule bindM_OkE)
  have user: "within poolSame (KMP_deleteUserData E c i region bucket)" unfolding KMP_deleteUserData_def by (intro pool_rules)
  have v: "m_KMP v = m_KMP s"
    using poolSameD [OF within_wrapM [OF poolSame_clients(1)] new] poolSameD [OF poolSame_more(3) gate] by simp
  show ?thesis
  proof (cases "ids = []")
    case True
    with last obtain w where "KMP_deleteUserData E c i region bucket v = (Ok (), w)" "r = noRequeue"
      "t = w\<lparr>m_KMP := om_Finalizers_update (\<lambda>fs. l_RemoveFinalizer (e_lib E) fs KarpenterFinalizer) (m_KMP w)\<rparr>"
      unfolding KMP_release_def by (auto elim!: bindM_OkE simp: modKMP_def)
    with poolSameD [OF user this(1)] v show ?thesis by simp
  next
    case False
    with last show ?thesis by (auto simp: KMP_waitForInstances_def elim!: bindM_OkE)
  qed
qed

section \<open>Histories\<close>

text \<open>A reconciliation is repeated after an error or a panic, and when it asks for it.\<close>

definition repeats :: "Result outcome \<Rightarrow> bool" where
  "repeats r \<longleftrightarrow> (\<forall>res. r = Ok res \<longrightarrow> res_RequeueAfter res > 0)"

text \<open>\<open>reconciledAgain run h\<close>: after each reconciliation of the history that is to be repeated, the same pool is reconciled
  again at some later time. In between, anything may happen to the world and to what the process has cached.\<close>

definition reconciledAgain :: "('w, 'c, Result) go \<Rightarrow> (nat \<Rightarrow> ('w, 'c) sys) \<Rightarrow> bool" where
  "reconciledAgain run h \<longleftrightarrow> (\<forall>n. repeats (fst (run (h n))) \<longrightarrow>
     om_Name (m_KMP (h (Suc n))) = om_Name (m_KMP (h n)) \<and> prefix (trace (snd (run (h n)))) (trace (h (Suc n))))"

text \<open>The instances that AWS has accepted to terminate.\<close>

definition terminated :: "('w, 'c) sys \<Rightarrow> string set" where
  "terminated s = {i. \<exists>a ids. i \<in> set ids \<and> Event (ec2req a (EC2_TerminateInstances ids)) None \<in> set (trace s)}"

text \<open>From some time on AWS is available; an instance that was terminated is gone for good at some time; and in the whole history
  there are finitely many instances.\<close>

definition fairCloud :: "('w \<Rightarrow> string set) \<Rightarrow> ('w \<Rightarrow> bool) \<Rightarrow> (nat \<Rightarrow> ('w, 'c) sys) \<Rightarrow> bool" where
  "fairCloud alive up h \<longleftrightarrow>
     (\<exists>n. \<forall>m\<ge>n. up (world (h m))) \<and>
     (\<forall>n. \<forall>i \<in> terminated (h n). \<exists>k. \<forall>m\<ge>k. i \<notin> alive (world (h m))) \<and>
     finite (\<Union>n. alive (world (h n)))"

lemma eventually_all:
  assumes "finite T" "\<And>i. i \<in> T \<Longrightarrow> \<exists>k. \<forall>m\<ge>k. P i (m :: nat)"
  shows "\<exists>k. \<forall>m\<ge>k. \<forall>i \<in> T. P i m"
  using assms
proof (induction T rule: finite_induct)
  case (insert i T)
  then obtain k k' where "\<forall>m\<ge>k. P i m" "\<forall>m\<ge>k'. \<forall>i \<in> T. P i m" by (metis insert_iff)
  then show ?case by (intro exI [of _ "max k k'"]) auto
qed simp


section \<open>Example\<close>

text \<open>A world of two lists, of the instances that are alive and of those asked to terminate, which are gone before the next
  reconciliation; the workload cluster cannot be reached.\<close>

definition cloudEnv :: "(string list \<times> string list, (string \<times> cval) list) env" where
  "cloudEnv = demoEnv\<lparr>e_kube := demoKube\<lparr>k_done := errAns (TransportError ''unreachable'')\<rparr>,
     e_aws := demoAWS\<lparr>
       a_instances := (\<lambda>q w. (Inr ([map (\<lambda>i. \<lparr>in_InstanceId = Some i, in_State = Some ''running''\<rparr>) (fst w)], False), w)),
       a_done := (\<lambda>q w. case q of
           AWSReq _ (EC2Op (EC2_TerminateInstances ids)) \<Rightarrow> (Inr (), fst w, snd w @ ids)
         | _ \<Rightarrow> (Inr (), w))\<rparr>\<rparr>"

definition cloudSys :: "(string list \<times> string list, (string \<times> cval) list) sys" where
  "cloudSys = \<lparr>world = ([''i-1'', ''i-2''], []), trace = [], caches = (\<lambda>_. []), nextRef = 10, configCache = [],
     m_AWSCluster = demoAWSCluster, m_ControlPlane = demoControlPlane, m_Cluster = demoCluster,
     m_KMP = demoKMP\<lparr>om_Finalizers := [KarpenterFinalizer]\<rparr>, m_MachinePool = demoMachinePool\<rparr>"

definition goneCluster :: CapiCluster where
  "goneCluster = demoCluster\<lparr>om_Deleting := True\<rparr>"

definition cloudRun :: "(string list \<times> string list, (string \<times> cval) list, Result) go" where
  "cloudRun = KMP_reconcileDelete cloudEnv (NewClients '''') goneCluster \<lparr>ri_RoleArn = ''arn:1''\<rparr> ''eu-west-1'' ''bucket''"

primrec cloudHistory :: "nat \<Rightarrow> (string list \<times> string list, (string \<times> cval) list) sys" where
  "cloudHistory 0 = cloudSys"
| "cloudHistory (Suc n) = (let t = snd (cloudRun (cloudHistory n)) in
     t\<lparr>world := (filter (\<lambda>i. i \<notin> set (snd (world t))) (fst (world t)), snd (world t)), m_KMP := m_KMP cloudSys\<rparr>)"

lemma cloudEnv_laws: "reliable cloudEnv tags (\<lambda>w. set (fst w)) (\<lambda>_. True)"
proof -
  have page: "pageInstances [map (\<lambda>i. \<lparr>in_InstanceId = Some i, in_State = Some ''running''\<rparr>) is] = is" for "is" :: "string list"
    by (induction "is") (simp_all add: pageInstances_def liveInstance_def)
  have "\<exists>pages. pages \<noteq> [] \<and> length pages \<le> e_fuel cloudEnv \<and> set (concat (map pageInstances pages)) = set (fst w) \<and>
      (\<forall>i<length pages. a_instances (e_aws cloudEnv) q w = (Inr (pages ! i, Suc i < length pages), w))" for w q
    by (rule exI [of _ "[[map (\<lambda>i. \<lparr>in_InstanceId = Some i, in_State = Some ''running''\<rparr>) (fst w)]]"])
      (simp add: cloudEnv_def page demoEnv_def)
  then show ?thesis
    unfolding reliable_def
    by (intro conjI allI impI) (auto simp: cloudEnv_def demoEnv_def demoLoadConfig_def)
qed

lemma cloudHistory_pool: "m_KMP (cloudHistory n) = m_KMP cloudSys"
  by (cases n) (simp_all add: Let_def)

lemma cloudHistory_decreasing: "set (fst (world (cloudHistory (Suc n)))) \<subseteq> set (fst (world (cloudHistory n)))"
proof -
  have "om_Deleting goneCluster" by (simp add: goneCluster_def)
  from reconcileDelete_round [OF cloudEnv_laws this, where s = "cloudHistory n" and c = "NewClients ''''" and
      i = "\<lparr>ri_RoleArn = ''arn:1''\<rparr>" and region = "''eu-west-1''" and bucket = "''bucket''"]
  obtain r t where "cloudRun (cloudHistory n) = (Ok r, t)" "set (fst (world t)) \<subseteq> set (fst (world (cloudHistory n)))"
    by (auto simp: cloudRun_def)
  then show ?thesis by (auto simp: Let_def)
qed

lemma cloudHistory_gone: "n \<ge> 1 \<Longrightarrow> fst (world (cloudHistory n)) = []"
proof (induction n rule: nat_induct_at_least)
  case base
  show ?case by code_simp
next
  case (Suc n)
  with cloudHistory_decreasing [of n] show ?case by simp
qed

lemma cloudHistory_fair: "fairCloud (\<lambda>w. set (fst w)) (\<lambda>_. True) cloudHistory"
proof -
  have "set (fst (world (cloudHistory n))) \<subseteq> {''i-1'', ''i-2''}" for n
    using cloudHistory_gone [of n] by (cases n) (simp_all add: cloudSys_def)
  then have "(\<Union>n. set (fst (world (cloudHistory n)))) \<subseteq> {''i-1'', ''i-2''}" by blast
  then have "finite (\<Union>n. set (fst (world (cloudHistory n))))" by (rule finite_subset) simp
  moreover have "\<exists>k. \<forall>m\<ge>k. j \<notin> set (fst (world (cloudHistory m)))" for j
    using cloudHistory_gone by (intro exI [of _ 1]) simp
  ultimately show ?thesis by (simp add: fairCloud_def)
qed


end
