(* ===== verification/Go_Time.thy ===== *)
theory Go_Time
  imports Go_Data Complex_Main
begin

text \<open>
  What the operator uses of Go's \<^verbatim>\<open>time\<close> package: \<^verbatim>\<open>time.ParseDuration\<close> and
  \<^verbatim>\<open>Duration.String\<close>. A duration is a number of nanoseconds, an \<^verbatim>\<open>int64\<close>; the parser counts in
  \<^verbatim>\<open>uint64\<close>, written here as non-negative integers with the wrap-around of the one sum that can
  overflow, and multiplies fractions in \<^verbatim>\<open>float64\<close>, which is rounding to 53 bits, ties to even.
  (Exponents are not bounded here: a scale too large for a \<^verbatim>\<open>float64\<close> makes the product smaller
  than one in both cases, and it is truncated to zero.)

  The main result is the round trip: what \<^verbatim>\<open>String\<close> prints, \<^verbatim>\<open>ParseDuration\<close> reads as the same
  duration, for every \<^verbatim>\<open>int64\<close>.
\<close>

section \<open>\<^verbatim>\<open>float64\<close>\<close>

definition pow2 :: "int \<Rightarrow> rat" where
  "pow2 e = (if 0 \<le> e then 2 ^ nat e else 1 / 2 ^ nat (- e))"

definition roundEven :: "rat \<Rightarrow> int" where
  "roundEven x = (let n = \<lfloor>x\<rfloor>; r = x - of_int n in
     if r < 1 / 2 then n else if 1 / 2 < r then n + 1 else if even n then n else n + 1)"

function bitLen :: "int \<Rightarrow> int" where
  "bitLen n = (if n \<le> 0 then 0 else 1 + bitLen (n div 2))"
  by pat_completeness auto
termination
  by (relation "measure nat") auto

declare bitLen.simps [simp del]

definition f64 :: "rat \<Rightarrow> rat" where
  "f64 x = (if x \<le> 0 then 0 else
     (let (p, q) = quotient_of x;
          k = bitLen p - bitLen q;
          e = (if x < pow2 k then k - 1 else k) - 52 in
      of_int (roundEven (x / pow2 e)) * pow2 e))"

section \<open>\<^verbatim>\<open>ParseDuration\<close>\<close>

definition isDigit :: "char \<Rightarrow> bool" where
  "isDigit c = (48 \<le> (of_char c :: nat) \<and> (of_char c :: nat) \<le> 57)"

definition digitVal :: "char \<Rightarrow> int" where
  "digitVal c = int (of_char c) - 48"

fun leadingInt :: "int \<Rightarrow> string \<Rightarrow> (int \<times> string) option" where
  "leadingInt x [] = Some (x, [])"
| "leadingInt x (c # cs) =
     (if \<not> isDigit c then Some (x, c # cs)
      else if x > 2 ^ 63 div 10 then None
      else let y = x * 10 + digitVal c in if y > 2 ^ 63 then None else leadingInt y cs)"

text \<open>Digits that would overflow are skipped.\<close>

fun leadingFraction :: "int \<Rightarrow> rat \<Rightarrow> bool \<Rightarrow> string \<Rightarrow> int \<times> rat \<times> string" where
  "leadingFraction x scale overflow [] = (x, scale, [])"
| "leadingFraction x scale overflow (c # cs) =
     (if \<not> isDigit c then (x, scale, c # cs)
      else if overflow \<or> x > (2 ^ 63 - 1) div 10 then leadingFraction x scale True cs
      else let y = x * 10 + digitVal c in
        if y > 2 ^ 63 then leadingFraction x scale True cs
        else leadingFraction y (f64 (scale * 10)) False cs)"

definition unitMap :: "string \<Rightarrow> int option" where
  "unitMap = map_of [(''ns'', 1), (''us'', 10 ^ 3), ([CHR 0xC2, CHR 0xB5, CHR ''s''], 10 ^ 3),
     ([CHR 0xCE, CHR 0xBC, CHR ''s''], 10 ^ 3), (''ms'', 10 ^ 6), (''s'', 10 ^ 9),
     (''m'', 60 * 10 ^ 9), (''h'', 3600 * 10 ^ 9)]"

definition isUnitChar :: "char \<Rightarrow> bool" where
  "isUnitChar c = (c \<noteq> CHR ''.'' \<and> \<not> isDigit c)"

text \<open>The quoting that the error messages of the package use.\<close>

definition timeQuoteChar :: "char \<Rightarrow> string" where
  "timeQuoteChar c = (let n = (of_char c :: nat) in
     if 128 \<le> n \<or> n < 32 then [backslash, CHR ''x'', hexDigit (n div 16), hexDigit (n mod 16)]
     else if c = dquote \<or> c = backslash then [backslash, c] else [c])"

definition timeQuote :: "string \<Rightarrow> string" where
  "timeQuote s = dquote # concat (map timeQuoteChar s) @ [dquote]"

definition invalidDuration :: "string \<Rightarrow> go_error + 'a" where
  "invalidDuration orig = Inl (ErrorString (''time: invalid duration '' @ timeQuote orig))"

text \<open>One number with its unit: its value, and the rest of the text.\<close>

definition parseNumber :: "string \<Rightarrow> (int \<times> int \<times> rat \<times> string) option" where
  "parseNumber s =
     (if \<not> (hd s = CHR ''.'' \<or> isDigit (hd s)) then None
      else case leadingInt 0 s of
        None \<Rightarrow> None
      | Some (v, r) \<Rightarrow>
        if r \<noteq> [] \<and> hd r = CHR ''.'' then
         (let (f, scale, t) = leadingFraction 0 1 False (tl r) in
          if length r = length s \<and> length t = length (tl r) then None else Some (v, f, scale, t))
        else if length r = length s then None
        else Some (v, 0, 1, r))"

definition parseValue :: "int \<Rightarrow> int \<Rightarrow> rat \<Rightarrow> int \<Rightarrow> int option" where
  "parseValue v f scale unit =
     (if v > 2 ^ 63 div unit then None
      else if f > 0 then
       (let w = v * unit + \<lfloor>f64 (f64 (of_int f) * f64 (of_int unit / scale))\<rfloor> in
        if w > 2 ^ 63 then None else Some w)
      else Some (v * unit))"

definition parseUnit :: "string \<Rightarrow> string \<Rightarrow> go_error + int" where
  "parseUnit orig u =
     (if u = [] then Inl (ErrorString (''time: missing unit in duration '' @ timeQuote orig))
      else case unitMap u of
        None \<Rightarrow> Inl (ErrorString (''time: unknown unit '' @ timeQuote u @ '' in duration '' @ timeQuote orig))
      | Some unit \<Rightarrow> Inr unit)"

lemma leadingInt_length: "leadingInt x s = Some (v, r) \<Longrightarrow> length r \<le> length s"
  by (induction x s rule: leadingInt.induct) (auto simp: Let_def split: if_splits)

lemma leadingFraction_length: "leadingFraction x sc ov s = (f, sc', r) \<Longrightarrow> length r \<le> length s"
  by (induction x sc ov s rule: leadingFraction.induct) (auto simp: Let_def split: if_splits)

lemma parseNumber_length: "parseNumber s = Some (v, f, sc, r) \<Longrightarrow> length r \<le> length s"
  by (auto simp: parseNumber_def Let_def dest!: leadingInt_length leadingFraction_length
      split: if_splits option.splits prod.splits)

text \<open>The loop over the numbers; the sum wraps around at \<open>2 ^ 64\<close>.\<close>

function parseLoop :: "string \<Rightarrow> int \<Rightarrow> string \<Rightarrow> go_error + int" where
  "parseLoop orig d s =
     (if s = [] then Inr d
      else case parseNumber s of
        None \<Rightarrow> invalidDuration orig
      | Some (v, f, scale, r) \<Rightarrow>
        (case parseUnit orig (takeWhile isUnitChar r) of
           Inl e \<Rightarrow> Inl e
         | Inr unit \<Rightarrow>
           (case parseValue v f scale unit of
              None \<Rightarrow> invalidDuration orig
            | Some w \<Rightarrow>
              let d' = (d + w) mod 2 ^ 64 in
              if d' > 2 ^ 63 then invalidDuration orig else parseLoop orig d' (dropWhile isUnitChar r))))"
  by pat_completeness auto
termination
proof (relation "measure (\<lambda>(orig, d, s). length s)", goal_cases)
  case 1
  show ?case by simp
next
  case (2 orig d s a v b f c scale r unit w d')
  then have "length r \<le> length s" and "takeWhile isUnitChar r \<noteq> []"
    by (auto dest: parseNumber_length simp: parseUnit_def split: if_splits)
  then have "length (dropWhile isUnitChar r) < length r"
    by (metis append_Nil length_dropWhile_le nat_less_le takeWhile_dropWhile_id append_eq_append_conv)
  with \<open>length r \<le> length s\<close> show ?case by simp
qed

declare parseLoop.simps [simp del]

definition ParseDuration :: "string \<Rightarrow> go_error + int" where
  "ParseDuration orig =
     (let neg = (orig \<noteq> [] \<and> hd orig = CHR ''-'');
          s = (if orig \<noteq> [] \<and> (hd orig = CHR ''-'' \<or> hd orig = CHR ''+'') then tl orig else orig) in
      if s = ''0'' then Inr 0
      else if s = [] then invalidDuration orig
      else case parseLoop orig 0 s of
        Inl e \<Rightarrow> Inl e
      | Inr d \<Rightarrow> if neg then Inr (- d) else if d > 2 ^ 63 - 1 then invalidDuration orig else Inr d)"

section \<open>\<^verbatim>\<open>Duration.String\<close>\<close>

text \<open>The buffer is filled from its end.\<close>

function fmtDigits :: "string \<Rightarrow> int \<Rightarrow> string" where
  "fmtDigits buf v = (if v \<le> 0 then buf else fmtDigits (digit_char (nat (v mod 10)) # buf) (v div 10))"
  by pat_completeness auto
termination
  by (relation "measure (\<lambda>(buf, v). nat v)") auto

declare fmtDigits.simps [simp del]

definition fmtInt :: "string \<Rightarrow> int \<Rightarrow> string" where
  "fmtInt buf v = (if v = 0 then CHR ''0'' # buf else fmtDigits buf v)"

fun fmtFrac :: "nat \<Rightarrow> bool \<Rightarrow> string \<Rightarrow> int \<Rightarrow> string \<times> int" where
  "fmtFrac 0 print buf v = (if print then CHR ''.'' # buf else buf, v)"
| "fmtFrac (Suc prec) print buf v =
     (let digit = v mod 10; print = (print \<or> digit \<noteq> 0) in
      fmtFrac prec print (if print then digit_char (nat digit) # buf else buf) (v div 10))"

definition fmtSmall :: "int \<Rightarrow> string" where
  "fmtSmall u =
     (if u = 0 then ''0s''
      else let (suffix, prec) =
          (if u < 10 ^ 3 then (''ns'', 0) else if u < 10 ^ 6 then ([CHR 0xC2, CHR 0xB5, CHR ''s''], 3)
           else (''ms'', 6));
        (buf, v) = fmtFrac prec False suffix u in fmtInt buf v)"

definition fmtLarge :: "int \<Rightarrow> string" where
  "fmtLarge u =
     (let (buf, v) = fmtFrac 9 False ''s'' u;
          secs = fmtInt buf (v mod 60);
          mins = v div 60;
          hours = mins div 60 in
      if mins > 0 then
        let part = fmtInt (CHR ''m'' # secs) (mins mod 60) in
        if hours > 0 then fmtInt (CHR ''h'' # part) hours else part
      else secs)"

definition Duration_String :: "int \<Rightarrow> string" where
  "Duration_String d =
     (let u = \<bar>d\<bar>; text = (if u < 10 ^ 9 then fmtSmall u else fmtLarge u) in
      if d < 0 then CHR ''-'' # text else text)"

section \<open>The round trip\<close>

subsection \<open>Integers below \<open>2 ^ 53\<close> are exact\<close>

lemma bitLen_pos: "0 < n \<Longrightarrow> bitLen n = 1 + bitLen (n div 2)"
  by (simp add: bitLen.simps [of n])

lemma bitLen_nonpos [simp]: "n \<le> 0 \<Longrightarrow> bitLen n = 0"
  by (simp add: bitLen.simps)

lemma bitLen_1 [simp]: "bitLen 1 = 1"
  by (simp add: bitLen_pos)

lemma bitLen_nonneg: "0 \<le> bitLen n"
  by (induction n rule: bitLen.induct) (simp add: bitLen.simps)

lemma bitLen_lower: "0 < n \<Longrightarrow> 2 ^ nat (bitLen n - 1) \<le> n"
proof (induction n rule: bitLen.induct)
  case (1 n)
  show ?case
  proof (cases "n = 1")
    case False
    with 1 have "2 ^ nat (bitLen (n div 2) - 1) \<le> n div 2" by simp
    moreover have "0 < bitLen (n div 2)"
      using False 1(2) bitLen_nonneg [of "n div 2 div 2"] by (subst bitLen_pos) auto
    then have "nat (bitLen n - 1) = Suc (nat (bitLen (n div 2) - 1))"
      using 1(2) by (simp add: bitLen_pos)
    ultimately show ?thesis by simp
  qed simp
qed

lemma bitLen_le: "n < 2 ^ k \<Longrightarrow> bitLen n \<le> int k"
proof (cases "0 < n")
  case True
  assume "n < 2 ^ k"
  with bitLen_lower [OF True] have "(2 :: int) ^ nat (bitLen n - 1) < 2 ^ k" by linarith
  then show ?thesis by simp
qed simp

lemma pow2_nonneg: "0 \<le> e \<Longrightarrow> pow2 e = of_int (2 ^ nat e)"
  by (simp add: pow2_def)

lemma roundEven_of_int [simp]: "roundEven (of_int n) = n"
  by (simp add: roundEven_def)

lemma f64_of_int:
  assumes "0 \<le> n" "n < 2 ^ 53"
  shows "f64 (of_int n) = of_int n"
proof (cases "n = 0")
  case False
  let ?k = "bitLen n - 1"
  have k: "0 \<le> ?k" "?k \<le> 52"
    using assms False bitLen_le [of n 53] bitLen_nonneg [of "n div 2"] by (simp_all add: bitLen_pos)
  have "\<not> of_int n < pow2 ?k"
    using bitLen_lower [of n] assms False k by (simp add: pow2_nonneg not_less del: of_int_power)
  moreover have "of_int n / pow2 (?k - 52) = of_int (n * 2 ^ nat (52 - ?k))"
    and "of_int (n * 2 ^ nat (52 - ?k)) * pow2 (?k - 52) = of_int n"
    using k by (auto simp: pow2_def)
  ultimately show ?thesis
    using assms False by (simp add: f64_def Let_def del: of_int_mult)
qed (simp add: f64_def)

subsection \<open>Digits\<close>

definition decVal :: "int \<Rightarrow> string \<Rightarrow> int" where
  "decVal x ds = foldl (\<lambda>x c. x * 10 + digitVal c) x ds"

lemma decVal_simps [simp]:
  "decVal x [] = x" "decVal x (c # ds) = decVal (x * 10 + digitVal c) ds"
  "decVal x (ds @ [c]) = decVal x ds * 10 + digitVal c"
  by (simp_all add: decVal_def)

lemma digit_char_digit [simp]:
  "0 \<le> d \<Longrightarrow> d < 10 \<Longrightarrow> isDigit (digit_char (nat d))"
  "0 \<le> d \<Longrightarrow> d < 10 \<Longrightarrow> digitVal (digit_char (nat d)) = d"
  by (auto simp: digit_char_def isDigit_def digitVal_def)

lemma digitVal_nonneg: "isDigit c \<Longrightarrow> 0 \<le> digitVal c"
  by (simp add: isDigit_def digitVal_def)

lemma decVal_le: "0 \<le> x \<Longrightarrow> list_all isDigit ds \<Longrightarrow> x \<le> decVal x ds"
proof (induction ds arbitrary: x)
  case (Cons c ds)
  then have "0 \<le> digitVal c" by (simp add: digitVal_nonneg)
  with Cons.prems Cons.IH [of "x * 10 + digitVal c"] show ?case by simp
qed simp

lemma leadingInt_digits:
  assumes "list_all isDigit ds" "0 \<le> x" "decVal x ds \<le> 2 ^ 63" "r = [] \<or> \<not> isDigit (hd r)"
  shows "leadingInt x (ds @ r) = Some (decVal x ds, r)"
  using assms
proof (induction ds arbitrary: x)
  case Nil
  then show ?case by (cases r) auto
next
  case (Cons c ds)
  let ?y = "x * 10 + digitVal c"
  have "0 \<le> digitVal c" using Cons.prems by (simp add: digitVal_nonneg)
  moreover from this have "?y \<le> decVal ?y ds" using Cons.prems by (intro decVal_le) auto
  ultimately have "0 \<le> ?y" "?y \<le> 2 ^ 63" "x \<le> 2 ^ 63 div 10" using Cons.prems by auto
  with Cons show ?case by simp
qed

lemma f64_power10:
  assumes "n \<le> 9"
  shows "f64 (10 ^ n) = 10 ^ n"
proof -
  have "(10 :: int) ^ n \<le> 10 ^ 9" using assms by (intro power_increasing) auto
  then have "f64 (of_int (10 ^ n)) = of_int (10 ^ n)" by (intro f64_of_int) auto
  then show ?thesis by simp
qed

lemma leadingFraction_digits:
  assumes "list_all isDigit ds" "0 \<le> x" "decVal x ds < 10 ^ 9" "k + length ds \<le> 9"
    and "r = [] \<or> \<not> isDigit (hd r)"
  shows "leadingFraction x (10 ^ k) False (ds @ r) = (decVal x ds, 10 ^ (k + length ds), r)"
  using assms
proof (induction ds arbitrary: x k)
  case Nil
  then show ?case by (cases r) auto
next
  case (Cons c ds)
  let ?y = "x * 10 + digitVal c"
  have "0 \<le> digitVal c" using Cons.prems by (simp add: digitVal_nonneg)
  moreover from this have "?y \<le> decVal ?y ds" using Cons.prems by (intro decVal_le) auto
  ultimately have y: "0 \<le> ?y" "?y \<le> 10 ^ 9" "x \<le> 10 ^ 9" using Cons.prems by auto
  moreover have "leadingFraction ?y (10 ^ Suc k) False (ds @ r) = (decVal ?y ds, 10 ^ (Suc k + length ds), r)"
    using Cons.prems y by (intro Cons.IH) auto
  moreover have "f64 (10 ^ k * 10) = 10 ^ Suc k"
    using f64_power10 [of "Suc k"] Cons.prems by (simp add: mult.commute)
  ultimately show ?case using Cons.prems by simp
qed

lemma fmtDigits_digits:
  "0 \<le> v \<Longrightarrow> \<exists>ds. fmtDigits buf v = ds @ buf \<and> (0 < v \<longrightarrow> ds \<noteq> []) \<and> list_all isDigit ds \<and> decVal 0 ds = v"
proof (induction buf v rule: fmtDigits.induct)
  case (1 buf v)
  let ?c = "digit_char (nat (v mod 10))"
  show ?case
  proof (cases "v \<le> 0")
    case False
    with 1 obtain ds where "fmtDigits (?c # buf) (v div 10) = ds @ ?c # buf" "list_all isDigit ds" "decVal 0 ds = v div 10"
      by fastforce
    with False show ?thesis
      by (intro exI [of _ "ds @ [?c]"]) (simp add: fmtDigits.simps [of buf v])
  qed (use 1 in \<open>simp add: fmtDigits.simps\<close>)
qed

lemma fmtInt_digits:
  assumes "0 \<le> v"
  obtains ds where "fmtInt buf v = ds @ buf" "ds \<noteq> []" "list_all isDigit ds" "decVal 0 ds = v"
proof (cases "v = 0")
  case True
  show thesis
    by (rule that [of "''0''"]) (simp_all add: True fmtInt_def isDigit_def digitVal_def)
next
  case False
  with assms fmtDigits_digits [of v buf] that show thesis by (auto simp: fmtInt_def)
qed

text \<open>The digits of a fraction, with and without its trailing zeros.\<close>

definition fracText :: "string \<Rightarrow> string" where
  "fracText fs = (if fs = [] then [] else CHR ''.'' # fs)"

lemma split_last_digit: "v mod (10 * 10 ^ n) = v div 10 mod 10 ^ n * 10 + (v :: int) mod 10"
  by (simp add: zmod_zmult2_eq)

lemma fmtFrac_all:
  "\<exists>ds. fmtFrac prec True buf v = (CHR ''.'' # ds @ buf, v div 10 ^ prec) \<and>
    length ds = prec \<and> list_all isDigit ds \<and> decVal 0 ds = v mod 10 ^ prec"
proof (induction prec arbitrary: buf v)
  case (Suc prec)
  let ?c = "digit_char (nat (v mod 10))"
  obtain ds where "fmtFrac prec True (?c # buf) (v div 10) = (CHR ''.'' # ds @ ?c # buf, v div 10 div 10 ^ prec)"
    "length ds = prec" "list_all isDigit ds" "decVal 0 ds = v div 10 mod 10 ^ prec"
    using Suc by blast
  then show ?case
    by (intro exI [of _ "ds @ [?c]"]) (simp add: split_last_digit zdiv_zmult2_eq)
qed simp

lemma fmtFrac_digits:
  "\<exists>ds. fmtFrac prec False buf v = (fracText ds @ buf, v div 10 ^ prec) \<and>
    length ds \<le> prec \<and> list_all isDigit ds \<and> decVal 0 ds * 10 ^ (prec - length ds) = v mod 10 ^ prec"
proof (induction prec arbitrary: buf v)
  case 0
  show ?case by (intro exI [of _ "[]"]) (simp add: fracText_def)
next
  case (Suc prec)
  show ?case
  proof (cases "v mod 10 = 0")
    case True
    obtain ds where ds: "fmtFrac prec False buf (v div 10) = (fracText ds @ buf, v div 10 div 10 ^ prec)"
      "length ds \<le> prec" "list_all isDigit ds" "decVal 0 ds * 10 ^ (prec - length ds) = v div 10 mod 10 ^ prec"
      using Suc by blast
    then have "decVal 0 ds * 10 ^ (Suc prec - length ds) = v mod 10 ^ Suc prec"
      by (simp add: split_last_digit True Suc_diff_le)
    with ds True show ?thesis
      by (intro exI [of _ ds]) (simp add: zdiv_zmult2_eq)
  next
    case False
    let ?c = "digit_char (nat (v mod 10))"
    obtain ds where "fmtFrac prec True (?c # buf) (v div 10) = (CHR ''.'' # ds @ ?c # buf, v div 10 div 10 ^ prec)"
      "length ds = prec" "list_all isDigit ds" "decVal 0 ds = v div 10 mod 10 ^ prec"
      using fmtFrac_all by blast
    with False show ?thesis
      by (intro exI [of _ "ds @ [?c]"]) (simp add: split_last_digit zdiv_zmult2_eq fracText_def)
  qed
qed

subsection \<open>One number with its unit\<close>

lemma unit_exact:
  assumes "0 \<le> f" "f * 10 ^ (p - k) < 10 ^ p" "k \<le> p" "p \<le> 9"
  shows "\<lfloor>f64 (f64 (of_int f) * f64 (of_int (10 ^ p) / 10 ^ k))\<rfloor> = f * 10 ^ (p - k)"
proof -
  have "(10 :: int) ^ p \<le> 10 ^ 9" using assms by (intro power_increasing) auto
  moreover have "f \<le> f * 10 ^ (p - k)" using assms(1) by (simp add: mult_le_cancel_left1)
  ultimately have "f64 (of_int f) = of_int f" "f64 (of_int (f * 10 ^ (p - k))) = of_int (f * 10 ^ (p - k))"
    using assms by (auto intro!: f64_of_int simp del: of_int_mult)
  moreover have "of_int (10 ^ p) / 10 ^ k = (10 :: rat) ^ (p - k)"
    using assms(3) by (simp add: power_diff)
  ultimately show ?thesis
    using f64_power10 [of "p - k"] assms(4) by (simp del: floor_of_int) (metis floor_of_int of_int_mult of_int_numeral of_int_power)
qed

text \<open>A text \<open>u\<close> that may follow a number as its unit.\<close>

definition unitText :: "string \<Rightarrow> bool" where
  "unitText u \<longleftrightarrow> u \<noteq> [] \<and> list_all isUnitChar u"

lemma unitText_hd: "unitText u \<Longrightarrow> \<not> isDigit (hd (u @ r)) \<and> hd (u @ r) \<noteq> CHR ''.''"
  by (cases u) (auto simp: unitText_def isUnitChar_def)

lemma parseNumber_text:
  assumes "ds \<noteq> []" "list_all isDigit ds" "decVal 0 ds \<le> 2 ^ 63"
    and "list_all isDigit fs" "length fs \<le> 9" "decVal 0 fs < 10 ^ 9" "unitText u"
  shows "parseNumber (ds @ fracText fs @ u @ r) = Some (decVal 0 ds, decVal 0 fs, 10 ^ length fs, u @ r)"
proof -
  have dot: "\<not> isDigit CHR ''.''" by (simp add: isDigit_def)
  have "leadingInt 0 (ds @ fracText fs @ u @ r) = Some (decVal 0 ds, fracText fs @ u @ r)"
    using assms unitText_hd [of u r] dot by (intro leadingInt_digits) (auto simp: fracText_def)
  moreover have "leadingFraction 0 1 False (fs @ u @ r) = (decVal 0 fs, 10 ^ length fs, u @ r)"
    using assms unitText_hd [of u r] leadingFraction_digits [of fs 0 0 "u @ r"] by simp
  moreover have "isDigit (hd (ds @ fracText fs @ u @ r))"
    using assms by (cases ds) auto
  ultimately show ?thesis
    using assms unitText_hd [of u r] by (auto simp: parseNumber_def fracText_def)
qed

lemma parseLoop_segment:
  assumes ds: "ds \<noteq> []" "list_all isDigit ds" "decVal 0 ds = v"
    and fs: "list_all isDigit fs" "length fs \<le> p" "p \<le> 9" "decVal 0 fs * 10 ^ (p - length fs) = f"
    and unit: "unitText u" "unitMap u = Some m" "fs = [] \<or> m = 10 ^ p" "0 < m" "f < 10 ^ p"
    and d: "0 \<le> d" "d + v * m + f \<le> 2 ^ 63" and r: "r = [] \<or> isDigit (hd r)"
  shows "parseLoop orig d (ds @ fracText fs @ u @ r) = parseLoop orig (d + v * m + f) r"
proof -
  have v: "0 \<le> v" and f: "0 \<le> decVal 0 fs"
    using ds fs decVal_le [of 0] by force+
  then have "0 \<le> v * m" "0 \<le> f" using unit(4) fs(4) by auto
  moreover have "v \<le> v * m" using v unit(4) by (simp add: mult_le_cancel_left1)
  ultimately have bounds: "v \<le> 2 ^ 63" "v * m \<le> 2 ^ 63" "v * m + f \<le> 2 ^ 63" "0 \<le> d + v * m + f"
    using d by linarith+
  then have "v * m div m \<le> 2 ^ 63 div m" using unit(4) by (intro zdiv_mono1)
  then have vm: "v \<le> 2 ^ 63 div m" using unit(4) by simp
  have "decVal 0 fs \<le> decVal 0 fs * 10 ^ (p - length fs)" using f by (simp add: mult_le_cancel_left1)
  also have "\<dots> < 10 ^ p" using fs(4) unit(5) by simp
  also have "(10 :: int) ^ p \<le> 10 ^ 9" using fs(3) by (intro power_increasing) auto
  finally have "parseNumber (ds @ fracText fs @ u @ r) = Some (v, decVal 0 fs, 10 ^ length fs, u @ r)"
    using parseNumber_text [of ds fs u r] ds fs unit bounds by simp
  moreover have "parseValue v (decVal 0 fs) (10 ^ length fs) m = Some (v * m + f)"
  proof (cases "fs = []")
    case True
    with vm fs(4) show ?thesis by (simp add: parseValue_def)
  next
    case False
    with unit have "m = 10 ^ p" by simp
    with vm f fs unit(5) bounds show ?thesis
      using unit_exact [of "decVal 0 fs" p "length fs"] by (auto simp: parseValue_def Let_def)
  qed
  moreover have "takeWhile isUnitChar (u @ r) = u" "dropWhile isUnitChar (u @ r) = r"
    using unit(1) r by (auto simp: unitText_def list_all_iff takeWhile_append dropWhile_append isUnitChar_def
        takeWhile_eq_Nil_iff dropWhile_eq_self_iff)
  moreover have "(d + (v * m + f)) mod 2 ^ 64 = d + v * m + f"
    using bounds d by (subst mod_pos_pos_trivial) auto
  ultimately show ?thesis
    using ds unit d by (subst parseLoop.simps) (auto simp: parseUnit_def unitText_def Let_def add.assoc)
qed

subsection \<open>Whole durations\<close>

lemma unit_texts:
  "unitText ''ns''" "unitText [CHR 0xC2, CHR 0xB5, CHR ''s'']" "unitText ''ms''" "unitText ''s''" "unitText ''m''" "unitText ''h''"
  by (simp_all add: unitText_def isUnitChar_def isDigit_def)

lemma unit_values:
  "unitMap ''ns'' = Some 1" "unitMap [CHR 0xC2, CHR 0xB5, CHR ''s''] = Some (10 ^ 3)" "unitMap ''ms'' = Some (10 ^ 6)"
  "unitMap ''s'' = Some (10 ^ 9)" "unitMap ''m'' = Some (60 * 10 ^ 9)" "unitMap ''h'' = Some (3600 * 10 ^ 9)"
  by (simp_all add: unitMap_def)

text \<open>A whole number, and a number with a fraction, as they are printed, before \<open>r\<close>.\<close>

lemma parseLoop_whole:
  assumes "0 \<le> v" "unitText u" "unitMap u = Some m" "0 < m" "0 \<le> d" "d + v * m \<le> 2 ^ 63" "r = [] \<or> isDigit (hd r)"
  shows "parseLoop orig d (fmtInt (u @ r) v) = parseLoop orig (d + v * m) r"
proof -
  obtain ds where "fmtInt (u @ r) v = ds @ u @ r" "ds \<noteq> []" "list_all isDigit ds" "decVal 0 ds = v"
    using fmtInt_digits [OF assms(1)] by blast
  with assms show ?thesis
    using parseLoop_segment [of ds v "[]" 0 0 u m d r orig] by (simp add: fracText_def)
qed

lemma fmtInt_starts: "0 \<le> v \<Longrightarrow> fmtInt buf v \<noteq> [] \<and> isDigit (hd (fmtInt buf v))"
  by (rule fmtInt_digits [of v buf]) (auto simp: neq_Nil_conv)

lemma parseLoop_fraction:
  assumes frac: "fmtFrac p False u n = (buf, w)" and n: "0 \<le> n" and v: "0 \<le> v"
    and unit: "unitText u" "unitMap u = Some (10 ^ p)" "p \<le> 9"
    and d: "0 \<le> d" "d + v * 10 ^ p + n mod 10 ^ p \<le> 2 ^ 63"
  shows "parseLoop orig d (fmtInt buf v) = Inr (d + v * 10 ^ p + n mod 10 ^ p)"
proof -
  obtain fs where fs: "buf = fracText fs @ u" "length fs \<le> p" "list_all isDigit fs"
    "decVal 0 fs * 10 ^ (p - length fs) = n mod 10 ^ p"
    using fmtFrac_digits [of p u n] frac by auto
  obtain ds where "fmtInt buf v = ds @ buf" "ds \<noteq> []" "list_all isDigit ds" "decVal 0 ds = v"
    using fmtInt_digits [OF v] by blast
  with fs unit d show ?thesis
    using parseLoop_segment [of ds v fs p "n mod 10 ^ p" u "10 ^ p" d "[]" orig] by (simp add: parseLoop.simps [of _ _ "[]"])
qed

lemma parse_fmtSmall:
  assumes "0 \<le> u" "u < 10 ^ 9"
  shows "parseLoop orig 0 (fmtSmall u) = Inr u"
proof -
  have zero: "parseLoop orig 0 ''0s'' = Inr 0"
    using parseLoop_whole [OF _ unit_texts(4) unit_values(4), of 0 0 "[]" orig]
    by (simp add: fmtInt_def parseLoop.simps [of _ _ "[]"])
  have *: "parseLoop orig 0 (fmtInt (fst (fmtFrac p False s u)) (snd (fmtFrac p False s u))) = Inr u"
    if "unitText s" "unitMap s = Some (10 ^ p)" "p \<le> 9" for p s
  proof -
    obtain buf where fr: "fmtFrac p False s u = (buf, u div 10 ^ p)"
      using fmtFrac_digits [of p s u] by blast
    have "u div 10 ^ p * 10 ^ p + u mod 10 ^ p = u" by (rule div_mult_mod_eq)
    with that assms fr show ?thesis
      using parseLoop_fraction [of p s u buf "u div 10 ^ p" "u div 10 ^ p" 0 orig]
      by (simp add: pos_imp_zdiv_nonneg_iff)
  qed
  have "unitMap ''ns'' = Some (10 ^ 0)" by (simp add: unit_values)
  with assms * unit_texts unit_values zero show ?thesis
    by (simp add: fmtSmall_def Let_def case_prod_beta)
qed

lemma parse_fmtLarge:
  assumes "0 \<le> u" "u \<le> 2 ^ 63"
  shows "parseLoop orig 0 (fmtLarge u) = Inr u"
proof -
  define v where "v = u div 10 ^ 9"
  define mins where "mins = v div 60"
  define hours where "hours = mins div 60"
  have nonneg: "0 \<le> v" "0 \<le> mins" "0 \<le> hours"
    using assms by (simp_all add: v_def mins_def hours_def pos_imp_zdiv_nonneg_iff)
  have parts: "u = v * 10 ^ 9 + u mod 10 ^ 9" "v = mins * 60 + v mod 60" "mins = hours * 60 + mins mod 60"
    unfolding v_def mins_def hours_def by (rule div_mult_mod_eq [symmetric])+
  have rests: "0 \<le> u mod 10 ^ 9" "0 \<le> v mod 60" "0 \<le> mins mod 60" by simp_all
  obtain buf where fr: "fmtFrac 9 False ''s'' u = (buf, v)"
    using fmtFrac_digits [of 9 "''s''" u] unfolding v_def by blast
  let ?secs = "fmtInt buf (v mod 60)"
  let ?part = "fmtInt (''m'' @ ?secs) (mins mod 60)"
  have secs: "parseLoop orig d ?secs = Inr (d + v mod 60 * 10 ^ 9 + u mod 10 ^ 9)"
    if "0 \<le> d" "d + v mod 60 * 10 ^ 9 + u mod 10 ^ 9 \<le> 2 ^ 63" for d
    using parseLoop_fraction [OF fr assms(1) rests(2) unit_texts(4) unit_values(4) _ that] by simp
  have starts: "isDigit (hd ?secs)" "isDigit (hd ?part)"
    using fmtInt_starts rests by blast+
  have part: "parseLoop orig d ?part = Inr (d + mins mod 60 * (60 * 10 ^ 9) + v mod 60 * 10 ^ 9 + u mod 10 ^ 9)"
    if "0 \<le> d" "d + mins mod 60 * (60 * 10 ^ 9) + v mod 60 * 10 ^ 9 + u mod 10 ^ 9 \<le> 2 ^ 63" for d
    using parseLoop_whole [OF rests(3) unit_texts(5) unit_values(5), of d ?secs orig] secs that starts rests by simp
  have whole: "parseLoop orig 0 (fmtInt (''h'' @ ?part) hours) = Inr u"
    using parseLoop_whole [OF nonneg(3) unit_texts(6) unit_values(6), of 0 ?part orig] part
      parts rests starts assms nonneg by simp
  show ?thesis
    using whole part [of 0] secs [of 0] parts rests assms nonneg fr
    by (auto simp: fmtLarge_def Let_def mins_def [symmetric] hours_def [symmetric])
qed

text \<open>The text starts with a digit and is not just a zero.\<close>

lemma fmtInt_text:
  assumes "0 \<le> v" "buf \<noteq> []"
  shows "\<exists>c cs. fmtInt buf v = c # cs \<and> isDigit c \<and> cs \<noteq> []"
proof -
  obtain ds where "fmtInt buf v = ds @ buf" "ds \<noteq> []" "list_all isDigit ds"
    using fmtInt_digits [OF assms(1)] by blast
  with assms(2) show ?thesis by (cases ds) auto
qed

lemma fmtFrac_text: "u \<noteq> [] \<Longrightarrow> fst (fmtFrac p False u n) \<noteq> []"
  using fmtFrac_digits [of p u n] by auto

lemma fmtFrac_value: "snd (fmtFrac p False u n) = n div 10 ^ p"
  using fmtFrac_digits [of p u n] by auto

definition fmtDuration :: "int \<Rightarrow> string" where
  "fmtDuration u = (if u < 10 ^ 9 then fmtSmall u else fmtLarge u)"

lemma fmtDuration_text:
  assumes "0 \<le> u"
  shows "\<exists>c cs. fmtDuration u = c # cs \<and> isDigit c \<and> cs \<noteq> []"
proof -
  have v: "0 \<le> u div 10 ^ p" for p using assms by (simp add: pos_imp_zdiv_nonneg_iff)
  have "isDigit CHR ''0''" by (simp add: isDigit_def)
  then have "\<exists>c cs. fmtSmall u = c # cs \<and> isDigit c \<and> cs \<noteq> []"
    using v [of 0] v [of 3] v [of 6]
    by (auto simp: fmtSmall_def case_prod_beta fmtFrac_value fmtFrac_text intro!: fmtInt_text)
  moreover have "\<exists>c cs. fmtLarge u = c # cs \<and> isDigit c \<and> cs \<noteq> []"
    using v [of 9] by (auto simp: fmtLarge_def case_prod_beta fmtFrac_value Let_def fmtFrac_text intro!: fmtInt_text)
  ultimately show ?thesis by (simp add: fmtDuration_def)
qed

text \<open>What \<^verbatim>\<open>String\<close> prints, \<^verbatim>\<open>ParseDuration\<close> reads.\<close>

lemma ParseDuration_String:
  assumes "- (2 ^ 63) \<le> d" "d < 2 ^ 63"
  shows "ParseDuration (Duration_String d) = Inr d"
proof -
  have string: "Duration_String d = (if d < 0 then CHR ''-'' # fmtDuration \<bar>d\<bar> else fmtDuration \<bar>d\<bar>)"
    by (simp add: Duration_String_def fmtDuration_def)
  obtain c cs where c: "fmtDuration \<bar>d\<bar> = c # cs" "isDigit c" "cs \<noteq> []"
    using fmtDuration_text [of "\<bar>d\<bar>"] by auto
  then have sign: "c \<noteq> CHR ''-''" "c \<noteq> CHR ''+''" by (auto simp: isDigit_def)
  have "parseLoop orig 0 (fmtDuration \<bar>d\<bar>) = Inr \<bar>d\<bar>" for orig
    using assms parse_fmtSmall [of "\<bar>d\<bar>" orig] parse_fmtLarge [of "\<bar>d\<bar>" orig]
    by (auto simp: fmtDuration_def)
  with c sign assms show ?thesis by (auto simp: ParseDuration_def string)
qed

text \<open>Every duration that is read is an \<^verbatim>\<open>int64\<close>.\<close>

lemma parseLoop_bounds: "parseLoop orig d s = Inr n \<Longrightarrow> 0 \<le> d \<Longrightarrow> d \<le> 2 ^ 63 \<Longrightarrow> 0 \<le> n \<and> n \<le> 2 ^ 63"
proof (induction orig d s rule: parseLoop.induct)
  case (1 orig d s)
  from 1(2) show ?case
    by (subst (asm) parseLoop.simps)
      (use 1 in \<open>auto simp: invalidDuration_def Let_def split: if_splits option.splits sum.splits\<close>)
qed

lemma ParseDuration_bounds: "ParseDuration s = Inr d \<Longrightarrow> - (2 ^ 63) \<le> d \<and> d < 2 ^ 63"
  using parseLoop_bounds [of s 0]
  by (fastforce simp: ParseDuration_def invalidDuration_def Let_def split: if_splits sum.splits)

text \<open>The check for overflow does not see a sum of exactly \<open>2 ^ 64\<close>.\<close>

lemma duration_wraps: "ParseDuration ''9223372036854775808ns9223372036854775808ns'' = Inr 0"
  by code_simp

end
