(* ===== verification/Karpenter_Duration.thy ===== *)
theory Karpenter_Duration
  imports Go_Time Karpenter_API
begin

text \<open>
  \<^verbatim>\<open>api/v1alpha1/duration.go\<close>: the JSON form of a duration that may be \<^verbatim>\<open>Never\<close>, and
  \<^verbatim>\<open>json.Unmarshal\<close> into a string, on which it rests. Of a decoding error only that there is one
  is modelled, not its text.
\<close>

section \<open>Decoding a JSON string\<close>

definition byte :: "char \<Rightarrow> nat" where
  "byte c = of_char c"

definition jsonSpace :: "char \<Rightarrow> bool" where
  "jsonSpace c = (byte c \<in> {9, 10, 13, 32})"

text \<open>The number of bytes of the UTF-8 character at the start of a text; 0 when there is none.\<close>

definition cont :: "nat \<Rightarrow> nat \<Rightarrow> char \<Rightarrow> bool" where
  "cont lo hi c = (lo \<le> byte c \<and> byte c \<le> hi)"

definition utf8Size :: "string \<Rightarrow> nat" where
  "utf8Size s = (case s of
      [] \<Rightarrow> 0
    | c # r \<Rightarrow>
      (let n = byte c;
           ok = (\<lambda>k lo hi. if length r \<ge> k \<and> cont lo hi (r ! 0) \<and> list_all (cont 128 191) (take (k - 1) (tl r)) then k + 1 else 0) in
       if n < 128 then 1
       else if 194 \<le> n \<and> n \<le> 223 then ok 1 128 191
       else if n = 224 then ok 2 160 191
       else if n = 237 then ok 2 128 159
       else if 225 \<le> n \<and> n \<le> 239 then ok 2 128 191
       else if n = 240 then ok 3 144 191
       else if 241 \<le> n \<and> n \<le> 243 then ok 3 128 191
       else if n = 244 then ok 3 128 143
       else 0))"

definition encodeRune :: "nat \<Rightarrow> string" where
  "encodeRune r = map char_of (if r < 128 then [r]
     else if r < 2048 then [192 + r div 64, 128 + r mod 64]
     else if r < 65536 then [224 + r div 4096, 128 + r div 64 mod 64, 128 + r mod 64]
     else [240 + r div 262144, 128 + r div 4096 mod 64, 128 + r div 64 mod 64, 128 + r mod 64])"

definition runeError :: string where
  "runeError = encodeRune 65533"

definition hexVal :: "char \<Rightarrow> nat option" where
  "hexVal c = (let n = byte c in
     if 48 \<le> n \<and> n \<le> 57 then Some (n - 48)
     else if 97 \<le> n \<and> n \<le> 102 then Some (n - 87)
     else if 65 \<le> n \<and> n \<le> 70 then Some (n - 55) else None)"

text \<open>The number after \<^verbatim>\<open>\u\<close> and the text behind its four digits.\<close>

definition hex4 :: "string \<Rightarrow> (nat \<times> string) option" where
  "hex4 s = (case s of
      a # b # c # d # r \<Rightarrow>
        (case (hexVal a, hexVal b, hexVal c, hexVal d) of
           (Some a, Some b, Some c, Some d) \<Rightarrow> Some (((a * 16 + b) * 16 + c) * 16 + d, r)
         | _ \<Rightarrow> None)
    | _ \<Rightarrow> None)"

text \<open>A high surrogate is joined with a low one behind it; a single one is replaced.\<close>

definition jsonRune :: "nat \<Rightarrow> string \<Rightarrow> string \<times> string" where
  "jsonRune n r =
     (if 0xD800 \<le> n \<and> n < 0xE000 then
       (case r of
          b # u # r' \<Rightarrow>
            (if b = backslash \<and> u = CHR ''u'' \<and> n < 0xDC00 then
               (case hex4 r' of
                  Some (m, t) \<Rightarrow> if 0xDC00 \<le> m \<and> m < 0xE000
                    then (encodeRune (0x10000 + (n - 0xD800) * 1024 + (m - 0xDC00)), t) else (runeError, r)
                | None \<Rightarrow> (runeError, r))
             else (runeError, r))
        | _ \<Rightarrow> (runeError, r))
      else (encodeRune n, r))"

definition jsonShortEscape :: "char \<Rightarrow> char option" where
  "jsonShortEscape = map_of [(dquote, dquote), (backslash, backslash), (CHR ''/'', CHR ''/''),
     (CHR ''b'', CHR 0x08), (CHR ''f'', CHR 0x0C), (CHR ''n'', CHR 0x0A), (CHR ''r'', CHR 0x0D), (CHR ''t'', CHR 0x09)]"

text \<open>One character of a string, as bytes, and the text behind it.\<close>

definition jsonNext :: "string \<Rightarrow> (string \<times> string) option" where
  "jsonNext s = (case s of
      [] \<Rightarrow> None
    | c # r \<Rightarrow>
      if c = backslash then
        (case r of
           [] \<Rightarrow> None
         | x # r' \<Rightarrow>
           (case jsonShortEscape x of
              Some y \<Rightarrow> Some ([y], r')
            | None \<Rightarrow> if x = CHR ''u'' then map_option (\<lambda>(n, t). jsonRune n t) (hex4 r') else None))
      else if byte c < 32 then None
      else if utf8Size s = 0 then Some (runeError, r)
      else Some (take (utf8Size s) s, drop (utf8Size s) s))"

lemma hex4_length: "hex4 s = Some (n, t) \<Longrightarrow> length t < length s"
  by (auto simp: hex4_def split: list.splits option.splits)

lemma jsonRune_length: "jsonRune n r = (x, t) \<Longrightarrow> length t \<le> length r"
  by (auto simp: jsonRune_def dest!: hex4_length split: list.splits option.splits if_splits)

lemma jsonHex_length: "hex4 r = Some (n, u) \<Longrightarrow> jsonRune n u = (x, t) \<Longrightarrow> length t < length r"
  by (rule le_less_trans [OF jsonRune_length hex4_length])

lemma jsonNext_length: "jsonNext s = Some (x, t) \<Longrightarrow> length t < length s"
  by (cases s) (auto simp: jsonNext_def less_Suc_eq dest!: jsonHex_length split: list.splits option.splits if_splits)

text \<open>From behind the opening quote to the closing one, behind which only white space may be.\<close>

function jsonUnescape :: "string \<Rightarrow> string option" where
  "jsonUnescape s =
     (if s = [] then None
      else if hd s = dquote then (if list_all jsonSpace (tl s) then Some [] else None)
      else case jsonNext s of
        None \<Rightarrow> None
      | Some (x, t) \<Rightarrow> map_option ((@) x) (jsonUnescape t))"
  by pat_completeness auto
termination
  by (relation "measure length") (auto dest: jsonNext_length)

declare jsonUnescape.simps [simp del]

text \<open>\<^verbatim>\<open>var str string; json.Unmarshal(b, &str)\<close>: a null leaves the string empty.\<close>

definition jsonUnmarshalString :: "string \<Rightarrow> string option" where
  "jsonUnmarshalString b = (let s = dropWhile jsonSpace b in
     if hasPrefix s ''null'' \<and> list_all jsonSpace (drop 4 s) then Some []
     else if s \<noteq> [] \<and> hd s = dquote then jsonUnescape (tl s)
     else None)"

section \<open>\<^verbatim>\<open>NillableDuration\<close>\<close>

definition Never :: string where
  "Never = ''Never''"

definition noDuration :: NillableDuration where
  "noDuration = \<lparr>nd_Duration = None, nd_Raw = None\<rparr>"

definition NillableDuration_UnmarshalJSON :: "NillableDuration \<Rightarrow> string \<Rightarrow> go_error + NillableDuration" where
  "NillableDuration_UnmarshalJSON d b =
     (case jsonUnmarshalString b of
        None \<Rightarrow> Inl (ErrorString ''json'')
      | Some str \<Rightarrow>
        if str = Never then Inr d
        else case ParseDuration str of
          Inl e \<Rightarrow> Inl e
        | Inr pd \<Rightarrow> Inr (d\<lparr>nd_Raw := Some b, nd_Duration := Some pd\<rparr>))"

definition NillableDuration_MarshalJSON :: "NillableDuration \<Rightarrow> string" where
  "NillableDuration_MarshalJSON d =
     (case nd_Raw d of
        Some raw \<Rightarrow> raw
      | None \<Rightarrow>
        (case nd_Duration d of
           Some t \<Rightarrow> jsonString (Duration_String t)
         | None \<Rightarrow> jsonString Never))"

definition NillableDuration_ToUnstructured :: "NillableDuration \<Rightarrow> string" where
  "NillableDuration_ToUnstructured d =
     (let fallback = (case nd_Duration d of Some t \<Rightarrow> Duration_String t | None \<Rightarrow> Never) in
      case nd_Raw d of
        Some raw \<Rightarrow> (case jsonUnmarshalString raw of Some str \<Rightarrow> str | None \<Rightarrow> fallback)
      | None \<Rightarrow> fallback)"

definition MustParseNillableDuration :: "string \<Rightarrow> NillableDuration outcome" where
  "MustParseNillableDuration val =
     (case NillableDuration_UnmarshalJSON noDuration (quote val) of
        Inl e \<Rightarrow> Halt GoPanic
      | Inr nd \<Rightarrow> Ok nd)"

section \<open>Texts that JSON leaves as they are\<close>

text \<open>Printable ASCII without the characters that are escaped, and the micro sign.\<close>

definition plainChar :: "char \<Rightarrow> bool" where
  "plainChar c = (32 \<le> byte c \<and> byte c < 127 \<and> byte c \<notin> {34, 38, 60, 62, 92})"

fun plainText :: "string \<Rightarrow> bool" where
  "plainText [] = True"
| "plainText (c # s) = (if c = CHR 0xC2 then s \<noteq> [] \<and> hd s = CHR 0xB5 \<and> plainText (tl s) else plainChar c \<and> plainText s)"

lemma plainText_append: "plainText s \<Longrightarrow> plainText t \<Longrightarrow> plainText (s @ t)"
  by (induction s rule: plainText.induct) (auto split: if_splits)

lemma plainChar_json: "plainChar c \<Longrightarrow> jsonChar c = [c]"
  by (auto simp: plainChar_def byte_def jsonChar_def jsonShort_def Let_def)

lemma plainChar_not: "plainChar c \<Longrightarrow> c \<noteq> dquote \<and> c \<noteq> backslash \<and> c \<noteq> CHR 0xC2 \<and> c \<noteq> CHR 0xE2"
  by (auto simp: plainChar_def byte_def)

lemma jsonBody_step: "c \<noteq> CHR 0xE2 \<Longrightarrow> jsonBody (c # s) = jsonChar c @ jsonBody s"
  by (auto split: list.splits)

lemma jsonBody_plain: "plainText s \<Longrightarrow> jsonBody s = s"
proof (induction s rule: plainText.induct)
  case (2 c s)
  show ?case
  proof (cases "c = CHR 0xC2")
    case True
    with 2 obtain r where "s = CHR 0xB5 # r" "jsonBody r = r" by (cases s) auto
    with True show ?thesis
      by (simp add: jsonBody_step jsonChar_def jsonShort_def del: jsonBody.simps)
  qed (use 2 in \<open>simp add: plainChar_json plainChar_not jsonBody_step del: jsonBody.simps\<close>)
qed simp

lemma jsonNext_plain: "plainChar c \<Longrightarrow> jsonNext (c # s) = Some ([c], s)"
  using plainChar_not [of c] by (auto simp: jsonNext_def plainChar_def utf8Size_def Let_def)

lemma jsonNext_micro: "jsonNext (CHR 0xC2 # CHR 0xB5 # s) = Some ([CHR 0xC2, CHR 0xB5], s)"
  by (simp add: jsonNext_def utf8Size_def byte_def cont_def Let_def)

lemma jsonUnescape_plain: "plainText s \<Longrightarrow> jsonUnescape (s @ [dquote]) = Some s"
proof (induction s rule: plainText.induct)
  case 1
  show ?case by (simp add: jsonUnescape.simps)
next
  case (2 c s)
  show ?case
  proof (cases "c = CHR 0xC2")
    case True
    with 2 obtain r where "s = CHR 0xB5 # r" "jsonUnescape (r @ [dquote]) = Some r" by (cases s) auto
    with True show ?thesis by (subst jsonUnescape.simps) (simp add: jsonNext_micro)
  next
    case False
    with 2 show ?thesis by (subst jsonUnescape.simps) (simp add: jsonNext_plain plainChar_not)
  qed
qed

lemma jsonUnmarshal_plain: "plainText s \<Longrightarrow> jsonUnmarshalString (jsonString s) = Some s"
  by (simp add: jsonUnmarshalString_def jsonString_def jsonBody_plain jsonUnescape_plain jsonSpace_def byte_def hasPrefix_def)

text \<open>Durations are such texts.\<close>

lemma plain_digits: "list_all isDigit ds \<Longrightarrow> plainText ds"
  by (induction ds) (auto simp: isDigit_def plainChar_def byte_def)

lemma plain_Cons: "plainChar c \<Longrightarrow> plainText s \<Longrightarrow> plainText (c # s)"
  using plainChar_not by auto

lemma plain_fmtInt: "0 \<le> v \<Longrightarrow> plainText buf \<Longrightarrow> plainText (fmtInt buf v)"
  by (rule fmtInt_digits [of v buf]) (auto intro: plainText_append plain_digits)

lemma plain_letters: "plainChar CHR ''-''" "plainChar CHR ''.''" "plainChar CHR ''s''" "plainChar CHR ''m''" "plainChar CHR ''h''" "plainChar CHR ''n''"
  by (simp_all add: plainChar_def byte_def)

lemma plain_fracText: "list_all isDigit fs \<Longrightarrow> plainText (fracText fs)"
  by (simp add: fracText_def plain_digits plain_letters)

lemma plain_fmtFrac: "plainText u \<Longrightarrow> plainText (fst (fmtFrac p False u n))"
  using fmtFrac_digits [of p u n] plainText_append plain_fracText by (metis fst_conv)

lemma plain_fmtDuration:
  assumes "0 \<le> u"
  shows "plainText (fmtDuration u)"
proof -
  have v: "0 \<le> u div 10 ^ p" for p using assms by (simp add: pos_imp_zdiv_nonneg_iff)
  have "plainText (fmtInt (fst (fmtFrac p False s u)) (snd (fmtFrac p False s u)))" if "plainText s" for p s
    unfolding fmtFrac_value by (intro plain_fmtInt plain_fmtFrac v that)
  then have "plainText (fmtSmall u)"
    by (simp add: fmtSmall_def case_prod_beta plainChar_def byte_def)
  moreover have "plainText (fmtLarge u)"
    using v [of 9]
    by (auto simp: fmtLarge_def case_prod_beta fmtFrac_value plain_letters Let_def pos_imp_zdiv_nonneg_iff
        intro!: plain_fmtInt plain_fmtFrac)
  ultimately show ?thesis by (simp add: fmtDuration_def)
qed

lemma Duration_String_alt:
  "Duration_String d = (if d < 0 then CHR ''-'' # fmtDuration \<bar>d\<bar> else fmtDuration \<bar>d\<bar>)"
  by (simp add: Duration_String_def fmtDuration_def)

lemma plain_Duration_String: "plainText (Duration_String d)"
  using plain_fmtDuration [of "\<bar>d\<bar>"] by (auto simp: Duration_String_alt plain_letters abs_if split: if_splits)

lemma Duration_String_not_Never: "Duration_String d \<noteq> Never"
  using fmtDuration_text [of "\<bar>d\<bar>"] by (auto simp: Duration_String_alt Never_def isDigit_def)

lemma plain_Never: "plainText Never"
  by (simp add: Never_def plainChar_def byte_def)

section \<open>Round trips\<close>

definition int64 :: "int \<Rightarrow> bool" where
  "int64 n \<longleftrightarrow> - (2 ^ 63) \<le> n \<and> n < 2 ^ 63"

text \<open>C39: a duration that is written as JSON and read again is the same duration, for every 64-bit number of
  nanoseconds and for a missing one, which is written as \<^verbatim>\<open>Never\<close>; and the value read is written, as JSON
  and for the API server, the same way again.\<close>

theorem duration_json_roundtrip:
  assumes "nd_Raw d = None" and "\<forall>n. nd_Duration d = Some n \<longrightarrow> int64 n"
  shows "\<exists>e. NillableDuration_UnmarshalJSON noDuration (NillableDuration_MarshalJSON d) = Inr e \<and>
    nd_Duration e = nd_Duration d \<and>
    NillableDuration_MarshalJSON e = NillableDuration_MarshalJSON d \<and>
    NillableDuration_ToUnstructured e = NillableDuration_ToUnstructured d"
proof (cases "nd_Duration d")
  case None
  with assms(1) show ?thesis
    by (simp add: NillableDuration_UnmarshalJSON_def NillableDuration_MarshalJSON_def noDuration_def
        NillableDuration_ToUnstructured_def jsonUnmarshal_plain plain_Never)
next
  case (Some n)
  then have "ParseDuration (Duration_String n) = Inr n"
    using assms(2) by (intro ParseDuration_String) (auto simp: int64_def)
  with Some assms(1) show ?thesis
    by (simp add: NillableDuration_UnmarshalJSON_def NillableDuration_MarshalJSON_def noDuration_def
        NillableDuration_ToUnstructured_def jsonUnmarshal_plain plain_Duration_String Duration_String_not_Never)
qed


text \<open>A value that is read over an earlier one with \<^verbatim>\<open>Never\<close> keeps the earlier duration.\<close>

lemma never_keeps_old_duration:
  "NillableDuration_UnmarshalJSON \<lparr>nd_Duration = Some 1000000000, nd_Raw = None\<rparr> (jsonString Never) =
     Inr \<lparr>nd_Duration = Some 1000000000, nd_Raw = None\<rparr>"
  by (simp add: NillableDuration_UnmarshalJSON_def jsonUnmarshal_plain plain_Never)

section \<open>Examples\<close>

theorem duration_json_roundtrip_witness:
  "\<exists>e. NillableDuration_UnmarshalJSON noDuration (NillableDuration_MarshalJSON \<lparr>nd_Duration = Some (- 3300000), nd_Raw = None\<rparr>) = Inr e \<and>
    nd_Duration e = Some (- 3300000)"
  using duration_json_roundtrip [of "\<lparr>nd_Duration = Some (- 3300000), nd_Raw = None\<rparr>"] by (auto simp: int64_def)

definition exampleDuration :: NillableDuration where
  "exampleDuration = \<lparr>nd_Duration = Some 5400000000000, nd_Raw = Some (dquote # ''1.5h'' @ [dquote])\<rparr>"

lemma exampleDuration_read: "NillableDuration_UnmarshalJSON noDuration (dquote # ''1.5h'' @ [dquote]) = Inr exampleDuration"
  by code_simp


lemma MustParse_examples:
  "MustParseNillableDuration ''1.5h'' = Ok exampleDuration" "MustParseNillableDuration ''Never'' = Ok noDuration"
  "MustParseNillableDuration ''soon'' = Halt GoPanic"
  by code_simp+

end
