(* ===== verification/Dns_Records.thy ===== *)
theory Dns_Records
  imports Zoner
begin

text \<open>
  The record sets that the zoner sends to Route53 are well formed, and belong to the zone of the
  cluster. The requirements are those of the API: a record set has either a lifetime and values, or an
  alias target, which names a hosted zone.
\<close>

section \<open>Well-formed record sets\<close>

definition recordSetOk :: "ResourceRecordSet \<Rightarrow> bool" where
  "recordSetOk rs \<longleftrightarrow> (case rrs_Alias rs of
      None \<Rightarrow> rrs_Type rs \<in> {''A'', ''CNAME''} \<and> rrs_TTL rs \<noteq> None \<and> length (rrs_Records rs) = 1
    | Some a \<Rightarrow> rrs_Type rs = ''A'' \<and> rrs_TTL rs = None \<and> rrs_Records rs = [] \<and> at_HostedZoneId a \<noteq> '''')"

text \<open>The names of the endpoint of the control plane and of everything else in a zone.\<close>

definition zoneNames :: "string \<Rightarrow> string set" where
  "zoneNames zone = {''api.'' @ zone, ''*.'' @ zone}"

fun changeOk :: "string \<Rightarrow> Change \<Rightarrow> bool" where
  "changeOk zone (ChangeUpsert rs) \<longleftrightarrow> recordSetOk rs \<and> rrs_Name rs \<in> zoneNames zone"
| "changeOk zone (ChangeDelete rs) \<longleftrightarrow> rrs_Type rs = ''CNAME'' \<and>
     replaceAll (rrs_Name rs) (backslash # ''052'') ''*'' = trimSuffix (''*.'' @ zone) ''.'' @ ''.''"

text \<open>The requests of a reconciliation of the records: reads, and changes of the one zone.\<close>

definition zoneEvent :: "string \<Rightarrow> string \<Rightarrow> event \<Rightarrow> bool" where
  "zoneEvent zoneId zone e \<longleftrightarrow> (case ev_req e of
      AWSReq _ (Route53Op (R53_ChangeResourceRecordSets z changes)) \<Rightarrow> z = zoneId \<and> changes \<noteq> [] \<and> list_all (changeOk zone) changes
    | AWSReq _ (Route53Op (R53_ListResourceRecordSets z _ _ _)) \<Rightarrow> z = zoneId
    | _ \<Rightarrow> False)"

section \<open>Records\<close>

definition dnsRecordOk :: "string \<Rightarrow> DNSRecord \<Rightarrow> bool" where
  "dnsRecordOk zone rec \<longleftrightarrow> dr_Name rec \<in> zoneNames zone \<and> dr_Values rec \<noteq> [] \<and>
     (dr_Kind rec \<in> {DnsRecordTypeCname, DnsRecordTypeA} \<or>
      dr_Kind rec = DnsRecordTypeAlias \<and> ghas canonicalHostedZones (dr_Region rec))"

lemma canonicalHostedZones_named: "ghas canonicalHostedZones region \<Longrightarrow> gget canonicalHostedZones region \<noteq> ''''"
proof -
  have named: "list_all (\<lambda>(k, v). v \<noteq> '''') canonicalHostedZones" by code_simp
  assume "ghas canonicalHostedZones region"
  then obtain v where v: "map_of canonicalHostedZones region = Some v" by (auto simp: ghas_def)
  then have "v \<noteq> ''''" using named by (auto simp: list_all_iff dest!: map_of_SomeD)
  with v show ?thesis by (simp add: gget_def)
qed

text \<open>Each record gives one change; there is no panic.\<close>

lemma changes_ok:
  "list_all (dnsRecordOk zone) recs \<Longrightarrow>
   \<exists>changes. getAWSSdkChangesFromDnsRecords recs = Some changes \<and> length changes = length recs \<and> list_all (changeOk zone) changes"
proof (induction recs)
  case Nil
  then show ?case by simp
next
  case (Cons rec recs)
  then obtain changes where "getAWSSdkChangesFromDnsRecords recs = Some changes" "length changes = length recs" "list_all (changeOk zone) changes"
    by auto
  moreover from Cons.prems obtain v vs where "dr_Values rec = v # vs" by (cases "dr_Values rec") (auto simp: dnsRecordOk_def)
  ultimately show ?case
    using Cons.prems by (auto simp: dnsRecordOk_def recordSetOk_def canonicalHostedZones_named DnsRecordTypeCname_def DnsRecordTypeA_def
        DnsRecordTypeAlias_def)
qed

definition supported :: "Cluster \<Rightarrow> bool" where
  "supported cluster \<longleftrightarrow> cl_IsEKS cluster \<or> ghas canonicalHostedZones (cl_Region cluster)"

lemma records_ok:
  assumes "supported cluster"
  shows "list_all (dnsRecordOk zone) (apiRecords zone cluster)" "v \<noteq> [] \<Longrightarrow> dnsRecordOk zone (wildcardRecord zone v)"
  using assms by (auto simp: apiRecords_def supported_def dnsRecordOk_def zoneNames_def wildcardRecord_def)

lemma safe_records:
  assumes "supported cluster"
  shows "safe (\<lambda>_. True) (zoneEvent z zone) (getWorkloadClusterDnsRecords E r zone cluster z)
    (\<lambda>(create, delete). list_all (dnsRecordOk zone) create \<and> (\<forall>rec\<in>set delete. rec = wildcardRecord zone []))"
proof -
  have exists: "safe (\<lambda>_. True) (zoneEvent z zone) (DnsRecordExists E r z n) (\<lambda>_. True)" for n
    unfolding DnsRecordExists_def by (rule safe_emits) (intro emits_rules emits_call, simp add: zoneEvent_def)
  have wild: "safe (\<lambda>_. True) (zoneEvent z zone) (getWildcardRecords E r zone cluster z)
      (\<lambda>(create, delete). list_all (dnsRecordOk zone) create \<and> (\<forall>rec\<in>set delete. rec = wildcardRecord zone []))"
    unfolding getWildcardRecords_def
    by (rule safe_bindM [OF exists]) (auto intro!: safe_if safe_retM records_ok assms)
  show ?thesis
    unfolding getWorkloadClusterDnsRecords_def
    by (rule safe_bindM [where Q = "\<lambda>_. True"], rule safe_if, rule exists, rule safe_retM, simp,
        rule safe_bindM [where Q = "\<lambda>(create, delete). list_all (dnsRecordOk zone) create \<and> (\<forall>rec\<in>set delete. rec = wildcardRecord zone [])"])
      (auto intro!: safe_if safe_retM wild records_ok assms)
qed

lemma emits_add: "list_all (dnsRecordOk zone) recs \<Longrightarrow> emits (zoneEvent z zone) (AddDnsRecordsToHostedZone E r z recs)"
proof -
  assume recs: "list_all (dnsRecordOk zone) recs"
  from changes_ok [OF this] obtain changes where
    changes: "getAWSSdkChangesFromDnsRecords recs = Some changes" "length changes = length recs" "list_all (changeOk zone) changes" by blast
  show ?thesis
  proof (cases "recs = []")
    case True
    then show ?thesis unfolding AddDnsRecordsToHostedZone_def by (simp add: emits_rules)
  next
    case False
    with changes have "changes \<noteq> []" by auto
    then have ok: "zoneEvent z zone (Event (r53req r (R53_ChangeResourceRecordSets z changes)) e)" for e
      using changes(3) by (simp add: zoneEvent_def)
    show ?thesis
      unfolding AddDnsRecordsToHostedZone_def changes(1) option.case by (intro emits_rules emits_call ok)
  qed
qed

lemma emits_deleteWildcard: "emits (zoneEvent z zone) (DeleteDnsRecord E r z (wildcardRecord zone []))"
proof -
  have purge: "emits (zoneEvent z zone) (purgeZoneKeys E r z)"
    unfolding purgeZoneKeys_def by (intro emits_rules)
  have body: "emits (zoneEvent z zone) (deleteRecordBody E r z ''CNAME'' (trimSuffix (''*.'' @ zone) ''.'' @ ''.'') rs)" for rs
    unfolding deleteRecordBody_def
    by (rule within_if) (auto simp: zoneEvent_def intro!: emits_rules emits_call purge)
  have kind: "(if dr_Kind (wildcardRecord zone []) = DnsRecordTypeAlias then ''A'' else dr_Kind (wildcardRecord zone [])) = ''CNAME''"
    "dr_Name (wildcardRecord zone []) = ''*.'' @ zone"
    by (simp_all add: wildcardRecord_def DnsRecordTypeCname_def DnsRecordTypeAlias_def)
  show ?thesis
    unfolding DeleteDnsRecord_def Let_def kind
    by (intro emits_rules emits_call body) (simp add: zoneEvent_def)
qed


section \<open>All changes of a reconciliation\<close>



end
