(* ===== verification/Dns_Zone_Store.thy ===== *)
theory Dns_Zone_Store
  imports Dns_Records
begin

text \<open>
  What a hosted zone holds after a reconciliation of its records. The zone is a map from names and
  types to record sets; \<open>zoneSpec\<close> says what one reconciliation makes of it. The theorem is that
  \<^verbatim>\<open>reconcileDnsRecords\<close> does exactly this over any sequence of reconciliations and outside changes,
  although it skips upserts that the cache of the client remembers: what the cache remembers is in the
  zone. That the records a cluster asks for may change back only after the cache has forgotten them is a
  condition the code does not check; the last section has a run in which it fails.
\<close>

section \<open>Specification\<close>

type_synonym zoneMap = "string \<times> string \<Rightarrow> ResourceRecordSet option"

text \<open>A name as Route53 shows it: in lower case, with a dot at the end and the asterisk as an octal code.\<close>

definition escapeStar :: "string \<Rightarrow> string" where
  "escapeStar s = concat (map (\<lambda>c. if c = CHR ''*'' then backslash # ''052'' else [c]) s)"

definition shownName :: "string \<Rightarrow> string" where
  "shownName n = escapeStar (toLower (trimSuffix n ''.'')) @ ''.''"

definition hasName :: "zoneMap \<Rightarrow> string \<Rightarrow> bool" where
  "hasName m n \<longleftrightarrow> (\<exists>ty. m (shownName n, ty) \<noteq> None)"

text \<open>The record set of a DNS record.\<close>

definition storedSet :: "DNSRecord \<Rightarrow> ResourceRecordSet" where
  "storedSet rec =
     (if dr_Kind rec = DnsRecordTypeAlias
      then \<lparr>rrs_Name = shownName (dr_Name rec), rrs_Type = ''A'', rrs_TTL = None, rrs_Records = [],
            rrs_Alias = Some \<lparr>at_DNSName = hd (dr_Values rec), at_EvaluateTargetHealth = False,
              at_HostedZoneId = gget canonicalHostedZones (dr_Region rec)\<rparr>\<rparr>
      else \<lparr>rrs_Name = shownName (dr_Name rec), rrs_Type = dr_Kind rec, rrs_TTL = Some 300,
            rrs_Records = [hd (dr_Values rec)], rrs_Alias = None\<rparr>)"

definition recordKey :: "DNSRecord \<Rightarrow> string \<times> string" where
  "recordKey rec = (rrs_Name (storedSet rec), rrs_Type (storedSet rec))"

definition putRecord :: "DNSRecord \<Rightarrow> zoneMap \<Rightarrow> zoneMap" where
  "putRecord rec m = m(recordKey rec \<mapsto> storedSet rec)"

definition wantedWildcard :: "string \<Rightarrow> Cluster \<Rightarrow> DNSRecord" where
  "wantedWildcard zn cluster = wildcardRecord zn [getWildcardCNAMETarget zn cluster]"

text \<open>The wildcard record follows its target, once there is an issuer record or none is needed; the record of
  the endpoint is there when the endpoint is known; everything else is left alone.\<close>

definition zoneSpec :: "string \<Rightarrow> Cluster \<Rightarrow> zoneMap \<Rightarrow> zoneMap" where
  "zoneSpec zn cluster m = fold putRecord (apiRecords zn cluster)
     (if cl_IsEKS cluster \<or> isAWSChinaRegion (cl_Region cluster) \<or> hasName m (''irsa.'' @ zn)
      then if hasName m (getWildcardCNAMETarget zn cluster) then putRecord (wantedWildcard zn cluster) m
        else m(recordKey (wantedWildcard zn cluster) := None)
      else m)"

section \<open>A hosted zone that Route53 serves\<close>

fun applyChange :: "Change \<Rightarrow> zoneMap \<Rightarrow> zoneMap" where
  "applyChange (ChangeUpsert rs) m = m((shownName (rrs_Name rs), rrs_Type rs) \<mapsto> rs\<lparr>rrs_Name := shownName (rrs_Name rs)\<rparr>)"
| "applyChange (ChangeDelete rs) m = m((rrs_Name rs, rrs_Type rs) := None)"

text \<open>Route53 accepts a record set that is well formed when the name has no record set of another type, and the
  deletion of a record set that is in the zone as given.\<close>

fun accepted :: "zoneMap \<Rightarrow> Change \<Rightarrow> bool" where
  "accepted m (ChangeUpsert rs) \<longleftrightarrow> recordSetOk rs \<and> (\<forall>ty. m (shownName (rrs_Name rs), ty) \<noteq> None \<longrightarrow> ty = rrs_Type rs)"
| "accepted m (ChangeDelete rs) \<longleftrightarrow> m (rrs_Name rs, rrs_Type rs) = Some rs"

text \<open>\<open>servesZone E p z zone\<close>: with the credentials \<open>p\<close>, Route53 serves the zone \<open>z\<close>, whose record sets are
  \<open>zone\<close>. A listing of one item starts at the name and type given, or at the next ones there are. Reading, and
  loading a configuration, change nothing, and time does not run backwards.\<close>

definition servesZone :: "('w, 'c) env \<Rightarrow> creds \<Rightarrow> string \<Rightarrow> ('w \<Rightarrow> zoneMap) \<Rightarrow> bool" where
  "servesZone E p z zone \<longleftrightarrow>
     (\<forall>w n ty rs. zone w (n, ty) = Some rs \<longrightarrow> rrs_Name rs = n \<and> rrs_Type rs = ty \<and> CHR ''*'' \<notin> set n) \<and>
     (\<forall>w n ty. \<exists>out w'. a_rrsets (e_aws E) (AWSReq p (Route53Op (R53_ListResourceRecordSets z (Some 1) (Some n) ty))) w = (Inr out, w') \<and>
        zone w' = zone w \<and> e_now E w \<le> e_now E w' \<and> set out \<subseteq> ran (zone w) \<and> length out \<le> 1 \<and>
        (case ty of
           Some t \<Rightarrow> (\<forall>rs. zone w (shownName n, t) = Some rs \<longrightarrow> out = [rs])
         | None \<Rightarrow> hasName (zone w) n \<longrightarrow> (\<exists>rs. out = [rs] \<and> rrs_Name rs = shownName n))) \<and>
     (\<forall>w changes. changes \<noteq> [] \<and> list_all (accepted (zone w)) changes \<longrightarrow>
        (\<exists>w'. a_done (e_aws E) (AWSReq p (Route53Op (R53_ChangeResourceRecordSets z changes))) w = (Inr (), w') \<and>
           zone w' = fold applyChange changes (zone w) \<and> e_now E w \<le> e_now E w')) \<and>
     (\<forall>co w. zone (snd (e_loadConfig E co w)) = zone w \<and> e_now E w \<le> e_now E (snd (e_loadConfig E co w)))"

text \<open>What has expired in a cache does not come back.\<close>

definition expiresForGood :: "('w, 'c) env \<Rightarrow> bool" where
  "expiresForGood E \<longleftrightarrow> (\<forall>w w' c k. e_now E w \<le> e_now E w' \<longrightarrow> gc_get (e_cache E) w c k = None \<longrightarrow> gc_get (e_cache E) w' c k = None)"

section \<open>Names\<close>

definition plainName :: "string \<Rightarrow> bool" where
  "plainName n \<longleftrightarrow> list_all (\<lambda>c. lowerChar c = c \<and> c \<noteq> CHR ''*'' \<and> c \<noteq> backslash) n"

lemma escapeStar_simps [simp]: "escapeStar [] = []"
  "escapeStar (c # s) = (if c = CHR ''*'' then backslash # ''052'' @ escapeStar s else c # escapeStar s)"
  "escapeStar (s @ t) = escapeStar s @ escapeStar t"
  by (simp_all add: escapeStar_def)

lemma escapeStar_plain: "CHR ''*'' \<notin> set s \<Longrightarrow> escapeStar s = s"
  by (induction s) auto

lemma toLower_plain: "plainName n \<Longrightarrow> toLower n = n"
  by (induction n) (simp_all add: plainName_def toLower_def)

lemma list_all_trimSuffix: "list_all P s \<Longrightarrow> list_all P (trimSuffix s p)"
  by (cases "suffix p s") (simp_all add: trimSuffix_def list_all_length)

lemma plain_trimSuffix: "plainName n \<Longrightarrow> plainName (trimSuffix n p)"
  unfolding plainName_def by (rule list_all_trimSuffix)

lemma shownName_plain: "plainName n \<Longrightarrow> shownName n = trimSuffix n ''.'' @ ''.''"
proof -
  assume "plainName n"
  then have p: "plainName (trimSuffix n ''.'')" by (rule plain_trimSuffix)
  then have "CHR ''*'' \<notin> set (trimSuffix n ''.'')" by (auto simp: plainName_def list_all_iff)
  with toLower_plain [OF p] show ?thesis by (simp add: shownName_def escapeStar_plain)
qed

lemma replaceAll_plain: "backslash \<notin> set s \<Longrightarrow> replaceAll s (backslash # p) q = s"
proof (induction s)
  case (Cons c s)
  then show ?case by (subst replaceAll.simps) (auto simp: prefix_def)
qed (simp add: replaceAll.simps)

text \<open>What the code reads from a name that Route53 shows determines the name.\<close>

lemma escapeStar_replaceAll: "CHR ''*'' \<notin> set s \<Longrightarrow> escapeStar (replaceAll s (backslash # ''052'') ''*'') = s"
proof (induction s "backslash # ''052''" "''*''" rule: replaceAll.induct)
  case (1 s)
  show ?case
  proof (cases "prefix (backslash # ''052'') s")
    case True
    then obtain t where "s = backslash # ''052'' @ t" by (auto simp: prefix_def)
    with 1 True show ?thesis by (subst replaceAll.simps) simp
  next
    case False
    with 1 show ?thesis by (cases s) (simp add: replaceAll.simps, subst replaceAll.simps, auto)
  qed
qed

lemma replaceAll_escapeStar: "backslash \<notin> set s \<Longrightarrow> replaceAll (escapeStar s) (backslash # ''052'') ''*'' = s"
proof (induction s)
  case (Cons c s)
  then show ?case by (subst replaceAll.simps) (auto simp: prefix_def)
qed (simp add: replaceAll.simps)

lemma dot_lower: "lowerChar CHR ''*'' = CHR ''*''" "lowerChar CHR ''.'' = CHR ''.''" "lowerChar CHR ''a'' = CHR ''a''"
  by code_simp+

lemma shownName_wild:
  assumes "plainName zn"
  shows "shownName (''*.'' @ zn) = escapeStar (trimSuffix (''*.'' @ zn) ''.'' @ ''.'')"
    and "backslash \<notin> set (trimSuffix (''*.'' @ zn) ''.'' @ ''.'')"
proof -
  have "list_all (\<lambda>c. lowerChar c = c \<and> c \<noteq> backslash) (''*.'' @ zn)"
    using assms dot_lower by (simp add: plainName_def list_all_iff)
  then have chars: "list_all (\<lambda>c. lowerChar c = c \<and> c \<noteq> backslash) (trimSuffix (''*.'' @ zn) ''.'')"
    by (rule list_all_trimSuffix)
  then have "toLower (trimSuffix (''*.'' @ zn) ''.'') = trimSuffix (''*.'' @ zn) ''.''"
    unfolding toLower_def by (intro map_idI) (simp add: list_all_iff)
  then show "shownName (''*.'' @ zn) = escapeStar (trimSuffix (''*.'' @ zn) ''.'' @ ''.'')" by (simp add: shownName_def)
  show "backslash \<notin> set (trimSuffix (''*.'' @ zn) ''.'' @ ''.'')" using chars by (auto simp: list_all_iff)
qed

text \<open>The name that the code looks for is that of the wildcard record, and of no other that Route53 shows.\<close>

lemma wildcard_name_iff:
  assumes "plainName zn" "CHR ''*'' \<notin> set n"
  shows "replaceAll n (backslash # ''052'') ''*'' = trimSuffix (''*.'' @ zn) ''.'' @ ''.'' \<longleftrightarrow> n = shownName (''*.'' @ zn)"
  using escapeStar_replaceAll [OF assms(2)] replaceAll_escapeStar [OF shownName_wild(2) [OF assms(1)]] shownName_wild(1) [OF assms(1)]
  by metis

lemma managed_names: "shownName (''*.'' @ zn) \<noteq> shownName (''api.'' @ zn)"
  using dot_lower by (simp add: shownName_def trimSuffix_def toLower_def)

text \<open>The record sets that the operator manages: the wildcard and the endpoint.\<close>

definition wildKey :: "string \<Rightarrow> string \<times> string" where
  "wildKey zn = (shownName (''*.'' @ zn), ''CNAME'')"

definition apiKey :: "string \<Rightarrow> Cluster \<Rightarrow> string \<times> string" where
  "apiKey zn cluster = (shownName (''api.'' @ zn), if cl_IsEKS cluster then ''CNAME'' else ''A'')"

lemma managed_keys:
  "recordKey (wantedWildcard zn cluster) = wildKey zn" "wildKey zn \<noteq> apiKey zn cluster"
  "rec \<in> set (apiRecords zn cluster) \<Longrightarrow> recordKey rec = apiKey zn cluster"
  using managed_names [of zn]
  by (auto simp: recordKey_def storedSet_def wildKey_def apiKey_def wantedWildcard_def wildcardRecord_def apiRecords_def
      record_type_defs split: if_splits)

definition managedTypes :: "string \<Rightarrow> Cluster \<Rightarrow> zoneMap \<Rightarrow> bool" where
  "managedTypes zn cluster m \<longleftrightarrow>
     (\<forall>ty. (m (fst (wildKey zn), ty) \<noteq> None \<longrightarrow> ty = snd (wildKey zn)) \<and>
           (m (fst (apiKey zn cluster), ty) \<noteq> None \<longrightarrow> ty = snd (apiKey zn cluster)))"

text \<open>The changes of a batch put the records into the zone.\<close>

lemma changes_put:
  assumes "list_all (dnsRecordOk zn) recs" "getAWSSdkChangesFromDnsRecords recs = Some changes"
  shows "fold applyChange changes m = fold putRecord recs m"
  using assms
proof (induction recs arbitrary: changes m)
  case Nil
  then show ?case by simp
next
  case (Cons rec recs)
  then obtain v vs where v: "dr_Values rec = v # vs" by (cases "dr_Values rec") (auto simp: dnsRecordOk_def)
  with Cons.prems obtain changes' c where changes': "getAWSSdkChangesFromDnsRecords recs = Some changes'" "changes = c # changes'"
    "applyChange c m = putRecord rec m" for m
    by (auto simp: dnsRecordOk_def putRecord_def recordKey_def storedSet_def record_type_defs split: if_splits)
  with Cons show ?case by simp
qed

section \<open>Reading the zone\<close>

lemma served:
  assumes "servesZone E p z zone"
  shows served_sets: "zone w (n, ty) = Some rs \<Longrightarrow> rrs_Name rs = n \<and> rrs_Type rs = ty \<and> CHR ''*'' \<notin> set n"
    and served_list: "\<exists>out w'. a_rrsets (e_aws E) (AWSReq p (Route53Op (R53_ListResourceRecordSets z (Some 1) (Some n) tyo))) w = (Inr out, w') \<and>
        zone w' = zone w \<and> e_now E w \<le> e_now E w' \<and> set out \<subseteq> ran (zone w) \<and> length out \<le> 1 \<and>
        (case tyo of
           Some t \<Rightarrow> (\<forall>rs. zone w (shownName n, t) = Some rs \<longrightarrow> out = [rs])
         | None \<Rightarrow> hasName (zone w) n \<longrightarrow> (\<exists>rs. out = [rs] \<and> rrs_Name rs = shownName n))"
    and served_change: "changes \<noteq> [] \<Longrightarrow> list_all (accepted (zone w)) changes \<Longrightarrow>
        \<exists>w'. a_done (e_aws E) (AWSReq p (Route53Op (R53_ChangeResourceRecordSets z changes))) w = (Inr (), w') \<and>
           zone w' = fold applyChange changes (zone w) \<and> e_now E w \<le> e_now E w'"
    and served_load: "zone (snd (e_loadConfig E co w)) = zone w \<and> e_now E w \<le> e_now E (snd (e_loadConfig E co w))"
proof -
  note laws = assms [unfolded servesZone_def]
  show "zone w (n, ty) = Some rs \<Longrightarrow> rrs_Name rs = n \<and> rrs_Type rs = ty \<and> CHR ''*'' \<notin> set n"
    by (rule conjunct1 [OF laws, rule_format])
  note laws = conjunct2 [OF laws]
  show "\<exists>out w'. a_rrsets (e_aws E) (AWSReq p (Route53Op (R53_ListResourceRecordSets z (Some 1) (Some n) tyo))) w = (Inr out, w') \<and>
        zone w' = zone w \<and> e_now E w \<le> e_now E w' \<and> set out \<subseteq> ran (zone w) \<and> length out \<le> 1 \<and>
        (case tyo of
           Some t \<Rightarrow> (\<forall>rs. zone w (shownName n, t) = Some rs \<longrightarrow> out = [rs])
         | None \<Rightarrow> hasName (zone w) n \<longrightarrow> (\<exists>rs. out = [rs] \<and> rrs_Name rs = shownName n))"
    by (rule conjunct1 [OF laws, THEN spec, THEN spec, THEN spec])
  note laws = conjunct2 [OF laws]
  show "changes \<noteq> [] \<Longrightarrow> list_all (accepted (zone w)) changes \<Longrightarrow>
        \<exists>w'. a_done (e_aws E) (AWSReq p (Route53Op (R53_ChangeResourceRecordSets z changes))) w = (Inr (), w') \<and>
           zone w' = fold applyChange changes (zone w) \<and> e_now E w \<le> e_now E w'"
    using conjunct1 [OF laws, THEN spec, of w, THEN spec, of changes] by blast
  show "zone (snd (e_loadConfig E co w)) = zone w \<and> e_now E w \<le> e_now E (snd (e_loadConfig E co w))"
    by (rule conjunct2 [OF laws, THEN spec, THEN spec])
qed

text \<open>\<open>undisturbed\<close>: time may have passed, and requests may have been logged, but the process and the zone are the same.\<close>

definition undisturbed :: "('w, 'c) env \<Rightarrow> ('w \<Rightarrow> zoneMap) \<Rightarrow> ('w, 'c) sys \<Rightarrow> ('w, 'c) sys \<Rightarrow> bool" where
  "undisturbed E zone s t \<longleftrightarrow> caches t = caches s \<and> nextRef t = nextRef s \<and> configCache t = configCache s \<and>
     zone (world t) = zone (world s) \<and> e_now E (world s) \<le> e_now E (world t)"

lemma undisturbed_refl: "undisturbed E zone s s"
  by (simp add: undisturbed_def)

lemma undisturbed_trans: "undisturbed E zone s t \<Longrightarrow> undisturbed E zone t u \<Longrightarrow> undisturbed E zone s u"
  by (auto simp: undisturbed_def)

lemma exists_run:
  assumes store: "servesZone E (r53_client r) z zone" and n: "plainName n"
  shows "\<exists>t. DnsRecordExists E r z n s = (Ok (hasName (zone (world s)) n), t) \<and> undisturbed E zone s t"
proof -
  let ?m = "zone (world s)"
  obtain out w' where out: "a_rrsets (e_aws E) (r53req r (R53_ListResourceRecordSets z (Some 1) (Some n) None)) (world s) = (Inr out, w')"
    "zone w' = ?m" "e_now E (world s) \<le> e_now E w'" "set out \<subseteq> ran ?m"
    "hasName ?m n \<longrightarrow> (\<exists>rs. out = [rs] \<and> rrs_Name rs = shownName n)"
    using served_list [OF store, of n None "world s"] by auto
  have "list_ex (\<lambda>rs. rrs_Name rs = shownName n) out \<longleftrightarrow> hasName ?m n"
  proof
    assume "list_ex (\<lambda>rs. rrs_Name rs = shownName n) out"
    then obtain rs where "rs \<in> ran ?m" "rrs_Name rs = shownName n" using out(4) by (auto simp: list_ex_iff)
    then show "hasName ?m n" using served_sets [OF store] by (fastforce simp: ran_def hasName_def)
  qed (use out(5) in auto)
  with out show ?thesis
    by (simp add: DnsRecordExists_def bindM_def call_def shownName_plain [OF n, symmetric] undisturbed_def)
qed

text \<open>The names that a cluster brings into the zone.\<close>

definition plainNames :: "string \<Rightarrow> Cluster \<Rightarrow> bool" where
  "plainNames zn cluster \<longleftrightarrow> plainName zn \<and> plainName (getWildcardCNAMETarget zn cluster)"

definition zonePlan :: "string \<Rightarrow> Cluster \<Rightarrow> zoneMap \<Rightarrow> DNSRecord list \<times> DNSRecord list" where
  "zonePlan zn cluster m =
     (if cl_IsEKS cluster \<or> isAWSChinaRegion (cl_Region cluster) \<or> hasName m (''irsa.'' @ zn)
      then if hasName m (getWildcardCNAMETarget zn cluster) then (wantedWildcard zn cluster # apiRecords zn cluster, [])
        else (apiRecords zn cluster, [wildcardRecord zn []])
      else (apiRecords zn cluster, []))"

lemma wildcards_run:
  assumes store: "servesZone E (r53_client r) z zone" and names: "plainNames zn cluster"
  shows "\<exists>t. getWildcardRecords E r zn cluster z s =
     (Ok (if hasName (zone (world s)) (getWildcardCNAMETarget zn cluster) then ([wantedWildcard zn cluster], []) else ([], [wildcardRecord zn []])), t) \<and>
     undisturbed E zone s t"
proof -
  have "plainName (getWildcardCNAMETarget zn cluster)" using names by (simp add: plainNames_def)
  from exists_run [OF store this, of s] show ?thesis
    by (auto simp: getWildcardRecords_def wantedWildcard_def bindM_def)
qed

lemma records_run:
  assumes store: "servesZone E (r53_client r) z zone" and names: "plainNames zn cluster"
  shows "\<exists>t. getWorkloadClusterDnsRecords E r zn cluster z s = (Ok (zonePlan zn cluster (zone (world s))), t) \<and> undisturbed E zone s t"
proof -
  let ?m = "zone (world s)"
  have "plainName (''irsa.'' @ zn)"
    using names by (simp add: plainNames_def plainName_def lowerChar_def)
  from exists_run [OF store this, of s] obtain v where irsa: "DnsRecordExists E r z (''irsa.'' @ zn) s = (Ok (hasName ?m (''irsa.'' @ zn)), v)"
    "undisturbed E zone s v" by blast
  define first where "first = (if \<not> cl_IsEKS cluster \<and> \<not> isAWSChinaRegion (cl_Region cluster)
    then DnsRecordExists E r z (''irsa.'' @ zn) else retM True)"
  have "\<exists>u. first s = (Ok (cl_IsEKS cluster \<or> isAWSChinaRegion (cl_Region cluster) \<or> hasName ?m (''irsa.'' @ zn)), u) \<and> undisturbed E zone s u"
    using irsa undisturbed_refl [of E zone s]
    by (cases "cl_IsEKS cluster \<or> isAWSChinaRegion (cl_Region cluster)") (auto simp: first_def)
  then obtain u where u: "first s = (Ok (cl_IsEKS cluster \<or> isAWSChinaRegion (cl_Region cluster) \<or> hasName ?m (''irsa.'' @ zn)), u)"
    "undisturbed E zone s u" by blast
  have m: "zone (world u) = ?m" using u(2) by (simp add: undisturbed_def)
  obtain t where "getWildcardRecords E r zn cluster z u =
     (Ok (if hasName ?m (getWildcardCNAMETarget zn cluster) then ([wantedWildcard zn cluster], []) else ([], [wildcardRecord zn []])), t)"
     "undisturbed E zone u t"
    using wildcards_run [OF store names, of u] m by auto
  with u show ?thesis
    unfolding getWorkloadClusterDnsRecords_def zonePlan_def first_def [symmetric]
    by (auto simp: bindM_def intro: undisturbed_trans)
qed

section \<open>What the cache of upserts remembers is in the zone\<close>

definition soundUpserts ::
  "('w, 'c) env \<Rightarrow> string \<Rightarrow> string \<Rightarrow> Cluster \<Rightarrow> zoneMap \<Rightarrow> 'c \<Rightarrow> 'w \<Rightarrow> bool" where
  "soundUpserts E z zn cluster m c w \<longleftrightarrow>
     (\<forall>recs \<in> {apiRecords zn cluster, wantedWildcard zn cluster # apiRecords zn cluster}.
        gc_get (e_cache E) w c (zoneCacheKey z recs) \<noteq> None \<longrightarrow> (\<forall>rec \<in> set recs. m (recordKey rec) = Some (storedSet rec)))"

lemma soundUpserts_later:
  assumes "expiresForGood E" "soundUpserts E z zn cluster m c w" "e_now E w \<le> e_now E w'"
  shows "soundUpserts E z zn cluster m c w'"
  unfolding soundUpserts_def
proof (intro ballI impI)
  fix recs rec
  assume "recs \<in> {apiRecords zn cluster, wantedWildcard zn cluster # apiRecords zn cluster}"
    and "gc_get (e_cache E) w' c (zoneCacheKey z recs) \<noteq> None" and "rec \<in> set recs"
  moreover from this(2) have "gc_get (e_cache E) w c (zoneCacheKey z recs) \<noteq> None"
    using assms(1,3) unfolding expiresForGood_def by meson
  ultimately show "m (recordKey rec) = Some (storedSet rec)"
    using assms(2) unfolding soundUpserts_def by (meson)
qed

lemma soundUpserts_empty:
  "(\<And>k. hasPrefix k (zoneCacheKeyPrefix z) \<Longrightarrow> gc_get (e_cache E) w c k = None) \<Longrightarrow> soundUpserts E z zn cluster m c w"
  by (simp add: soundUpserts_def zoneCacheKey_prefix)

definition onlyUpserts :: "('w, 'c) env \<Rightarrow> Route53 \<Rightarrow> ('w, 'c) sys \<Rightarrow> ('w, 'c) sys \<Rightarrow> bool" where
  "onlyUpserts E r s t \<longleftrightarrow> nextRef t = nextRef s \<and> configCache t = configCache s \<and> e_now E (world s) \<le> e_now E (world t) \<and>
     (\<forall>i. i \<noteq> r53_upsertCache r \<longrightarrow> caches t i = caches s i)"

lemma onlyUpserts_trans: "onlyUpserts E r s t \<Longrightarrow> onlyUpserts E r t u \<Longrightarrow> onlyUpserts E r s u"
  by (auto simp: onlyUpserts_def)

lemma undisturbed_onlyUpserts: "undisturbed E zone s t \<Longrightarrow> onlyUpserts E r s t"
  by (simp add: undisturbed_def onlyUpserts_def)

abbreviation soundState ::
  "('w, 'c) env \<Rightarrow> ('w \<Rightarrow> zoneMap) \<Rightarrow> string \<Rightarrow> string \<Rightarrow> Cluster \<Rightarrow> Route53 \<Rightarrow> ('w, 'c) sys \<Rightarrow> bool" where
  "soundState E zone z zn cluster r s \<equiv>
     soundUpserts E z zn cluster (zone (world s)) (caches s (r53_upsertCache r)) (world s)"

lemma undisturbed_sound:
  "expiresForGood E \<Longrightarrow> undisturbed E zone s t \<Longrightarrow> soundState E zone z zn cluster r s \<Longrightarrow> soundState E zone z zn cluster r t"
  by (auto simp: undisturbed_def intro: soundUpserts_later)

text \<open>The deletion of the wildcard record.\<close>

lemma deleteBody_found:
  assumes store: "servesZone E (r53_client r) z zone" and names: "plainName zn" and laws: "gocache_laws (e_cache E)"
    and rs: "zone (world s) (wildKey zn) = Some rs"
  shows "\<exists>t. deleteRecordBody E r z ''CNAME'' (trimSuffix (''*.'' @ zn) ''.'' @ ''.'') rs s = (Ok (), t) \<and>
    zone (world t) = (zone (world s))(wildKey zn := None) \<and> onlyUpserts E r s t \<and> soundState E zone z zn cluster r t"
proof -
  let ?q = "r53req r (R53_ChangeResourceRecordSets z [ChangeDelete rs])"
  have shape: "rrs_Name rs = fst (wildKey zn)" "rrs_Type rs = ''CNAME''" "CHR ''*'' \<notin> set (rrs_Name rs)"
    using served_sets [OF store, of "world s" "fst (wildKey zn)" "snd (wildKey zn)"] rs by (simp_all add: wildKey_def)
  with wildcard_name_iff [OF names shape(3)]
  have match: "replaceAll (rrs_Name rs) (backslash # ''052'') ''*'' = trimSuffix (''*.'' @ zn) ''.'' @ ''.''" by (simp add: wildKey_def)
  obtain w' where w': "a_done (e_aws E) ?q (world s) = (Inr (), w')" "zone w' = (zone (world s))(wildKey zn := None)" "e_now E (world s) \<le> e_now E w'"
    using served_change [OF store, of "[ChangeDelete rs]" "world s"] rs shape by (auto simp: wildKey_def)
  define u where "u = logged ?q None w' s"
  define t where "t = snd (purgeZoneKeys E r z u)"
  have t: "purgeZoneKeys E r z u = (Ok (), t)" by (simp add: t_def purgeZoneKeys_run)
  have "deleteRecordBody E r z ''CNAME'' (trimSuffix (''*.'' @ zn) ''.'' @ ''.'') rs s = (Ok (), t)"
    using match shape(2) w'(1) t by (simp add: deleteRecordBody_def bindM_def call_def u_def)
  moreover have world: "world t = w'" by (simp add: t_def purgeZoneKeys_run u_def)
  moreover have "onlyUpserts E r s t"
    using w'(3) by (auto simp: onlyUpserts_def t_def purgeZoneKeys_run u_def)
  moreover have "soundState E zone z zn cluster r t"
    using purgeZoneKeys_upserted [OF laws, of r z u] world
    by (intro soundUpserts_empty) (simp add: t_def [symmetric] upserted_def)
  ultimately show ?thesis using w'(2) by auto
qed

lemma deleteWildcard_run:
  assumes store: "servesZone E (r53_client r) z zone" and names: "plainName zn" and laws: "gocache_laws (e_cache E)" "expiresForGood E"
    and sound: "soundState E zone z zn cluster r s"
  shows "\<exists>t. DeleteDnsRecord E r z (wildcardRecord zn []) s = (Ok (), t) \<and>
    zone (world t) = (zone (world s))(wildKey zn := None) \<and> onlyUpserts E r s t \<and> soundState E zone z zn cluster r t"
proof -
  let ?n = "''*.'' @ zn" and ?m = "zone (world s)" and ?body = "deleteRecordBody E r z ''CNAME'' (trimSuffix (''*.'' @ zn) ''.'' @ ''.'')"
  let ?q = "r53req r (R53_ListResourceRecordSets z (Some 1) (Some ?n) (Some ''CNAME''))"
  obtain out w' where out: "a_rrsets (e_aws E) ?q (world s) = (Inr out, w')" "zone w' = ?m" "e_now E (world s) \<le> e_now E w'"
    "set out \<subseteq> ran ?m" "length out \<le> 1" "\<forall>rs. ?m (wildKey zn) = Some rs \<longrightarrow> out = [rs]"
    using served_list [OF store, of ?n "Some ''CNAME''" "world s"] by (auto simp: wildKey_def)
  define u where "u = logged ?q None w' s"
  have u: "undisturbed E zone s u" using out(2,3) by (simp add: undisturbed_def u_def)
  have run: "DeleteDnsRecord E r z (wildcardRecord zn []) s = forM out ?body u"
    using out(1) by (simp add: DeleteDnsRecord_def wildcardRecord_def record_type_defs bindM_def call_def u_def Let_def)
  have mu: "zone (world u) = ?m" using u by (simp add: undisturbed_def)
  show ?thesis
  proof (cases "?m (wildKey zn)")
    case (Some rs)
    with deleteBody_found [OF store names laws(1), of u rs cluster] mu obtain t where
      "?body rs u = (Ok (), t)" "zone (world t) = ?m(wildKey zn := None)" "onlyUpserts E r u t" "soundState E zone z zn cluster r t"
      by auto
    with run out(6) Some show ?thesis
      by (auto simp: bindM_def intro: onlyUpserts_trans [OF undisturbed_onlyUpserts [OF u]])
  next
    case None
    have skip: "?body rs v = (Ok (), v)" if rs: "rs \<in> set out" for rs v
    proof -
      from rs out(4) obtain n ty where key: "?m (n, ty) = Some rs" by (auto simp: ran_def)
      with served_sets [OF store] have shape: "rrs_Name rs = n" "rrs_Type rs = ty" "CHR ''*'' \<notin> set n" by blast+
      with key None have "(n, ty) \<noteq> wildKey zn" by auto
      then have "\<not> (replaceAll n (backslash # ''052'') ''*'' = trimSuffix ?n ''.'' @ ''.'' \<and> ty = ''CNAME'')"
        using wildcard_name_iff [OF names shape(3)] by (auto simp: wildKey_def)
      with shape show ?thesis by (auto simp: deleteRecordBody_def)
    qed
    have "forM out ?body u = (Ok (), u)"
      using out(5) skip by (cases out) (auto simp: bindM_def)
    with run u None show ?thesis
      using undisturbed_onlyUpserts [OF u] undisturbed_sound [OF laws(2) u sound]
      by (auto simp: undisturbed_def fun_upd_idem)
  qed
qed

text \<open>The upsert of the records.\<close>

lemma changes_accepted:
  assumes "list_all (dnsRecordOk zn) recs" "getAWSSdkChangesFromDnsRecords recs = Some changes"
    and "\<forall>rec \<in> set recs. \<forall>ty. m (fst (recordKey rec), ty) \<noteq> None \<longrightarrow> ty = snd (recordKey rec)"
  shows "list_all (accepted m) changes \<and> length changes = length recs"
  using assms
proof (induction recs arbitrary: changes)
  case Nil
  then show ?case by simp
next
  case (Cons rec recs)
  then obtain v vs where v: "dr_Values rec = v # vs" by (cases "dr_Values rec") (auto simp: dnsRecordOk_def)
  with Cons.prems(1,2) obtain changes' rs where changes': "getAWSSdkChangesFromDnsRecords recs = Some changes'" "changes = ChangeUpsert rs # changes'"
    "recordSetOk rs" "(shownName (rrs_Name rs), rrs_Type rs) = recordKey rec"
    by (auto simp: dnsRecordOk_def recordKey_def storedSet_def recordSetOk_def canonicalHostedZones_named record_type_defs split: if_splits)
  moreover have "\<forall>ty. m (shownName (rrs_Name rs), ty) \<noteq> None \<longrightarrow> ty = rrs_Type rs"
    using Cons.prems(3) changes'(4) by (metis fst_conv list.set_intros(1) snd_conv)
  ultimately show ?case using Cons by simp
qed

definition wantedLists :: "string \<Rightarrow> Cluster \<Rightarrow> DNSRecord list set" where
  "wantedLists zn cluster = {apiRecords zn cluster, wantedWildcard zn cluster # apiRecords zn cluster}"

lemma apiRecords_shape: "apiRecords zn cluster = [] \<or> (\<exists>a. apiRecords zn cluster = [a])"
  by (simp add: apiRecords_def)

lemma wanted_ok: "supported cluster \<Longrightarrow> recs \<in> wantedLists zn cluster \<Longrightarrow> list_all (dnsRecordOk zn) recs"
  using records_ok(1) [of cluster zn] records_ok(2) [of cluster "[getWildcardCNAMETarget zn cluster]" zn]
  by (auto simp: wantedLists_def wantedWildcard_def)

lemma wanted_types:
  "managedTypes zn cluster m \<Longrightarrow> recs \<in> wantedLists zn cluster \<Longrightarrow>
   \<forall>rec \<in> set recs. \<forall>ty. m (fst (recordKey rec), ty) \<noteq> None \<longrightarrow> ty = snd (recordKey rec)"
  by (auto simp: wantedLists_def managedTypes_def managed_keys)

lemma put_wanted:
  assumes "recs \<in> wantedLists zn cluster"
  shows put_idem: "\<forall>rec \<in> set recs. m (recordKey rec) = Some (storedSet rec) \<Longrightarrow> fold putRecord recs m = m"
    and put_keeps: "recs' \<in> wantedLists zn cluster \<Longrightarrow> rec \<in> set recs' \<Longrightarrow>
      rec \<in> set recs \<or> m (recordKey rec) = Some (storedSet rec) \<Longrightarrow> fold putRecord recs m (recordKey rec) = Some (storedSet rec)"
    and put_types: "managedTypes zn cluster m \<Longrightarrow> managedTypes zn cluster (fold putRecord recs m)"
proof -
  have wild: "recordKey (wantedWildcard zn cluster) = wildKey zn" "wildKey zn \<noteq> apiKey zn cluster" by (rule managed_keys)+
  have "m (recordKey rec) = Some (storedSet rec) \<Longrightarrow> putRecord rec m = m" for rec m by (simp add: putRecord_def fun_upd_idem)
  then show "\<forall>rec \<in> set recs. m (recordKey rec) = Some (storedSet rec) \<Longrightarrow> fold putRecord recs m = m"
    by (induction recs) simp_all
  have api: "recordKey a = apiKey zn cluster" if "apiRecords zn cluster = [a]" for a using managed_keys(3) [of a] that by simp
  show "fold putRecord recs m (recordKey rec) = Some (storedSet rec)"
    if "recs' \<in> wantedLists zn cluster" "rec \<in> set recs'" "rec \<in> set recs \<or> m (recordKey rec) = Some (storedSet rec)"
    using that assms wild api apiRecords_shape [of zn cluster] by (auto simp: wantedLists_def putRecord_def)
  show "managedTypes zn cluster m \<Longrightarrow> managedTypes zn cluster (fold putRecord recs m)"
    using assms wild managed_names [of zn] api apiRecords_shape [of zn cluster]
    by (auto simp: wantedLists_def putRecord_def managedTypes_def wildKey_def apiKey_def split: if_splits)
qed

lemma wantedLists_key:
  "recs \<in> wantedLists zn cluster \<Longrightarrow> recs' \<in> wantedLists zn cluster \<Longrightarrow> zoneCacheKey z recs = zoneCacheKey z recs' \<Longrightarrow> recs = recs'"
  by (auto simp: wantedLists_def zoneCacheKey_inject dest: map_eq_imp_length_eq)

lemma add_run:
  assumes store: "servesZone E (r53_client r) z zone" and laws: "gocache_laws (e_cache E)" "expiresForGood E"
    and cluster: "supported cluster" and recs: "recs \<in> wantedLists zn cluster" "recs \<noteq> []"
    and types: "managedTypes zn cluster (zone (world s))" and sound: "soundState E zone z zn cluster r s"
  shows "\<exists>t. AddDnsRecordsToHostedZone E r z recs s = (Ok (), t) \<and>
    zone (world t) = fold putRecord recs (zone (world s)) \<and> onlyUpserts E r s t \<and> soundState E zone z zn cluster r t"
proof (cases "gc_get (e_cache E) (world s) (caches s (r53_upsertCache r)) (zoneCacheKey z recs)")
  case (Some v)
  then have "\<forall>rec \<in> set recs. zone (world s) (recordKey rec) = Some (storedSet rec)"
    using sound recs(1) unfolding soundUpserts_def wantedLists_def by (metis option.distinct(1))
  with Some recs sound show ?thesis
    by (auto simp: AddDnsRecordsToHostedZone_def cacheGet_def put_idem onlyUpserts_def)
next
  case None
  let ?c = "caches s (r53_upsertCache r)" and ?k = "zoneCacheKey z recs" and ?m = "zone (world s)"
  from changes_ok [OF wanted_ok [OF cluster recs(1)]] obtain changes where changes: "getAWSSdkChangesFromDnsRecords recs = Some changes" by blast
  let ?q = "r53req r (R53_ChangeResourceRecordSets z changes)"
  have "list_all (accepted ?m) changes" "changes \<noteq> []"
    using changes_accepted [OF wanted_ok [OF cluster recs(1)] changes wanted_types [OF types recs(1)]] recs(2) by auto
  then obtain w' where w': "a_done (e_aws E) ?q (world s) = (Inr (), w')" "zone w' = fold putRecord recs ?m" "e_now E (world s) \<le> e_now E w'"
    using served_change [OF store, of changes "world s"] changes_put [OF wanted_ok [OF cluster recs(1)] changes] by auto
  define c where "c = gc_set (e_cache E) w' ?k (CBool True) ?c"
  define t where "t = setCache (r53_upsertCache r) c (logged ?q None w' s)"
  have "AddDnsRecordsToHostedZone E r z recs s = (Ok (), t)"
    using None recs(2) changes w'(1) by (simp add: AddDnsRecordsToHostedZone_def bindM_def cache_run call_def t_def c_def)
  moreover have "onlyUpserts E r s t" using w'(3) by (simp add: onlyUpserts_def t_def)
  moreover have "soundState E zone z zn cluster r t"
    unfolding soundUpserts_def
  proof (intro ballI impI)
    fix recs' rec
    assume recs': "recs' \<in> {apiRecords zn cluster, wantedWildcard zn cluster # apiRecords zn cluster}"
      and "gc_get (e_cache E) (world t) (caches t (r53_upsertCache r)) (zoneCacheKey z recs') \<noteq> None" and rec: "rec \<in> set recs'"
    then have get: "gc_get (e_cache E) w' c (zoneCacheKey z recs') \<noteq> None" by (simp add: t_def)
    have in_lists: "recs' \<in> wantedLists zn cluster" using recs' by (simp add: wantedLists_def)
    have "rec \<in> set recs \<or> ?m (recordKey rec) = Some (storedSet rec)"
    proof (cases "recs' = recs")
      case False
      then have "zoneCacheKey z recs' \<noteq> ?k" using wantedLists_key in_lists recs(1) by blast
      then have "gc_get (e_cache E) w' ?c (zoneCacheKey z recs') \<noteq> None"
        using get laws(1) unfolding gocache_laws_def c_def by metis
      with soundUpserts_later [OF laws(2) sound w'(3)] recs' rec show ?thesis
        unfolding soundUpserts_def by meson
    qed (use rec in simp)
    then have "fold putRecord recs ?m (recordKey rec) = Some (storedSet rec)"
      by (rule put_keeps [OF recs(1) in_lists rec])
    then show "zone (world t) (recordKey rec) = Some (storedSet rec)" using w'(2) by (simp add: t_def)
  qed
  ultimately show ?thesis using w'(2) by (auto simp: t_def)
qed

section \<open>The client of the cluster\<close>

definition clusterCreds :: "Zoner \<Rightarrow> Cluster \<Rightarrow> creds" where
  "clusterCreds d cluster = roleCreds (z_awsClients d) (cl_Region cluster) (cl_IAMRoleARN cluster)"

abbreviation clusterClient :: "('w, 'c) env \<Rightarrow> Zoner \<Rightarrow> Cluster \<Rightarrow> ('w, 'c, Route53) go" where
  "clusterClient E d cluster \<equiv> getCachedOrNewRoute53Client E d (cl_Region cluster) (cl_IAMRoleARN cluster)"

definition cachedClient :: "('w, 'c) env \<Rightarrow> Zoner \<Rightarrow> Cluster \<Rightarrow> ('w, 'c) sys \<Rightarrow> Route53 \<Rightarrow> bool" where
  "cachedClient E d cluster s r \<longleftrightarrow> r53_client r = clusterCreds d cluster \<and>
     (\<exists>w k. gc_get (e_cache E) w (caches s (z_awsClientCache d)) k = Some (CRoute53 r))"

text \<open>The invariant: all that is remembered by the client of the cluster is in the zone.\<close>

definition zoneInv :: "('w, 'c) env \<Rightarrow> Zoner \<Rightarrow> string \<Rightarrow> ('w \<Rightarrow> zoneMap) \<Rightarrow> Cluster \<Rightarrow> ('w, 'c) sys \<Rightarrow> bool" where
  "zoneInv E d z zone cluster s \<longleftrightarrow>
     (let zn = getHostedZoneName d cluster in
      zoner_inv E d s \<and> managedTypes zn cluster (zone (world s)) \<and>
      (\<exists>i. \<forall>r. cachedClient E d cluster s r \<longrightarrow> r53_upsertCache r = i \<and> i < nextRef s \<and> soundState E zone z zn cluster r s))"

definition clientInv :: "('w, 'c) env \<Rightarrow> Zoner \<Rightarrow> string \<Rightarrow> ('w \<Rightarrow> zoneMap) \<Rightarrow> Cluster \<Rightarrow> Route53 \<Rightarrow> ('w, 'c) sys \<Rightarrow> bool" where
  "clientInv E d z zone cluster r s \<longleftrightarrow>
     (let zn = getHostedZoneName d cluster in
      zoner_inv E d s \<and> managedTypes zn cluster (zone (world s)) \<and> clientFor d (cl_Region cluster) (cl_IAMRoleARN cluster) r \<and>
      (\<forall>r'. cachedClient E d cluster s r' \<longrightarrow> r53_upsertCache r' = r53_upsertCache r) \<and>
      r53_upsertCache r < nextRef s \<and> soundState E zone z zn cluster r s)"

lemma clientInv_zoneInv: "clientInv E d z zone cluster r s \<Longrightarrow> zoneInv E d z zone cluster s"
  by (auto simp: clientInv_def zoneInv_def Let_def)

text \<open>The invariant is about the caches, the zone and the time.\<close>

lemma zoneInv_later:
  assumes "expiresForGood E" "zoneInv E d z zone cluster s" and t: "caches t = caches s" "nextRef t = nextRef s"
    "configCache_inv (z_awsClients d) t" "e_now E (world s) \<le> e_now E (world t)" "zone (world t) = zone (world s)"
  shows "zoneInv E d z zone cluster t"
proof -
  have "cachedClient E d cluster t r = cachedClient E d cluster s r" for r by (simp add: cachedClient_def t)
  moreover have "zoner_inv E d t"
    by (rule zoner_inv_frame [of _ _ s]) (use assms in \<open>simp_all add: zoneInv_def Let_def\<close>)
  ultimately show ?thesis
    using assms(2) soundUpserts_later [OF assms(1) _ t(4)] unfolding zoneInv_def Let_def t by metis
qed

lemma configFromRegion_world:
  assumes "servesZone E p z zone" "configFromRegion E c region s = (res, t)"
  shows "zone (world t) = zone (world s) \<and> e_now E (world s) \<le> e_now E (world t) \<and> (\<exists>x e. res = Ok x \<or> res = Err e)"
  using assms(2) served_load [OF assms(1), of "\<lparr>co_Region = Some region, co_Endpoint = Some (cl_endpoint c), co_Role = None\<rparr>" "world s"]
  by (auto simp: configFromRegion_def configCacheLoad_def configCacheStore_def LoadDefaultConfig_def bindM_def
      split: option.splits prod.splits sum.splits)

lemma NewRoute53_fresh:
  "\<exists>r t. NewRoute53 E cr s = (Ok r, t) \<and> r53_client r = cr \<and> r53_upsertCache r = nextRef s \<and> nextRef s < nextRef t \<and>
     caches t (nextRef s) = gc_new (e_cache E) \<and> (\<forall>i < nextRef s. caches t i = caches s i) \<and>
     world t = world s \<and> configCache t = configCache s"
  by (auto simp: NewRoute53_def bindM_def cacheNew_def)

lemma cachedClient_key:
  assumes inv: "zoner_inv E d s" and target: "goodTarget (cl_Region cluster) (cl_IAMRoleARN cluster)"
    and get: "gc_get (e_cache E) w (caches s (z_awsClientCache d)) k = Some (CRoute53 r)" and creds: "r53_client r = clusterCreds d cluster"
  shows "k = clientCacheKey (cl_Region cluster) (cl_IAMRoleARN cluster)"
proof -
  obtain region arn where "k = clientCacheKey region arn" "clientFor d region arn r"
    using inv get unfolding zoner_inv_def by blast
  with creds show ?thesis by (simp add: clientFor_def clusterCreds_def roleCreds_def)
qed

lemma newClient_run:
  assumes loader: "loader_laws E" and laws: "gocache_laws (e_cache E)" and target: "goodTarget (cl_Region cluster) (cl_IAMRoleARN cluster)"
    and inv: "zoneInv E d z zone cluster s" and u: "caches u = caches s" "nextRef u = nextRef s"
    and zone: "zone (world u) = zone (world s)"
    and run: "bindM (NewRoute53 E cr) (\<lambda>client. bindM (cacheSet E (z_awsClientCache d)
        (clientCacheKey (cl_Region cluster) (cl_IAMRoleARN cluster)) (CRoute53 client)) (\<lambda>_. retM client)) u = (Ok r, t)"
    and after: "zoner_inv E d t" "clientFor d (cl_Region cluster) (cl_IAMRoleARN cluster) r"
  shows "clientInv E d z zone cluster r t \<and> world t = world u"
proof -
  let ?cc = "z_awsClientCache d" and ?k = "clientCacheKey (cl_Region cluster) (cl_IAMRoleARN cluster)"
  obtain r' v where v: "NewRoute53 E cr u = (Ok r', v)" "r53_upsertCache r' = nextRef s" "nextRef s < nextRef v"
    "caches v (nextRef s) = gc_new (e_cache E)" "\<forall>i < nextRef s. caches v i = caches s i" "world v = world u"
    using NewRoute53_fresh [of E cr u] u by auto
  have old: "zoner_inv E d s" "?cc < nextRef s" and types: "managedTypes (getHostedZoneName d cluster) cluster (zone (world s))"
    using inv by (simp_all add: zoneInv_def zoner_inv_def Let_def)
  define c where "c = gc_set (e_cache E) (world u) ?k (CRoute53 r') (caches s ?cc)"
  have t: "t = setCache ?cc c v" "r = r'"
    using run v old(2) by (auto simp: bindM_def cache_run c_def)
  have "r53_upsertCache r'' = r53_upsertCache r" if "cachedClient E d cluster t r''" for r''
  proof -
    from that obtain w k where get: "gc_get (e_cache E) w c k = Some (CRoute53 r'')" and creds: "r53_client r'' = clusterCreds d cluster"
      by (auto simp: cachedClient_def t)
    have "k = ?k"
      using get creds cachedClient_key [OF old(1) target, of w k r''] laws unfolding c_def gocache_laws_def by metis
    with get have "r'' = r"
      using laws t(2) unfolding c_def gocache_laws_def by (metis cval.inject(4) insertE option.distinct(1) option.inject singletonD)
    then show ?thesis by simp
  qed
  moreover have "gc_get (e_cache E) w (caches t (r53_upsertCache r)) k = None" for w k
    using laws v old(2) by (simp add: t gocache_laws_def)
  ultimately show ?thesis
    using after types v zone old(2) by (auto simp: clientInv_def Let_def t intro!: soundUpserts_empty)
qed

lemma client_run:
  assumes loader: "loader_laws E" and laws: "gocache_laws (e_cache E)" "expiresForGood E"
    and target: "goodTarget (cl_Region cluster) (cl_IAMRoleARN cluster)" and store: "servesZone E p z zone"
    and inv: "zoneInv E d z zone cluster s" and run: "clusterClient E d cluster s = (res, t)"
  shows "zone (world t) = zone (world s) \<and> e_now E (world s) \<le> e_now E (world t) \<and>
    (case res of Ok r \<Rightarrow> clientInv E d z zone cluster r t | Err _ \<Rightarrow> zoneInv E d z zone cluster t | Halt _ \<Rightarrow> False)"
proof -
  let ?region = "cl_Region cluster" and ?arn = "cl_IAMRoleARN cluster" and ?cc = "z_awsClientCache d"
  let ?k = "clientCacheKey ?region ?arn"
  have old: "zoner_inv E d s" using inv by (simp add: zoneInv_def Let_def)
  have "safe (zoner_inv E d) (\<lambda>_. True) (clusterClient E d cluster) (clientFor d ?region ?arn)"
    by (rule safe_getCachedOrNewRoute53Client [OF loader laws(1) target])
  with old run have after: "zoner_inv E d t" "\<And>r. res = Ok r \<Longrightarrow> clientFor d ?region ?arn r"
    unfolding safe_def by (metis snd_conv, metis fst_conv)
  have ne: "\<not> (?region = '''' \<or> ?arn = '''')"
    using target by (auto simp: goodTarget_def validRegion_def validRole_def hasPrefix_def)
  show ?thesis
  proof (cases "gc_get (e_cache E) (world s) (caches s ?cc) ?k")
    case (Some v)
    then obtain r where v: "v = CRoute53 r" using old unfolding zoner_inv_def by blast
    with Some ne run have res: "res = Ok r" "t = s" by (auto simp: getCachedOrNewRoute53Client_def cacheGet_def)
    then have "cachedClient E d cluster s r"
      using after(2) [OF res(1)] Some v by (auto simp: cachedClient_def clientFor_def clusterCreds_def)
    with inv after res show ?thesis by (auto simp: clientInv_def zoneInv_def Let_def)
  next
    case None
    let ?add = "\<lambda>cr. bindM (NewRoute53 E cr) (\<lambda>client. bindM (cacheSet E ?cc ?k (CRoute53 client)) (\<lambda>_. retM client))"
    let ?cr = "\<lambda>conf. \<lparr>c_region = cf_Region conf, c_endpoint = cf_Endpoint conf, c_role = ?arn, c_chainedRole = '''', c_externalId = ''''\<rparr>"
    have split: "bindM (configFromRegion E (z_awsClients d) ?region) (\<lambda>conf. ?add (?cr conf)) s = (res, t)"
      using run None ne
      by (simp add: getCachedOrNewRoute53Client_def cacheGet_def NewRoute53Client_def newRoute53Client_def bindM_assoc)
    then show ?thesis
    proof (cases rule: bindM_cases)
      case (Ok conf u)
      note u = configFromRegion_world [OF store Ok(1)] configFromRegion_frame [OF Ok(1)]
      obtain r where r: "res = Ok r"
        using Ok(2) NewRoute53_fresh [of E "?cr conf" u] by (auto simp: bindM_def cache_run)
      with newClient_run [OF loader laws(1) target inv _ _ _ Ok(2) [unfolded r] after(1) after(2) [OF r]] u show ?thesis by auto
    next
      case (Err e)
      note t = configFromRegion_world [OF store Err(1)] configFromRegion_frame [OF Err(1)]
      have "zoneInv E d z zone cluster t"
        using after(1) t by (intro zoneInv_later [OF laws(2) inv]) (auto simp: zoner_inv_def)
      with t Err show ?thesis by auto
    next
      case (Halt h)
      with configFromRegion_world [OF store Halt(1)] show ?thesis by auto
    qed
  qed
qed

section \<open>A reconciliation of the records\<close>

lemma clientInv_upserts:
  assumes inv: "clientInv E d z zone cluster r s" and step: "onlyUpserts E r s t"
    and sound: "soundState E zone z (getHostedZoneName d cluster) cluster r t"
    and types: "managedTypes (getHostedZoneName d cluster) cluster (zone (world t))"
  shows "clientInv E d z zone cluster r t"
proof -
  have "r53_upsertCache r \<noteq> z_awsClientCache d" using inv by (auto simp: clientInv_def clientFor_def r53refs_def Let_def)
  with step have cc: "caches t (z_awsClientCache d) = caches s (z_awsClientCache d)" by (simp add: onlyUpserts_def)
  then have "cachedClient E d cluster t r' = cachedClient E d cluster s r'" for r' by (simp add: cachedClient_def)
  moreover have "zoner_inv E d t"
    by (rule zoner_inv_frame [of _ _ s]) (use inv step cc in \<open>auto simp: clientInv_def onlyUpserts_def zoner_inv_def configCache_inv_def Let_def\<close>)
  ultimately show ?thesis using inv step sound types by (simp add: clientInv_def onlyUpserts_def Let_def)
qed

lemma managedTypes_delete: "managedTypes zn cluster m \<Longrightarrow> managedTypes zn cluster (m(k := None))"
  by (auto simp: managedTypes_def)

lemma plan_run:
  assumes inv: "clientInv E d z zone cluster r s" and laws: "gocache_laws (e_cache E)" "expiresForGood E"
    and store: "servesZone E (clusterCreds d cluster) z zone" and zn: "zn = getHostedZoneName d cluster"
    and cluster: "plainNames zn cluster" "supported cluster"
  shows "\<exists>t. bindM (getWorkloadClusterDnsRecords E r zn cluster z) (\<lambda>records.
      bindM (forM (snd records) (DeleteDnsRecord E r z)) (\<lambda>_.
      if fst records = [] then retM () else AddDnsRecordsToHostedZone E r z (fst records))) s = (Ok (), t) \<and>
    zone (world t) = zoneSpec zn cluster (zone (world s)) \<and> clientInv E d z zone cluster r t"
proof -
  let ?m = "zone (world s)" and ?add = "\<lambda>recs. if recs = [] then retM () else AddDnsRecordsToHostedZone E r z recs"
  have store': "servesZone E (r53_client r) z zone"
    using store inv by (simp add: clientInv_def clientFor_def clusterCreds_def Let_def)
  have add: "\<exists>t. ?add recs v = (Ok (), t) \<and> zone (world t) = fold putRecord recs (zone (world v)) \<and> clientInv E d z zone cluster r t"
    if "recs \<in> wantedLists zn cluster" "clientInv E d z zone cluster r v" for recs v
  proof (cases "recs = []")
    case False
    have v: "managedTypes zn cluster (zone (world v))" "soundState E zone z zn cluster r v"
      using that(2) by (simp_all add: clientInv_def zn Let_def)
    from add_run [OF store' laws cluster(2) that(1) False v] obtain t where t: "AddDnsRecordsToHostedZone E r z recs v = (Ok (), t)"
      "zone (world t) = fold putRecord recs (zone (world v))" "onlyUpserts E r v t" "soundState E zone z zn cluster r t" by blast
    have "clientInv E d z zone cluster r t"
      using t put_types [OF that(1) v(1)] zn by (intro clientInv_upserts [OF that(2)]) simp_all
    with t False show ?thesis by auto
  qed (use that in simp)
  obtain u where u: "getWorkloadClusterDnsRecords E r zn cluster z s = (Ok (zonePlan zn cluster ?m), u)" "undisturbed E zone s u"
    using records_run [OF store' cluster(1)] by blast
  have mu: "zone (world u) = ?m" using u(2) by (simp add: undisturbed_def)
  have types: "managedTypes zn cluster ?m" "soundState E zone z zn cluster r s" using inv by (simp_all add: clientInv_def zn Let_def)
  have uinv: "clientInv E d z zone cluster r u"
    using undisturbed_sound [OF laws(2) u(2) types(2)] types(1) mu zn
    by (intro clientInv_upserts [OF inv undisturbed_onlyUpserts [OF u(2)]]) simp_all
  have names: "plainName zn" using cluster(1) by (simp add: plainNames_def)
  have us: "soundState E zone z zn cluster r u" using uinv by (simp add: clientInv_def zn Let_def)
  obtain v where v: "DeleteDnsRecord E r z (wildcardRecord zn []) u = (Ok (), v)" "zone (world v) = ?m(wildKey zn := None)"
    "onlyUpserts E r u v" "soundState E zone z zn cluster r v"
    using deleteWildcard_run [OF store' names laws us] unfolding mu by blast
  have vinv: "clientInv E d z zone cluster r v"
    using v managedTypes_delete [OF types(1)] zn by (intro clientInv_upserts [OF uinv]) simp_all
  have lists: "apiRecords zn cluster \<in> wantedLists zn cluster" "wantedWildcard zn cluster # apiRecords zn cluster \<in> wantedLists zn cluster"
    by (simp_all add: wantedLists_def)
  show ?thesis
    using add [OF lists(1) uinv] add [OF lists(2) uinv] add [OF lists(1) vinv] u(1) v(1,2) mu
    by (auto simp: bindM_def zonePlan_def zoneSpec_def managed_keys)
qed

lemma reconcile_zone:
  assumes loader: "loader_laws E" and laws: "gocache_laws (e_cache E)" "expiresForGood E"
    and target: "goodTarget (cl_Region cluster) (cl_IAMRoleARN cluster)" and store: "servesZone E (clusterCreds d cluster) z zone"
    and zn: "zn = getHostedZoneName d cluster" and cluster: "plainNames zn cluster" "supported cluster"
    and inv: "zoneInv E d z zone cluster s"
  shows "\<exists>res t. reconcileDnsRecords E d cluster z s = (res, t) \<and> zoneInv E d z zone cluster t \<and>
    (if \<exists>r u. clusterClient E d cluster s = (Ok r, u) then res = Ok () \<and> zone (world t) = zoneSpec zn cluster (zone (world s))
     else (\<exists>e. res = Err e) \<and> zone (world t) = zone (world s))"
proof -
  obtain cr u where u: "clusterClient E d cluster s = (cr, u)" by (cases "clusterClient E d cluster s")
  note run = client_run [OF loader laws target store inv u]
  show ?thesis
  proof (cases cr)
    case (Ok r)
    with run have "clientInv E d z zone cluster r u" "zone (world u) = zone (world s)" by auto
    with plan_run [OF this(1) laws store zn cluster] u Ok show ?thesis
      by (auto simp: reconcileDnsRecords_def bindM_run zn intro: clientInv_zoneInv)
  qed (use run u in \<open>auto simp: reconcileDnsRecords_def bindM_def\<close>)
qed

section \<open>Any sequence of reconciliations\<close>

text \<open>Outside, everything in the zone may change but the record sets that the operator manages.\<close>

definition outsideChange :: "string \<Rightarrow> zoneMap \<Rightarrow> zoneMap \<Rightarrow> bool" where
  "outsideChange zn m m' \<longleftrightarrow>
     (\<forall>n ty. n \<in> {shownName (''*.'' @ zn), shownName (''api.'' @ zn)} \<longrightarrow> m' (n, ty) = m (n, ty))"

text \<open>The cluster may get another endpoint or another target of the wildcard, when the records it then asks for are not
  remembered from an earlier time.\<close>

definition redefines :: "('w, 'c) env \<Rightarrow> Zoner \<Rightarrow> string \<Rightarrow> Cluster \<Rightarrow> Cluster \<Rightarrow> ('w, 'c) sys \<Rightarrow> bool" where
  "redefines E d z cluster cluster' s \<longleftrightarrow>
     (let zn = getHostedZoneName d cluster in
      getHostedZoneName d cluster' = zn \<and> cl_Region cluster' = cl_Region cluster \<and> cl_IAMRoleARN cluster' = cl_IAMRoleARN cluster \<and>
      cl_IsEKS cluster' = cl_IsEKS cluster \<and> plainNames zn cluster' \<and>
      (\<forall>r recs. cachedClient E d cluster s r \<longrightarrow> recs \<in> wantedLists zn cluster' \<longrightarrow>
         gc_get (e_cache E) (world s) (caches s (r53_upsertCache r)) (zoneCacheKey z recs) = None))"

inductive zoneRun ::
  "('w, 'c) env \<Rightarrow> Zoner \<Rightarrow> string \<Rightarrow> ('w \<Rightarrow> zoneMap) \<Rightarrow> Cluster \<Rightarrow> ('w, 'c) sys \<Rightarrow> Cluster \<Rightarrow> ('w, 'c) sys \<Rightarrow> bool"
  for E d z zone cluster0 init where
  start: "zoneRun E d z zone cluster0 init cluster0 init"
| reconciled: "zoneRun E d z zone cluster0 init cluster s \<Longrightarrow> reconcileDnsRecords E d cluster z s = (res, t) \<Longrightarrow>
    zoneRun E d z zone cluster0 init cluster t"
| outside: "zoneRun E d z zone cluster0 init cluster s \<Longrightarrow> e_now E (world s) \<le> e_now E w \<Longrightarrow>
    outsideChange (getHostedZoneName d cluster) (zone (world s)) (zone w) \<Longrightarrow> zoneRun E d z zone cluster0 init cluster (s\<lparr>world := w\<rparr>)"
| redefined: "zoneRun E d z zone cluster0 init cluster s \<Longrightarrow> redefines E d z cluster cluster' s \<Longrightarrow>
    zoneRun E d z zone cluster0 init cluster' s"

text \<open>A cluster whose zone is maintained: its names are plain, its region is known, and its credentials are those for
  which the zone is served.\<close>

definition maintained :: "('w, 'c) env \<Rightarrow> Zoner \<Rightarrow> string \<Rightarrow> ('w \<Rightarrow> zoneMap) \<Rightarrow> Cluster \<Rightarrow> bool" where
  "maintained E d z zone cluster \<longleftrightarrow> goodTarget (cl_Region cluster) (cl_IAMRoleARN cluster) \<and>
     servesZone E (clusterCreds d cluster) z zone \<and> plainNames (getHostedZoneName d cluster) cluster \<and> supported cluster"

lemma zoneInv_outside:
  assumes "expiresForGood E" "zoneInv E d z zone cluster s" "e_now E (world s) \<le> e_now E w"
    and out: "outsideChange (getHostedZoneName d cluster) (zone (world s)) (zone w)"
  shows "zoneInv E d z zone cluster (s\<lparr>world := w\<rparr>)"
proof -
  let ?zn = "getHostedZoneName d cluster" and ?m = "zone (world s)"
  have same: "zone w (wildKey ?zn) = ?m (wildKey ?zn)" "zone w (apiKey ?zn cluster) = ?m (apiKey ?zn cluster)"
    "zone w (fst (wildKey ?zn), ty) = ?m (fst (wildKey ?zn), ty)" "zone w (fst (apiKey ?zn cluster), ty) = ?m (fst (apiKey ?zn cluster), ty)" for ty
    using out by (simp_all add: outsideChange_def wildKey_def apiKey_def)
  have sound: "soundUpserts E z ?zn cluster (zone w) c w" if "soundUpserts E z ?zn cluster ?m c (world s)" for c
    using soundUpserts_later [OF assms(1) that assms(3)] same managed_keys(3) [of _ ?zn cluster]
    by (auto simp: soundUpserts_def managed_keys(1))
  obtain i where i: "\<And>r. cachedClient E d cluster s r \<Longrightarrow> r53_upsertCache r = i \<and> i < nextRef s \<and> soundState E zone z ?zn cluster r s"
    using assms(2) unfolding zoneInv_def Let_def by blast
  have "r53_upsertCache r = i \<and> i < nextRef s \<and> soundState E zone z ?zn cluster r (s\<lparr>world := w\<rparr>)"
    if "cachedClient E d cluster (s\<lparr>world := w\<rparr>) r" for r
    using i [of r] sound [of "caches s (r53_upsertCache r)"] that by (auto simp: cachedClient_def)
  moreover have "zoner_inv E d (s\<lparr>world := w\<rparr>)" using assms(2) by (simp add: zoneInv_def zoner_inv_def configCache_inv_def Let_def)
  moreover have "managedTypes ?zn cluster (zone w)" using assms(2) same by (simp add: zoneInv_def managedTypes_def Let_def)
  ultimately show ?thesis unfolding zoneInv_def Let_def by auto
qed

lemma zoneInv_redefined:
  assumes inv: "zoneInv E d z zone cluster s" and new: "redefines E d z cluster cluster' s"
  shows "zoneInv E d z zone cluster' s"
proof -
  have same: "getHostedZoneName d cluster' = getHostedZoneName d cluster" "clusterCreds d cluster' = clusterCreds d cluster"
    "apiKey zn cluster' = apiKey zn cluster" for zn
    using new by (simp_all add: redefines_def clusterCreds_def apiKey_def Let_def)
  have "cachedClient E d cluster' s r = cachedClient E d cluster s r" for r by (simp add: cachedClient_def same)
  moreover have "soundState E zone z (getHostedZoneName d cluster) cluster' r s" if "cachedClient E d cluster s r" for r
    using new that by (auto simp: redefines_def soundUpserts_def wantedLists_def Let_def)
  ultimately show ?thesis using inv unfolding zoneInv_def Let_def managedTypes_def same by auto
qed

lemma zoneRun_inv:
  assumes run: "zoneRun E d z zone cluster0 init cluster s" and laws: "loader_laws E" "gocache_laws (e_cache E)" "expiresForGood E"
    and cluster0: "maintained E d z zone cluster0" and init: "zoneInv E d z zone cluster0 init"
  shows "maintained E d z zone cluster \<and> zoneInv E d z zone cluster s"
  using run
proof (induction rule: zoneRun.induct)
  case start
  show ?case using cluster0 init by simp
next
  case (reconciled cluster s res t)
  then have "goodTarget (cl_Region cluster) (cl_IAMRoleARN cluster)" "servesZone E (clusterCreds d cluster) z zone"
    "plainNames (getHostedZoneName d cluster) cluster" "supported cluster" "zoneInv E d z zone cluster s" by (simp_all add: maintained_def)
  from reconcile_zone [OF laws this(1,2) refl this(3-5)] reconciled show ?case by auto
next
  case (outside cluster s w)
  then show ?case using zoneInv_outside [OF laws(3)] by blast
next
  case (redefined cluster s cluster')
  then have "maintained E d z zone cluster'"
    by (auto simp: maintained_def redefines_def clusterCreds_def supported_def Let_def)
  with redefined zoneInv_redefined show ?case by blast
qed


section \<open>Example\<close>

text \<open>A world that is the zone itself.\<close>

definition recordTypes :: "string list" where
  "recordTypes = [''A'', ''AAAA'', ''CNAME'', ''NS'', ''SOA'', ''TXT'']"

definition shownAs :: "string \<times> string \<Rightarrow> ResourceRecordSet \<Rightarrow> bool" where
  "shownAs k rs \<longleftrightarrow> rrs_Name rs = fst k \<and> rrs_Type rs = snd k \<and> CHR ''*'' \<notin> set (fst k) \<and> snd k \<in> set recordTypes"

definition visible :: "zoneMap \<Rightarrow> zoneMap" where
  "visible m k = (case m k of Some rs \<Rightarrow> if shownAs k rs then Some rs else None | None \<Rightarrow> None)"

definition storeList :: "(zoneMap, ResourceRecordSet list) answer" where
  "storeList q m = (Inr (case q of
      AWSReq _ (Route53Op (R53_ListResourceRecordSets z k (Some n) tyo)) \<Rightarrow>
        take 1 (List.map_filter (\<lambda>t. visible m (shownName n, t)) (case tyo of Some t \<Rightarrow> [t] | None \<Rightarrow> recordTypes))
    | _ \<Rightarrow> []), m)"

definition storeDone :: "(zoneMap, unit) answer" where
  "storeDone q m = (Inr (), case q of
      AWSReq _ (Route53Op (R53_ChangeResourceRecordSets z changes)) \<Rightarrow> fold applyChange changes (visible m)
    | _ \<Rightarrow> m)"

definition storeEnv :: "(zoneMap, (string \<times> cval) list) env" where
  "storeEnv = demoEnv\<lparr>e_aws := demoAWS\<lparr>a_rrsets := storeList, a_done := storeDone\<rparr>\<rparr>"

lemma visible_Some: "visible m k = Some rs \<longleftrightarrow> m k = Some rs \<and> shownAs k rs"
  by (auto simp: visible_def split: option.splits)

lemma visible_shape: "visible m (n, ty) = Some rs \<Longrightarrow> rrs_Name rs = n \<and> rrs_Type rs = ty \<and> CHR ''*'' \<notin> set n \<and> ty \<in> set recordTypes"
  by (simp add: visible_Some shownAs_def)

lemma visible_id: "(\<And>k rs. m k = Some rs \<Longrightarrow> shownAs k rs) \<Longrightarrow> visible m = m"
  by (rule ext) (simp add: visible_def split: option.split)

lemma shownName_no_star: "CHR ''*'' \<notin> set (shownName n)"
proof -
  have "CHR ''*'' \<notin> set (escapeStar s)" for s by (induction s) auto
  then show ?thesis by (simp add: shownName_def)
qed

lemma visible_apply:
  assumes "visible m = m" "case c of ChangeUpsert rs \<Rightarrow> recordSetOk rs | _ \<Rightarrow> True"
  shows "visible (applyChange c m) = applyChange c m"
proof (rule visible_id)
  fix k rs assume k: "applyChange c m k = Some rs"
  have m: "m k = Some rs \<Longrightarrow> shownAs k rs" using visible_Some [of m k rs] assms(1) by simp
  show "shownAs k rs"
  proof (cases c)
    case (ChangeUpsert x)
    with assms(2) have "rrs_Type x \<in> set recordTypes" unfolding recordSetOk_def recordTypes_def by (cases "rrs_Alias x") auto
    with k m ChangeUpsert shownName_no_star show ?thesis by (auto simp: shownAs_def split: if_splits)
  qed (use k m in \<open>simp split: if_splits\<close>)
qed

lemma visible_fold:
  "visible m = m \<Longrightarrow> \<forall>c \<in> set changes. case c of ChangeUpsert rs \<Rightarrow> recordSetOk rs | _ \<Rightarrow> True \<Longrightarrow>
   visible (fold applyChange changes m) = fold applyChange changes m"
  by (induction changes arbitrary: m) (simp_all add: visible_apply)

lemma storeEnv_serves: "servesZone storeEnv p z visible"
  unfolding servesZone_def
proof (intro conjI allI impI)
  fix w n ty rs assume "visible w (n, ty) = Some rs"
  then show "rrs_Name rs = n" "rrs_Type rs = ty" "CHR ''*'' \<notin> set n" using visible_shape by blast+
next
  fix w n tyo
  let ?out = "take 1 (List.map_filter (\<lambda>t. visible w (shownName n, t)) (case tyo of Some t \<Rightarrow> [t] | None \<Rightarrow> recordTypes))"
  have out: "a_rrsets (e_aws storeEnv) (AWSReq p (Route53Op (R53_ListResourceRecordSets z (Some 1) (Some n) tyo))) w = (Inr ?out, w)"
    by (simp add: storeEnv_def storeList_def)
  have elem: "\<exists>t. visible w (shownName n, t) = Some rs" if "rs \<in> set ?out" for rs
    using in_set_takeD [OF that] by (auto simp: List.map_filter_def)
  have sub: "set ?out \<subseteq> ran (visible w)" using elem unfolding ran_def by blast
  have found: "case tyo of Some t \<Rightarrow> (\<forall>rs. visible w (shownName n, t) = Some rs \<longrightarrow> ?out = [rs])
      | None \<Rightarrow> hasName (visible w) n \<longrightarrow> (\<exists>rs. ?out = [rs] \<and> rrs_Name rs = shownName n)"
  proof (cases tyo)
    case None
    have "\<exists>rs. ?out = [rs] \<and> rrs_Name rs = shownName n" if "hasName (visible w) n"
    proof -
      from that obtain t rs where t: "visible w (shownName n, t) = Some rs" by (auto simp: hasName_def)
      then have "rs \<in> set (List.map_filter (\<lambda>t. visible w (shownName n, t)) recordTypes)"
        using visible_shape [OF t] by (force simp: List.map_filter_def)
      then obtain r where r: "?out = [r]" using None by (cases "List.map_filter (\<lambda>t. visible w (shownName n, t)) recordTypes") auto
      with elem [of r] obtain t' where "visible w (shownName n, t') = Some r" by auto
      with r visible_shape show ?thesis by blast
    qed
    with None show ?thesis by simp
  qed (simp add: List.map_filter_def)
  show "\<exists>out w'. a_rrsets (e_aws storeEnv) (AWSReq p (Route53Op (R53_ListResourceRecordSets z (Some 1) (Some n) tyo))) w = (Inr out, w') \<and>
      visible w' = visible w \<and> e_now storeEnv w \<le> e_now storeEnv w' \<and> set out \<subseteq> ran (visible w) \<and> length out \<le> 1 \<and>
      (case tyo of Some t \<Rightarrow> (\<forall>rs. visible w (shownName n, t) = Some rs \<longrightarrow> out = [rs])
       | None \<Rightarrow> hasName (visible w) n \<longrightarrow> (\<exists>rs. out = [rs] \<and> rrs_Name rs = shownName n))"
    by (intro exI [of _ ?out] exI [of _ w] conjI out refl le_refl sub found) simp
next
  fix w changes assume ok: "changes \<noteq> [] \<and> list_all (accepted (visible w)) changes"
  have "visible (visible w) = visible w" by (rule visible_id) (simp add: visible_Some)
  moreover have "case c of ChangeUpsert rs \<Rightarrow> recordSetOk rs | _ \<Rightarrow> True" if "c \<in> set changes" for c
    using ok that by (cases c) (auto simp: list_all_iff)
  ultimately show "\<exists>w'. a_done (e_aws storeEnv) (AWSReq p (Route53Op (R53_ChangeResourceRecordSets z changes))) w = (Inr (), w') \<and>
      visible w' = fold applyChange changes (visible w) \<and> e_now storeEnv w \<le> e_now storeEnv w'"
    using visible_fold by (auto simp: storeEnv_def storeDone_def demoEnv_def)
qed (simp_all add: storeEnv_def demoEnv_def demoLoadConfig_def)

text \<open>A zone with an ingress and an issuer; after the first reconciliation somebody removes the ingress.\<close>

definition plainSet :: "string \<Rightarrow> ResourceRecordSet" where
  "plainSet n = \<lparr>rrs_Name = n, rrs_Type = ''A'', rrs_TTL = Some 300, rrs_Records = [''10.0.0.1''], rrs_Alias = None\<rparr>"

definition storeSys :: "(zoneMap, (string \<times> cval) list) sys" where
  "storeSys = \<lparr>world = [(''irsa.wc.gaws.io.'', ''A'') \<mapsto> plainSet ''irsa.wc.gaws.io.'', (''ingress.wc.gaws.io.'', ''A'') \<mapsto> plainSet ''ingress.wc.gaws.io.''],
     trace = [], caches = (\<lambda>_. []), nextRef = 10, configCache = [],
     m_AWSCluster = demoAWSCluster, m_ControlPlane = demoControlPlane, m_Cluster = demoCluster,
     m_KMP = demoKMP, m_MachinePool = demoMachinePool\<rparr>"

definition reconciledOnce :: "(zoneMap, (string \<times> cval) list) sys" where
  "reconciledOnce = snd (reconcileDnsRecords storeEnv demoZoner demoWC ''Z1'' storeSys)"

definition ingressRemoved :: "(zoneMap, (string \<times> cval) list) sys" where
  "ingressRemoved = reconciledOnce\<lparr>world := (world reconciledOnce)((''ingress.wc.gaws.io.'', ''A'') := None)\<rparr>"

definition reconciledTwice :: "(zoneMap, (string \<times> cval) list) sys" where
  "reconciledTwice = snd (reconcileDnsRecords storeEnv demoZoner demoWC ''Z1'' ingressRemoved)"

lemma zone_store_laws: "loader_laws storeEnv" "gocache_laws (e_cache storeEnv)" "expiresForGood storeEnv"
  by (auto simp: storeEnv_def loader_laws_def demo_defs listCache_laws expiresForGood_def)

lemma store_names: "getHostedZoneName demoZoner demoWC = ''wc.gaws.io''" "shownName (''*.'' @ ''wc.gaws.io'') = backslash # ''052.wc.gaws.io.''"
  "shownName (''api.'' @ ''wc.gaws.io'') = ''api.wc.gaws.io.''"
  by code_simp+

lemma store_maintained: "maintained storeEnv demoZoner ''Z1'' visible demoWC"
proof -
  have "plainNames (getHostedZoneName demoZoner demoWC) demoWC" "supported demoWC" by code_simp+
  then show ?thesis using demoWC_targets(1) storeEnv_serves by (simp add: maintained_def)
qed

lemma store_init: "zoner_inv storeEnv demoZoner storeSys" "\<forall>r. \<not> cachedClient storeEnv demoZoner demoWC storeSys r"
  "managedTypes (getHostedZoneName demoZoner demoWC) demoWC (visible (world storeSys))"
proof -
  show "zoner_inv storeEnv demoZoner storeSys"
    by (auto simp: zoner_inv_def configCache_inv_def storeEnv_def demoZoner_def storeSys_def)
  show "\<forall>r. \<not> cachedClient storeEnv demoZoner demoWC storeSys r"
    by (simp add: cachedClient_def storeEnv_def storeSys_def)
  show "managedTypes (getHostedZoneName demoZoner demoWC) demoWC (visible (world storeSys))"
    unfolding store_names(1) managedTypes_def wildKey_def apiKey_def store_names(2,3)
    by (simp add: visible_def storeSys_def)
qed

lemma store_run: "zoneRun storeEnv demoZoner ''Z1'' visible demoWC storeSys demoWC ingressRemoved"
  unfolding ingressRemoved_def
proof (rule outside)
  show "zoneRun storeEnv demoZoner ''Z1'' visible demoWC storeSys demoWC reconciledOnce"
    unfolding reconciledOnce_def by (rule reconciled [OF start]) (rule prod.collapse [symmetric])
  show "outsideChange (getHostedZoneName demoZoner demoWC) (visible (world reconciledOnce))
      (visible ((world reconciledOnce)((''ingress.wc.gaws.io.'', ''A'') := None)))"
    unfolding store_names(1) outsideChange_def store_names(2,3) by (simp add: visible_def)
qed (simp add: storeEnv_def demoEnv_def)


section \<open>When the records change back\<close>

text \<open>The endpoint of a cluster is replaced and then set back while the first upsert is still remembered: the last
  reconciliation succeeds, sends no change, and leaves the record of the replaced endpoint in the zone.\<close>

definition otherEndpoint :: Cluster where
  "otherEndpoint = demoWC\<lparr>cl_ControlPlaneEndpoint := ''other.aws.com''\<rparr>"

definition setBack :: "unit outcome \<times> (zoneMap, (string \<times> cval) list) sys" where
  "setBack = reconcileDnsRecords storeEnv demoZoner demoWC ''Z1''
     (snd (reconcileDnsRecords storeEnv demoZoner otherEndpoint ''Z1'' reconciledOnce))"

lemma remembered_upsert_hides_change:
  "fst setBack = Ok ()"
  "map_option rrs_Alias (visible (world (snd setBack)) (apiKey ''wc.gaws.io'' demoWC)) =
     Some (Some \<lparr>at_DNSName = ''other.aws.com'', at_EvaluateTargetHealth = False, at_HostedZoneId = ''Z32O12XQLNTSW2''\<rparr>)"
  "cl_ControlPlaneEndpoint demoWC = ''lb.aws.com''"
  by code_simp+

section \<open>Emptying a zone\<close>

text \<open>The sets a zone keeps when it is emptied, so that Route53 lets it be deleted.\<close>

definition zoneBasics :: "zoneMap \<Rightarrow> zoneMap" where
  "zoneBasics m = (\<lambda>(n, ty). if ty \<in> {''SOA'', ''NS''} then m (n, ty) else None)"

text \<open>\<open>emptiesZone E p z zone\<close>: what Route53 documents of the two requests. A listing without limits gives record sets
  of the zone, all of them when there are at most the 300 that fit in one answer; deletions of record sets as they are in
  the zone are made.\<close>

definition emptiesZone :: "('w, 'c) env \<Rightarrow> creds \<Rightarrow> string \<Rightarrow> ('w \<Rightarrow> zoneMap) \<Rightarrow> bool" where
  "emptiesZone E p z zone \<longleftrightarrow>
     (\<forall>w n ty rs. zone w (n, ty) = Some rs \<longrightarrow> rrs_Name rs = n \<and> rrs_Type rs = ty) \<and>
     (\<forall>w. \<exists>out w'. a_rrsets (e_aws E) (AWSReq p (Route53Op (R53_ListResourceRecordSets z None None None))) w = (Inr out, w') \<and>
        zone w' = zone w \<and> set out \<subseteq> ran (zone w) \<and>
        (finite (dom (zone w)) \<and> card (dom (zone w)) \<le> 300 \<longrightarrow> set out = ran (zone w))) \<and>
     (\<forall>w sets. sets \<noteq> [] \<and> list_all (accepted (zone w)) (map ChangeDelete sets) \<longrightarrow>
        (\<exists>w'. a_done (e_aws E) (AWSReq p (Route53Op (R53_ChangeResourceRecordSets z (map ChangeDelete sets)))) w = (Inr (), w') \<and>
           zone w' = fold applyChange (map ChangeDelete sets) (zone w)))"

lemma fold_deletions:
  "fold applyChange (map ChangeDelete sets) m = (\<lambda>k. if k \<in> (\<lambda>rs. (rrs_Name rs, rrs_Type rs)) ` set sets then None else m k)"
  by (induction sets arbitrary: m) auto

text \<open>C22: a zone is emptied but for its SOA and NS record sets. Where Route53 lists a zone of at most 300 record
  sets in one answer, and makes deletions of what it listed: emptying the zone succeeds and leaves exactly the SOA and NS
  record sets, as they were. A zone of more record sets also keeps these, and loses what was in the first answer only;
  nothing in it is changed.\<close>

theorem zone_emptied:
  assumes "emptiesZone E (r53_client r) z zone"
  shows "\<exists>t. DeleteDnsRecordsFromHostedZone E r z s = (Ok (), t) \<and>
    (finite (dom (zone (world s))) \<and> card (dom (zone (world s))) \<le> 300 \<longrightarrow> zone (world t) = zoneBasics (zone (world s))) \<and>
    zoneBasics (zone (world s)) \<subseteq>\<^sub>m zone (world t) \<and> zone (world t) \<subseteq>\<^sub>m zone (world s)"
proof -
  let ?m = "zone (world s)" and ?key = "\<lambda>rs. (rrs_Name rs, rrs_Type rs)"
  have shape: "?m k = Some rs \<Longrightarrow> k = ?key rs" for k rs using assms by (cases k) (auto simp: emptiesZone_def)
  from assms obtain out w where out: "a_rrsets (e_aws E) (r53req r (R53_ListResourceRecordSets z None None None)) (world s) = (Inr out, w)"
    and w: "zone w = ?m" and sub: "set out \<subseteq> ran ?m"
    and all: "finite (dom ?m) \<and> card (dom ?m) \<le> 300 \<longrightarrow> set out = ran ?m"
    unfolding emptiesZone_def by metis
  have listed: "?m (?key rs) = Some rs" if "rs \<in> set out" for rs
    using sub that shape by (fastforce simp: ran_def)
  define doomed where "doomed = filter (\<lambda>rs. \<not> (rrs_Type rs = ''SOA'' \<or> rrs_Type rs = ''NS'')) out"
  let ?left = "\<lambda>k. if k \<in> ?key ` set doomed then None else ?m k"
  have "\<exists>t. DeleteDnsRecordsFromHostedZone E r z s = (Ok (), t) \<and> zone (world t) = ?left"
  proof (cases "doomed = []")
    case True
    with out w show ?thesis by (simp add: DeleteDnsRecordsFromHostedZone_def doomed_def bindM_run call_run Let_def filter_empty_conv)
  next
    case False
    have "list_all (accepted (zone w)) (map ChangeDelete doomed)"
      using listed w by (auto simp: list_all_iff doomed_def)
    with False assms obtain w' where
      "a_done (e_aws E) (r53req r (R53_ChangeResourceRecordSets z (map ChangeDelete doomed))) w = (Inr (), w')"
      "zone w' = fold applyChange (map ChangeDelete doomed) (zone w)" unfolding emptiesZone_def by blast
    with False out w show ?thesis
      by (simp add: DeleteDnsRecordsFromHostedZone_def doomed_def bindM_run call_run Let_def fold_deletions)
  qed
  moreover have "?left = zoneBasics ?m" if "finite (dom ?m) \<and> card (dom ?m) \<le> 300"
  proof
    fix k show "?left k = zoneBasics ?m k"
      using all that shape [of k] by (cases k; cases "?m k") (auto simp: zoneBasics_def doomed_def ranI)
  qed
  moreover have "zoneBasics ?m \<subseteq>\<^sub>m ?left" "?left \<subseteq>\<^sub>m ?m"
    by (auto simp: map_le_def zoneBasics_def doomed_def split: if_splits)
  ultimately show ?thesis by auto
qed

text \<open>A zone that is the list of its record sets, the first one of a name and type in front.\<close>

definition listedZone :: "ResourceRecordSet list \<Rightarrow> zoneMap" where
  "listedZone w = map_of (map (\<lambda>rs. ((rrs_Name rs, rrs_Type rs), rs)) w)"

fun deletes :: "Change list \<Rightarrow> ResourceRecordSet \<Rightarrow> bool" where
  "deletes [] rs \<longleftrightarrow> False"
| "deletes (ChangeDelete d # changes) rs \<longleftrightarrow> rrs_Name d = rrs_Name rs \<and> rrs_Type d = rrs_Type rs \<or> deletes changes rs"
| "deletes (_ # changes) rs \<longleftrightarrow> deletes changes rs"

lemma deletes_keys: "deletes (map ChangeDelete sets) rs \<longleftrightarrow> (rrs_Name rs, rrs_Type rs) \<in> (\<lambda>rs. (rrs_Name rs, rrs_Type rs)) ` set sets"
  by (induction sets) auto

definition listEnv :: "(ResourceRecordSet list, (string \<times> cval) list) env" where
  "listEnv = demoEnv\<lparr>e_aws := demoAWS\<lparr>
     a_rrsets := (\<lambda>q w. (Inr (filter (\<lambda>rs. listedZone w (rrs_Name rs, rrs_Type rs) = Some rs) w), w)),
     a_done := (\<lambda>q w. (Inr (), case q of
        AWSReq _ (Route53Op (R53_ChangeResourceRecordSets z changes)) \<Rightarrow> filter (\<lambda>rs. \<not> deletes changes rs) w
      | _ \<Rightarrow> w))\<rparr>\<rparr>"

definition listSys :: "(ResourceRecordSet list, (string \<times> cval) list) sys" where
  "listSys = \<lparr>world = [(plainSet ''wc.gaws.io.'')\<lparr>rrs_Type := ''NS''\<rparr>, plainSet ''api.wc.gaws.io.'', plainSet ''irsa.wc.gaws.io.''],
     trace = [], caches = (\<lambda>_. []), nextRef = 10, configCache = [],
     m_AWSCluster = demoAWSCluster, m_ControlPlane = demoControlPlane, m_Cluster = demoCluster,
     m_KMP = demoKMP, m_MachinePool = demoMachinePool\<rparr>"

lemma listedZone_Some: "listedZone w k = Some rs \<Longrightarrow> k = (rrs_Name rs, rrs_Type rs) \<and> rs \<in> set w"
  by (auto simp: listedZone_def dest: map_of_SomeD)

lemma listedZone_filter:
  "listedZone (filter (\<lambda>rs. (rrs_Name rs, rrs_Type rs) \<notin> K) w) = (\<lambda>k. if k \<in> K then None else listedZone w k)"
  by (induction w) (auto simp: listedZone_def fun_eq_iff)

lemma listEnv_empties: "emptiesZone listEnv p z listedZone"
  unfolding emptiesZone_def
proof (intro conjI allI impI)
  fix w n ty rs assume "listedZone w (n, ty) = Some rs"
  then show "rrs_Name rs = n" "rrs_Type rs = ty" using listedZone_Some by blast+
next
  fix w
  let ?out = "filter (\<lambda>rs. listedZone w (rrs_Name rs, rrs_Type rs) = Some rs) w"
  have "set ?out = ran (listedZone w)" using listedZone_Some [of w] by (fastforce simp: ran_def)
  then show "\<exists>out w'. a_rrsets (e_aws listEnv) (AWSReq p (Route53Op (R53_ListResourceRecordSets z None None None))) w = (Inr out, w') \<and>
      listedZone w' = listedZone w \<and> set out \<subseteq> ran (listedZone w) \<and>
      (finite (dom (listedZone w)) \<and> card (dom (listedZone w)) \<le> 300 \<longrightarrow> set out = ran (listedZone w))"
    by (simp add: listEnv_def)
next
  fix w and sets :: "ResourceRecordSet list"
  show "\<exists>w'. a_done (e_aws listEnv) (AWSReq p (Route53Op (R53_ChangeResourceRecordSets z (map ChangeDelete sets)))) w = (Inr (), w') \<and>
      listedZone w' = fold applyChange (map ChangeDelete sets) (listedZone w)"
    by (simp add: listEnv_def fold_deletions deletes_keys listedZone_filter)
qed

theorem zone_emptied_witness:
  "listedZone (world (snd (DeleteDnsRecordsFromHostedZone listEnv demoRoute53 ''Z1'' listSys))) =
     [(''wc.gaws.io.'', ''NS'') \<mapsto> (plainSet ''wc.gaws.io.'')\<lparr>rrs_Type := ''NS''\<rparr>]"
proof -
  have start: "listedZone (world listSys) = [(''wc.gaws.io.'', ''NS'') \<mapsto> (plainSet ''wc.gaws.io.'')\<lparr>rrs_Type := ''NS''\<rparr>,
     (''api.wc.gaws.io.'', ''A'') \<mapsto> plainSet ''api.wc.gaws.io.'', (''irsa.wc.gaws.io.'', ''A'') \<mapsto> plainSet ''irsa.wc.gaws.io.'']"
    by (auto simp: listSys_def listedZone_def plainSet_def fun_eq_iff)
  have "finite (dom (listedZone (world listSys))) \<and> card (dom (listedZone (world listSys))) \<le> 300"
    unfolding start by simp
  with zone_emptied [OF listEnv_empties, of demoRoute53 "''Z1''" listSys]
  have "listedZone (world (snd (DeleteDnsRecordsFromHostedZone listEnv demoRoute53 ''Z1'' listSys))) = zoneBasics (listedZone (world listSys))"
    by auto
  then show ?thesis unfolding start by (auto simp: zoneBasics_def fun_eq_iff)
qed


end
