(* ===== verification/Prefix_List_Store.thy ===== *)
theory Prefix_List_Store
  imports Network_Clients
begin

text \<open>
  The prefix list as the clusters see it: a map from CIDR blocks to descriptions, with room for a
  number of entries. The specification is on that map; \<open>ApplyEntry\<close> and \<open>DeleteEntry\<close>, which read the
  entries and the version and send a modification, refine it.
\<close>

section \<open>Specification\<close>

datatype entryOp = ApplyOp PrefixListEntry | DeleteOp PrefixListEntry

type_synonym entryMap = "string \<rightharpoonup> string"

text \<open>An entry that is there is kept, and so is that of another cluster; a full list takes no new one.\<close>

fun entrySpec :: "entryOp \<Rightarrow> entryMap \<Rightarrow> entryMap" where
  "entrySpec (ApplyOp e) m =
     (if m (pe_CIDR e) = None \<and> card (dom m) < prefixListMaxEntries then m(pe_CIDR e \<mapsto> pe_Description e) else m)"
| "entrySpec (DeleteOp e) m = (if m (pe_CIDR e) = Some (pe_Description e) then m(pe_CIDR e := None) else m)"

fun entrySpecOk :: "entryOp \<Rightarrow> entryMap \<Rightarrow> bool" where
  "entrySpecOk (ApplyOp e) m \<longleftrightarrow> m (pe_CIDR e) = Some (pe_Description e) \<or>
     m (pe_CIDR e) = None \<and> card (dom m) < prefixListMaxEntries"
| "entrySpecOk (DeleteOp e) m \<longleftrightarrow> m (pe_CIDR e) = None \<or> m (pe_CIDR e) = Some (pe_Description e)"

fun opEntry :: "entryOp \<Rightarrow> PrefixListEntry" where
  "opEntry (ApplyOp e) = e"
| "opEntry (DeleteOp e) = e"

text \<open>An entry goes only by a deletion with its own description.\<close>

lemma entrySpec_keeps:
  assumes "m c = Some d" "\<And>e. DeleteOp e \<in> set ops \<Longrightarrow> pe_CIDR e = c \<Longrightarrow> pe_Description e \<noteq> d"
  shows "fold entrySpec ops m c = Some d"
  using assms
proof (induction ops arbitrary: m)
  case Nil
  then show ?case by simp
next
  case (Cons op ops)
  have "entrySpec op m c = Some d"
    using Cons.prems by (cases op) auto
  with Cons show ?case by simp
qed

section \<open>What the service does\<close>

text \<open>
  \<open>entries w\<close> are the entries of the list \<open>pid\<close> and \<open>version w\<close> is its version. A request for \<open>n\<close> entries is
  answered with the first \<open>n\<close>; a modification is refused unless it names the current version, an added entry must
  be new and fit, a removed one must be there.
\<close>

definition servesPrefixList ::
  "('w, 'c) env \<Rightarrow> creds \<Rightarrow> string \<Rightarrow> ('w \<Rightarrow> PrefixListItem list) \<Rightarrow> ('w \<Rightarrow> int) \<Rightarrow> bool" where
  "servesPrefixList E p pid entries version \<longleftrightarrow>
     (\<forall>w n. a_entries (e_aws E) (ec2req p (EC2_GetManagedPrefixListEntries pid n)) w = (Inr (take n (entries w)), w)) \<and>
     (\<forall>w. \<exists>pl. pl_Version pl = version w \<and>
        a_prefixLists (e_aws E) (ec2req p (EC2_DescribeManagedPrefixLists None (Some pid))) w = (Inr [pl], w)) \<and>
     (\<forall>w v c d. \<exists>res w'. a_done (e_aws E) (ec2req p (EC2_AddPrefixListEntry pid v c d)) w = (res, w') \<and>
        (if v = version w \<and> length (entries w) < prefixListMaxEntries \<and> c \<notin> pi_Cidr ` set (entries w)
         then res = Inr () \<and> entries w' = entries w @ [\<lparr>pi_Cidr = c, pi_Description = d\<rparr>]
         else (\<exists>e. res = Inl e) \<and> entries w' = entries w)) \<and>
     (\<forall>w v c. \<exists>res w'. a_done (e_aws E) (ec2req p (EC2_RemovePrefixListEntry pid v c)) w = (res, w') \<and>
        (if v = version w \<and> c \<in> pi_Cidr ` set (entries w)
         then res = Inr () \<and> entries w' = filter (\<lambda>e. pi_Cidr e \<noteq> c) (entries w)
         else (\<exists>e. res = Inl e) \<and> entries w' = entries w)) \<and>
     (\<forall>w. distinct (map pi_Cidr (entries w)) \<and> length (entries w) \<le> prefixListMaxEntries)"

text \<open>An entry of that list, with a CIDR that can be parsed.\<close>

definition inList :: "('w, 'c) env \<Rightarrow> string \<Rightarrow> PrefixListEntry \<Rightarrow> bool" where
  "inList E pid e \<longleftrightarrow> (\<exists>arn. l_arnParse (e_lib E) (pe_PrefixListARN e) = Inr arn \<and> arn_Resource arn = ''prefix-list/'' @ pid) \<and>
     CHR ''/'' \<notin> set pid \<and> parsesCIDR (pe_CIDR e)"

section \<open>Refinement\<close>

definition entryMapOf :: "PrefixListItem list \<Rightarrow> entryMap" where
  "entryMapOf es = map_of (map (\<lambda>e. (pi_Cidr e, pi_Description e)) es)"

definition runEntryOp :: "('w, 'c) env \<Rightarrow> creds \<Rightarrow> entryOp \<Rightarrow> ('w, 'c, unit) go" where
  "runEntryOp E p op = (case op of ApplyOp e \<Rightarrow> ApplyEntry E p e | DeleteOp e \<Rightarrow> DeleteEntry E p e)"

lemma dom_entryMapOf: "dom (entryMapOf es) = pi_Cidr ` set es"
  by (auto simp: entryMapOf_def dom_map_of_conv_image_fst image_image)

lemma card_entryMapOf: "distinct (map pi_Cidr es) \<Longrightarrow> card (dom (entryMapOf es)) = length es"
  using distinct_card [of "map pi_Cidr es"] by (simp add: dom_entryMapOf)

lemma entryMapOf_append:
  "c \<notin> pi_Cidr ` set es \<Longrightarrow> entryMapOf (es @ [\<lparr>pi_Cidr = c, pi_Description = d\<rparr>]) = (entryMapOf es)(c \<mapsto> d)"
  by (rule ext) (auto simp: entryMapOf_def map_add_def split: option.split dest!: map_of_SomeD)

lemma entryMapOf_filter: "entryMapOf (filter (\<lambda>e. pi_Cidr e \<noteq> c) es) = (entryMapOf es)(c := None)"
  by (induction es) (auto simp: entryMapOf_def)

lemma entryMapOf_find: "entryMapOf es c = map_option pi_Description (find (\<lambda>e. pi_Cidr e = c) es)"
  by (induction es) (auto simp: entryMapOf_def)


lemma store_laws:
  assumes store: "servesPrefixList E p pid entries version"
  shows reads: "a_entries (e_aws E) (ec2req p (EC2_GetManagedPrefixListEntries pid n)) w = (Inr (take n (entries w)), w)"
    and versions: "\<exists>pl. pl_Version pl = version w \<and>
        a_prefixLists (e_aws E) (ec2req p (EC2_DescribeManagedPrefixLists None (Some pid))) w = (Inr [pl], w)"
    and adds: "\<exists>res w'. a_done (e_aws E) (ec2req p (EC2_AddPrefixListEntry pid (version w) c d)) w = (res, w') \<and>
        (if length (entries w) < prefixListMaxEntries \<and> c \<notin> pi_Cidr ` set (entries w)
         then res = Inr () \<and> entries w' = entries w @ [\<lparr>pi_Cidr = c, pi_Description = d\<rparr>]
         else (\<exists>e. res = Inl e) \<and> entries w' = entries w)"
    and removes: "\<exists>res w'. a_done (e_aws E) (ec2req p (EC2_RemovePrefixListEntry pid (version w) c)) w = (res, w') \<and>
        (if c \<in> pi_Cidr ` set (entries w)
         then res = Inr () \<and> entries w' = filter (\<lambda>e. pi_Cidr e \<noteq> c) (entries w)
         else (\<exists>e. res = Inl e) \<and> entries w' = entries w)"
    and shape: "distinct (map pi_Cidr (entries w)) \<and> length (entries w) \<le> prefixListMaxEntries"
proof -
  note laws = store [unfolded servesPrefixList_def]
  show "a_entries (e_aws E) (ec2req p (EC2_GetManagedPrefixListEntries pid n)) w = (Inr (take n (entries w)), w)"
    by (rule conjunct1 [OF laws, THEN spec, THEN spec])
  note laws = laws [THEN conjunct2]
  show "\<exists>pl. pl_Version pl = version w \<and>
        a_prefixLists (e_aws E) (ec2req p (EC2_DescribeManagedPrefixLists None (Some pid))) w = (Inr [pl], w)"
    by (rule conjunct1 [OF laws, THEN spec])
  note laws = laws [THEN conjunct2]
  from conjunct1 [OF laws, THEN spec, of w, THEN spec, of "version w", THEN spec, of c, THEN spec, of d]
  show "\<exists>res w'. a_done (e_aws E) (ec2req p (EC2_AddPrefixListEntry pid (version w) c d)) w = (res, w') \<and>
        (if length (entries w) < prefixListMaxEntries \<and> c \<notin> pi_Cidr ` set (entries w)
         then res = Inr () \<and> entries w' = entries w @ [\<lparr>pi_Cidr = c, pi_Description = d\<rparr>]
         else (\<exists>e. res = Inl e) \<and> entries w' = entries w)"
    by simp
  note laws = laws [THEN conjunct2]
  from conjunct1 [OF laws, THEN spec, of w, THEN spec, of "version w", THEN spec, of c]
  show "\<exists>res w'. a_done (e_aws E) (ec2req p (EC2_RemovePrefixListEntry pid (version w) c)) w = (res, w') \<and>
        (if c \<in> pi_Cidr ` set (entries w)
         then res = Inr () \<and> entries w' = filter (\<lambda>e. pi_Cidr e \<noteq> c) (entries w)
         else (\<exists>e. res = Inl e) \<and> entries w' = entries w)"
    by simp
  show "distinct (map pi_Cidr (entries w)) \<and> length (entries w) \<le> prefixListMaxEntries"
    by (rule conjunct2 [OF laws, THEN spec])
qed

text \<open>All entries are read at once: a list has fewer than are asked for.\<close>

lemma reads_all:
  assumes "servesPrefixList E p pid entries version"
  shows "a_entries (e_aws E) (ec2req p (EC2_GetManagedPrefixListEntries pid 100)) w = (Inr (entries w), w)"
  using reads [OF assms, of 100 w] shape [OF assms, of w] by (simp add: prefixListMaxEntries_def)

lemma create_run:
  assumes store: "servesPrefixList E p pid entries version" and new: "pe_CIDR e \<notin> pi_Cidr ` set (entries (world s))"
  shows "\<exists>r t. createEntry E p pid e s = (r, t) \<and> (r = Ok () \<longleftrightarrow> length (entries (world s)) < prefixListMaxEntries) \<and>
    (\<exists>err. r = Ok () \<or> r = Err err) \<and> entries (world t) = (if length (entries (world s)) < prefixListMaxEntries
      then entries (world s) @ [\<lparr>pi_Cidr = pe_CIDR e, pi_Description = pe_Description e\<rparr>] else entries (world s))"
proof -
  obtain pl where "pl_Version pl = version (world s)"
    "a_prefixLists (e_aws E) (ec2req p (EC2_DescribeManagedPrefixLists None (Some pid))) (world s) = (Inr [pl], world s)"
    using versions [OF store] by blast
  with adds [OF store, of "world s" "pe_CIDR e" "pe_Description e"] new show ?thesis
    by (auto simp: createEntry_def getCurrentVersion_def getByID_def PrefixLists_get_def bindM_def call_def split: if_splits)
qed

lemma delete_run:
  assumes store: "servesPrefixList E p pid entries version" and old: "pe_CIDR e \<in> pi_Cidr ` set (entries (world s))"
  shows "\<exists>t. deleteEntry E p pid e s = (Ok (), t) \<and>
    entries (world t) = filter (\<lambda>x. pi_Cidr x \<noteq> pe_CIDR e) (entries (world s))"
proof -
  obtain pl where "pl_Version pl = version (world s)"
    "a_prefixLists (e_aws E) (ec2req p (EC2_DescribeManagedPrefixLists None (Some pid))) (world s) = (Inr [pl], world s)"
    using versions [OF store] by blast
  with removes [OF store, of "world s" "pe_CIDR e"] old show ?thesis
    by (auto simp: deleteEntry_def getCurrentVersion_def getByID_def PrefixLists_get_def bindM_def call_def ignoreCode_def tryM_def)
qed

lemma runEntryOp_refines:
  assumes store: "servesPrefixList E p pid entries version" and e: "inList E pid (opEntry op)"
  shows "\<exists>r t. runEntryOp E p op s = (r, t) \<and> (r = Ok () \<longleftrightarrow> entrySpecOk op (entryMapOf (entries (world s)))) \<and>
    (\<exists>err. r = Ok () \<or> r = Err err) \<and> entryMapOf (entries (world t)) = entrySpec op (entryMapOf (entries (world s)))"
proof -
  define u where "u = logged (ec2req p (EC2_GetManagedPrefixListEntries pid 100)) None (world s) s"
  let ?c = "pe_CIDR (opEntry op)" and ?d = "pe_Description (opEntry op)" and ?es = "entries (world s)"
  obtain arn where arn: "l_arnParse (e_lib E) (pe_PrefixListARN (opEntry op)) = Inr arn" "arn_Resource arn = ''prefix-list/'' @ pid"
    "CHR ''/'' \<notin> set pid" "parsesCIDR ?c"
    using e by (auto simp: inList_def)
  note runs = prefix_list_entry_cases [where s = s, OF arn reads_all [OF store], folded u_def]
  have u: "world u = world s" by (simp add: u_def)
  have size: "card (dom (entryMapOf ?es)) = length ?es" using shape [OF store] by (simp add: card_entryMapOf)
  show ?thesis
  proof (cases "find (\<lambda>e. pi_Cidr e = ?c) ?es")
    case None
    then have none: "entryMapOf ?es ?c = None" by (simp add: entryMapOf_find)
    then have new: "?c \<notin> pi_Cidr ` set (entries (world u))" using dom_entryMapOf [of ?es] u by auto
    show ?thesis
      using runs None none create_run [OF store new] new size
      by (cases op) (auto simp: runEntryOp_def u entryMapOf_append)
  next
    case (Some x)
    then have some: "entryMapOf ?es ?c = Some (pi_Description x)" by (simp add: entryMapOf_find)
    then have old: "?c \<in> pi_Cidr ` set (entries (world u))" using dom_entryMapOf [of ?es] u by auto
    show ?thesis
      using runs Some some delete_run [OF store old]
      by (cases op; cases "pi_Description x = ?d") (auto simp: runEntryOp_def u entryMapOf_filter)
  qed
qed

text \<open>C6: the entries of a prefix list refine a map from CIDR blocks to descriptions, which each cluster changes only
  where it is free or its own. For any sequence of operations of any clusters, of which some may fail, the entries that AWS
  has in the end are those of the specification; and an operation after it succeeds exactly when the specification allows
  it: there is no entry of another cluster, and the list is not full.\<close>

theorem prefix_list_refines_map:
  assumes store: "servesPrefixList E p pid entries version" and ops: "\<forall>op\<in>set ops. inList E pid (opEntry op)"
    and op: "inList E pid (opEntry op)" and run: "forM_skip ops (runEntryOp E p) s = (r, t)"
  shows "entryMapOf (entries (world t)) = fold entrySpec ops (entryMapOf (entries (world s))) \<and>
    (fst (runEntryOp E p op t) = Ok () \<longleftrightarrow> entrySpecOk op (fold entrySpec ops (entryMapOf (entries (world s)))))"
proof -
  have "entryMapOf (entries (world (snd (forM_skip ops (runEntryOp E p) s)))) = fold entrySpec ops (entryMapOf (entries (world s)))"
    using ops
  proof (induction ops arbitrary: s)
    case Nil
    then show ?case by simp
  next
    case (Cons x ops)
    then have "inList E pid (opEntry x)" by simp
    from runEntryOp_refines [OF store this, of s] obtain r u where u: "runEntryOp E p x s = (r, u)"
      "\<exists>err. r = Ok () \<or> r = Err err" "entryMapOf (entries (world u)) = entrySpec x (entryMapOf (entries (world s)))" by blast
    with Cons show ?case by (auto simp: bindM_def tryM_def)
  qed
  moreover from runEntryOp_refines [OF store op, of t]
  have "fst (runEntryOp E p op t) = Ok () \<longleftrightarrow> entrySpecOk op (entryMapOf (entries (world t)))" by force
  ultimately show ?thesis using run by simp
qed

section \<open>Example\<close>

text \<open>A world that is the list itself; its version is its length. Two clusters apply their entries, and one of them
  tries to take the other's block.\<close>

definition shown :: "PrefixListItem list \<Rightarrow> PrefixListItem list" where
  "shown w = (if distinct (map pi_Cidr w) \<and> length w \<le> prefixListMaxEntries then w else [])"

definition listDone :: "(PrefixListItem list, unit) answer" where
  "listDone q w = (case q of
      AWSReq _ (EC2Op (EC2_AddPrefixListEntry pid v c d)) \<Rightarrow>
        if v = int (length (shown w)) \<and> length (shown w) < prefixListMaxEntries \<and> c \<notin> pi_Cidr ` set (shown w)
        then (Inr (), shown w @ [\<lparr>pi_Cidr = c, pi_Description = d\<rparr>]) else (Inl (ErrorString ''refused''), w)
    | AWSReq _ (EC2Op (EC2_RemovePrefixListEntry pid v c)) \<Rightarrow>
        if v = int (length (shown w)) \<and> c \<in> pi_Cidr ` set (shown w)
        then (Inr (), filter (\<lambda>e. pi_Cidr e \<noteq> c) (shown w)) else (Inl (ErrorString ''refused''), w)
    | _ \<Rightarrow> (Inr (), w))"

definition listEntries :: "(PrefixListItem list, PrefixListItem list) answer" where
  "listEntries q w = (case q of
      AWSReq _ (EC2Op (EC2_GetManagedPrefixListEntries pid n)) \<Rightarrow> (Inr (take n (shown w)), w)
    | _ \<Rightarrow> (Inr [], w))"

definition listEnv :: "(PrefixListItem list, (string \<times> cval) list) env" where
  "listEnv = demoEnv\<lparr>e_aws := demoAWS\<lparr>a_done := listDone, a_entries := listEntries,
     a_prefixLists := (\<lambda>q w. (Inr [\<lparr>pl_PrefixListId = ''pl-1'', pl_PrefixListArn = ''arn:pl'', pl_Version = int (length (shown w))\<rparr>], w))\<rparr>\<rparr>"

definition listSys :: "(PrefixListItem list, (string \<times> cval) list) sys" where
  "listSys = \<lparr>world = [], trace = [], caches = (\<lambda>_. []), nextRef = 10, configCache = [],
     m_AWSCluster = demoAWSCluster, m_ControlPlane = demoControlPlane, m_Cluster = demoCluster,
     m_KMP = demoKMP, m_MachinePool = demoMachinePool\<rparr>"

lemma shown_laws: "distinct (map pi_Cidr (shown w)) \<and> length (shown w) \<le> prefixListMaxEntries"
  by (simp add: shown_def prefixListMaxEntries_def)

lemma shown_add:
  "length (shown w) < prefixListMaxEntries \<Longrightarrow> c \<notin> pi_Cidr ` set (shown w) \<Longrightarrow>
   shown (shown w @ [\<lparr>pi_Cidr = c, pi_Description = d\<rparr>]) = shown w @ [\<lparr>pi_Cidr = c, pi_Description = d\<rparr>]"
  using shown_laws [of w] by (simp add: shown_def [of "shown w @ _"])

lemma shown_filter: "shown (filter P (shown w)) = filter P (shown w)"
  using shown_laws [of w] by (simp add: shown_def [of "filter P (shown w)"] distinct_map_filter le_trans [OF length_filter_le])

lemma listEnv_serves: "servesPrefixList listEnv p pid shown (\<lambda>w. int (length (shown w)))"
  unfolding servesPrefixList_def
  by (auto simp: listEnv_def listDone_def listEntries_def shown_laws shown_add shown_filter)

definition clusterEntryOf :: "string \<Rightarrow> string \<Rightarrow> PrefixListEntry" where
  "clusterEntryOf c d = \<lparr>pe_PrefixListARN = ''arn:aws:ec2:eu-west-1:1234:prefix-list/pl-1'', pe_CIDR = c, pe_Description = d\<rparr>"

definition listOps :: "entryOp list" where
  "listOps = [ApplyOp (clusterEntryOf ''10.0.0.0/16'' ''a''), ApplyOp (clusterEntryOf ''10.1.0.0/16'' ''b''),
     DeleteOp (clusterEntryOf ''10.0.0.0/16'' ''b'')]"

theorem prefix_list_refines_map_witness:
  "entryMapOf (shown (world (snd (forM_skip listOps (runEntryOp listEnv demoCreds) listSys)))) =
     [''10.0.0.0/16'' \<mapsto> ''a'', ''10.1.0.0/16'' \<mapsto> ''b''] \<and>
   fst (runEntryOp listEnv demoCreds (ApplyOp (clusterEntryOf ''10.0.0.0/16'' ''b''))
     (snd (forM_skip listOps (runEntryOp listEnv demoCreds) listSys))) \<noteq> Ok ()"
proof -
  define run where "run = forM_skip listOps (runEntryOp listEnv demoCreds) listSys"
  have "inList listEnv ''pl-1'' (clusterEntryOf ''10.0.0.0/16'' d)" "inList listEnv ''pl-1'' (clusterEntryOf ''10.1.0.0/16'' d)" for d
  proof -
    have "parsesCIDR ''10.0.0.0/16''" "parsesCIDR ''10.1.0.0/16''"
      "l_arnParse (e_lib listEnv) ''arn:aws:ec2:eu-west-1:1234:prefix-list/pl-1'' = Inr \<lparr>arn_AccountID = ''1234'', arn_Resource = ''prefix-list/'' @ ''pl-1''\<rparr>"
      by code_simp+
    then show "inList listEnv ''pl-1'' (clusterEntryOf ''10.0.0.0/16'' d)" "inList listEnv ''pl-1'' (clusterEntryOf ''10.1.0.0/16'' d)"
      by (simp_all add: inList_def clusterEntryOf_def)
  qed
  then have ops: "\<forall>op\<in>set listOps. inList listEnv ''pl-1'' (opEntry op)"
    "inList listEnv ''pl-1'' (opEntry (ApplyOp (clusterEntryOf ''10.0.0.0/16'' ''b'')))"
    by (simp_all add: listOps_def)
  have spec: "fold entrySpec listOps (entryMapOf (shown (world listSys))) = [''10.0.0.0/16'' \<mapsto> ''a'', ''10.1.0.0/16'' \<mapsto> ''b'']"
    by (simp add: listOps_def clusterEntryOf_def listSys_def shown_def entryMapOf_def prefixListMaxEntries_def fun_eq_iff)
  from prefix_list_refines_map [OF listEnv_serves ops, of demoCreds listSys "fst run" "snd run"] spec
  show ?thesis by (simp add: run_def clusterEntryOf_def)
qed

end
