(* ===== verification/Network_Store.thy ===== *)
theory Network_Store
  imports Network_Clients
begin

text \<open>
  Transit gateways and resource shares as their users see them: maps from names to objects. AWS keeps an object
  that was deleted in its listings for a while, in a state that says so, refuses to delete a gateway with
  attachments, and refuses to create more than the quota allows. The specification \<open>storeSpec\<close> is on the map; the clients
  refine it over any sequence of operations and outside changes. Two locales carry the proof: \<open>named_store\<close>, what a client
  promises, and \<open>live_store\<close>, what a look-up, a creation and a deletion have to do for it.
\<close>

section \<open>Specification\<close>

text \<open>
  What was done, with the answer: \<open>Ensured n room r\<close> is an application of the object \<open>n\<close>, with \<open>room\<close> for a new
  one; \<open>Dropped n held r\<close> is its deletion, with \<open>held\<close> when it is in use.
\<close>

datatype 'a storeEvent = Ensured string bool "'a outcome" | Dropped string bool "unit outcome"

text \<open>
  The map after an event, \<open>None\<close> for an answer that is not allowed. An object that is there is returned as it is. What
  is in use stays, with an error that \<open>refused\<close> describes.
\<close>

fun storeSpec :: "(go_error \<Rightarrow> bool) \<Rightarrow> 'a storeEvent \<Rightarrow> (string \<rightharpoonup> 'a) \<Rightarrow> (string \<rightharpoonup> 'a) option" where
  "storeSpec refused (Ensured n room r) m =
     (case m n of
        Some a \<Rightarrow> if r = Ok a then Some m else None
      | None \<Rightarrow> (case r of Ok a \<Rightarrow> if room then Some (m(n \<mapsto> a)) else None
                 | Err _ \<Rightarrow> if room then None else Some m
                 | Halt _ \<Rightarrow> None))"
| "storeSpec refused (Dropped n held r) m =
     (if m n \<noteq> None \<and> held
      then (case r of Err e \<Rightarrow> if refused e then Some m else None | _ \<Rightarrow> None)
      else if r = Ok () then Some (m(n := None)) else None)"

fun replay :: "(go_error \<Rightarrow> bool) \<Rightarrow> 'a storeEvent list \<Rightarrow> (string \<rightharpoonup> 'a) \<Rightarrow> (string \<rightharpoonup> 'a) option" where
  "replay refused [] m = Some m"
| "replay refused (e # es) m = Option.bind (storeSpec refused e m) (replay refused es)"

lemma replay_append: "replay refused (es @ fs) m = Option.bind (replay refused es m) (replay refused fs)"
  by (induction es arbitrary: m) (simp_all split: Option.bind_split)

text \<open>In a history that the specification allows, an object is the same from its creation to its deletion.\<close>

lemma replay_keeps:
  assumes "replay refused es m = Some m'" "m n = Some a" "\<forall>b. Dropped n b (Ok ()) \<notin> set es"
  shows "m' n = Some a \<and> (\<forall>b r. Ensured n b r \<in> set es \<longrightarrow> r = Ok a)"
  using assms
proof (induction es arbitrary: m)
  case Nil
  then show ?case by simp
next
  case (Cons e es)
  then obtain m1 where m1: "storeSpec refused e m = Some m1" "replay refused es m1 = Some m'"
    by (auto split: Option.bind_splits)
  have "m1 n = Some a \<and> (\<forall>b r. e = Ensured n b r \<longrightarrow> r = Ok a)"
    using m1(1) Cons.prems(2,3) by (cases e) (auto split: if_splits option.splits outcome.splits)
  with Cons.IH [OF m1(2)] Cons.prems(3) show ?case by auto
qed

section \<open>Runs\<close>

text \<open>
  The operations on one kind of object in any order, and between them whatever else happens: other operations of
  the program and changes outside, which \<open>quiet\<close> limits.
\<close>

inductive storeRun ::
  "('x \<Rightarrow> ('w, 'c, 'a) go) \<Rightarrow> (string \<Rightarrow> ('w, 'c, unit) go) \<Rightarrow> ('x \<Rightarrow> string) \<Rightarrow> ('x \<Rightarrow> bool) \<Rightarrow>
   ('w \<Rightarrow> bool) \<Rightarrow> ('w \<Rightarrow> string \<Rightarrow> bool) \<Rightarrow> ('w \<Rightarrow> 'w \<Rightarrow> bool) \<Rightarrow>
   ('w, 'c) sys \<Rightarrow> 'a storeEvent list \<Rightarrow> ('w, 'c) sys \<Rightarrow> bool"
  for ensure drop nameOf fits room held quiet init where
  started: "storeRun ensure drop nameOf fits room held quiet init [] init"
| ensured: "storeRun ensure drop nameOf fits room held quiet init es s \<Longrightarrow> fits x \<Longrightarrow> ensure x s = (r, t) \<Longrightarrow>
    storeRun ensure drop nameOf fits room held quiet init (es @ [Ensured (nameOf x) (room (world s)) r]) t"
| dropped: "storeRun ensure drop nameOf fits room held quiet init es s \<Longrightarrow> drop n s = (r, t) \<Longrightarrow>
    storeRun ensure drop nameOf fits room held quiet init (es @ [Dropped n (held (world s) n) r]) t"
| elsewhere: "storeRun ensure drop nameOf fits room held quiet init es s \<Longrightarrow> quiet (world s) (world t) \<Longrightarrow>
    storeRun ensure drop nameOf fits room held quiet init es t"

section \<open>What a client promises\<close>

text \<open>
  \<open>st w\<close> is what AWS has of these objects, \<open>objects\<close> the map it stands for, \<open>wf\<close> its invariant.
\<close>

locale named_store =
  fixes ensure :: "('w, 'c) env \<Rightarrow> creds \<Rightarrow> 'x \<Rightarrow> ('w, 'c, 'a) go"
    and drop :: "('w, 'c) env \<Rightarrow> creds \<Rightarrow> string \<Rightarrow> ('w, 'c, unit) go"
    and nameOf :: "'x \<Rightarrow> string"
    and fits :: "('w, 'c) env \<Rightarrow> 'x \<Rightarrow> bool"
    and served :: "('w, 'c) env \<Rightarrow> creds \<Rightarrow> ('w \<Rightarrow> 'st) \<Rightarrow> bool"
    and wf :: "'st \<Rightarrow> bool"
    and objects :: "'st \<Rightarrow> string \<rightharpoonup> 'a"
    and room :: "'st \<Rightarrow> bool"
    and held :: "'st \<Rightarrow> string \<Rightarrow> bool"
    and refused :: "go_error \<Rightarrow> bool"
  assumes ensure_law: "served E t st \<Longrightarrow> wf (st (world s)) \<Longrightarrow> fits E x \<Longrightarrow>
      \<exists>r u. ensure E t x s = (r, u) \<and> wf (st (world u)) \<and>
        storeSpec refused (Ensured (nameOf x) (room (st (world s))) r) (objects (st (world s))) = Some (objects (st (world u)))"
    and drop_law: "served E t st \<Longrightarrow> wf (st (world s)) \<Longrightarrow>
      \<exists>r u. drop E t n s = (r, u) \<and> wf (st (world u)) \<and>
        storeSpec refused (Dropped n (held (st (world s)) n) r) (objects (st (world s))) = Some (objects (st (world u)))"
begin

lemma run_refines:
  assumes run: "storeRun (ensure E t) (drop E t) nameOf (fits E) (room \<circ> st) (held \<circ> st)
        (\<lambda>w w'. wf (st w) \<longrightarrow> wf (st w') \<and> objects (st w') = objects (st w)) init es s"
    and served: "served E t st" and wf: "wf (st (world init))"
  shows "wf (st (world s)) \<and> replay refused es (objects (st (world init))) = Some (objects (st (world s)))"
  using run
proof induction
  case started
  then show ?case using wf by simp
next
  case (ensured es s x r u)
  then show ?case using ensure_law [OF served, of s x] by (auto simp: replay_append)
next
  case (dropped es s n r u)
  then show ?case using drop_law [OF served, of s n] by (auto simp: replay_append)
next
  case (elsewhere es s u)
  then show ?case by auto
qed

end

section \<open>Objects with a life cycle\<close>

text \<open>
  \<open>l\<close> is a list of objects, each with the labels by which it is found; \<open>named k n\<close> says that the label \<open>k\<close> is that of
  \<open>n\<close>. An object that is \<open>dead\<close> is still listed.
\<close>

definition liveNamed :: "('g \<Rightarrow> bool) \<Rightarrow> ('k \<Rightarrow> string \<Rightarrow> bool) \<Rightarrow> ('g \<times> 'k) list \<Rightarrow> string \<Rightarrow> 'g list" where
  "liveNamed dead named l n = filter (\<lambda>g. \<not> dead g) (map fst (filter (\<lambda>(g, k). named k n) l))"

definition oneLive :: "('g \<Rightarrow> 'i) \<Rightarrow> ('g \<Rightarrow> bool) \<Rightarrow> ('k \<Rightarrow> string \<Rightarrow> bool) \<Rightarrow> ('g \<times> 'k) list \<Rightarrow> bool" where
  "oneLive idOf dead named l \<longleftrightarrow> distinct (map (idOf \<circ> fst) l) \<and> (\<forall>n. length (liveNamed dead named l n) \<le> 1) \<and>
     (\<forall>(g, k)\<in>set l. \<forall>n m. named k n \<longrightarrow> named k m \<longrightarrow> n = m)"

definition liveMap :: "('g \<Rightarrow> bool) \<Rightarrow> ('k \<Rightarrow> string \<Rightarrow> bool) \<Rightarrow> ('g \<Rightarrow> 'a) \<Rightarrow> ('g \<times> 'k) list \<Rightarrow> string \<rightharpoonup> 'a" where
  "liveMap dead named out l n = (case liveNamed dead named l n of [] \<Rightarrow> None | g # _ \<Rightarrow> Some (out g))"

definition withdraw :: "('g \<Rightarrow> 'i) \<Rightarrow> ('g \<Rightarrow> 'g) \<Rightarrow> 'i \<Rightarrow> ('g \<times> 'k) list \<Rightarrow> ('g \<times> 'k) list" where
  "withdraw idOf mark i l = map (\<lambda>(g, k). (if idOf g = i then mark g else g, k)) l"

lemma liveNamed_append:
  "liveNamed dead named (l @ [(g, k)]) n = liveNamed dead named l n @ (if named k n \<and> \<not> dead g then [g] else [])"
  by (simp add: liveNamed_def)

lemma liveNamed_withdraw:
  assumes "\<forall>g. dead (mark g)"
  shows "liveNamed dead named (withdraw idOf mark i l) n = filter (\<lambda>g. idOf g \<noteq> i) (liveNamed dead named l n)"
  using assms by (induction l) (auto simp: liveNamed_def withdraw_def split: if_splits)

lemma liveNamed_in: "g \<in> set (liveNamed dead named l n) \<longleftrightarrow> \<not> dead g \<and> (\<exists>k. (g, k) \<in> set l \<and> named k n)"
  by (force simp: liveNamed_def)

lemma oneLive_append:
  assumes "oneLive idOf dead named l" "idOf g \<notin> (idOf \<circ> fst) ` set l" "\<And>m. named k m \<longleftrightarrow> m = n" "liveNamed dead named l n = []"
  shows "oneLive idOf dead named (l @ [(g, k)])"
  using assms by (auto simp: oneLive_def liveNamed_append)

lemma oneLive_withdraw:
  assumes "oneLive idOf dead named l" "\<forall>g. dead (mark g)" "\<And>g. idOf (mark g) = idOf g"
  shows "oneLive idOf dead named (withdraw idOf mark i l)"
proof -
  have "map (idOf \<circ> fst) (withdraw idOf mark i l) = map (idOf \<circ> fst) l"
    using assms(3) by (auto simp: withdraw_def)
  moreover have "length (filter P (liveNamed dead named l n)) \<le> 1" for P n
    using assms(1) by (metis oneLive_def length_filter_le order_trans)
  moreover have "\<forall>(g, k)\<in>set (withdraw idOf mark i l). \<forall>n m. named k n \<longrightarrow> named k m \<longrightarrow> n = m"
    using assms(1) by (fastforce simp: withdraw_def oneLive_def)
  ultimately show ?thesis
    using assms(1) by (simp add: oneLive_def liveNamed_withdraw assms(2))
qed

text \<open>The withdrawal of the one object of a name takes that name, and no other, out of the map.\<close>

lemma liveMap_withdraw:
  assumes "oneLive idOf dead named l" "liveNamed dead named l n = [g]" "\<forall>g. dead (mark g)"
  shows "liveMap dead named out (withdraw idOf mark (idOf g) l) = (liveMap dead named out l)(n := None)"
proof
  fix m
  from assms(2) obtain k where gk: "(g, k) \<in> set l" "named k n" "\<not> dead g"
    using liveNamed_in [of g dead named l n] by auto
  have "filter (\<lambda>h. idOf h \<noteq> idOf g) (liveNamed dead named l m) = liveNamed dead named l m" if "m \<noteq> n"
  proof (rule filter_True, rule ballI)
    fix h assume "h \<in> set (liveNamed dead named l m)"
    then obtain j where "(h, j) \<in> set l" "named j m" by (auto simp: liveNamed_in)
    moreover have "inj_on (idOf \<circ> fst) (set l)" using assms(1) by (simp add: oneLive_def distinct_map)
    ultimately have "idOf h = idOf g \<Longrightarrow> (h, j) = (g, k)" using inj_onD [of "idOf \<circ> fst" _ "(h, j)" "(g, k)"] gk(1) by auto
    with \<open>named j m\<close> gk that assms(1) show "idOf h \<noteq> idOf g" unfolding oneLive_def by blast
  qed
  then show "liveMap dead named out (withdraw idOf mark (idOf g) l) m = ((liveMap dead named out l)(n := None)) m"
    using assms(2) by (simp add: liveMap_def liveNamed_withdraw assms(3))
qed

section \<open>Looking up, creating and deleting\<close>

text \<open>
  A look-up that finds the live object of a name, a creation that adds one with a new identifier, and a deletion by
  identifier, which marks the object. \<open>kept st i\<close> says that AWS does not let the object \<open>i\<close> go.
\<close>

locale live_store =
  fixes look :: "('w, 'c) env \<Rightarrow> creds \<Rightarrow> string \<Rightarrow> ('w, 'c, 'g option) go"
    and make :: "('w, 'c) env \<Rightarrow> creds \<Rightarrow> 'x \<Rightarrow> ('w, 'c, 'a) go"
    and kill :: "('w, 'c) env \<Rightarrow> creds \<Rightarrow> 'g \<Rightarrow> ('w, 'c, unit) go"
    and nameOf :: "'x \<Rightarrow> string"
    and fits :: "('w, 'c) env \<Rightarrow> 'x \<Rightarrow> bool"
    and served :: "('w, 'c) env \<Rightarrow> creds \<Rightarrow> ('w \<Rightarrow> 'st) \<Rightarrow> bool"
    and stock :: "'st \<Rightarrow> ('g \<times> 'k) list"
    and room :: "'st \<Rightarrow> bool"
    and kept :: "'st \<Rightarrow> 'i \<Rightarrow> bool"
    and refused :: "go_error \<Rightarrow> bool"
    and idOf :: "'g \<Rightarrow> 'i" and dead :: "'g \<Rightarrow> bool" and mark :: "'g \<Rightarrow> 'g" and out :: "'g \<Rightarrow> 'a"
    and named :: "'k \<Rightarrow> string \<Rightarrow> bool"
  assumes look_law: "served E t st \<Longrightarrow> length (liveNamed dead named (stock (st (world s))) n) \<le> 1 \<Longrightarrow>
      \<exists>u. look E t n s = (Ok (case liveNamed dead named (stock (st (world s))) n of [] \<Rightarrow> None | g # _ \<Rightarrow> Some g), u) \<and>
        world u = world s"
    and make_law: "served E t st \<Longrightarrow> fits E x \<Longrightarrow> \<exists>r u. make E t x s = (r, u) \<and>
        (if room (st (world s))
         then \<exists>g k. r = Ok (out g) \<and> \<not> dead g \<and> idOf g \<notin> (idOf \<circ> fst) ` set (stock (st (world s))) \<and>
           (\<forall>m. named k m \<longleftrightarrow> m = nameOf x) \<and> stock (st (world u)) = stock (st (world s)) @ [(g, k)]
         else (\<exists>e. r = Err e) \<and> stock (st (world u)) = stock (st (world s)))"
    and kill_law: "served E t st \<Longrightarrow> g \<in> fst ` set (stock (st (world s))) \<Longrightarrow> \<not> dead g \<Longrightarrow>
      \<exists>r u. kill E t g s = (r, u) \<and>
        (if kept (st (world s)) (idOf g)
         then (\<exists>e. r = Err e \<and> refused e) \<and> stock (st (world u)) = stock (st (world s))
         else r = Ok () \<and> stock (st (world u)) = withdraw idOf mark (idOf g) (stock (st (world s))))"
    and mark_dead: "\<forall>g. dead (mark g)"
    and mark_id: "idOf (mark g) = idOf g"
begin

text \<open>The two clients as the code composes them, and the map they work on.\<close>

abbreviation "ensureLive E t x \<equiv>
  bindM (look E t (nameOf x)) (\<lambda>g. case g of Some g \<Rightarrow> retM (out g) | None \<Rightarrow> make E t x)"

abbreviation "dropLive E t n \<equiv>
  bindM (look E t n) (\<lambda>g. case g of None \<Rightarrow> retM () | Some g \<Rightarrow> kill E t g)"

abbreviation "wfLive st \<equiv> oneLive idOf dead named (stock st)"

abbreviation "mapLive st \<equiv> liveMap dead named out (stock st)"

abbreviation "heldLive st n \<equiv> list_ex (\<lambda>g. kept st (idOf g)) (liveNamed dead named (stock st) n)"

lemma ensureLive_law:
  assumes served: "served E t st" and wf: "wfLive (st (world s))" and fits: "fits E x"
  shows "\<exists>r u. ensureLive E t x s = (r, u) \<and> wfLive (st (world u)) \<and>
     storeSpec refused (Ensured (nameOf x) (room (st (world s))) r) (mapLive (st (world s))) = Some (mapLive (st (world u)))"
proof (cases "liveNamed dead named (stock (st (world s))) (nameOf x)")
  case Nil
  then obtain u where u: "look E t (nameOf x) s = (Ok None, u)" "world u = world s"
    using look_law [OF served, of s "nameOf x"] by auto
  have none: "mapLive (st (world s)) (nameOf x) = None" by (simp add: liveMap_def Nil)
  from make_law [OF served fits, of u] obtain r v where run: "make E t x u = (r, v)" and
    ans: "if room (st (world s))
         then \<exists>g k. r = Ok (out g) \<and> \<not> dead g \<and> idOf g \<notin> (idOf \<circ> fst) ` set (stock (st (world s))) \<and>
           (\<forall>m. named k m \<longleftrightarrow> m = nameOf x) \<and> stock (st (world v)) = stock (st (world s)) @ [(g, k)]
         else (\<exists>e. r = Err e) \<and> stock (st (world v)) = stock (st (world s))"
    unfolding u(2) by blast
  show ?thesis
  proof (cases "room (st (world s))")
    case True
    with ans obtain g k where g: "r = Ok (out g)" "\<not> dead g" "idOf g \<notin> (idOf \<circ> fst) ` set (stock (st (world s)))"
      "\<And>m. named k m \<longleftrightarrow> m = nameOf x" "stock (st (world v)) = stock (st (world s)) @ [(g, k)]" by auto
    have "wfLive (st (world v))" unfolding g(5) by (rule oneLive_append [OF wf g(3,4) Nil])
    moreover have "mapLive (st (world v)) = (mapLive (st (world s)))(nameOf x \<mapsto> out g)"
      using Nil g(2,4) by (auto simp: fun_eq_iff liveMap_def g(5) liveNamed_append split: list.splits)
    ultimately show ?thesis using True u run none g(1) by (simp add: bindM_def)
  next
    case False
    with ans wf u run none show ?thesis by (auto simp: bindM_def)
  qed
next
  case (Cons g gs)
  have "length (liveNamed dead named (stock (st (world s))) (nameOf x)) \<le> 1" using wf by (simp add: oneLive_def)
  from look_law [OF served this] Cons obtain u where "look E t (nameOf x) s = (Ok (Some g), u)" "world u = world s" by auto
  with Cons wf show ?thesis by (simp add: bindM_def liveMap_def)
qed

lemma dropLive_law:
  assumes served: "served E t st" and wf: "wfLive (st (world s))"
  shows "\<exists>r u. dropLive E t n s = (r, u) \<and> wfLive (st (world u)) \<and>
     storeSpec refused (Dropped n (heldLive (st (world s)) n) r) (mapLive (st (world s))) = Some (mapLive (st (world u)))"
proof -
  have len: "length (liveNamed dead named (stock (st (world s))) n) \<le> 1" using wf by (simp add: oneLive_def)
  show ?thesis
  proof (cases "liveNamed dead named (stock (st (world s))) n")
    case Nil
    then have "mapLive (st (world s)) n = None" by (simp add: liveMap_def)
    moreover from Nil obtain u where "look E t n s = (Ok None, u)" "world u = world s"
      using look_law [OF served, of s n] by auto
    ultimately show ?thesis using wf by (simp add: bindM_def fun_upd_idem)
  next
    case (Cons g gs)
    with len have one: "liveNamed dead named (stock (st (world s))) n = [g]" by simp
    then have some: "mapLive (st (world s)) n = Some (out g)" by (simp add: liveMap_def)
    obtain u where u: "look E t n s = (Ok (Some g), u)" "world u = world s"
      using look_law [OF served len] one by auto
    have "g \<in> fst ` set (stock (st (world u)))" "\<not> dead g"
      using one u(2) liveNamed_in [of g dead named "stock (st (world s))" n] by force+
    from kill_law [OF served this] obtain r v where run: "kill E t g u = (r, v)" and
      ans: "if kept (st (world s)) (idOf g) then (\<exists>e. r = Err e \<and> refused e) \<and> stock (st (world v)) = stock (st (world s))
        else r = Ok () \<and> stock (st (world v)) = withdraw idOf mark (idOf g) (stock (st (world s)))"
      unfolding u(2) by blast
    show ?thesis
    proof (cases "kept (st (world s)) (idOf g)")
      case True
      with ans wf u run some one show ?thesis by (auto simp: bindM_def)
    next
      case False
      with ans u run some one show ?thesis
        by (simp add: bindM_def liveMap_withdraw [OF wf one mark_dead] oneLive_withdraw [OF wf mark_dead mark_id])
    qed
  qed
qed

end

sublocale live_store \<subseteq> named_store ensureLive dropLive nameOf fits served wfLive mapLive room heldLive refused
  by unfold_locales (rule ensureLive_law, assumption+, rule dropLive_law)

section \<open>Transit gateways\<close>

record gatewayStore =
  gs_gateways :: "(TransitGateway \<times> gomap) list"
  gs_attached :: "string list"
  gs_quota :: nat

definition ownedBy :: "gomap \<Rightarrow> string \<Rightarrow> bool" where
  "ownedBy tags n \<longleftrightarrow> (clusterTag n, clusterTagValue) \<in> set tags"

definition gatewayRoom :: "gatewayStore \<Rightarrow> bool" where
  "gatewayRoom st \<longleftrightarrow> length (filter (\<lambda>(g, _). \<not> isTransitGatewayDeleted g) (gs_gateways st)) < gs_quota st"

abbreviation deletingGateway :: "TransitGateway \<Rightarrow> TransitGateway" where
  "deletingGateway g \<equiv> g\<lparr>tg_State := ''deleting''\<rparr>"

text \<open>
  The additional tags of a gateway: at most as many as fit beside the cluster tag, and no other cluster's tag among them.
\<close>

definition gatewayFits :: "string \<times> gomap \<Rightarrow> bool" where
  "gatewayFits x \<longleftrightarrow> distinct (map fst (snd x)) \<and> length (snd x) < 50 \<and>
     list_all (\<lambda>(k, v). hasPrefix k ''kubernetes.io/cluster/'' \<longrightarrow> k = clusterTag (fst x) \<and> v = clusterTagValue) (snd x)"

text \<open>
  Gateways are listed by a tag with its value, also those that are deleted. A creation with at most fifty tags adds one
  with a new id, as long as the quota is not reached. A deletion is refused while there are attachments, and otherwise
  puts the gateway into the state \<^verbatim>\<open>deleting\<close>.
\<close>

definition servesGateways :: "('w, 'c) env \<Rightarrow> creds \<Rightarrow> ('w \<Rightarrow> gatewayStore) \<Rightarrow> bool" where
  "servesGateways E t st \<longleftrightarrow>
     (\<forall>w k v. a_gateways (e_aws E) (ec2req t (EC2_DescribeTransitGateways (''tag:'' @ k) v)) w =
        (Inr (map fst (filter (\<lambda>(g, tags). (k, v) \<in> set tags) (gs_gateways (st w)))), w)) \<and>
     (\<forall>w d tags. distinct (map fst tags) \<longrightarrow> length tags \<le> 50 \<longrightarrow>
        (\<exists>res w'. a_id (e_aws E) (ec2req t (EC2_CreateTransitGateway d tags)) w = (res, w') \<and>
          (if gatewayRoom (st w)
           then \<exists>g. res = Inr (tg_TransitGatewayArn g) \<and> \<not> isTransitGatewayDeleted g \<and>
             tg_TransitGatewayId g \<notin> (tg_TransitGatewayId \<circ> fst) ` set (gs_gateways (st w)) \<and>
             gs_gateways (st w') = gs_gateways (st w) @ [(g, tags)]
           else (\<exists>e. res = Inl e) \<and> gs_gateways (st w') = gs_gateways (st w)))) \<and>
     (\<forall>w g. g \<in> fst ` set (gs_gateways (st w)) \<longrightarrow> \<not> isTransitGatewayDeleted g \<longrightarrow>
        (\<exists>res w'. a_done (e_aws E) (ec2req t (EC2_DeleteTransitGateway (tg_TransitGatewayId g))) w = (res, w') \<and>
          (if tg_TransitGatewayId g \<in> set (gs_attached (st w))
           then (\<exists>e. res = Inl e \<and> HasErrorCode e ErrIncorrectState) \<and> gs_gateways (st w') = gs_gateways (st w)
           else res = Inr () \<and>
             gs_gateways (st w') = withdraw tg_TransitGatewayId deletingGateway (tg_TransitGatewayId g) (gs_gateways (st w)))))"

lemma servesGateways_laws:
  assumes "servesGateways E t st"
  shows gateways_listed: "a_gateways (e_aws E) (ec2req t (EC2_DescribeTransitGateways (''tag:'' @ k) v)) w =
        (Inr (map fst (filter (\<lambda>(g, tags). (k, v) \<in> set tags) (gs_gateways (st w)))), w)"
    and gateway_created: "distinct (map fst tags) \<Longrightarrow> length tags \<le> 50 \<Longrightarrow>
        \<exists>res w'. a_id (e_aws E) (ec2req t (EC2_CreateTransitGateway d tags)) w = (res, w') \<and>
          (if gatewayRoom (st w)
           then \<exists>g. res = Inr (tg_TransitGatewayArn g) \<and> \<not> isTransitGatewayDeleted g \<and>
             tg_TransitGatewayId g \<notin> (tg_TransitGatewayId \<circ> fst) ` set (gs_gateways (st w)) \<and>
             gs_gateways (st w') = gs_gateways (st w) @ [(g, tags)]
           else (\<exists>e. res = Inl e) \<and> gs_gateways (st w') = gs_gateways (st w))"
    and gateway_deleted: "g \<in> fst ` set (gs_gateways (st w)) \<Longrightarrow> \<not> isTransitGatewayDeleted g \<Longrightarrow>
        \<exists>res w'. a_done (e_aws E) (ec2req t (EC2_DeleteTransitGateway (tg_TransitGatewayId g))) w = (res, w') \<and>
          (if tg_TransitGatewayId g \<in> set (gs_attached (st w))
           then (\<exists>e. res = Inl e \<and> HasErrorCode e ErrIncorrectState) \<and> gs_gateways (st w') = gs_gateways (st w)
           else res = Inr () \<and>
             gs_gateways (st w') = withdraw tg_TransitGatewayId deletingGateway (tg_TransitGatewayId g) (gs_gateways (st w)))"
  using assms unfolding servesGateways_def by blast+

lemma clusterTag_inject: "clusterTag n = clusterTag m \<longleftrightarrow> n = m"
  by (simp add: clusterTag_def)

text \<open>The tags of a new gateway name its cluster and no other.\<close>

lemma gatewayTags_owner:
  assumes "gatewayFits (name, tags)"
  shows "ownedBy (gatewayTags name tags) m \<longleftrightarrow> m = name"
    and "distinct (map fst (gatewayTags name tags))" "length (gatewayTags name tags) \<le> 50"
proof -
  have own: "m = name" if "(clusterTag m, clusterTagValue) \<in> set tags" for m
    using assms that by (force simp: gatewayFits_def list_all_iff clusterTag_def hasPrefix_def)
  have "(clusterTag name, clusterTagValue) \<in> set tags" if "ghas tags (clusterTag name)"
  proof -
    from that obtain v where v: "(clusterTag name, v) \<in> set tags" by (auto simp: ghas_def dest: map_of_SomeD)
    with assms have "v = clusterTagValue" by (force simp: gatewayFits_def list_all_iff clusterTag_def hasPrefix_def)
    with v show ?thesis by simp
  qed
  with own show "ownedBy (gatewayTags name tags) m \<longleftrightarrow> m = name"
    by (auto simp: ownedBy_def gatewayTags_def getEc2Tags_def clusterTag_inject)
  show "distinct (map fst (gatewayTags name tags))" "length (gatewayTags name tags) \<le> 50"
    using assms by (auto simp: gatewayFits_def gatewayTags_def getEc2Tags_def ghas_def map_of_eq_None_iff)
qed

lemma gateway_look:
  assumes "servesGateways E t st"
    and "length (liveNamed isTransitGatewayDeleted ownedBy (gs_gateways (st (world s))) n) \<le> 1"
  shows "\<exists>u. TransitGateways_get E t n s =
      (Ok (case liveNamed isTransitGatewayDeleted ownedBy (gs_gateways (st (world s))) n of [] \<Rightarrow> None | g # _ \<Rightarrow> Some g), u) \<and>
    world u = world s"
proof -
  let ?out = "map fst (filter (\<lambda>(g, tags). (clusterTag n, clusterTagValue) \<in> set tags) (gs_gateways (st (world s))))"
  have "filterDeletedTransitGateways ?out = liveNamed isTransitGatewayDeleted ownedBy (gs_gateways (st (world s))) n"
    by (simp add: filterDeletedTransitGateways_def liveNamed_def ownedBy_def)
  with assms(2) gateways_listed [OF assms(1), of "clusterTag n" clusterTagValue "world s"] show ?thesis
    by (auto simp: TransitGateways_get_def bindM_def call_def split: list.splits)
qed

lemma gateway_make:
  assumes "servesGateways E t st" "gatewayFits x"
  shows "\<exists>r u. TransitGateways_create E t (fst x) (snd x) s = (r, u) \<and>
    (if gatewayRoom (st (world s))
     then \<exists>g k. r = Ok (tg_TransitGatewayArn g) \<and> \<not> isTransitGatewayDeleted g \<and>
       tg_TransitGatewayId g \<notin> (tg_TransitGatewayId \<circ> fst) ` set (gs_gateways (st (world s))) \<and>
       (\<forall>m. ownedBy k m \<longleftrightarrow> m = fst x) \<and> gs_gateways (st (world u)) = gs_gateways (st (world s)) @ [(g, k)]
     else (\<exists>e. r = Err e) \<and> gs_gateways (st (world u)) = gs_gateways (st (world s)))"
proof -
  note tags = gatewayTags_owner [of "fst x" "snd x"]
  have "gatewayFits (fst x, snd x)" using assms(2) by simp
  note tags = tags [OF this]
  obtain res w where "a_id (e_aws E) (ec2req t (EC2_CreateTransitGateway (''Transit Gateway for cluster '' @ fst x)
      (gatewayTags (fst x) (snd x)))) (world s) = (res, w)"
    and "if gatewayRoom (st (world s))
         then \<exists>g. res = Inr (tg_TransitGatewayArn g) \<and> \<not> isTransitGatewayDeleted g \<and>
           tg_TransitGatewayId g \<notin> (tg_TransitGatewayId \<circ> fst) ` set (gs_gateways (st (world s))) \<and>
           gs_gateways (st w) = gs_gateways (st (world s)) @ [(g, gatewayTags (fst x) (snd x))]
         else (\<exists>e. res = Inl e) \<and> gs_gateways (st w) = gs_gateways (st (world s))"
    using gateway_created [OF assms(1) tags(2,3)] by blast
  with tags(1) show ?thesis by (cases "gatewayRoom (st (world s))") (auto simp: TransitGateways_create_def call_def)
qed

lemma gateway_kill:
  assumes "servesGateways E t st" "g \<in> fst ` set (gs_gateways (st (world s)))" "\<not> isTransitGatewayDeleted g"
  shows "\<exists>r u. TransitGateways_delete E t g s = (r, u) \<and>
    (if tg_TransitGatewayId g \<in> set (gs_attached (st (world s)))
     then (\<exists>e. r = Err e \<and> e = transitGatewayNotDetached) \<and> gs_gateways (st (world u)) = gs_gateways (st (world s))
     else r = Ok () \<and> gs_gateways (st (world u)) =
       withdraw tg_TransitGatewayId deletingGateway (tg_TransitGatewayId g) (gs_gateways (st (world s))))"
  using gateway_deleted [OF assms]
  by (auto simp: TransitGateways_delete_def replaceCode_def wrapM_def call_def split: if_splits)

interpretation liveGateways: live_store TransitGateways_get "\<lambda>E t x. TransitGateways_create E t (fst x) (snd x)"
    TransitGateways_delete fst "\<lambda>_. gatewayFits" servesGateways gs_gateways gatewayRoom
    "\<lambda>st i. i \<in> set (gs_attached st)" "\<lambda>e. e = transitGatewayNotDetached" tg_TransitGatewayId isTransitGatewayDeleted
    deletingGateway tg_TransitGatewayArn ownedBy
  by unfold_locales (erule (1) gateway_look, erule (1) gateway_make, erule (2) gateway_kill,
      simp_all add: isTransitGatewayDeleted_def)

text \<open>The map from clusters to the ARNs of their gateways, and the gateways in use.\<close>

definition gatewayMap :: "gatewayStore \<Rightarrow> string \<rightharpoonup> string" where
  "gatewayMap st = liveMap isTransitGatewayDeleted ownedBy tg_TransitGatewayArn (gs_gateways st)"

definition gatewayHeld :: "gatewayStore \<Rightarrow> string \<Rightarrow> bool" where
  "gatewayHeld st n \<longleftrightarrow> list_ex (\<lambda>g. tg_TransitGatewayId g \<in> set (gs_attached st))
     (liveNamed isTransitGatewayDeleted ownedBy (gs_gateways st) n)"

definition gatewaysWf :: "gatewayStore \<Rightarrow> bool" where
  "gatewaysWf st = oneLive tg_TransitGatewayId isTransitGatewayDeleted ownedBy (gs_gateways st)"

definition gatewaysQuiet :: "('w \<Rightarrow> gatewayStore) \<Rightarrow> 'w \<Rightarrow> 'w \<Rightarrow> bool" where
  "gatewaysQuiet st = (\<lambda>w w'. gatewaysWf (st w) \<longrightarrow> gatewaysWf (st w') \<and> gatewayMap (st w') = gatewayMap (st w))"

interpretation gatewayClient: named_store "\<lambda>E t x. TransitGateways_Apply E t (fst x) (snd x)" TransitGateways_Delete fst
    "\<lambda>_. gatewayFits" servesGateways gatewaysWf gatewayMap gatewayRoom gatewayHeld "\<lambda>e. e = transitGatewayNotDetached"
  by unfold_locales (unfold TransitGateways_Apply_def TransitGateways_Delete_def gatewayMap_def gatewayHeld_def gatewaysWf_def,
      erule (2) liveGateways.ensureLive_law, erule (1) liveGateways.dropLive_law)


subsection \<open>Example\<close>

text \<open>
  A world that is the store itself, with a new id longer than all others. The gateway of a cluster is created, its deletion
  is refused while it is attached and succeeds later, and the next application makes another gateway although the first
  is still listed.
\<close>

definition newGateway :: "gatewayStore \<Rightarrow> TransitGateway" where
  "newGateway st = (let i = ''tgw-'' @ concat (map (tg_TransitGatewayId \<circ> fst) (gs_gateways st))
     in \<lparr>tg_TransitGatewayId = i, tg_TransitGatewayArn = ''arn:'' @ i, tg_State = ''pending''\<rparr>)"

definition gatewayDone :: "(gatewayStore, unit) answer" where
  "gatewayDone q w = (case q of
      AWSReq _ (EC2Op (EC2_DeleteTransitGateway i)) \<Rightarrow>
        if i \<in> set (gs_attached w) then (Inl (GenericAPIError ErrIncorrectState ''attached''), w)
        else (Inr (), w\<lparr>gs_gateways := withdraw tg_TransitGatewayId deletingGateway i (gs_gateways w)\<rparr>)
    | _ \<Rightarrow> (Inr (), w))"

definition quotaEnv :: "(gatewayStore, (string \<times> cval) list) env" where
  "quotaEnv = demoEnv\<lparr>e_aws := demoAWS\<lparr>
     a_gateways := (\<lambda>q w. case q of
        AWSReq _ (EC2Op (EC2_DescribeTransitGateways k v)) \<Rightarrow>
          (Inr (map fst (filter (\<lambda>(g, tags). (List.drop 4 k, v) \<in> set tags) (gs_gateways w))), w)
      | _ \<Rightarrow> (Inr [], w)),
     a_id := (\<lambda>q w. case q of
        AWSReq _ (EC2Op (EC2_CreateTransitGateway d tags)) \<Rightarrow>
          if gatewayRoom w then (Inr (tg_TransitGatewayArn (newGateway w)), w\<lparr>gs_gateways := gs_gateways w @ [(newGateway w, tags)]\<rparr>)
          else (Inl (ErrorString ''quota''), w)
      | _ \<Rightarrow> (Inr '''', w)),
     a_done := gatewayDone\<rparr>\<rparr>"

lemma newGateway_fresh: "tg_TransitGatewayId (newGateway st) \<notin> (tg_TransitGatewayId \<circ> fst) ` set (gs_gateways st)"
proof
  assume "tg_TransitGatewayId (newGateway st) \<in> (tg_TransitGatewayId \<circ> fst) ` set (gs_gateways st)"
  then have "length (tg_TransitGatewayId (newGateway st)) \<le> length (concat (map (tg_TransitGatewayId \<circ> fst) (gs_gateways st)))"
    by (auto simp: length_concat image_iff intro!: member_le_sum_list) (metis fst_conv)
  then show False by (simp add: newGateway_def Let_def)
qed

lemma quotaEnv_serves: "servesGateways quotaEnv t (\<lambda>w. w)"
proof -
  have "\<not> isTransitGatewayDeleted (newGateway st)" for st
    by (simp add: isTransitGatewayDeleted_def newGateway_def Let_def)
  with newGateway_fresh show ?thesis
    unfolding servesGateways_def
    by (auto simp: quotaEnv_def gatewayDone_def HasErrorCode_def split: if_splits)
qed

definition gatewaySys :: "gatewayStore \<Rightarrow> (gatewayStore, (string \<times> cval) list) sys" where
  "gatewaySys st = \<lparr>world = st, trace = [], caches = (\<lambda>_. []), nextRef = 10, configCache = [],
     m_AWSCluster = demoAWSCluster, m_ControlPlane = demoControlPlane, m_Cluster = demoCluster,
     m_KMP = demoKMP, m_MachinePool = demoMachinePool\<rparr>"

definition attachedTo :: "string list \<Rightarrow> (gatewayStore, 'c) sys \<Rightarrow> (gatewayStore, 'c) sys" where
  "attachedTo is s = s\<lparr>world := (world s)\<lparr>gs_attached := is\<rparr>\<rparr>"

abbreviation "applyWc \<equiv> TransitGateways_Apply quotaEnv demoCreds ''wc'' []"
abbreviation "deleteWc \<equiv> TransitGateways_Delete quotaEnv demoCreds ''wc''"

definition gw0 :: "(gatewayStore, (string \<times> cval) list) sys" where
  "gw0 = gatewaySys \<lparr>gs_gateways = [], gs_attached = [], gs_quota = 5\<rparr>"

definition gw1 :: "(gatewayStore, (string \<times> cval) list) sys" where "gw1 = snd (applyWc gw0)"
definition gw2 :: "(gatewayStore, (string \<times> cval) list) sys" where "gw2 = snd (deleteWc (attachedTo [''tgw-''] gw1))"
definition gw3 :: "(gatewayStore, (string \<times> cval) list) sys" where "gw3 = snd (deleteWc (attachedTo [] gw2))"
definition gw4 :: "(gatewayStore, (string \<times> cval) list) sys" where "gw4 = snd (applyWc gw3)"

definition gatewayHistory :: "string storeEvent list" where
  "gatewayHistory = [Ensured ''wc'' True (Ok ''arn:tgw-''), Dropped ''wc'' True (Err transitGatewayNotDetached),
     Dropped ''wc'' False (Ok ()), Ensured ''wc'' True (Ok ''arn:tgw-tgw-'')]"

lemma gateway_answers:
  "fst (applyWc gw0) = Ok ''arn:tgw-''" "fst (deleteWc (attachedTo [''tgw-''] gw1)) = Err transitGatewayNotDetached"
  "fst (deleteWc (attachedTo [] gw2)) = Ok ()" "fst (applyWc gw3) = Ok ''arn:tgw-tgw-''"
  "gatewayRoom (world gw0)" "gatewayHeld (world (attachedTo [''tgw-''] gw1)) ''wc''"
  "\<not> gatewayHeld (world (attachedTo [] gw2)) ''wc''" "gatewayRoom (world gw3)" "length (gs_gateways (world gw4)) = 2"
  by code_simp+

lemma gatewaysQuiet_attached: "gatewaysQuiet (\<lambda>w. w) (world s) (world (attachedTo is s))"
  by (simp add: gatewaysQuiet_def gatewaysWf_def gatewayMap_def attachedTo_def)

lemma gateway_history:
  "storeRun (\<lambda>x. TransitGateways_Apply quotaEnv demoCreds (fst x) (snd x)) (TransitGateways_Delete quotaEnv demoCreds) fst
     gatewayFits (gatewayRoom \<circ> (\<lambda>w. w)) (gatewayHeld \<circ> (\<lambda>w. w)) (gatewaysQuiet (\<lambda>w. w)) gw0 gatewayHistory gw4"
    (is "?run gatewayHistory gw4")
proof -
  have fits: "gatewayFits (''wc'', [])" by (simp add: gatewayFits_def)
  have apply_step: "?run (es @ [Ensured ''wc'' (gatewayRoom (world s)) (fst (applyWc s))]) (snd (applyWc s))" if "?run es s" for es s
    using storeRun.ensured [OF that, of "(''wc'', [])" "fst (applyWc s)" "snd (applyWc s)"] fits by simp
  have delete_step: "?run (es @ [Dropped ''wc'' (gatewayHeld (world s) ''wc'') (fst (deleteWc s))]) (snd (deleteWc s))"
    if "?run es s" for es s
    using storeRun.dropped [OF that, of "''wc''" "fst (deleteWc s)" "snd (deleteWc s)"] by simp
  have 1: "?run [Ensured ''wc'' True (Ok ''arn:tgw-'')] gw1"
    using apply_step [OF storeRun.started] gateway_answers(1,5) unfolding gw1_def by simp
  have 2: "?run (take 2 gatewayHistory) gw2"
    using delete_step [OF storeRun.elsewhere [OF 1 gatewaysQuiet_attached [of _ "[''tgw-'']"]]] gateway_answers(2,6)
    unfolding gw2_def by (simp add: gatewayHistory_def)
  have 3: "?run (take 3 gatewayHistory) gw3"
    using delete_step [OF storeRun.elsewhere [OF 2 gatewaysQuiet_attached [of _ "[]"]]] gateway_answers(3,7)
    unfolding gw3_def by (simp add: gatewayHistory_def)
  show ?thesis
    using apply_step [OF 3] gateway_answers(4,8) unfolding gw4_def by (simp add: gatewayHistory_def comp_def)
qed


text \<open>
  The condition on the tags is needed: the client keeps a cluster tag that is among the additional tags, with any value,
  but looks for the value \<^verbatim>\<open>owned\<close>. Then it does not find the gateway it made, and makes another one each time.
\<close>

definition sharedTags :: gomap where
  "sharedTags = [(clusterTag ''wc'', ''shared'')]"

lemma shared_tag_makes_gateways:
  "\<not> gatewayFits (''wc'', sharedTags)"
  "let t = snd (TransitGateways_Apply quotaEnv demoCreds ''wc'' sharedTags gw0) in
     fst (TransitGateways_Apply quotaEnv demoCreds ''wc'' sharedTags gw0) = Ok ''arn:tgw-'' \<and>
     fst (TransitGateways_Apply quotaEnv demoCreds ''wc'' sharedTags t) = Ok ''arn:tgw-tgw-''"
  by code_simp+

section \<open>Resource shares\<close>

record shareStore =
  sh_shares :: "(RAMResourceShare \<times> string) list"
  sh_quota :: nat

definition shareRoom :: "shareStore \<Rightarrow> bool" where
  "shareRoom st \<longleftrightarrow> length (filter (\<lambda>(h, _). \<not> isResourceShareDeleted h) (sh_shares st)) < sh_quota st"

abbreviation deletingShare :: "RAMResourceShare \<Rightarrow> RAMResourceShare" where
  "deletingShare h \<equiv> h\<lparr>ram_Status := ''DELETING''\<rparr>"

text \<open>A share that is needed: its first resource is one of another account.\<close>

definition shareFits :: "('w, 'c) env \<Rightarrow> ResourceShare \<Rightarrow> bool" where
  "shareFits E share \<longleftrightarrow> (case rs_ResourceArns share of
      [] \<Rightarrow> False
    | a # _ \<Rightarrow> (case l_arnParse (e_lib E) a of Inl _ \<Rightarrow> False | Inr arn \<Rightarrow> arn_AccountID arn \<noteq> rs_ExternalAccountID share))"

definition servesShares :: "('w, 'c) env \<Rightarrow> creds \<Rightarrow> ('w \<Rightarrow> shareStore) \<Rightarrow> bool" where
  "servesShares E c st \<longleftrightarrow>
     (\<forall>w n. a_shares (e_aws E) (ramreq c (RAM_GetResourceShares n)) w =
        (Inr (map fst (filter (\<lambda>(h, k). k = n) (sh_shares (st w)))), w)) \<and>
     (\<forall>w n a arns. \<exists>res w'. a_done (e_aws E) (ramreq c (RAM_CreateResourceShare n a arns)) w = (res, w') \<and>
        (if shareRoom (st w)
         then \<exists>h. res = Inr () \<and> \<not> isResourceShareDeleted h \<and>
           ram_ResourceShareArn h \<notin> (ram_ResourceShareArn \<circ> fst) ` set (sh_shares (st w)) \<and>
           sh_shares (st w') = sh_shares (st w) @ [(h, n)]
         else (\<exists>e. res = Inl e) \<and> sh_shares (st w') = sh_shares (st w))) \<and>
     (\<forall>w h. h \<in> fst ` set (sh_shares (st w)) \<longrightarrow> \<not> isResourceShareDeleted h \<longrightarrow>
        (\<exists>w'. a_done (e_aws E) (ramreq c (RAM_DeleteResourceShare (ram_ResourceShareArn h))) w = (Inr (), w') \<and>
          sh_shares (st w') = withdraw ram_ResourceShareArn deletingShare (ram_ResourceShareArn h) (sh_shares (st w))))"

definition createShare :: "('w, 'c) env \<Rightarrow> creds \<Rightarrow> ResourceShare \<Rightarrow> ('w, 'c, unit) go" where
  "createShare E c share = call (a_done (e_aws E)) (ramreq c
     (RAM_CreateResourceShare (rs_Name share) (rs_ExternalAccountID share) (rs_ResourceArns share)))"

definition deleteShare :: "('w, 'c) env \<Rightarrow> creds \<Rightarrow> RAMResourceShare \<Rightarrow> ('w, 'c, unit) go" where
  "deleteShare E c share = call (a_done (e_aws E)) (ramreq c (RAM_DeleteResourceShare (ram_ResourceShareArn share)))"

lemma ApplyResourceShare_fits:
  "shareFits E share \<Longrightarrow> ApplyResourceShare E c share =
     bindM (getResourceShare E c (rs_Name share)) (\<lambda>h. case h of Some _ \<Rightarrow> retM () | None \<Rightarrow> createShare E c share)"
  unfolding createShare_def
  by (auto simp: shareFits_def ApplyResourceShare_def liftE_def bindM_def retM_def fun_eq_iff
      split: list.splits sum.splits prod.splits outcome.splits option.splits)

lemma DeleteResourceShare_live:
  "DeleteResourceShare E c n = bindM (getResourceShare E c n) (\<lambda>h. case h of None \<Rightarrow> retM () | Some h \<Rightarrow> deleteShare E c h)"
  unfolding DeleteResourceShare_def deleteShare_def ..

lemma share_look:
  assumes "servesShares E c st" and "length (liveNamed isResourceShareDeleted (=) (sh_shares (st (world s))) n) \<le> 1"
  shows "\<exists>u. getResourceShare E c n s =
      (Ok (case liveNamed isResourceShareDeleted (=) (sh_shares (st (world s))) n of [] \<Rightarrow> None | g # _ \<Rightarrow> Some g), u) \<and>
    world u = world s"
proof -
  let ?out = "map fst (filter (\<lambda>(h, k). k = n) (sh_shares (st (world s))))"
  have "filterDeletedResourceShares ?out = liveNamed isResourceShareDeleted (=) (sh_shares (st (world s))) n"
    by (simp add: filterDeletedResourceShares_def liveNamed_def)
  moreover have "a_shares (e_aws E) (ramreq c (RAM_GetResourceShares n)) (world s) = (Inr ?out, world s)"
    using assms(1) by (simp add: servesShares_def)
  ultimately show ?thesis
    using assms(2) by (auto simp: getResourceShare_def bindM_def call_def split: list.splits)
qed

lemma share_make:
  assumes "servesShares E c st"
  shows "\<exists>r u. createShare E c x s = (r, u) \<and>
    (if shareRoom (st (world s))
     then \<exists>h k. r = Ok () \<and> \<not> isResourceShareDeleted h \<and>
       ram_ResourceShareArn h \<notin> (ram_ResourceShareArn \<circ> fst) ` set (sh_shares (st (world s))) \<and>
       (\<forall>m. k = m \<longleftrightarrow> m = rs_Name x) \<and> sh_shares (st (world u)) = sh_shares (st (world s)) @ [(h, k)]
     else (\<exists>e. r = Err e) \<and> sh_shares (st (world u)) = sh_shares (st (world s)))"
proof -
  obtain res w where "a_done (e_aws E) (ramreq c
      (RAM_CreateResourceShare (rs_Name x) (rs_ExternalAccountID x) (rs_ResourceArns x))) (world s) = (res, w)"
    and "if shareRoom (st (world s))
         then \<exists>h. res = Inr () \<and> \<not> isResourceShareDeleted h \<and>
           ram_ResourceShareArn h \<notin> (ram_ResourceShareArn \<circ> fst) ` set (sh_shares (st (world s))) \<and>
           sh_shares (st w) = sh_shares (st (world s)) @ [(h, rs_Name x)]
         else (\<exists>e. res = Inl e) \<and> sh_shares (st w) = sh_shares (st (world s))"
    using assms unfolding servesShares_def by blast
  then show ?thesis by (cases "shareRoom (st (world s))") (auto simp: createShare_def call_def)
qed

lemma share_kill:
  assumes "servesShares E c st" "h \<in> fst ` set (sh_shares (st (world s)))" "\<not> isResourceShareDeleted h"
  shows "\<exists>r u. deleteShare E c h s = (r, u) \<and>
    (if False then (\<exists>e. r = Err e \<and> False) \<and> sh_shares (st (world u)) = sh_shares (st (world s))
     else r = Ok () \<and> sh_shares (st (world u)) =
       withdraw ram_ResourceShareArn deletingShare (ram_ResourceShareArn h) (sh_shares (st (world s))))"
proof -
  obtain w where "a_done (e_aws E) (ramreq c (RAM_DeleteResourceShare (ram_ResourceShareArn h))) (world s) = (Inr (), w)"
    "sh_shares (st w) = withdraw ram_ResourceShareArn deletingShare (ram_ResourceShareArn h) (sh_shares (st (world s)))"
    using assms unfolding servesShares_def by blast
  then show ?thesis by (simp add: deleteShare_def call_def)
qed

interpretation liveShares: live_store getResourceShare createShare deleteShare rs_Name shareFits servesShares sh_shares
    shareRoom "\<lambda>_ _. False" "\<lambda>_. False" ram_ResourceShareArn isResourceShareDeleted deletingShare "\<lambda>_. ()" "(=)"
  by unfold_locales (erule (1) share_look, erule share_make, erule (2) share_kill, simp_all add: isResourceShareDeleted_def)

definition shareMap :: "shareStore \<Rightarrow> string \<rightharpoonup> unit" where
  "shareMap st = liveMap isResourceShareDeleted (=) (\<lambda>_. ()) (sh_shares st)"

definition sharesWf :: "shareStore \<Rightarrow> bool" where
  "sharesWf st = oneLive ram_ResourceShareArn isResourceShareDeleted (=) (sh_shares st)"

interpretation shareClient: named_store ApplyResourceShare DeleteResourceShare rs_Name shareFits servesShares sharesWf shareMap
    shareRoom "\<lambda>_ _. False" "\<lambda>_. False"
proof
  fix E :: "('a, 'b) env" and c :: creds and st :: "'a \<Rightarrow> shareStore" and s :: "('a, 'b) sys" and x :: ResourceShare and n :: string
  assume served: "servesShares E c st" and "sharesWf (st (world s))"
  then have wf: "oneLive ram_ResourceShareArn isResourceShareDeleted (=) (sh_shares (st (world s)))" by (simp add: sharesWf_def)
  show "\<exists>r u. ApplyResourceShare E c x s = (r, u) \<and> sharesWf (st (world u)) \<and>
      storeSpec (\<lambda>_. False) (Ensured (rs_Name x) (shareRoom (st (world s))) r) (shareMap (st (world s))) = Some (shareMap (st (world u)))"
    if "shareFits E x"
    using liveShares.ensureLive_law [OF served wf that] that by (simp add: ApplyResourceShare_fits sharesWf_def shareMap_def)
  have held: "list_ex (\<lambda>_. False) l = False" for l :: "RAMResourceShare list" by (induction l) simp_all
  show "\<exists>r u. DeleteResourceShare E c n s = (r, u) \<and> sharesWf (st (world u)) \<and>
      storeSpec (\<lambda>_. False) (Dropped n False r) (shareMap (st (world s))) = Some (shareMap (st (world u)))"
    using liveShares.dropLive_law [OF served wf, of n] unfolding held DeleteResourceShare_live sharesWf_def shareMap_def .
qed

text \<open>
  The resource shares refine a map in the same way: there is never more than one share of a name that is not being deleted,
  an application makes one exactly when there is none and the quota allows it, and a deletion always succeeds.
\<close>

lemma shares_refine_map:
  assumes "storeRun (ApplyResourceShare E c) (DeleteResourceShare E c) rs_Name (shareFits E) (shareRoom \<circ> st) (\<lambda>_ _. False)
      (\<lambda>w w'. sharesWf (st w) \<longrightarrow> sharesWf (st w') \<and> shareMap (st w') = shareMap (st w)) init es s"
    and "servesShares E c st" "sharesWf (st (world init))"
  shows "sharesWf (st (world s)) \<and> replay (\<lambda>_. False) es (shareMap (st (world init))) = Some (shareMap (st (world s)))"
  using shareClient.run_refines [of E c st init es s] assms by (simp add: comp_def)

end
