(* ===== verification/Spec2Isabelle.thy ===== *)
theory Spec2Isabelle
  imports Operator_Requests Karpenter_Examples Karpenter_Liveness Karpenter_Duration Dns_Zone_Store Prefix_List_Store Network_Store
begin

text \<open>
  \<^bold>\<open>aws-resolver-rules-operator\<close>: a Kubernetes operator for clusters on AWS. It makes the hosted zone and
  the DNS records of a cluster, the network between clusters (transit gateways, prefix lists, routes,
  resource shares), the Route 53 resolver rules, the Karpenter resources of node pools, and the
  configuration of Crossplane. Its code is a set of controllers (\<^verbatim>\<open>controllers/\<close>), which read
  Kubernetes objects and call the resolver package (\<^verbatim>\<open>pkg/resolver\<close>) and the AWS clients
  (\<^verbatim>\<open>pkg/aws\<close>); \<^verbatim>\<open>pkg/k8sclient\<close> has the patches of the objects, and \<^verbatim>\<open>main.go\<close> makes one program of them.
  The development models all of them.

  \<^bold>\<open>How the code is modelled.\<close> Effectful code is a state monad with errors and panics (\<open>Prelude\<close>): an
  \<^verbatim>\<open>err\<close> that is returned is \<open>Err\<close>, a nil dereference or a write into a nil map is \<open>Halt GoPanic\<close>, a
  deferred call is \<open>deferM\<close>. The state \<open>sys\<close> (\<open>World\<close>) has the outside world, the trace of all requests with
  their errors, the go-cache objects by reference, the process-wide configuration cache, and one cell for each
  Kubernetes object that a reconciliation holds by pointer. What is outside the repository is a parameter, the
  record \<open>env\<close>: the answers of AWS, of the management cluster and of the workload cluster (arbitrary functions
  of the request and the outside state, so that the theorems hold for every answer and every failure), go-cache
  (\<open>gocache_laws\<close>), the SDK's configuration loader (\<open>loader_laws\<close>), and the helpers and constants of
  other packages (\<open>finalizer_laws\<close> and others). Of Go's own library the development models what is used:
  strings and quoting (\<open>Go_Strings\<close>), IP addresses and networks on bytes (\<open>Go_Net\<close>), paths, JSON and SHA-256
  (\<open>Go_Data\<close>), durations (\<open>Go_Time\<close>). Go maps are association lists whose order stands for the unspecified order of iteration.

  \<^bold>\<open>Theories and sources.\<close>
  \<^item> \<open>Resolver_Types\<close>, \<open>AWS_Types\<close>, \<open>K8s_Types\<close>, \<open>Karpenter_API\<close>: the data (\<^verbatim>\<open>pkg/resolver\<close>,
    \<^verbatim>\<open>api/v1alpha1\<close>) and the requests, one constructor for each kind.
  \<^item> \<open>Route53_Client\<close> (\<^verbatim>\<open>pkg/aws/route53.go\<close>): zones and records with three caches. Upserts are idempotent,
    a deletion invalidates what the caches say, look-ups are right, delegations of others are kept.
  \<^item> \<open>AWS_Clients\<close> (\<^verbatim>\<open>pkg/aws/clients.go\<close>): the constructors of clients; each talks to AWS with exactly the
    region and the role it was asked for (locale \<open>client_factory\<close>, interpreted for every constructor).
  \<^item> \<open>Zoner\<close> (\<^verbatim>\<open>pkg/resolver/zoner.go\<close>): which zone, which records, in which order, with whose role.
  \<^item> \<open>EC2_Client\<close>, \<open>Network_Clients\<close> (\<^verbatim>\<open>pkg/aws/{ec2,s3,prefixlist,transitgateway,routetable,ram,arn}.go\<close>):
    locale \<open>ensured\<close> for look up, then change only what is missing or present.
  \<^item> \<open>Resolver_Client\<close>, \<open>Resolver_Rules\<close> (\<^verbatim>\<open>pkg/aws/resolverclient.go\<close>, \<^verbatim>\<open>pkg/resolver/{rule,resolver}.go\<close>,
    \<^verbatim>\<open>controllers/{resolver_rules,unpause}.go\<close>): paging, exact association, membership of addresses in networks.
  \<^item> \<open>K8s_Client\<close>, \<open>Controllers_Common\<close> (\<^verbatim>\<open>pkg/k8sclient\<close>, \<^verbatim>\<open>controllers/package.go\<close>, \<^verbatim>\<open>pkg/util/annotations\<close>,
    \<^verbatim>\<open>pkg/conditions\<close>): reads, patches, finalizers; locale \<open>finalizer_protocol\<close>, interpreted for every
    controller that cleans up in AWS.
  \<^item> \<open>Dns_Controller\<close> (\<^verbatim>\<open>controllers/{dns,eks_dns}.go\<close>) and \<open>Network_Controllers\<close> (management cluster network,
    attachments, prefix list entries, routes, shares): finalizers are added before AWS is touched and removed after
    the clean-up; shares outlive their use; paused clusters are only read.
  \<^item> \<open>Karpenter_Conversions\<close>, \<open>Karpenter_Controller\<close>, \<open>Karpenter_Properties\<close>
    (\<^verbatim>\<open>controllers/karpentermachinepool_controller.go\<close>, \<^verbatim>\<open>pkg/versionskew\<close>): the conversions lose nothing they
    should keep; the finalizer goes only when no instance is left; instances are terminated only with their cluster;
    resources need an allowed version and the finalizer; ready means that nothing failed. The proofs use
    relations between the states before and after a run (locale \<open>run_relation\<close>), with rules that follow the
    program text. \<open>Karpenter_Examples\<close> has the concrete runs.
  \<^item> \<open>Crossplane_Config\<close> (\<^verbatim>\<open>controllers/crossplane_config.go\<close>): the config map, the provider config, the trust domains.
  \<^item> \<open>Karpenter_Liveness\<close>: the deletion of a pool comes to an end; the number of its reconciliations is bounded by the
    number of instances, whatever the workload cluster answers (step relation \<open>requeued\<close>).
  \<^item> \<open>Karpenter_Duration\<close> (\<^verbatim>\<open>api/v1alpha1/duration.go\<close>): durations in JSON, on \<open>Go_Time\<close>, which models Go's
    \<^verbatim>\<open>time.ParseDuration\<close> and \<^verbatim>\<open>Duration.String\<close> with the overflow of 64-bit integers and the rounding of floats; what is
    written is read back.
  \<^item> \<open>Dns_Records\<close>: the record sets sent to Route 53 are well formed and in the zone of the cluster.
  \<^item> \<open>Dns_Zone_Store\<close>: the hosted zone as a map from names and types to record sets, what one reconciliation makes of
    it, and that this is refined over any sequence of reconciliations and outside changes; the invariant says what the cache
    of upserts may remember. \<open>remembered_upsert_hides_change\<close> is a run in which a record changes back too early and
    stays wrong.
  \<^item> \<open>Prefix_List_Store\<close>: a specification of a prefix list as a map with owners, and that the client refines it.
  \<^item> \<open>Network_Store\<close>: transit gateways and resource shares as maps from names, refined over histories of operations
    and their answers, with deleted objects still listed, gateways in use and quotas. The locale \<open>live_store\<close> has what
    the look-up, the creation and the deletion do, \<open>named_store\<close> follows from it (sublocale) and carries the proof.
  \<^item> \<open>Operator\<close> (\<^verbatim>\<open>main.go\<close> and the constructors and \<^verbatim>\<open>SetupWithManager\<close> of the controllers): which controllers run,
    made of which flags; \<open>running\<close> is the program as a state machine, whose steps are reconciliations of any controller
    for any object, changes outside, and restarts with empty caches.
  \<^item> \<open>Operator_Roles\<close>, \<open>Operator_Requests\<close>: the invariant of the process (its caches hold what was made for their
    keys), kept by every operation and every controller. The theorem at the end of this theory rests on it: the
    credentials of all requests of all runs.
  \<^item> \<open>Scenario\<close>: a concrete environment that satisfies the laws; the witnesses run on it.

  \<^bold>\<open>Loops.\<close> Loops over data are structural recursion. Loops over the pages of a service end when the
  service says so; they have the fuel \<open>e_fuel\<close>, and \<open>instances_all_pages\<close> and \<open>resolver_listing_complete\<close>
  show that fuel for the pages there are is enough and that then everything is returned. The parser of durations
  recurs on the rest of its input.

  \<^bold>\<open>Not modelled.\<close> Of \<^verbatim>\<open>main.go\<close>, the flags that are only passed on to the manager, its scheme and its options;
  \<^verbatim>\<open>pkg/aws/metrics.go\<close>, which sets up the exporter of the metrics library; logging, which has no effect the code reads;
  \<^verbatim>\<open>GetOwner\<close> of the \<^verbatim>\<open>AWSCluster\<close> client, which nothing calls; \<^verbatim>\<open>zz_generated.deepcopy.go\<close>, which is generated (a
  copy is a value in the model); the fakes, which are test doubles. Controllers run concurrently in the program; in the
  model a reconciliation is one step, within which the outside world may change arbitrarily between two requests, and the
  steps of different controllers interleave in any order.
\<close>

section \<open>The roles of the whole program\<close>

text \<open>C1: the roles of the whole program. However long it runs, in whatever order its controllers are called, with any
  changes outside in between and over restarts: each request to AWS is made with the role of an \<^verbatim>\<open>AWSClusterRoleIdentity\<close>
  of the management cluster or with the program's own credentials, and a role that is assumed on top of it is the one
  the flags name for the DNS server. This rests on the caches of clients and configurations never giving a client that
  was made for another role.\<close>

theorem requests_use_known_roles:
  assumes "running E M fl init cs s" and "trace init = []" and "\<not> validRole (ac_Region (m_AWSCluster init))"
    and "loader_laws E" "gocache_laws (e_cache E)" "rolesOf E R"
  shows "list_all (roleEvent \<lparr>rp_roles = insert '''' R, rp_chained = {fl_dnsServerIAMRoleArn fl}\<rparr>) (trace s)"
proof -
  have "roleWorld E R (operatorPolicy fl R)" using assms(4-6) by (auto simp: roleWorld_def operatorPolicy_def)
  from runInv_running [OF this _ _ assms(3,1)] assms(2) show ?thesis by (simp add: runInv_def operatorPolicy_def)
qed

section \<open>Example\<close>

text \<open>The example program starts, and its DNS controller reconciles a cluster in private DNS mode.\<close>

definition privateEnv :: "(unit, (string \<times> cval) list) env" where
  "privateEnv = zoneEnv\<lparr>e_kube := demoKube\<lparr>k_AWSCluster := okAns (demoAWSCluster\<lparr>om_Annotations :=
     [(l_AWSDNSMode demoLib, l_DNSModePrivate demoLib)]\<rparr>)\<rparr>\<rparr>"

definition bootZoner :: Zoner where
  "bootZoner = \<lparr>z_awsClients = NewClients '''', z_awsClientCache = 10, z_workloadClusterBaseDomain = ''gaws.io''\<rparr>"

definition bootSys :: "(unit, (string \<times> cval) list) sys" where
  "bootSys = demoSys\<lparr>nextRef := 11\<rparr>"

definition privateRun :: "Result outcome \<times> (unit, (string \<times> cval) list) sys" where
  "privateRun = Dns_Reconcile privateEnv (NewDnsReconciler bootZoner ''mc'' ''org'') ''org'' ''wc'' bootSys"

lemma privateEnv_boot:
  "operator_main privateEnv acceptingManager demoFlags demoSys =
     (Ok (map SetupWithManager (resolverWired privateEnv demoFlags bootZoner @ alwaysWired privateEnv demoFlags)), bootSys)"
proof -
  let ?run = "operator_main privateEnv acceptingManager demoFlags demoSys"
  have "(case fst ?run of Ok cs \<Rightarrow> True | _ \<Rightarrow> False)" by code_simp
  then obtain cs t where run: "?run = (Ok cs, t)" by (cases ?run) (auto split: outcome.splits)
  have "NewDnsZone privateEnv (NewClients '''') ''gaws.io'' demoSys = (Ok bootZoner, bootSys)"
    by (simp add: NewDnsZone_def bindM_def cacheNew_def bootZoner_def bootSys_def privateEnv_def zoneEnv_def demoEnv_def demoSys_def
        listCache_def setCache_def fun_upd_idem)
  moreover have "e_getenv privateEnv ''AWS_ENDPOINT'' = ''''" "\<not> fl_disableResolverControllers demoFlags"
    "fl_workloadClusterBaseDomain demoFlags = ''gaws.io''"
    by (simp_all add: privateEnv_def zoneEnv_def demoEnv_def demoFlags_def)
  ultimately show ?thesis using operator_main_Ok [OF run] run by auto
qed

lemma privateRun_running:
  "running privateEnv acceptingManager demoFlags demoSys
     (map SetupWithManager (resolverWired privateEnv demoFlags bootZoner @ alwaysWired privateEnv demoFlags)) (snd privateRun)"
proof (rule running.reconciled)
  let ?r = "DnsReconcilerOf (NewDnsReconciler bootZoner ''mc'' ''org'')"
  have "newProcess demoSys = demoSys" by (simp add: newProcess_def demoSys_def)
  then show "running privateEnv acceptingManager demoFlags demoSys
     (map SetupWithManager (resolverWired privateEnv demoFlags bootZoner @ alwaysWired privateEnv demoFlags)) bootSys"
    using privateEnv_boot by (intro running.boot) simp
  show "SetupWithManager ?r \<in> set (map SetupWithManager (resolverWired privateEnv demoFlags bootZoner @ alwaysWired privateEnv demoFlags))"
    by (simp add: resolverWired_def demoFlags_def Let_def)
  show "reconcile privateEnv (ct_Reconciler (SetupWithManager ?r)) ''org'' ''wc'' bootSys = (fst privateRun, snd privateRun)"
    by (simp add: privateRun_def Dns_SetupWithManager_def)
qed

lemma privateEnv_laws: "loader_laws privateEnv" "gocache_laws (e_cache privateEnv)" "rolesOf privateEnv {''arn:aws:iam::1234:role/gs''}"
proof -
  show "loader_laws privateEnv" "gocache_laws (e_cache privateEnv)"
    using zoneEnv_laws by (simp_all add: privateEnv_def loader_laws_def)
  have "validRole ''arn:aws:iam::1234:role/gs''" "goodRegion (ac_Region demoAWSCluster)" "goodRegion (mcp_Region demoControlPlane)"
    by code_simp+
  moreover have "k_RoleIdentity (e_kube privateEnv) = okAns \<lparr>ri_RoleArn = ''arn:aws:iam::1234:role/gs''\<rparr>"
    "k_AWSCluster (e_kube privateEnv) = okAns (demoAWSCluster\<lparr>om_Annotations := [(l_AWSDNSMode demoLib, l_DNSModePrivate demoLib)]\<rparr>)"
    "k_ControlPlane (e_kube privateEnv) = okAns demoControlPlane"
    by (simp_all add: privateEnv_def demoKube_def)
  ultimately show "rolesOf privateEnv {''arn:aws:iam::1234:role/gs''}" by (simp add: rolesOf_def)
qed

theorem requests_use_known_roles_witness:
  "list_all (roleEvent \<lparr>rp_roles = {'''', ''arn:aws:iam::1234:role/gs''}, rp_chained = {''arn:aws:iam::3:role/dns''}\<rparr>)
     (trace (snd privateRun)) \<and> list_ex (\<lambda>e. isAWS (ev_req e)) (trace (snd privateRun))"
proof
  have "\<not> validRole (ac_Region (m_AWSCluster demoSys))" "trace demoSys = []"
    by (simp_all add: demo_defs validRole_def hasPrefix_def)
  from requests_use_known_roles [OF privateRun_running this(2,1) privateEnv_laws]
  show "list_all (roleEvent \<lparr>rp_roles = {'''', ''arn:aws:iam::1234:role/gs''}, rp_chained = {''arn:aws:iam::3:role/dns''}\<rparr>)
     (trace (snd privateRun))" by (simp add: demoFlags_def)
  show "list_ex (\<lambda>e. isAWS (ev_req e)) (trace (snd privateRun))" by code_simp
qed

end
